(* ===== verification/Prelude.thy ===== *)
theory Prelude
  imports Main "HOL-Library.Word"
begin

unbundle bit_operations_syntax

text \<open>
  Shared vocabulary of the development: the machine integers of the C code as words, byte strings
  and slices of them, the two ways a machine lays an integer out in memory, and the list and word
  lemmas that every component uses.

  The collection \<open>slice_simps\<close> normalises reads of a byte string built by appending fields,
  \<open>byte_simps\<close> turns byte level facts about words into simplifications.
\<close>

named_theorems slice_simps
named_theorems byte_simps

type_synonym u8 = "8 word"
type_synonym u16 = "16 word"
type_synonym u32 = "32 word"
type_synonym u64 = "64 word"
type_synonym bytes = "u8 list"

section \<open>Slices of byte strings\<close>

definition slice :: "nat \<Rightarrow> nat \<Rightarrow> 'a list \<Rightarrow> 'a list" where
  "slice off n xs = take n (drop off xs)"

lemma length_slice: "off + n \<le> length xs \<Longrightarrow> length (slice off n xs) = n"
  by (simp add: slice_def)

lemma length_slice_le: "length (slice off n xs) \<le> n"
  by (simp add: slice_def)

lemma slice_all: "length xs = n \<Longrightarrow> slice 0 n xs = xs"
  by (simp add: slice_def)

lemma slice_append_here [slice_simps]: "length xs = n \<Longrightarrow> slice 0 n (xs @ ys) = xs"
  by (simp add: slice_def)

lemma slice_append_later [slice_simps]:
  "length xs \<le> off \<Longrightarrow> slice off n (xs @ ys) = slice (off - length xs) n ys"
  by (simp add: slice_def)

lemma slice_join: "off' = off + n \<Longrightarrow> slice off n xs @ slice off' m xs = slice off (n + m) xs"
  by (simp add: slice_def take_add add.commute [of n off])

lemma slice_slice: "i + m \<le> n \<Longrightarrow> slice i m (slice off n xs) = slice (off + i) m xs"
  by (simp add: slice_def drop_take add.commute)

lemma slice_outside_splice:
  assumes "off + length ys \<le> length xs" "i + n \<le> off \<or> off + length ys \<le> i"
  shows "slice i n (take off xs @ ys @ drop (off + length ys) xs) = slice i n xs"
proof (cases "i + n \<le> off")
  case True
  then have "slice i n (take off xs) = slice i n xs"
    using assms(1) by (auto simp: slice_def drop_take min_def)
  moreover have "slice i n (take off xs @ zs) = slice i n (take off xs)" for zs
    using True assms(1) by (auto simp: slice_def)
  ultimately show ?thesis by simp
next
  case False
  with assms(2) have "off + length ys \<le> i" by simp
  then show ?thesis using assms(1) by (simp add: slice_def min_def)
qed

section \<open>Bytes of a word\<close>

text \<open>\<open>le_bytes n w\<close> are the \<open>n\<close> bytes of \<open>w\<close>, least significant first; \<open>le_word\<close> reads them back.\<close>

fun le_word :: "bytes \<Rightarrow> 'a::len word" where
  "le_word [] = 0"
| "le_word (b # bs) = (ucast b OR push_bit 8 (le_word bs))"

fun le_bytes :: "nat \<Rightarrow> 'a::len word \<Rightarrow> bytes" where
  "le_bytes 0 w = []"
| "le_bytes (Suc n) w = ucast w # le_bytes n (drop_bit 8 w)"

lemma bit_le_word:
  "bit (le_word bs :: 'a::len word) n \<longleftrightarrow>
     n < LENGTH('a) \<and> n < 8 * length bs \<and> bit (bs ! (n div 8)) (n mod 8)"
proof (induction bs arbitrary: n)
  case Nil
  then show ?case by simp
next
  case (Cons b bs)
  show ?case
  proof (cases "n < 8")
    case True
    then show ?thesis by (auto simp: bit_simps)
  next
    case False
    then have "n div 8 = Suc ((n - 8) div 8)" "n mod 8 = (n - 8) mod 8"
      by (auto simp: le_div_geq le_mod_geq)
    moreover have "\<not> bit b n" using False bit_imp_le_length [of b n] by auto
    ultimately show ?thesis using False by (auto simp: bit_simps Cons.IH)
  qed
qed

lemma length_le_bytes [simp]: "length (le_bytes n w) = n"
  by (induction n arbitrary: w) auto

lemma bit_le_bytes: "i < n \<Longrightarrow> bit (le_bytes n w ! i) k \<longleftrightarrow> k < 8 \<and> bit w (8 * i + k)"
proof (induction n arbitrary: w i)
  case 0
  then show ?case by simp
next
  case (Suc n)
  show ?case
  proof (cases i)
    case 0
    then show ?thesis by (auto simp: bit_simps)
  next
    case (Suc j)
    then show ?thesis
      using Suc.prems Suc.IH [of j "drop_bit 8 w"] by (auto simp: bit_simps add.assoc)
  qed
qed

lemma le_word_le_bytes: "LENGTH('a) \<le> 8 * n \<Longrightarrow> le_word (le_bytes n w) = (w :: 'a::len word)"
  by (rule bit_eqI)
    (auto simp: bit_le_word bit_le_bytes less_mult_imp_div_less dest: bit_imp_le_length)

lemma le_bytes_le_word:
  "8 * length bs \<le> LENGTH('a) \<Longrightarrow> le_bytes (length bs) (le_word bs :: 'a::len word) = bs"
  by (rule nth_equalityI)
    (auto intro!: bit_eqI simp: bit_le_word bit_le_bytes dest: bit_imp_le_length)

lemma bit_rev_bytes:
  "bit (le_word (rev (le_bytes k w)) :: 'a::len word) n \<longleftrightarrow>
     n < LENGTH('a) \<and> n < 8 * k \<and> bit w (8 * (k - Suc (n div 8)) + n mod 8)"
  by (auto simp: bit_le_word rev_nth bit_le_bytes less_mult_imp_div_less)

lemma byte_index:
  assumes "n < 8 * m"
  obtains k d where "n = 8 * k + d" "d < 8" "k < (m :: nat)"
proof
  show "n = 8 * (n div 8) + n mod 8" "n mod 8 < 8" "n div 8 < m"
    using assms by (simp_all add: less_mult_imp_div_less mult.commute)
qed

section \<open>Byte order of a machine\<close>

text \<open>The order in which a machine stores the bytes of an integer.\<close>

datatype endian = BE | LE

fun opp :: "endian \<Rightarrow> endian" where
  "opp BE = LE"
| "opp LE = BE"

lemma opp_opp [simp]: "opp (opp e) = e"
  by (cases e) auto

lemma opp_neq [simp]: "opp e \<noteq> e" "e \<noteq> opp e"
  by (cases e; simp)+

definition of_bytes :: "endian \<Rightarrow> bytes \<Rightarrow> 'a::len word" where
  "of_bytes e bs = (case e of LE \<Rightarrow> le_word bs | BE \<Rightarrow> le_word (rev bs))"

definition to_bytes :: "endian \<Rightarrow> nat \<Rightarrow> 'a::len word \<Rightarrow> bytes" where
  "to_bytes e n w = (case e of LE \<Rightarrow> le_bytes n w | BE \<Rightarrow> rev (le_bytes n w))"

lemma length_to_bytes [simp]: "length (to_bytes e n w) = n"
  by (simp add: to_bytes_def split: endian.split)

lemma of_bytes_to_bytes:
  "LENGTH('a) \<le> 8 * n \<Longrightarrow> of_bytes e (to_bytes e n w) = (w :: 'a::len word)"
  by (cases e) (simp_all add: of_bytes_def to_bytes_def le_word_le_bytes)

lemma to_bytes_of_bytes:
  assumes "length bs = n" "8 * n \<le> LENGTH('a)"
  shows "to_bytes e n (of_bytes e bs :: 'a::len word) = bs"
  using assms le_bytes_le_word [where 'a = 'a, of bs] le_bytes_le_word [where 'a = 'a, of "rev bs"]
  by (cases e) (auto simp: of_bytes_def to_bytes_def)

text \<open>Reading and writing fixed width integers of a byte string.\<close>

abbreviation get8 :: "endian \<Rightarrow> bytes \<Rightarrow> nat \<Rightarrow> u8" where
  "get8 e bs off \<equiv> of_bytes e (slice off 1 bs)"

abbreviation get16 :: "endian \<Rightarrow> bytes \<Rightarrow> nat \<Rightarrow> u16" where
  "get16 e bs off \<equiv> of_bytes e (slice off 2 bs)"

abbreviation get32 :: "endian \<Rightarrow> bytes \<Rightarrow> nat \<Rightarrow> u32" where
  "get32 e bs off \<equiv> of_bytes e (slice off 4 bs)"

abbreviation get64 :: "endian \<Rightarrow> bytes \<Rightarrow> nat \<Rightarrow> u64" where
  "get64 e bs off \<equiv> of_bytes e (slice off 8 bs)"

abbreviation put8 :: "endian \<Rightarrow> u8 \<Rightarrow> bytes" where
  "put8 e w \<equiv> to_bytes e 1 w"

abbreviation put16 :: "endian \<Rightarrow> u16 \<Rightarrow> bytes" where
  "put16 e w \<equiv> to_bytes e 2 w"

abbreviation put32 :: "endian \<Rightarrow> u32 \<Rightarrow> bytes" where
  "put32 e w \<equiv> to_bytes e 4 w"

abbreviation put64 :: "endian \<Rightarrow> u64 \<Rightarrow> bytes" where
  "put64 e w \<equiv> to_bytes e 8 w"

lemma get_put [byte_simps]:
  "of_bytes e (to_bytes e (Suc 0) w8) = (w8 :: u8)"
  "of_bytes e (put16 e w16) = (w16 :: u16)"
  "of_bytes e (put32 e w32) = (w32 :: u32)"
  "of_bytes e (put64 e w64) = (w64 :: u64)"
  by (simp_all add: of_bytes_to_bytes)

lemma put_get [byte_simps]:
  "off + 1 \<le> length bs \<Longrightarrow>
     to_bytes e (Suc 0) (of_bytes e (slice off (Suc 0) bs) :: u8) = slice off (Suc 0) bs"
  "off + 2 \<le> length bs \<Longrightarrow> put16 e (get16 e bs off) = slice off 2 bs"
  "off + 4 \<le> length bs \<Longrightarrow> put32 e (get32 e bs off) = slice off 4 bs"
  "off + 8 \<le> length bs \<Longrightarrow> put64 e (get64 e bs off) = slice off 8 bs"
  by (simp_all add: to_bytes_of_bytes length_slice)

lemma get32_take: "off + 4 \<le> n \<Longrightarrow> get32 e (take n bs) off = get32 e bs off"
  by (simp add: slice_def drop_take min_def)

text \<open>A single byte reads the same in either order.\<close>

lemma get8_opp [byte_simps]:
  "off + 1 \<le> length bs \<Longrightarrow>
     (of_bytes (opp e) (slice off (Suc 0) bs) :: u8) = of_bytes e (slice off (Suc 0) bs)"
  by (cases e) (auto simp: of_bytes_def slice_def rev_singleton_conv take_Suc
      dest!: length_slice split: list.splits)

section \<open>Alternatives\<close>

fun orelse :: "'a option \<Rightarrow> 'a option \<Rightarrow> 'a option" where
  "orelse (Some x) y = Some x"
| "orelse None y = y"

lemma orelse_eq_Some_iff:
  "orelse a b = Some i \<longleftrightarrow> a = Some i \<or> a = None \<and> b = Some i"
  by (cases a) auto

lemma orelse_eq_None_iff [simp]: "orelse a b = None \<longleftrightarrow> a = None \<and> b = None"
  by (cases a) auto

section \<open>Sequencing of operations that can fail\<close>

fun andthen :: "'e + 'a \<Rightarrow> ('a \<Rightarrow> 'e + 'b) \<Rightarrow> 'e + 'b" where
  "andthen (Inl x) f = Inl x"
| "andthen (Inr a) f = f a"

lemma andthen_eq_Inr: "andthen m f = Inr y \<longleftrightarrow> (\<exists>x. m = Inr x \<and> f x = Inr y)"
  by (cases m) auto

lemma andthen_eq_Inl: "andthen r f = Inl x \<longleftrightarrow> r = Inl x \<or> (\<exists>a. r = Inr a \<and> f a = Inl x)"
  by (cases r) auto

lemma guard_eq_Inr: "(if P then Inl x else m) = Inr y \<longleftrightarrow> \<not> P \<and> m = Inr y"
  by simp

end
