(* ===== verification/Bytesex.thy ===== *)
theory Bytesex
  imports Prelude
begin

text \<open>
  The byte swapping primitives of \<^verbatim>\<open>cctools/libstuff/bytesex.c\<close> and
  \<^verbatim>\<open>cctools/include/stuff/bytesex.h\<close>: the macros \<open>SWAP_SHORT\<close> and \<open>SWAP_INT\<close>, the routine
  \<open>SWAP_LONG_LONG\<close> and the detection of the byte sex of the host. Signed C integers are kept as
  their bit patterns: the macros only shift and mask, and the arithmetic right shift of a signed
  operand is masked to the same bits as the logical one.

  The locale \<open>swap_int\<close> is the contract of such a primitive: it exchanges the two ways of reading
  the same bytes. The locale \<open>endian_struct\<close> lifts the contract to the structures of an object
  file; it is interpreted once for every structure of the theories that follow.
\<close>

section \<open>Swapping primitives\<close>

datatype byte_sex = UNKNOWN_BYTE_SEX | BIG_ENDIAN_BYTE_SEX | LITTLE_ENDIAN_BYTE_SEX

text \<open>The numeric value of the C enumeration constants.\<close>

fun byte_sex_num :: "byte_sex \<Rightarrow> nat" where
  "byte_sex_num UNKNOWN_BYTE_SEX = 0"
| "byte_sex_num BIG_ENDIAN_BYTE_SEX = 1"
| "byte_sex_num LITTLE_ENDIAN_BYTE_SEX = 2"

definition SWAP_SHORT :: "u16 \<Rightarrow> u16" where
  "SWAP_SHORT a = (push_bit 8 (a AND 0xff) OR drop_bit 8 a)"

definition SWAP_INT :: "u32 \<Rightarrow> u32" where
  "SWAP_INT a =
     (push_bit 24 a OR (push_bit 8 a AND 0x00ff0000) OR (drop_bit 8 a AND 0x0000ff00) OR
      drop_bit 24 a)"

text \<open>The routine copies the bytes of a union in reverse; here the union is laid out little endian,
  and \<open>SWAP_LONG_LONG_union\<close> below shows that a big endian layout gives the same result.\<close>

definition SWAP_LONG_LONG :: "u64 \<Rightarrow> u64" where
  "SWAP_LONG_LONG ll =
     (let c = le_bytes 8 ll in le_word [c ! 7, c ! 6, c ! 5, c ! 4, c ! 3, c ! 2, c ! 1, c ! 0])"


lemma byte_mask_u32:
  "(0x00ff0000 :: u32) = push_bit 16 (mask 8)" "(0x0000ff00 :: u32) = push_bit 8 (mask 8)"
  by (simp_all add: mask_eq_exp_minus_1 push_bit_eq_mult)

lemma byte_mask_u16: "(0xff :: u16) = mask 8"
  by (simp add: mask_eq_exp_minus_1)

lemma SWAP_SHORT_rev: "SWAP_SHORT a = le_word (rev (le_bytes 2 a))"
proof (rule bit_eqI)
  fix n
  assume "possible_bit TYPE(u16) n"
  then have "n < 8 * 2" by simp
  then obtain k d where n: "n = 8 * k + d" "d < 8" "k < 2" by (rule byte_index)
  then have "k = 0 \<or> k = 1" by auto
  with n show "bit (SWAP_SHORT a) n = bit (le_word (rev (le_bytes 2 a)) :: u16) n"
    by (elim disjE)
      (auto simp: SWAP_SHORT_def bit_rev_bytes byte_mask_u16 bit_simps dest: bit_imp_le_length)
qed

lemma SWAP_INT_rev: "SWAP_INT a = le_word (rev (le_bytes 4 a))"
proof (rule bit_eqI)
  fix n
  assume "possible_bit TYPE(u32) n"
  then have "n < 8 * 4" by simp
  then obtain k d where n: "n = 8 * k + d" "d < 8" "k < 4" by (rule byte_index)
  then have "bit (le_word (rev (le_bytes 4 a)) :: u32) n = bit a (8 * (3 - k) + d)"
    by (simp add: bit_rev_bytes)
  moreover from n have "k = 0 \<or> k = 1 \<or> k = 2 \<or> k = 3" by auto
  with n have "bit (SWAP_INT a) n = bit a (8 * (3 - k) + d)"
    by (elim disjE) (auto simp: SWAP_INT_def byte_mask_u32 bit_simps dest: bit_imp_le_length)
  ultimately show "bit (SWAP_INT a) n = bit (le_word (rev (le_bytes 4 a)) :: u32) n" by simp
qed

lemma SWAP_LONG_LONG_rev: "SWAP_LONG_LONG a = le_word (rev (le_bytes 8 a))"
  by (simp add: SWAP_LONG_LONG_def eval_nat_numeral Let_def)

lemma SWAP_LONG_LONG_union:
  "SWAP_LONG_LONG a =
     (let c = to_bytes e 8 a in of_bytes e [c ! 7, c ! 6, c ! 5, c ! 4, c ! 3, c ! 2, c ! 1, c ! 0])"
  by (cases e) (simp_all add: SWAP_LONG_LONG_def of_bytes_def to_bytes_def eval_nat_numeral Let_def)


section \<open>The contract of a swapping primitive\<close>

locale swap_int =
  fixes n :: nat and SWAP :: "'a::len word \<Rightarrow> 'a word"
  assumes width: "LENGTH('a) = 8 * n"
    and SWAP_rev: "SWAP w = le_word (rev (le_bytes n w))"
begin

lemma SWAP_of_bytes: "length bs = n \<Longrightarrow> SWAP (of_bytes e bs) = of_bytes (opp e) bs"
  using le_bytes_le_word [where 'a = 'a, of bs] le_bytes_le_word [where 'a = 'a, of "rev bs"]
  by (cases e) (auto simp: SWAP_rev of_bytes_def width)

lemma to_bytes_SWAP: "to_bytes e n (SWAP w) = to_bytes (opp e) n w"
  using to_bytes_of_bytes [of "to_bytes e n w" n "opp e", where 'a = 'a]
  by (metis SWAP_of_bytes le_refl length_to_bytes of_bytes_to_bytes opp_opp to_bytes_of_bytes width)

lemma rev_to_bytes_SWAP: "to_bytes e n (SWAP w) = rev (to_bytes e n w)"
  unfolding to_bytes_SWAP by (cases e) (simp_all add: to_bytes_def)

lemma SWAP_SWAP: "SWAP (SWAP w) = w"
  by (metis SWAP_of_bytes le_refl length_to_bytes of_bytes_to_bytes opp_opp width)

lemma SWAP_inj: "SWAP v = SWAP w \<longleftrightarrow> v = w"
  by (metis SWAP_SWAP)

end

interpretation swap16: swap_int 2 SWAP_SHORT
  by unfold_locales (simp_all add: SWAP_SHORT_rev)

interpretation swap32: swap_int 4 SWAP_INT
  by unfold_locales (simp_all add: SWAP_INT_rev)

interpretation swap64: swap_int 8 SWAP_LONG_LONG
  by unfold_locales (simp_all add: SWAP_LONG_LONG_rev)

lemma SWAP_get [byte_simps]:
  "off + 2 \<le> length bs \<Longrightarrow> SWAP_SHORT (get16 e bs off) = get16 (opp e) bs off"
  "off + 4 \<le> length bs \<Longrightarrow> SWAP_INT (get32 e bs off) = get32 (opp e) bs off"
  "off + 8 \<le> length bs \<Longrightarrow> SWAP_LONG_LONG (get64 e bs off) = get64 (opp e) bs off"
  by (simp_all add: swap16.SWAP_of_bytes swap32.SWAP_of_bytes swap64.SWAP_of_bytes length_slice)

lemmas SWAP_twice [simp] = swap16.SWAP_SWAP swap32.SWAP_SWAP swap64.SWAP_SWAP

text \<open>The 32 bit macro on a promoted 16 bit value, truncated again, leaves the two bytes that were zero.\<close>

lemma ucast_SWAP_INT_ucast [simp]: "(ucast (SWAP_INT (ucast (a :: u16))) :: u16) = 0"
  by (rule bit_eqI) (auto simp: SWAP_INT_def byte_mask_u32 bit_simps dest: bit_imp_le_length)

section \<open>The byte sex of the host\<close>

text \<open>\<open>get_host_byte_sex\<close> stores the word \<open>(BIG << 24) | LITTLE\<close> and looks at its first byte in memory;
  \<open>host\<close> is the byte order of the machine it runs on.\<close>

definition get_host_byte_sex :: "endian \<Rightarrow> nat" where
  "get_host_byte_sex host =
     (let s = push_bit 24 (of_nat (byte_sex_num BIG_ENDIAN_BYTE_SEX)) OR
              of_nat (byte_sex_num LITTLE_ENDIAN_BYTE_SEX) :: u32
      in unat (hd (to_bytes host 4 s)))"

fun sex_of :: "endian \<Rightarrow> byte_sex" where
  "sex_of BE = BIG_ENDIAN_BYTE_SEX"
| "sex_of LE = LITTLE_ENDIAN_BYTE_SEX"

lemma sex_of_inj [simp]: "sex_of a = sex_of b \<longleftrightarrow> a = b"
  by (cases a; cases b) auto

section \<open>The contract of a structure\<close>

text \<open>
  A structure of \<open>sz\<close> bytes is read from memory by \<open>dec\<close> and stored by \<open>enc\<close>, in either byte
  order; \<open>wf\<close> says that the fixed length character arrays among its fields have their length.
  Its swap routine is right when swapping what one machine reads gives what a machine of the other
  byte order reads from the same bytes.
\<close>

locale struct_codec =
  fixes sz :: nat
    and dec :: "endian \<Rightarrow> bytes \<Rightarrow> 'a"
    and enc :: "endian \<Rightarrow> 'a \<Rightarrow> bytes"
    and wf :: "'a \<Rightarrow> bool"
  assumes dec_enc: "wf x \<Longrightarrow> dec e (enc e x) = x"
    and enc_dec: "length bs = sz \<Longrightarrow> enc e (dec e bs) = bs"
    and length_enc: "wf x \<Longrightarrow> length (enc e x) = sz"
    and wf_dec: "length bs = sz \<Longrightarrow> wf (dec e bs)"
begin

lemma enc_inj: "wf x \<Longrightarrow> wf y \<Longrightarrow> enc e x = enc e y \<longleftrightarrow> x = y"
  by (metis dec_enc)

end

locale endian_struct = struct_codec +
  fixes swap :: "'a \<Rightarrow> 'a"
  assumes swap_dec: "length bs = sz \<Longrightarrow> swap (dec e bs) = dec (opp e) bs"
begin

lemma swap_wf: "wf x \<Longrightarrow> wf (swap x)"
  by (metis dec_enc length_enc swap_dec wf_dec)

lemma swap_swap: "wf x \<Longrightarrow> swap (swap x) = x"
  by (metis dec_enc length_enc opp_opp swap_dec)

lemma enc_swap: "wf x \<Longrightarrow> enc e (swap x) = enc (opp e) x"
  by (metis dec_enc enc_dec length_enc opp_opp swap_dec)

text \<open>The same for an array of structures in consecutive memory.\<close>

lemma enc_map_swap:
  "\<forall>x \<in> set xs. wf x \<Longrightarrow> concat (map (enc e) (map swap xs)) = concat (map (enc (opp e)) xs)"
  by (induction xs) (auto simp: enc_swap)

lemma map_swap_swap: "\<forall>x \<in> set xs. wf x \<Longrightarrow> map swap (map swap xs) = xs"
  by (induction xs) (auto simp: swap_swap)

end

end
