(* ===== verification/MachO_Headers.thy ===== *)
theory MachO_Headers
  imports Bytesex
begin

text \<open>
  The fat file header, the Mach-O header and the common prefix of the load commands, from
  \<^verbatim>\<open>cctools/include/mach-o/fat.h\<close> and \<^verbatim>\<open>loader.h\<close>, with their swap routines from
  \<^verbatim>\<open>cctools/libstuff/bytesex.c\<close>. A structure is a record whose fields carry the name of the C
  field with the prefix the code uses for variables of that type; \<open>dec\<close> and \<open>enc\<close> are its layout
  in memory. A routine that swaps an array has the number of elements as its argument and swaps
  that many from the front.
\<close>

section \<open>\<open>struct fat_header\<close>\<close>

record fat_header =
  fh_magic :: u32
  fh_nfat_arch :: u32

definition sizeof_fat_header :: nat where
  "sizeof_fat_header = 8"

definition dec_fat_header :: "endian \<Rightarrow> bytes \<Rightarrow> fat_header" where
  "dec_fat_header e bs =
     \<lparr>fh_magic = get32 e bs 0, fh_nfat_arch = get32 e bs 4\<rparr>"

definition enc_fat_header :: "endian \<Rightarrow> fat_header \<Rightarrow> bytes" where
  "enc_fat_header e fh =
     put32 e (fh_magic fh) @ put32 e (fh_nfat_arch fh)"

definition swap_fat_header :: "fat_header \<Rightarrow> fat_header" where
  "swap_fat_header fh =
     fh\<lparr>fh_magic := SWAP_INT (fh_magic fh), fh_nfat_arch := SWAP_INT (fh_nfat_arch fh)\<rparr>"

lemmas fat_header_codec = dec_fat_header_def enc_fat_header_def sizeof_fat_header_def slice_simps byte_simps slice_join
  slice_all length_slice

interpretation fat_header: endian_struct sizeof_fat_header dec_fat_header enc_fat_header "\<lambda>_. True" swap_fat_header
  by unfold_locales (simp_all add: fat_header_codec swap_fat_header_def)

section \<open>\<open>struct fat_arch\<close>\<close>

record fat_arch =
  fa_cputype :: u32
  fa_cpusubtype :: u32
  fa_offset :: u32
  fa_size :: u32
  fa_align :: u32

definition sizeof_fat_arch :: nat where
  "sizeof_fat_arch = 20"

definition dec_fat_arch :: "endian \<Rightarrow> bytes \<Rightarrow> fat_arch" where
  "dec_fat_arch e bs =
     \<lparr>fa_cputype = get32 e bs 0, fa_cpusubtype = get32 e bs 4, fa_offset = get32 e bs 8,
      fa_size = get32 e bs 12, fa_align = get32 e bs 16\<rparr>"

definition enc_fat_arch :: "endian \<Rightarrow> fat_arch \<Rightarrow> bytes" where
  "enc_fat_arch e fa =
     put32 e (fa_cputype fa) @ put32 e (fa_cpusubtype fa) @ put32 e (fa_offset fa) @
     put32 e (fa_size fa) @ put32 e (fa_align fa)"

definition swap_fat_arch_elem :: "fat_arch \<Rightarrow> fat_arch" where
  "swap_fat_arch_elem fa =
     fa\<lparr>fa_cputype := SWAP_INT (fa_cputype fa), fa_cpusubtype := SWAP_INT (fa_cpusubtype fa),
      fa_offset := SWAP_INT (fa_offset fa), fa_size := SWAP_INT (fa_size fa),
      fa_align := SWAP_INT (fa_align fa)\<rparr>"

definition swap_fat_arch :: "fat_arch list \<Rightarrow> nat \<Rightarrow> fat_arch list" where
  "swap_fat_arch xs n = map swap_fat_arch_elem (take n xs) @ drop n xs"

lemmas fat_arch_codec = dec_fat_arch_def enc_fat_arch_def sizeof_fat_arch_def slice_simps byte_simps slice_join
  slice_all length_slice

interpretation fat_arch: endian_struct sizeof_fat_arch dec_fat_arch enc_fat_arch "\<lambda>_. True" swap_fat_arch_elem
  by unfold_locales (simp_all add: fat_arch_codec swap_fat_arch_elem_def)

section \<open>\<open>struct fat_arch_64\<close>\<close>

record fat_arch_64 =
  fa64_cputype :: u32
  fa64_cpusubtype :: u32
  fa64_offset :: u64
  fa64_size :: u64
  fa64_align :: u32
  fa64_reserved :: u32

definition sizeof_fat_arch_64 :: nat where
  "sizeof_fat_arch_64 = 32"

definition dec_fat_arch_64 :: "endian \<Rightarrow> bytes \<Rightarrow> fat_arch_64" where
  "dec_fat_arch_64 e bs =
     \<lparr>fa64_cputype = get32 e bs 0, fa64_cpusubtype = get32 e bs 4, fa64_offset = get64 e bs 8,
      fa64_size = get64 e bs 16, fa64_align = get32 e bs 24, fa64_reserved = get32 e bs 28\<rparr>"

definition enc_fat_arch_64 :: "endian \<Rightarrow> fat_arch_64 \<Rightarrow> bytes" where
  "enc_fat_arch_64 e fa =
     put32 e (fa64_cputype fa) @ put32 e (fa64_cpusubtype fa) @ put64 e (fa64_offset fa) @
     put64 e (fa64_size fa) @ put32 e (fa64_align fa) @ put32 e (fa64_reserved fa)"

definition swap_fat_arch_64_elem :: "fat_arch_64 \<Rightarrow> fat_arch_64" where
  "swap_fat_arch_64_elem fa =
     fa\<lparr>fa64_cputype := SWAP_INT (fa64_cputype fa),
      fa64_cpusubtype := SWAP_INT (fa64_cpusubtype fa),
      fa64_offset := SWAP_LONG_LONG (fa64_offset fa),
      fa64_size := SWAP_LONG_LONG (fa64_size fa), fa64_align := SWAP_INT (fa64_align fa),
      fa64_reserved := SWAP_INT (fa64_reserved fa)\<rparr>"

definition swap_fat_arch_64 :: "fat_arch_64 list \<Rightarrow> nat \<Rightarrow> fat_arch_64 list" where
  "swap_fat_arch_64 xs n = map swap_fat_arch_64_elem (take n xs) @ drop n xs"

lemmas fat_arch_64_codec = dec_fat_arch_64_def enc_fat_arch_64_def sizeof_fat_arch_64_def slice_simps byte_simps slice_join
  slice_all length_slice

interpretation fat_arch_64: endian_struct sizeof_fat_arch_64 dec_fat_arch_64 enc_fat_arch_64 "\<lambda>_. True" swap_fat_arch_64_elem
  by unfold_locales (simp_all add: fat_arch_64_codec swap_fat_arch_64_elem_def)

section \<open>\<open>struct mach_header\<close>\<close>

record mach_header =
  mh_magic :: u32
  mh_cputype :: u32
  mh_cpusubtype :: u32
  mh_filetype :: u32
  mh_ncmds :: u32
  mh_sizeofcmds :: u32
  mh_flags :: u32

definition sizeof_mach_header :: nat where
  "sizeof_mach_header = 28"

definition dec_mach_header :: "endian \<Rightarrow> bytes \<Rightarrow> mach_header" where
  "dec_mach_header e bs =
     \<lparr>mh_magic = get32 e bs 0, mh_cputype = get32 e bs 4, mh_cpusubtype = get32 e bs 8,
      mh_filetype = get32 e bs 12, mh_ncmds = get32 e bs 16, mh_sizeofcmds = get32 e bs 20,
      mh_flags = get32 e bs 24\<rparr>"

definition enc_mach_header :: "endian \<Rightarrow> mach_header \<Rightarrow> bytes" where
  "enc_mach_header e mh =
     put32 e (mh_magic mh) @ put32 e (mh_cputype mh) @ put32 e (mh_cpusubtype mh) @
     put32 e (mh_filetype mh) @ put32 e (mh_ncmds mh) @ put32 e (mh_sizeofcmds mh) @
     put32 e (mh_flags mh)"

definition swap_mach_header :: "mach_header \<Rightarrow> mach_header" where
  "swap_mach_header mh =
     mh\<lparr>mh_magic := SWAP_INT (mh_magic mh), mh_cputype := SWAP_INT (mh_cputype mh),
      mh_cpusubtype := SWAP_INT (mh_cpusubtype mh), mh_filetype := SWAP_INT (mh_filetype mh),
      mh_ncmds := SWAP_INT (mh_ncmds mh), mh_sizeofcmds := SWAP_INT (mh_sizeofcmds mh),
      mh_flags := SWAP_INT (mh_flags mh)\<rparr>"

lemmas mach_header_codec = dec_mach_header_def enc_mach_header_def sizeof_mach_header_def slice_simps byte_simps slice_join
  slice_all length_slice

interpretation mach_header: endian_struct sizeof_mach_header dec_mach_header enc_mach_header "\<lambda>_. True" swap_mach_header
  by unfold_locales (simp_all add: mach_header_codec swap_mach_header_def)

section \<open>\<open>struct mach_header_64\<close>\<close>

record mach_header_64 =
  mh64_magic :: u32
  mh64_cputype :: u32
  mh64_cpusubtype :: u32
  mh64_filetype :: u32
  mh64_ncmds :: u32
  mh64_sizeofcmds :: u32
  mh64_flags :: u32
  mh64_reserved :: u32

definition sizeof_mach_header_64 :: nat where
  "sizeof_mach_header_64 = 32"

definition dec_mach_header_64 :: "endian \<Rightarrow> bytes \<Rightarrow> mach_header_64" where
  "dec_mach_header_64 e bs =
     \<lparr>mh64_magic = get32 e bs 0, mh64_cputype = get32 e bs 4, mh64_cpusubtype = get32 e bs 8,
      mh64_filetype = get32 e bs 12, mh64_ncmds = get32 e bs 16,
      mh64_sizeofcmds = get32 e bs 20, mh64_flags = get32 e bs 24, mh64_reserved = get32 e bs 28\<rparr>"

definition enc_mach_header_64 :: "endian \<Rightarrow> mach_header_64 \<Rightarrow> bytes" where
  "enc_mach_header_64 e mh =
     put32 e (mh64_magic mh) @ put32 e (mh64_cputype mh) @ put32 e (mh64_cpusubtype mh) @
     put32 e (mh64_filetype mh) @ put32 e (mh64_ncmds mh) @ put32 e (mh64_sizeofcmds mh) @
     put32 e (mh64_flags mh) @ put32 e (mh64_reserved mh)"

definition swap_mach_header_64 :: "mach_header_64 \<Rightarrow> mach_header_64" where
  "swap_mach_header_64 mh =
     mh\<lparr>mh64_magic := SWAP_INT (mh64_magic mh), mh64_cputype := SWAP_INT (mh64_cputype mh),
      mh64_cpusubtype := SWAP_INT (mh64_cpusubtype mh),
      mh64_filetype := SWAP_INT (mh64_filetype mh), mh64_ncmds := SWAP_INT (mh64_ncmds mh),
      mh64_sizeofcmds := SWAP_INT (mh64_sizeofcmds mh), mh64_flags := SWAP_INT (mh64_flags mh),
      mh64_reserved := SWAP_INT (mh64_reserved mh)\<rparr>"

lemmas mach_header_64_codec = dec_mach_header_64_def enc_mach_header_64_def sizeof_mach_header_64_def slice_simps byte_simps slice_join
  slice_all length_slice

interpretation mach_header_64: endian_struct sizeof_mach_header_64 dec_mach_header_64 enc_mach_header_64 "\<lambda>_. True" swap_mach_header_64
  by unfold_locales (simp_all add: mach_header_64_codec swap_mach_header_64_def)

section \<open>\<open>struct load_command\<close>\<close>

record load_command =
  lc_cmd :: u32
  lc_cmdsize :: u32

definition sizeof_load_command :: nat where
  "sizeof_load_command = 8"

definition dec_load_command :: "endian \<Rightarrow> bytes \<Rightarrow> load_command" where
  "dec_load_command e bs =
     \<lparr>lc_cmd = get32 e bs 0, lc_cmdsize = get32 e bs 4\<rparr>"

definition enc_load_command :: "endian \<Rightarrow> load_command \<Rightarrow> bytes" where
  "enc_load_command e lc =
     put32 e (lc_cmd lc) @ put32 e (lc_cmdsize lc)"

definition swap_load_command :: "load_command \<Rightarrow> load_command" where
  "swap_load_command lc =
     lc\<lparr>lc_cmd := SWAP_INT (lc_cmd lc), lc_cmdsize := SWAP_INT (lc_cmdsize lc)\<rparr>"

lemmas load_command_codec = dec_load_command_def enc_load_command_def sizeof_load_command_def slice_simps byte_simps slice_join
  slice_all length_slice

interpretation load_command: endian_struct sizeof_load_command dec_load_command enc_load_command "\<lambda>_. True" swap_load_command
  by unfold_locales (simp_all add: load_command_codec swap_load_command_def)

end
