(* ===== verification/MachO_Commands.thy ===== *)
theory MachO_Commands
  imports MachO_Headers
begin

text \<open>
  The load commands of \<^verbatim>\<open>cctools/include/mach-o/loader.h\<close>, first part: segments, symbol tables,
  libraries and the dynamic linker, with their swap routines. Every command extends the record
  \<open>load_command\<close>, as every C structure starts with \<open>cmd\<close> and \<open>cmdsize\<close>; a \<open>union lc_str\<close> is the
  offset it holds in a file.
\<close>

section \<open>\<open>struct segment_command\<close>\<close>

record segment_command = load_command +
  sg_segname :: bytes
  sg_vmaddr :: u32
  sg_vmsize :: u32
  sg_fileoff :: u32
  sg_filesize :: u32
  sg_maxprot :: u32
  sg_initprot :: u32
  sg_nsects :: u32
  sg_flags :: u32

definition sizeof_segment_command :: nat where
  "sizeof_segment_command = 56"

definition dec_segment_command :: "endian \<Rightarrow> bytes \<Rightarrow> segment_command" where
  "dec_segment_command e bs =
     \<lparr>lc_cmd = get32 e bs 0, lc_cmdsize = get32 e bs 4, sg_segname = slice 8 16 bs,
      sg_vmaddr = get32 e bs 24, sg_vmsize = get32 e bs 28, sg_fileoff = get32 e bs 32,
      sg_filesize = get32 e bs 36, sg_maxprot = get32 e bs 40, sg_initprot = get32 e bs 44,
      sg_nsects = get32 e bs 48, sg_flags = get32 e bs 52\<rparr>"

definition enc_segment_command :: "endian \<Rightarrow> segment_command \<Rightarrow> bytes" where
  "enc_segment_command e sg =
     put32 e (lc_cmd sg) @ put32 e (lc_cmdsize sg) @ sg_segname sg @ put32 e (sg_vmaddr sg) @
     put32 e (sg_vmsize sg) @ put32 e (sg_fileoff sg) @ put32 e (sg_filesize sg) @
     put32 e (sg_maxprot sg) @ put32 e (sg_initprot sg) @ put32 e (sg_nsects sg) @
     put32 e (sg_flags sg)"

definition wf_segment_command :: "segment_command \<Rightarrow> bool" where
  "wf_segment_command sg \<longleftrightarrow> length (sg_segname sg) = 16"

definition swap_segment_command :: "segment_command \<Rightarrow> segment_command" where
  "swap_segment_command sg =
     sg\<lparr>lc_cmd := SWAP_INT (lc_cmd sg), lc_cmdsize := SWAP_INT (lc_cmdsize sg),
      sg_vmaddr := SWAP_INT (sg_vmaddr sg), sg_vmsize := SWAP_INT (sg_vmsize sg),
      sg_fileoff := SWAP_INT (sg_fileoff sg), sg_filesize := SWAP_INT (sg_filesize sg),
      sg_maxprot := SWAP_INT (sg_maxprot sg), sg_initprot := SWAP_INT (sg_initprot sg),
      sg_nsects := SWAP_INT (sg_nsects sg), sg_flags := SWAP_INT (sg_flags sg)\<rparr>"

lemmas segment_command_codec = dec_segment_command_def enc_segment_command_def sizeof_segment_command_def wf_segment_command_def slice_simps byte_simps slice_join
  slice_all length_slice

interpretation segment_command: endian_struct sizeof_segment_command dec_segment_command enc_segment_command wf_segment_command swap_segment_command
  by unfold_locales (simp_all add: segment_command_codec swap_segment_command_def)

section \<open>\<open>struct segment_command_64\<close>\<close>

record segment_command_64 = load_command +
  sg64_segname :: bytes
  sg64_vmaddr :: u64
  sg64_vmsize :: u64
  sg64_fileoff :: u64
  sg64_filesize :: u64
  sg64_maxprot :: u32
  sg64_initprot :: u32
  sg64_nsects :: u32
  sg64_flags :: u32

definition sizeof_segment_command_64 :: nat where
  "sizeof_segment_command_64 = 72"

definition dec_segment_command_64 :: "endian \<Rightarrow> bytes \<Rightarrow> segment_command_64" where
  "dec_segment_command_64 e bs =
     \<lparr>lc_cmd = get32 e bs 0, lc_cmdsize = get32 e bs 4, sg64_segname = slice 8 16 bs,
      sg64_vmaddr = get64 e bs 24, sg64_vmsize = get64 e bs 32, sg64_fileoff = get64 e bs 40,
      sg64_filesize = get64 e bs 48, sg64_maxprot = get32 e bs 56,
      sg64_initprot = get32 e bs 60, sg64_nsects = get32 e bs 64, sg64_flags = get32 e bs 68\<rparr>"

definition enc_segment_command_64 :: "endian \<Rightarrow> segment_command_64 \<Rightarrow> bytes" where
  "enc_segment_command_64 e sg =
     put32 e (lc_cmd sg) @ put32 e (lc_cmdsize sg) @ sg64_segname sg @
     put64 e (sg64_vmaddr sg) @ put64 e (sg64_vmsize sg) @ put64 e (sg64_fileoff sg) @
     put64 e (sg64_filesize sg) @ put32 e (sg64_maxprot sg) @ put32 e (sg64_initprot sg) @
     put32 e (sg64_nsects sg) @ put32 e (sg64_flags sg)"

definition wf_segment_command_64 :: "segment_command_64 \<Rightarrow> bool" where
  "wf_segment_command_64 sg \<longleftrightarrow> length (sg64_segname sg) = 16"

definition swap_segment_command_64 :: "segment_command_64 \<Rightarrow> segment_command_64" where
  "swap_segment_command_64 sg =
     sg\<lparr>lc_cmd := SWAP_INT (lc_cmd sg), lc_cmdsize := SWAP_INT (lc_cmdsize sg),
      sg64_vmaddr := SWAP_LONG_LONG (sg64_vmaddr sg),
      sg64_vmsize := SWAP_LONG_LONG (sg64_vmsize sg),
      sg64_fileoff := SWAP_LONG_LONG (sg64_fileoff sg),
      sg64_filesize := SWAP_LONG_LONG (sg64_filesize sg),
      sg64_maxprot := SWAP_INT (sg64_maxprot sg), sg64_initprot := SWAP_INT (sg64_initprot sg),
      sg64_nsects := SWAP_INT (sg64_nsects sg), sg64_flags := SWAP_INT (sg64_flags sg)\<rparr>"

lemmas segment_command_64_codec = dec_segment_command_64_def enc_segment_command_64_def sizeof_segment_command_64_def wf_segment_command_64_def slice_simps byte_simps slice_join
  slice_all length_slice

interpretation segment_command_64: endian_struct sizeof_segment_command_64 dec_segment_command_64 enc_segment_command_64 wf_segment_command_64 swap_segment_command_64
  by unfold_locales (simp_all add: segment_command_64_codec swap_segment_command_64_def)

section \<open>\<open>struct symtab_command\<close>\<close>

record symtab_command = load_command +
  st_symoff :: u32
  st_nsyms :: u32
  st_stroff :: u32
  st_strsize :: u32

definition sizeof_symtab_command :: nat where
  "sizeof_symtab_command = 24"

definition dec_symtab_command :: "endian \<Rightarrow> bytes \<Rightarrow> symtab_command" where
  "dec_symtab_command e bs =
     \<lparr>lc_cmd = get32 e bs 0, lc_cmdsize = get32 e bs 4, st_symoff = get32 e bs 8,
      st_nsyms = get32 e bs 12, st_stroff = get32 e bs 16, st_strsize = get32 e bs 20\<rparr>"

definition enc_symtab_command :: "endian \<Rightarrow> symtab_command \<Rightarrow> bytes" where
  "enc_symtab_command e st =
     put32 e (lc_cmd st) @ put32 e (lc_cmdsize st) @ put32 e (st_symoff st) @
     put32 e (st_nsyms st) @ put32 e (st_stroff st) @ put32 e (st_strsize st)"

definition swap_symtab_command :: "symtab_command \<Rightarrow> symtab_command" where
  "swap_symtab_command st =
     st\<lparr>lc_cmd := SWAP_INT (lc_cmd st), lc_cmdsize := SWAP_INT (lc_cmdsize st),
      st_symoff := SWAP_INT (st_symoff st), st_nsyms := SWAP_INT (st_nsyms st),
      st_stroff := SWAP_INT (st_stroff st), st_strsize := SWAP_INT (st_strsize st)\<rparr>"

lemmas symtab_command_codec = dec_symtab_command_def enc_symtab_command_def sizeof_symtab_command_def slice_simps byte_simps slice_join
  slice_all length_slice

interpretation symtab_command: endian_struct sizeof_symtab_command dec_symtab_command enc_symtab_command "\<lambda>_. True" swap_symtab_command
  by unfold_locales (simp_all add: symtab_command_codec swap_symtab_command_def)

section \<open>\<open>struct dysymtab_command\<close>\<close>

record dysymtab_command = load_command +
  dyst_ilocalsym :: u32
  dyst_nlocalsym :: u32
  dyst_iextdefsym :: u32
  dyst_nextdefsym :: u32
  dyst_iundefsym :: u32
  dyst_nundefsym :: u32
  dyst_tocoff :: u32
  dyst_ntoc :: u32
  dyst_modtaboff :: u32
  dyst_nmodtab :: u32
  dyst_extrefsymoff :: u32
  dyst_nextrefsyms :: u32
  dyst_indirectsymoff :: u32
  dyst_nindirectsyms :: u32
  dyst_extreloff :: u32
  dyst_nextrel :: u32
  dyst_locreloff :: u32
  dyst_nlocrel :: u32

definition sizeof_dysymtab_command :: nat where
  "sizeof_dysymtab_command = 80"

definition dec_dysymtab_command :: "endian \<Rightarrow> bytes \<Rightarrow> dysymtab_command" where
  "dec_dysymtab_command e bs =
     \<lparr>lc_cmd = get32 e bs 0, lc_cmdsize = get32 e bs 4, dyst_ilocalsym = get32 e bs 8,
      dyst_nlocalsym = get32 e bs 12, dyst_iextdefsym = get32 e bs 16,
      dyst_nextdefsym = get32 e bs 20, dyst_iundefsym = get32 e bs 24,
      dyst_nundefsym = get32 e bs 28, dyst_tocoff = get32 e bs 32, dyst_ntoc = get32 e bs 36,
      dyst_modtaboff = get32 e bs 40, dyst_nmodtab = get32 e bs 44,
      dyst_extrefsymoff = get32 e bs 48, dyst_nextrefsyms = get32 e bs 52,
      dyst_indirectsymoff = get32 e bs 56, dyst_nindirectsyms = get32 e bs 60,
      dyst_extreloff = get32 e bs 64, dyst_nextrel = get32 e bs 68,
      dyst_locreloff = get32 e bs 72, dyst_nlocrel = get32 e bs 76\<rparr>"

definition enc_dysymtab_command :: "endian \<Rightarrow> dysymtab_command \<Rightarrow> bytes" where
  "enc_dysymtab_command e dyst =
     put32 e (lc_cmd dyst) @ put32 e (lc_cmdsize dyst) @ put32 e (dyst_ilocalsym dyst) @
     put32 e (dyst_nlocalsym dyst) @ put32 e (dyst_iextdefsym dyst) @
     put32 e (dyst_nextdefsym dyst) @ put32 e (dyst_iundefsym dyst) @
     put32 e (dyst_nundefsym dyst) @ put32 e (dyst_tocoff dyst) @ put32 e (dyst_ntoc dyst) @
     put32 e (dyst_modtaboff dyst) @ put32 e (dyst_nmodtab dyst) @
     put32 e (dyst_extrefsymoff dyst) @ put32 e (dyst_nextrefsyms dyst) @
     put32 e (dyst_indirectsymoff dyst) @ put32 e (dyst_nindirectsyms dyst) @
     put32 e (dyst_extreloff dyst) @ put32 e (dyst_nextrel dyst) @
     put32 e (dyst_locreloff dyst) @ put32 e (dyst_nlocrel dyst)"

definition swap_dysymtab_command :: "dysymtab_command \<Rightarrow> dysymtab_command" where
  "swap_dysymtab_command dyst =
     dyst\<lparr>lc_cmd := SWAP_INT (lc_cmd dyst), lc_cmdsize := SWAP_INT (lc_cmdsize dyst),
      dyst_ilocalsym := SWAP_INT (dyst_ilocalsym dyst),
      dyst_nlocalsym := SWAP_INT (dyst_nlocalsym dyst),
      dyst_iextdefsym := SWAP_INT (dyst_iextdefsym dyst),
      dyst_nextdefsym := SWAP_INT (dyst_nextdefsym dyst),
      dyst_iundefsym := SWAP_INT (dyst_iundefsym dyst),
      dyst_nundefsym := SWAP_INT (dyst_nundefsym dyst),
      dyst_tocoff := SWAP_INT (dyst_tocoff dyst), dyst_ntoc := SWAP_INT (dyst_ntoc dyst),
      dyst_modtaboff := SWAP_INT (dyst_modtaboff dyst),
      dyst_nmodtab := SWAP_INT (dyst_nmodtab dyst),
      dyst_extrefsymoff := SWAP_INT (dyst_extrefsymoff dyst),
      dyst_nextrefsyms := SWAP_INT (dyst_nextrefsyms dyst),
      dyst_indirectsymoff := SWAP_INT (dyst_indirectsymoff dyst),
      dyst_nindirectsyms := SWAP_INT (dyst_nindirectsyms dyst),
      dyst_extreloff := SWAP_INT (dyst_extreloff dyst),
      dyst_nextrel := SWAP_INT (dyst_nextrel dyst),
      dyst_locreloff := SWAP_INT (dyst_locreloff dyst),
      dyst_nlocrel := SWAP_INT (dyst_nlocrel dyst)\<rparr>"

lemmas dysymtab_command_codec = dec_dysymtab_command_def enc_dysymtab_command_def sizeof_dysymtab_command_def slice_simps byte_simps slice_join
  slice_all length_slice

interpretation dysymtab_command: endian_struct sizeof_dysymtab_command dec_dysymtab_command enc_dysymtab_command "\<lambda>_. True" swap_dysymtab_command
  by unfold_locales (simp_all add: dysymtab_command_codec swap_dysymtab_command_def)

section \<open>\<open>struct symseg_command\<close>\<close>

record symseg_command = load_command +
  ss_offset :: u32
  ss_size :: u32

definition sizeof_symseg_command :: nat where
  "sizeof_symseg_command = 16"

definition dec_symseg_command :: "endian \<Rightarrow> bytes \<Rightarrow> symseg_command" where
  "dec_symseg_command e bs =
     \<lparr>lc_cmd = get32 e bs 0, lc_cmdsize = get32 e bs 4, ss_offset = get32 e bs 8,
      ss_size = get32 e bs 12\<rparr>"

definition enc_symseg_command :: "endian \<Rightarrow> symseg_command \<Rightarrow> bytes" where
  "enc_symseg_command e ss =
     put32 e (lc_cmd ss) @ put32 e (lc_cmdsize ss) @ put32 e (ss_offset ss) @
     put32 e (ss_size ss)"

definition swap_symseg_command :: "symseg_command \<Rightarrow> symseg_command" where
  "swap_symseg_command ss =
     ss\<lparr>lc_cmd := SWAP_INT (lc_cmd ss), lc_cmdsize := SWAP_INT (lc_cmdsize ss),
      ss_offset := SWAP_INT (ss_offset ss), ss_size := SWAP_INT (ss_size ss)\<rparr>"

lemmas symseg_command_codec = dec_symseg_command_def enc_symseg_command_def sizeof_symseg_command_def slice_simps byte_simps slice_join
  slice_all length_slice

interpretation symseg_command: endian_struct sizeof_symseg_command dec_symseg_command enc_symseg_command "\<lambda>_. True" swap_symseg_command
  by unfold_locales (simp_all add: symseg_command_codec swap_symseg_command_def)

section \<open>\<open>struct fvmlib_command\<close>\<close>

record fvmlib_command = load_command +
  fl_fvmlib_name_offset :: u32
  fl_fvmlib_minor_version :: u32
  fl_fvmlib_header_addr :: u32

definition sizeof_fvmlib_command :: nat where
  "sizeof_fvmlib_command = 20"

definition dec_fvmlib_command :: "endian \<Rightarrow> bytes \<Rightarrow> fvmlib_command" where
  "dec_fvmlib_command e bs =
     \<lparr>lc_cmd = get32 e bs 0, lc_cmdsize = get32 e bs 4, fl_fvmlib_name_offset = get32 e bs 8,
      fl_fvmlib_minor_version = get32 e bs 12, fl_fvmlib_header_addr = get32 e bs 16\<rparr>"

definition enc_fvmlib_command :: "endian \<Rightarrow> fvmlib_command \<Rightarrow> bytes" where
  "enc_fvmlib_command e fl =
     put32 e (lc_cmd fl) @ put32 e (lc_cmdsize fl) @ put32 e (fl_fvmlib_name_offset fl) @
     put32 e (fl_fvmlib_minor_version fl) @ put32 e (fl_fvmlib_header_addr fl)"

definition swap_fvmlib_command :: "fvmlib_command \<Rightarrow> fvmlib_command" where
  "swap_fvmlib_command fl =
     fl\<lparr>lc_cmd := SWAP_INT (lc_cmd fl), lc_cmdsize := SWAP_INT (lc_cmdsize fl),
      fl_fvmlib_name_offset := SWAP_INT (fl_fvmlib_name_offset fl),
      fl_fvmlib_minor_version := SWAP_INT (fl_fvmlib_minor_version fl),
      fl_fvmlib_header_addr := SWAP_INT (fl_fvmlib_header_addr fl)\<rparr>"

lemmas fvmlib_command_codec = dec_fvmlib_command_def enc_fvmlib_command_def sizeof_fvmlib_command_def slice_simps byte_simps slice_join
  slice_all length_slice

interpretation fvmlib_command: endian_struct sizeof_fvmlib_command dec_fvmlib_command enc_fvmlib_command "\<lambda>_. True" swap_fvmlib_command
  by unfold_locales (simp_all add: fvmlib_command_codec swap_fvmlib_command_def)

section \<open>\<open>struct dylib_command\<close>\<close>

record dylib_command = load_command +
  dl_dylib_name_offset :: u32
  dl_dylib_timestamp :: u32
  dl_dylib_current_version :: u32
  dl_dylib_compatibility_version :: u32

definition sizeof_dylib_command :: nat where
  "sizeof_dylib_command = 24"

definition dec_dylib_command :: "endian \<Rightarrow> bytes \<Rightarrow> dylib_command" where
  "dec_dylib_command e bs =
     \<lparr>lc_cmd = get32 e bs 0, lc_cmdsize = get32 e bs 4, dl_dylib_name_offset = get32 e bs 8,
      dl_dylib_timestamp = get32 e bs 12, dl_dylib_current_version = get32 e bs 16,
      dl_dylib_compatibility_version = get32 e bs 20\<rparr>"

definition enc_dylib_command :: "endian \<Rightarrow> dylib_command \<Rightarrow> bytes" where
  "enc_dylib_command e dl =
     put32 e (lc_cmd dl) @ put32 e (lc_cmdsize dl) @ put32 e (dl_dylib_name_offset dl) @
     put32 e (dl_dylib_timestamp dl) @ put32 e (dl_dylib_current_version dl) @
     put32 e (dl_dylib_compatibility_version dl)"

definition swap_dylib_command :: "dylib_command \<Rightarrow> dylib_command" where
  "swap_dylib_command dl =
     dl\<lparr>lc_cmd := SWAP_INT (lc_cmd dl), lc_cmdsize := SWAP_INT (lc_cmdsize dl),
      dl_dylib_name_offset := SWAP_INT (dl_dylib_name_offset dl),
      dl_dylib_timestamp := SWAP_INT (dl_dylib_timestamp dl),
      dl_dylib_current_version := SWAP_INT (dl_dylib_current_version dl),
      dl_dylib_compatibility_version := SWAP_INT (dl_dylib_compatibility_version dl)\<rparr>"

lemmas dylib_command_codec = dec_dylib_command_def enc_dylib_command_def sizeof_dylib_command_def slice_simps byte_simps slice_join
  slice_all length_slice

interpretation dylib_command: endian_struct sizeof_dylib_command dec_dylib_command enc_dylib_command "\<lambda>_. True" swap_dylib_command
  by unfold_locales (simp_all add: dylib_command_codec swap_dylib_command_def)

section \<open>\<open>struct sub_framework_command\<close>\<close>

record sub_framework_command = load_command +
  sub_umbrella_offset :: u32

definition sizeof_sub_framework_command :: nat where
  "sizeof_sub_framework_command = 12"

definition dec_sub_framework_command :: "endian \<Rightarrow> bytes \<Rightarrow> sub_framework_command" where
  "dec_sub_framework_command e bs =
     \<lparr>lc_cmd = get32 e bs 0, lc_cmdsize = get32 e bs 4, sub_umbrella_offset = get32 e bs 8\<rparr>"

definition enc_sub_framework_command :: "endian \<Rightarrow> sub_framework_command \<Rightarrow> bytes" where
  "enc_sub_framework_command e sub =
     put32 e (lc_cmd sub) @ put32 e (lc_cmdsize sub) @ put32 e (sub_umbrella_offset sub)"

definition swap_sub_framework_command :: "sub_framework_command \<Rightarrow> sub_framework_command" where
  "swap_sub_framework_command sub =
     sub\<lparr>lc_cmd := SWAP_INT (lc_cmd sub), lc_cmdsize := SWAP_INT (lc_cmdsize sub),
      sub_umbrella_offset := SWAP_INT (sub_umbrella_offset sub)\<rparr>"

lemmas sub_framework_command_codec = dec_sub_framework_command_def enc_sub_framework_command_def sizeof_sub_framework_command_def slice_simps byte_simps slice_join
  slice_all length_slice

interpretation sub_framework_command: endian_struct sizeof_sub_framework_command dec_sub_framework_command enc_sub_framework_command "\<lambda>_. True" swap_sub_framework_command
  by unfold_locales (simp_all add: sub_framework_command_codec swap_sub_framework_command_def)

section \<open>\<open>struct sub_umbrella_command\<close>\<close>

record sub_umbrella_command = load_command +
  usub_sub_umbrella_offset :: u32

definition sizeof_sub_umbrella_command :: nat where
  "sizeof_sub_umbrella_command = 12"

definition dec_sub_umbrella_command :: "endian \<Rightarrow> bytes \<Rightarrow> sub_umbrella_command" where
  "dec_sub_umbrella_command e bs =
     \<lparr>lc_cmd = get32 e bs 0, lc_cmdsize = get32 e bs 4, usub_sub_umbrella_offset = get32 e bs 8\<rparr>"

definition enc_sub_umbrella_command :: "endian \<Rightarrow> sub_umbrella_command \<Rightarrow> bytes" where
  "enc_sub_umbrella_command e usub =
     put32 e (lc_cmd usub) @ put32 e (lc_cmdsize usub) @ put32 e (usub_sub_umbrella_offset usub)"

definition swap_sub_umbrella_command :: "sub_umbrella_command \<Rightarrow> sub_umbrella_command" where
  "swap_sub_umbrella_command usub =
     usub\<lparr>lc_cmd := SWAP_INT (lc_cmd usub), lc_cmdsize := SWAP_INT (lc_cmdsize usub),
      usub_sub_umbrella_offset := SWAP_INT (usub_sub_umbrella_offset usub)\<rparr>"

lemmas sub_umbrella_command_codec = dec_sub_umbrella_command_def enc_sub_umbrella_command_def sizeof_sub_umbrella_command_def slice_simps byte_simps slice_join
  slice_all length_slice

interpretation sub_umbrella_command: endian_struct sizeof_sub_umbrella_command dec_sub_umbrella_command enc_sub_umbrella_command "\<lambda>_. True" swap_sub_umbrella_command
  by unfold_locales (simp_all add: sub_umbrella_command_codec swap_sub_umbrella_command_def)

section \<open>\<open>struct sub_library_command\<close>\<close>

record sub_library_command = load_command +
  lsub_sub_library_offset :: u32

definition sizeof_sub_library_command :: nat where
  "sizeof_sub_library_command = 12"

definition dec_sub_library_command :: "endian \<Rightarrow> bytes \<Rightarrow> sub_library_command" where
  "dec_sub_library_command e bs =
     \<lparr>lc_cmd = get32 e bs 0, lc_cmdsize = get32 e bs 4, lsub_sub_library_offset = get32 e bs 8\<rparr>"

definition enc_sub_library_command :: "endian \<Rightarrow> sub_library_command \<Rightarrow> bytes" where
  "enc_sub_library_command e lsub =
     put32 e (lc_cmd lsub) @ put32 e (lc_cmdsize lsub) @ put32 e (lsub_sub_library_offset lsub)"

definition swap_sub_library_command :: "sub_library_command \<Rightarrow> sub_library_command" where
  "swap_sub_library_command lsub =
     lsub\<lparr>lc_cmd := SWAP_INT (lc_cmd lsub), lc_cmdsize := SWAP_INT (lc_cmdsize lsub),
      lsub_sub_library_offset := SWAP_INT (lsub_sub_library_offset lsub)\<rparr>"

lemmas sub_library_command_codec = dec_sub_library_command_def enc_sub_library_command_def sizeof_sub_library_command_def slice_simps byte_simps slice_join
  slice_all length_slice

interpretation sub_library_command: endian_struct sizeof_sub_library_command dec_sub_library_command enc_sub_library_command "\<lambda>_. True" swap_sub_library_command
  by unfold_locales (simp_all add: sub_library_command_codec swap_sub_library_command_def)

section \<open>\<open>struct sub_client_command\<close>\<close>

record sub_client_command = load_command +
  csub_client_offset :: u32

definition sizeof_sub_client_command :: nat where
  "sizeof_sub_client_command = 12"

definition dec_sub_client_command :: "endian \<Rightarrow> bytes \<Rightarrow> sub_client_command" where
  "dec_sub_client_command e bs =
     \<lparr>lc_cmd = get32 e bs 0, lc_cmdsize = get32 e bs 4, csub_client_offset = get32 e bs 8\<rparr>"

definition enc_sub_client_command :: "endian \<Rightarrow> sub_client_command \<Rightarrow> bytes" where
  "enc_sub_client_command e csub =
     put32 e (lc_cmd csub) @ put32 e (lc_cmdsize csub) @ put32 e (csub_client_offset csub)"

definition swap_sub_client_command :: "sub_client_command \<Rightarrow> sub_client_command" where
  "swap_sub_client_command csub =
     csub\<lparr>lc_cmd := SWAP_INT (lc_cmd csub), lc_cmdsize := SWAP_INT (lc_cmdsize csub),
      csub_client_offset := SWAP_INT (csub_client_offset csub)\<rparr>"

lemmas sub_client_command_codec = dec_sub_client_command_def enc_sub_client_command_def sizeof_sub_client_command_def slice_simps byte_simps slice_join
  slice_all length_slice

interpretation sub_client_command: endian_struct sizeof_sub_client_command dec_sub_client_command enc_sub_client_command "\<lambda>_. True" swap_sub_client_command
  by unfold_locales (simp_all add: sub_client_command_codec swap_sub_client_command_def)

section \<open>\<open>struct prebound_dylib_command\<close>\<close>

record prebound_dylib_command = load_command +
  pbdylib_name_offset :: u32
  pbdylib_nmodules :: u32
  pbdylib_linked_modules_offset :: u32

definition sizeof_prebound_dylib_command :: nat where
  "sizeof_prebound_dylib_command = 20"

definition dec_prebound_dylib_command :: "endian \<Rightarrow> bytes \<Rightarrow> prebound_dylib_command" where
  "dec_prebound_dylib_command e bs =
     \<lparr>lc_cmd = get32 e bs 0, lc_cmdsize = get32 e bs 4, pbdylib_name_offset = get32 e bs 8,
      pbdylib_nmodules = get32 e bs 12, pbdylib_linked_modules_offset = get32 e bs 16\<rparr>"

definition enc_prebound_dylib_command :: "endian \<Rightarrow> prebound_dylib_command \<Rightarrow> bytes" where
  "enc_prebound_dylib_command e pbdylib =
     put32 e (lc_cmd pbdylib) @ put32 e (lc_cmdsize pbdylib) @
     put32 e (pbdylib_name_offset pbdylib) @ put32 e (pbdylib_nmodules pbdylib) @
     put32 e (pbdylib_linked_modules_offset pbdylib)"

definition swap_prebound_dylib_command :: "prebound_dylib_command \<Rightarrow> prebound_dylib_command" where
  "swap_prebound_dylib_command pbdylib =
     pbdylib\<lparr>lc_cmd := SWAP_INT (lc_cmd pbdylib), lc_cmdsize := SWAP_INT (lc_cmdsize pbdylib),
      pbdylib_name_offset := SWAP_INT (pbdylib_name_offset pbdylib),
      pbdylib_nmodules := SWAP_INT (pbdylib_nmodules pbdylib),
      pbdylib_linked_modules_offset := SWAP_INT (pbdylib_linked_modules_offset pbdylib)\<rparr>"

lemmas prebound_dylib_command_codec = dec_prebound_dylib_command_def enc_prebound_dylib_command_def sizeof_prebound_dylib_command_def slice_simps byte_simps slice_join
  slice_all length_slice

interpretation prebound_dylib_command: endian_struct sizeof_prebound_dylib_command dec_prebound_dylib_command enc_prebound_dylib_command "\<lambda>_. True" swap_prebound_dylib_command
  by unfold_locales (simp_all add: prebound_dylib_command_codec swap_prebound_dylib_command_def)

section \<open>\<open>struct dylinker_command\<close>\<close>

record dylinker_command = load_command +
  dyld_name_offset :: u32

definition sizeof_dylinker_command :: nat where
  "sizeof_dylinker_command = 12"

definition dec_dylinker_command :: "endian \<Rightarrow> bytes \<Rightarrow> dylinker_command" where
  "dec_dylinker_command e bs =
     \<lparr>lc_cmd = get32 e bs 0, lc_cmdsize = get32 e bs 4, dyld_name_offset = get32 e bs 8\<rparr>"

definition enc_dylinker_command :: "endian \<Rightarrow> dylinker_command \<Rightarrow> bytes" where
  "enc_dylinker_command e dyld =
     put32 e (lc_cmd dyld) @ put32 e (lc_cmdsize dyld) @ put32 e (dyld_name_offset dyld)"

definition swap_dylinker_command :: "dylinker_command \<Rightarrow> dylinker_command" where
  "swap_dylinker_command dyld =
     dyld\<lparr>lc_cmd := SWAP_INT (lc_cmd dyld), lc_cmdsize := SWAP_INT (lc_cmdsize dyld),
      dyld_name_offset := SWAP_INT (dyld_name_offset dyld)\<rparr>"

lemmas dylinker_command_codec = dec_dylinker_command_def enc_dylinker_command_def sizeof_dylinker_command_def slice_simps byte_simps slice_join
  slice_all length_slice

interpretation dylinker_command: endian_struct sizeof_dylinker_command dec_dylinker_command enc_dylinker_command "\<lambda>_. True" swap_dylinker_command
  by unfold_locales (simp_all add: dylinker_command_codec swap_dylinker_command_def)

section \<open>\<open>struct fvmfile_command\<close>\<close>

record fvmfile_command = load_command +
  ff_name_offset :: u32
  ff_header_addr :: u32

definition sizeof_fvmfile_command :: nat where
  "sizeof_fvmfile_command = 16"

definition dec_fvmfile_command :: "endian \<Rightarrow> bytes \<Rightarrow> fvmfile_command" where
  "dec_fvmfile_command e bs =
     \<lparr>lc_cmd = get32 e bs 0, lc_cmdsize = get32 e bs 4, ff_name_offset = get32 e bs 8,
      ff_header_addr = get32 e bs 12\<rparr>"

definition enc_fvmfile_command :: "endian \<Rightarrow> fvmfile_command \<Rightarrow> bytes" where
  "enc_fvmfile_command e ff =
     put32 e (lc_cmd ff) @ put32 e (lc_cmdsize ff) @ put32 e (ff_name_offset ff) @
     put32 e (ff_header_addr ff)"

definition swap_fvmfile_command :: "fvmfile_command \<Rightarrow> fvmfile_command" where
  "swap_fvmfile_command ff =
     ff\<lparr>lc_cmd := SWAP_INT (lc_cmd ff), lc_cmdsize := SWAP_INT (lc_cmdsize ff),
      ff_name_offset := SWAP_INT (ff_name_offset ff),
      ff_header_addr := SWAP_INT (ff_header_addr ff)\<rparr>"

lemmas fvmfile_command_codec = dec_fvmfile_command_def enc_fvmfile_command_def sizeof_fvmfile_command_def slice_simps byte_simps slice_join
  slice_all length_slice

interpretation fvmfile_command: endian_struct sizeof_fvmfile_command dec_fvmfile_command enc_fvmfile_command "\<lambda>_. True" swap_fvmfile_command
  by unfold_locales (simp_all add: fvmfile_command_codec swap_fvmfile_command_def)

section \<open>\<open>struct thread_command\<close>\<close>

type_synonym thread_command = load_command

definition sizeof_thread_command :: nat where
  "sizeof_thread_command = 8"

definition dec_thread_command :: "endian \<Rightarrow> bytes \<Rightarrow> thread_command" where
  "dec_thread_command e bs =
     \<lparr>lc_cmd = get32 e bs 0, lc_cmdsize = get32 e bs 4\<rparr>"

definition enc_thread_command :: "endian \<Rightarrow> thread_command \<Rightarrow> bytes" where
  "enc_thread_command e ut =
     put32 e (lc_cmd ut) @ put32 e (lc_cmdsize ut)"

definition swap_thread_command :: "thread_command \<Rightarrow> thread_command" where
  "swap_thread_command ut =
     ut\<lparr>lc_cmd := SWAP_INT (lc_cmd ut), lc_cmdsize := SWAP_INT (lc_cmdsize ut)\<rparr>"

lemmas thread_command_codec = dec_thread_command_def enc_thread_command_def sizeof_thread_command_def slice_simps byte_simps slice_join
  slice_all length_slice

interpretation thread_command: endian_struct sizeof_thread_command dec_thread_command enc_thread_command "\<lambda>_. True" swap_thread_command
  by unfold_locales (simp_all add: thread_command_codec swap_thread_command_def)

section \<open>\<open>struct ident_command\<close>\<close>

type_synonym ident_command = load_command

definition sizeof_ident_command :: nat where
  "sizeof_ident_command = 8"

definition dec_ident_command :: "endian \<Rightarrow> bytes \<Rightarrow> ident_command" where
  "dec_ident_command e bs =
     \<lparr>lc_cmd = get32 e bs 0, lc_cmdsize = get32 e bs 4\<rparr>"

definition enc_ident_command :: "endian \<Rightarrow> ident_command \<Rightarrow> bytes" where
  "enc_ident_command e idc =
     put32 e (lc_cmd idc) @ put32 e (lc_cmdsize idc)"

definition swap_ident_command :: "ident_command \<Rightarrow> ident_command" where
  "swap_ident_command idc =
     idc\<lparr>lc_cmd := SWAP_INT (lc_cmd idc), lc_cmdsize := SWAP_INT (lc_cmdsize idc)\<rparr>"

lemmas ident_command_codec = dec_ident_command_def enc_ident_command_def sizeof_ident_command_def slice_simps byte_simps slice_join
  slice_all length_slice

interpretation ident_command: endian_struct sizeof_ident_command dec_ident_command enc_ident_command "\<lambda>_. True" swap_ident_command
  by unfold_locales (simp_all add: ident_command_codec swap_ident_command_def)

section \<open>\<open>struct routines_command\<close>\<close>

record routines_command = load_command +
  rc_init_address :: u32
  rc_init_module :: u32
  rc_reserved1 :: u32
  rc_reserved2 :: u32
  rc_reserved3 :: u32
  rc_reserved4 :: u32
  rc_reserved5 :: u32
  rc_reserved6 :: u32

definition sizeof_routines_command :: nat where
  "sizeof_routines_command = 40"

definition dec_routines_command :: "endian \<Rightarrow> bytes \<Rightarrow> routines_command" where
  "dec_routines_command e bs =
     \<lparr>lc_cmd = get32 e bs 0, lc_cmdsize = get32 e bs 4, rc_init_address = get32 e bs 8,
      rc_init_module = get32 e bs 12, rc_reserved1 = get32 e bs 16,
      rc_reserved2 = get32 e bs 20, rc_reserved3 = get32 e bs 24, rc_reserved4 = get32 e bs 28,
      rc_reserved5 = get32 e bs 32, rc_reserved6 = get32 e bs 36\<rparr>"

definition enc_routines_command :: "endian \<Rightarrow> routines_command \<Rightarrow> bytes" where
  "enc_routines_command e rc =
     put32 e (lc_cmd rc) @ put32 e (lc_cmdsize rc) @ put32 e (rc_init_address rc) @
     put32 e (rc_init_module rc) @ put32 e (rc_reserved1 rc) @ put32 e (rc_reserved2 rc) @
     put32 e (rc_reserved3 rc) @ put32 e (rc_reserved4 rc) @ put32 e (rc_reserved5 rc) @
     put32 e (rc_reserved6 rc)"

definition swap_routines_command :: "routines_command \<Rightarrow> routines_command" where
  "swap_routines_command rc =
     rc\<lparr>lc_cmd := SWAP_INT (lc_cmd rc), lc_cmdsize := SWAP_INT (lc_cmdsize rc),
      rc_init_address := SWAP_INT (rc_init_address rc),
      rc_init_module := SWAP_INT (rc_init_module rc),
      rc_reserved1 := SWAP_INT (rc_reserved1 rc), rc_reserved2 := SWAP_INT (rc_reserved2 rc),
      rc_reserved3 := SWAP_INT (rc_reserved3 rc), rc_reserved4 := SWAP_INT (rc_reserved4 rc),
      rc_reserved5 := SWAP_INT (rc_reserved5 rc), rc_reserved6 := SWAP_INT (rc_reserved6 rc)\<rparr>"

lemmas routines_command_codec = dec_routines_command_def enc_routines_command_def sizeof_routines_command_def slice_simps byte_simps slice_join
  slice_all length_slice

interpretation routines_command: endian_struct sizeof_routines_command dec_routines_command enc_routines_command "\<lambda>_. True" swap_routines_command
  by unfold_locales (simp_all add: routines_command_codec swap_routines_command_def)

section \<open>\<open>struct routines_command_64\<close>\<close>

record routines_command_64 = load_command +
  rc64_init_address :: u64
  rc64_init_module :: u64
  rc64_reserved1 :: u64
  rc64_reserved2 :: u64
  rc64_reserved3 :: u64
  rc64_reserved4 :: u64
  rc64_reserved5 :: u64
  rc64_reserved6 :: u64

definition sizeof_routines_command_64 :: nat where
  "sizeof_routines_command_64 = 72"

definition dec_routines_command_64 :: "endian \<Rightarrow> bytes \<Rightarrow> routines_command_64" where
  "dec_routines_command_64 e bs =
     \<lparr>lc_cmd = get32 e bs 0, lc_cmdsize = get32 e bs 4, rc64_init_address = get64 e bs 8,
      rc64_init_module = get64 e bs 16, rc64_reserved1 = get64 e bs 24,
      rc64_reserved2 = get64 e bs 32, rc64_reserved3 = get64 e bs 40,
      rc64_reserved4 = get64 e bs 48, rc64_reserved5 = get64 e bs 56,
      rc64_reserved6 = get64 e bs 64\<rparr>"

definition enc_routines_command_64 :: "endian \<Rightarrow> routines_command_64 \<Rightarrow> bytes" where
  "enc_routines_command_64 e rc =
     put32 e (lc_cmd rc) @ put32 e (lc_cmdsize rc) @ put64 e (rc64_init_address rc) @
     put64 e (rc64_init_module rc) @ put64 e (rc64_reserved1 rc) @
     put64 e (rc64_reserved2 rc) @ put64 e (rc64_reserved3 rc) @ put64 e (rc64_reserved4 rc) @
     put64 e (rc64_reserved5 rc) @ put64 e (rc64_reserved6 rc)"

definition swap_routines_command_64 :: "routines_command_64 \<Rightarrow> routines_command_64" where
  "swap_routines_command_64 rc =
     rc\<lparr>lc_cmd := SWAP_INT (lc_cmd rc), lc_cmdsize := SWAP_INT (lc_cmdsize rc),
      rc64_init_address := SWAP_LONG_LONG (rc64_init_address rc),
      rc64_init_module := SWAP_LONG_LONG (rc64_init_module rc),
      rc64_reserved1 := SWAP_LONG_LONG (rc64_reserved1 rc),
      rc64_reserved2 := SWAP_LONG_LONG (rc64_reserved2 rc),
      rc64_reserved3 := SWAP_LONG_LONG (rc64_reserved3 rc),
      rc64_reserved4 := SWAP_LONG_LONG (rc64_reserved4 rc),
      rc64_reserved5 := SWAP_LONG_LONG (rc64_reserved5 rc),
      rc64_reserved6 := SWAP_LONG_LONG (rc64_reserved6 rc)\<rparr>"

lemmas routines_command_64_codec = dec_routines_command_64_def enc_routines_command_64_def sizeof_routines_command_64_def slice_simps byte_simps slice_join
  slice_all length_slice

interpretation routines_command_64: endian_struct sizeof_routines_command_64 dec_routines_command_64 enc_routines_command_64 "\<lambda>_. True" swap_routines_command_64
  by unfold_locales (simp_all add: routines_command_64_codec swap_routines_command_64_def)

section \<open>\<open>struct twolevel_hints_command\<close>\<close>

record twolevel_hints_command = load_command +
  hints_offset :: u32
  hints_nhints :: u32

definition sizeof_twolevel_hints_command :: nat where
  "sizeof_twolevel_hints_command = 16"

definition dec_twolevel_hints_command :: "endian \<Rightarrow> bytes \<Rightarrow> twolevel_hints_command" where
  "dec_twolevel_hints_command e bs =
     \<lparr>lc_cmd = get32 e bs 0, lc_cmdsize = get32 e bs 4, hints_offset = get32 e bs 8,
      hints_nhints = get32 e bs 12\<rparr>"

definition enc_twolevel_hints_command :: "endian \<Rightarrow> twolevel_hints_command \<Rightarrow> bytes" where
  "enc_twolevel_hints_command e hints =
     put32 e (lc_cmd hints) @ put32 e (lc_cmdsize hints) @ put32 e (hints_offset hints) @
     put32 e (hints_nhints hints)"

definition swap_twolevel_hints_command :: "twolevel_hints_command \<Rightarrow> twolevel_hints_command" where
  "swap_twolevel_hints_command hints =
     hints\<lparr>lc_cmd := SWAP_INT (lc_cmd hints), lc_cmdsize := SWAP_INT (lc_cmdsize hints),
      hints_offset := SWAP_INT (hints_offset hints),
      hints_nhints := SWAP_INT (hints_nhints hints)\<rparr>"

lemmas twolevel_hints_command_codec = dec_twolevel_hints_command_def enc_twolevel_hints_command_def sizeof_twolevel_hints_command_def slice_simps byte_simps slice_join
  slice_all length_slice

interpretation twolevel_hints_command: endian_struct sizeof_twolevel_hints_command dec_twolevel_hints_command enc_twolevel_hints_command "\<lambda>_. True" swap_twolevel_hints_command
  by unfold_locales (simp_all add: twolevel_hints_command_codec swap_twolevel_hints_command_def)

section \<open>\<open>struct prebind_cksum_command\<close>\<close>

record prebind_cksum_command = load_command +
  cs_cksum :: u32

definition sizeof_prebind_cksum_command :: nat where
  "sizeof_prebind_cksum_command = 12"

definition dec_prebind_cksum_command :: "endian \<Rightarrow> bytes \<Rightarrow> prebind_cksum_command" where
  "dec_prebind_cksum_command e bs =
     \<lparr>lc_cmd = get32 e bs 0, lc_cmdsize = get32 e bs 4, cs_cksum = get32 e bs 8\<rparr>"

definition enc_prebind_cksum_command :: "endian \<Rightarrow> prebind_cksum_command \<Rightarrow> bytes" where
  "enc_prebind_cksum_command e cs =
     put32 e (lc_cmd cs) @ put32 e (lc_cmdsize cs) @ put32 e (cs_cksum cs)"

definition swap_prebind_cksum_command :: "prebind_cksum_command \<Rightarrow> prebind_cksum_command" where
  "swap_prebind_cksum_command cs =
     cs\<lparr>lc_cmd := SWAP_INT (lc_cmd cs), lc_cmdsize := SWAP_INT (lc_cmdsize cs),
      cs_cksum := SWAP_INT (cs_cksum cs)\<rparr>"

lemmas prebind_cksum_command_codec = dec_prebind_cksum_command_def enc_prebind_cksum_command_def sizeof_prebind_cksum_command_def slice_simps byte_simps slice_join
  slice_all length_slice

interpretation prebind_cksum_command: endian_struct sizeof_prebind_cksum_command dec_prebind_cksum_command enc_prebind_cksum_command "\<lambda>_. True" swap_prebind_cksum_command
  by unfold_locales (simp_all add: prebind_cksum_command_codec swap_prebind_cksum_command_def)

end
