(* ===== verification/MachO_Commands2.thy ===== *)
theory MachO_Commands2
  imports MachO_Commands
begin

text \<open>
  The load commands of \<^verbatim>\<open>cctools/include/mach-o/loader.h\<close>, second part: identification, link
  edit data, versions, encryption and the entry point. Two of the swap routines here miss part of
  their structure, which the lemmas at the end of the theory make precise.
\<close>

section \<open>\<open>struct uuid_command\<close>\<close>

record uuid_command = load_command +
  uuid_uuid :: bytes

definition sizeof_uuid_command :: nat where
  "sizeof_uuid_command = 24"

definition dec_uuid_command :: "endian \<Rightarrow> bytes \<Rightarrow> uuid_command" where
  "dec_uuid_command e bs =
     \<lparr>lc_cmd = get32 e bs 0, lc_cmdsize = get32 e bs 4, uuid_uuid = slice 8 16 bs\<rparr>"

definition enc_uuid_command :: "endian \<Rightarrow> uuid_command \<Rightarrow> bytes" where
  "enc_uuid_command e uuid =
     put32 e (lc_cmd uuid) @ put32 e (lc_cmdsize uuid) @ uuid_uuid uuid"

definition wf_uuid_command :: "uuid_command \<Rightarrow> bool" where
  "wf_uuid_command uuid \<longleftrightarrow> length (uuid_uuid uuid) = 16"

definition swap_uuid_command :: "uuid_command \<Rightarrow> uuid_command" where
  "swap_uuid_command uuid =
     uuid\<lparr>lc_cmd := SWAP_INT (lc_cmd uuid), lc_cmdsize := SWAP_INT (lc_cmdsize uuid)\<rparr>"

lemmas uuid_command_codec = dec_uuid_command_def enc_uuid_command_def sizeof_uuid_command_def wf_uuid_command_def slice_simps byte_simps slice_join
  slice_all length_slice

interpretation uuid_command: endian_struct sizeof_uuid_command dec_uuid_command enc_uuid_command wf_uuid_command swap_uuid_command
  by unfold_locales (simp_all add: uuid_command_codec swap_uuid_command_def)

section \<open>\<open>struct linkedit_data_command\<close>\<close>

record linkedit_data_command = load_command +
  ld_dataoff :: u32
  ld_datasize :: u32

definition sizeof_linkedit_data_command :: nat where
  "sizeof_linkedit_data_command = 16"

definition dec_linkedit_data_command :: "endian \<Rightarrow> bytes \<Rightarrow> linkedit_data_command" where
  "dec_linkedit_data_command e bs =
     \<lparr>lc_cmd = get32 e bs 0, lc_cmdsize = get32 e bs 4, ld_dataoff = get32 e bs 8,
      ld_datasize = get32 e bs 12\<rparr>"

definition enc_linkedit_data_command :: "endian \<Rightarrow> linkedit_data_command \<Rightarrow> bytes" where
  "enc_linkedit_data_command e ld =
     put32 e (lc_cmd ld) @ put32 e (lc_cmdsize ld) @ put32 e (ld_dataoff ld) @
     put32 e (ld_datasize ld)"

definition swap_linkedit_data_command :: "linkedit_data_command \<Rightarrow> linkedit_data_command" where
  "swap_linkedit_data_command ld =
     ld\<lparr>lc_cmd := SWAP_INT (lc_cmd ld), lc_cmdsize := SWAP_INT (lc_cmdsize ld),
      ld_dataoff := SWAP_INT (ld_dataoff ld), ld_datasize := SWAP_INT (ld_datasize ld)\<rparr>"

lemmas linkedit_data_command_codec = dec_linkedit_data_command_def enc_linkedit_data_command_def sizeof_linkedit_data_command_def slice_simps byte_simps slice_join
  slice_all length_slice

interpretation linkedit_data_command: endian_struct sizeof_linkedit_data_command dec_linkedit_data_command enc_linkedit_data_command "\<lambda>_. True" swap_linkedit_data_command
  by unfold_locales (simp_all add: linkedit_data_command_codec swap_linkedit_data_command_def)

section \<open>\<open>struct version_min_command\<close>\<close>

record version_min_command = load_command +
  vc_version :: u32
  vc_sdk :: u32

definition sizeof_version_min_command :: nat where
  "sizeof_version_min_command = 16"

definition dec_version_min_command :: "endian \<Rightarrow> bytes \<Rightarrow> version_min_command" where
  "dec_version_min_command e bs =
     \<lparr>lc_cmd = get32 e bs 0, lc_cmdsize = get32 e bs 4, vc_version = get32 e bs 8,
      vc_sdk = get32 e bs 12\<rparr>"

definition enc_version_min_command :: "endian \<Rightarrow> version_min_command \<Rightarrow> bytes" where
  "enc_version_min_command e vc =
     put32 e (lc_cmd vc) @ put32 e (lc_cmdsize vc) @ put32 e (vc_version vc) @
     put32 e (vc_sdk vc)"

definition swap_version_min_command :: "version_min_command \<Rightarrow> version_min_command" where
  "swap_version_min_command vc =
     vc\<lparr>lc_cmd := SWAP_INT (lc_cmd vc), lc_cmdsize := SWAP_INT (lc_cmdsize vc),
      vc_version := SWAP_INT (vc_version vc)\<rparr>"

lemmas version_min_command_codec = dec_version_min_command_def enc_version_min_command_def sizeof_version_min_command_def slice_simps byte_simps slice_join
  slice_all length_slice

interpretation version_min_command: struct_codec sizeof_version_min_command dec_version_min_command enc_version_min_command "\<lambda>_. True"
  by unfold_locales (simp_all add: version_min_command_codec)

text \<open>The routine leaves the field \<open>sdk\<close> as it is.\<close>

lemma swap_version_min_command_dec:
  "length bs = sizeof_version_min_command \<Longrightarrow>
   swap_version_min_command (dec_version_min_command e bs) =
     (dec_version_min_command (opp e) bs)\<lparr>vc_sdk := get32 e bs 12\<rparr>"
  by (simp add: version_min_command_codec swap_version_min_command_def)

section \<open>\<open>struct build_version_command\<close>\<close>

record build_version_command = load_command +
  bv_platform :: u32
  bv_minos :: u32
  bv_sdk :: u32
  bv_ntools :: u32

definition sizeof_build_version_command :: nat where
  "sizeof_build_version_command = 24"

definition dec_build_version_command :: "endian \<Rightarrow> bytes \<Rightarrow> build_version_command" where
  "dec_build_version_command e bs =
     \<lparr>lc_cmd = get32 e bs 0, lc_cmdsize = get32 e bs 4, bv_platform = get32 e bs 8,
      bv_minos = get32 e bs 12, bv_sdk = get32 e bs 16, bv_ntools = get32 e bs 20\<rparr>"

definition enc_build_version_command :: "endian \<Rightarrow> build_version_command \<Rightarrow> bytes" where
  "enc_build_version_command e bv =
     put32 e (lc_cmd bv) @ put32 e (lc_cmdsize bv) @ put32 e (bv_platform bv) @
     put32 e (bv_minos bv) @ put32 e (bv_sdk bv) @ put32 e (bv_ntools bv)"

definition swap_build_version_command :: "build_version_command \<Rightarrow> build_version_command" where
  "swap_build_version_command bv =
     bv\<lparr>lc_cmd := SWAP_INT (lc_cmd bv), lc_cmdsize := SWAP_INT (lc_cmdsize bv),
      bv_platform := SWAP_INT (bv_platform bv), bv_minos := SWAP_INT (bv_minos bv),
      bv_sdk := SWAP_INT (bv_sdk bv), bv_ntools := SWAP_INT (bv_ntools bv)\<rparr>"

lemmas build_version_command_codec = dec_build_version_command_def enc_build_version_command_def sizeof_build_version_command_def slice_simps byte_simps slice_join
  slice_all length_slice

interpretation build_version_command: endian_struct sizeof_build_version_command dec_build_version_command enc_build_version_command "\<lambda>_. True" swap_build_version_command
  by unfold_locales (simp_all add: build_version_command_codec swap_build_version_command_def)

section \<open>\<open>struct rpath_command\<close>\<close>

record rpath_command = load_command +
  rpath_path_offset :: u32

definition sizeof_rpath_command :: nat where
  "sizeof_rpath_command = 12"

definition dec_rpath_command :: "endian \<Rightarrow> bytes \<Rightarrow> rpath_command" where
  "dec_rpath_command e bs =
     \<lparr>lc_cmd = get32 e bs 0, lc_cmdsize = get32 e bs 4, rpath_path_offset = get32 e bs 8\<rparr>"

definition enc_rpath_command :: "endian \<Rightarrow> rpath_command \<Rightarrow> bytes" where
  "enc_rpath_command e rpath =
     put32 e (lc_cmd rpath) @ put32 e (lc_cmdsize rpath) @ put32 e (rpath_path_offset rpath)"

definition swap_rpath_command :: "rpath_command \<Rightarrow> rpath_command" where
  "swap_rpath_command rpath =
     rpath\<lparr>lc_cmd := SWAP_INT (lc_cmd rpath), lc_cmdsize := SWAP_INT (lc_cmdsize rpath),
      rpath_path_offset := SWAP_INT (rpath_path_offset rpath)\<rparr>"

lemmas rpath_command_codec = dec_rpath_command_def enc_rpath_command_def sizeof_rpath_command_def slice_simps byte_simps slice_join
  slice_all length_slice

interpretation rpath_command: endian_struct sizeof_rpath_command dec_rpath_command enc_rpath_command "\<lambda>_. True" swap_rpath_command
  by unfold_locales (simp_all add: rpath_command_codec swap_rpath_command_def)

section \<open>\<open>struct encryption_info_command\<close>\<close>

record encryption_info_command = load_command +
  ec_cryptoff :: u32
  ec_cryptsize :: u32
  ec_cryptid :: u32

definition sizeof_encryption_info_command :: nat where
  "sizeof_encryption_info_command = 20"

definition dec_encryption_info_command :: "endian \<Rightarrow> bytes \<Rightarrow> encryption_info_command" where
  "dec_encryption_info_command e bs =
     \<lparr>lc_cmd = get32 e bs 0, lc_cmdsize = get32 e bs 4, ec_cryptoff = get32 e bs 8,
      ec_cryptsize = get32 e bs 12, ec_cryptid = get32 e bs 16\<rparr>"

definition enc_encryption_info_command :: "endian \<Rightarrow> encryption_info_command \<Rightarrow> bytes" where
  "enc_encryption_info_command e ec =
     put32 e (lc_cmd ec) @ put32 e (lc_cmdsize ec) @ put32 e (ec_cryptoff ec) @
     put32 e (ec_cryptsize ec) @ put32 e (ec_cryptid ec)"

definition swap_encryption_command :: "encryption_info_command \<Rightarrow> encryption_info_command" where
  "swap_encryption_command ec =
     ec\<lparr>lc_cmd := SWAP_INT (lc_cmd ec), lc_cmdsize := SWAP_INT (lc_cmdsize ec),
      ec_cryptoff := SWAP_INT (ec_cryptoff ec), ec_cryptsize := SWAP_INT (ec_cryptsize ec),
      ec_cryptid := SWAP_INT (ec_cryptid ec)\<rparr>"

lemmas encryption_info_command_codec = dec_encryption_info_command_def enc_encryption_info_command_def sizeof_encryption_info_command_def slice_simps byte_simps slice_join
  slice_all length_slice

interpretation encryption_info_command: endian_struct sizeof_encryption_info_command dec_encryption_info_command enc_encryption_info_command "\<lambda>_. True" swap_encryption_command
  by unfold_locales (simp_all add: encryption_info_command_codec swap_encryption_command_def)

section \<open>\<open>struct encryption_info_command_64\<close>\<close>

record encryption_info_command_64 = load_command +
  ec64_cryptoff :: u32
  ec64_cryptsize :: u32
  ec64_cryptid :: u32
  ec64_pad :: u32

definition sizeof_encryption_info_command_64 :: nat where
  "sizeof_encryption_info_command_64 = 24"

definition dec_encryption_info_command_64 :: "endian \<Rightarrow> bytes \<Rightarrow> encryption_info_command_64" where
  "dec_encryption_info_command_64 e bs =
     \<lparr>lc_cmd = get32 e bs 0, lc_cmdsize = get32 e bs 4, ec64_cryptoff = get32 e bs 8,
      ec64_cryptsize = get32 e bs 12, ec64_cryptid = get32 e bs 16, ec64_pad = get32 e bs 20\<rparr>"

definition enc_encryption_info_command_64 :: "endian \<Rightarrow> encryption_info_command_64 \<Rightarrow> bytes" where
  "enc_encryption_info_command_64 e ec =
     put32 e (lc_cmd ec) @ put32 e (lc_cmdsize ec) @ put32 e (ec64_cryptoff ec) @
     put32 e (ec64_cryptsize ec) @ put32 e (ec64_cryptid ec) @ put32 e (ec64_pad ec)"

definition swap_encryption_command_64 :: "encryption_info_command_64 \<Rightarrow> encryption_info_command_64" where
  "swap_encryption_command_64 ec =
     ec\<lparr>lc_cmd := SWAP_INT (lc_cmd ec), lc_cmdsize := SWAP_INT (lc_cmdsize ec),
      ec64_cryptoff := SWAP_INT (ec64_cryptoff ec),
      ec64_cryptsize := SWAP_INT (ec64_cryptsize ec),
      ec64_cryptid := SWAP_INT (ec64_cryptid ec), ec64_cryptid := SWAP_INT (ec64_pad ec)\<rparr>"

lemmas encryption_info_command_64_codec = dec_encryption_info_command_64_def enc_encryption_info_command_64_def sizeof_encryption_info_command_64_def slice_simps byte_simps slice_join
  slice_all length_slice

interpretation encryption_info_command_64: struct_codec sizeof_encryption_info_command_64 dec_encryption_info_command_64 enc_encryption_info_command_64 "\<lambda>_. True"
  by unfold_locales (simp_all add: encryption_info_command_64_codec)

text \<open>The last assignment stores the swapped \<open>pad\<close> in \<open>cryptid\<close>; \<open>pad\<close> itself is not swapped.\<close>

lemma swap_encryption_command_64_dec:
  "length bs = sizeof_encryption_info_command_64 \<Longrightarrow>
   swap_encryption_command_64 (dec_encryption_info_command_64 e bs) =
     (dec_encryption_info_command_64 (opp e) bs)
       \<lparr>ec64_cryptid := get32 (opp e) bs 20, ec64_pad := get32 e bs 20\<rparr>"
  by (simp add: encryption_info_command_64_codec swap_encryption_command_64_def)

section \<open>\<open>struct linker_option_command\<close>\<close>

record linker_option_command = load_command +
  lo_count :: u32

definition sizeof_linker_option_command :: nat where
  "sizeof_linker_option_command = 12"

definition dec_linker_option_command :: "endian \<Rightarrow> bytes \<Rightarrow> linker_option_command" where
  "dec_linker_option_command e bs =
     \<lparr>lc_cmd = get32 e bs 0, lc_cmdsize = get32 e bs 4, lo_count = get32 e bs 8\<rparr>"

definition enc_linker_option_command :: "endian \<Rightarrow> linker_option_command \<Rightarrow> bytes" where
  "enc_linker_option_command e lo =
     put32 e (lc_cmd lo) @ put32 e (lc_cmdsize lo) @ put32 e (lo_count lo)"

definition swap_linker_option_command :: "linker_option_command \<Rightarrow> linker_option_command" where
  "swap_linker_option_command lo =
     lo\<lparr>lc_cmd := SWAP_INT (lc_cmd lo), lc_cmdsize := SWAP_INT (lc_cmdsize lo),
      lo_count := SWAP_INT (lo_count lo)\<rparr>"

lemmas linker_option_command_codec = dec_linker_option_command_def enc_linker_option_command_def sizeof_linker_option_command_def slice_simps byte_simps slice_join
  slice_all length_slice

interpretation linker_option_command: endian_struct sizeof_linker_option_command dec_linker_option_command enc_linker_option_command "\<lambda>_. True" swap_linker_option_command
  by unfold_locales (simp_all add: linker_option_command_codec swap_linker_option_command_def)

section \<open>\<open>struct dyld_info_command\<close>\<close>

record dyld_info_command = load_command +
  dc_rebase_off :: u32
  dc_rebase_size :: u32
  dc_bind_off :: u32
  dc_bind_size :: u32
  dc_weak_bind_off :: u32
  dc_weak_bind_size :: u32
  dc_lazy_bind_off :: u32
  dc_lazy_bind_size :: u32
  dc_export_off :: u32
  dc_export_size :: u32

definition sizeof_dyld_info_command :: nat where
  "sizeof_dyld_info_command = 48"

definition dec_dyld_info_command :: "endian \<Rightarrow> bytes \<Rightarrow> dyld_info_command" where
  "dec_dyld_info_command e bs =
     \<lparr>lc_cmd = get32 e bs 0, lc_cmdsize = get32 e bs 4, dc_rebase_off = get32 e bs 8,
      dc_rebase_size = get32 e bs 12, dc_bind_off = get32 e bs 16,
      dc_bind_size = get32 e bs 20, dc_weak_bind_off = get32 e bs 24,
      dc_weak_bind_size = get32 e bs 28, dc_lazy_bind_off = get32 e bs 32,
      dc_lazy_bind_size = get32 e bs 36, dc_export_off = get32 e bs 40,
      dc_export_size = get32 e bs 44\<rparr>"

definition enc_dyld_info_command :: "endian \<Rightarrow> dyld_info_command \<Rightarrow> bytes" where
  "enc_dyld_info_command e dc =
     put32 e (lc_cmd dc) @ put32 e (lc_cmdsize dc) @ put32 e (dc_rebase_off dc) @
     put32 e (dc_rebase_size dc) @ put32 e (dc_bind_off dc) @ put32 e (dc_bind_size dc) @
     put32 e (dc_weak_bind_off dc) @ put32 e (dc_weak_bind_size dc) @
     put32 e (dc_lazy_bind_off dc) @ put32 e (dc_lazy_bind_size dc) @
     put32 e (dc_export_off dc) @ put32 e (dc_export_size dc)"

definition swap_dyld_info_command :: "dyld_info_command \<Rightarrow> dyld_info_command" where
  "swap_dyld_info_command dc =
     dc\<lparr>lc_cmd := SWAP_INT (lc_cmd dc), lc_cmdsize := SWAP_INT (lc_cmdsize dc),
      dc_rebase_off := SWAP_INT (dc_rebase_off dc),
      dc_rebase_size := SWAP_INT (dc_rebase_size dc), dc_bind_off := SWAP_INT (dc_bind_off dc),
      dc_bind_size := SWAP_INT (dc_bind_size dc),
      dc_weak_bind_off := SWAP_INT (dc_weak_bind_off dc),
      dc_weak_bind_size := SWAP_INT (dc_weak_bind_size dc),
      dc_lazy_bind_off := SWAP_INT (dc_lazy_bind_off dc),
      dc_lazy_bind_size := SWAP_INT (dc_lazy_bind_size dc),
      dc_export_off := SWAP_INT (dc_export_off dc),
      dc_export_size := SWAP_INT (dc_export_size dc)\<rparr>"

lemmas dyld_info_command_codec = dec_dyld_info_command_def enc_dyld_info_command_def sizeof_dyld_info_command_def slice_simps byte_simps slice_join
  slice_all length_slice

interpretation dyld_info_command: endian_struct sizeof_dyld_info_command dec_dyld_info_command enc_dyld_info_command "\<lambda>_. True" swap_dyld_info_command
  by unfold_locales (simp_all add: dyld_info_command_codec swap_dyld_info_command_def)

section \<open>\<open>struct entry_point_command\<close>\<close>

record entry_point_command = load_command +
  ep_entryoff :: u64
  ep_stacksize :: u64

definition sizeof_entry_point_command :: nat where
  "sizeof_entry_point_command = 24"

definition dec_entry_point_command :: "endian \<Rightarrow> bytes \<Rightarrow> entry_point_command" where
  "dec_entry_point_command e bs =
     \<lparr>lc_cmd = get32 e bs 0, lc_cmdsize = get32 e bs 4, ep_entryoff = get64 e bs 8,
      ep_stacksize = get64 e bs 16\<rparr>"

definition enc_entry_point_command :: "endian \<Rightarrow> entry_point_command \<Rightarrow> bytes" where
  "enc_entry_point_command e ep =
     put32 e (lc_cmd ep) @ put32 e (lc_cmdsize ep) @ put64 e (ep_entryoff ep) @
     put64 e (ep_stacksize ep)"

definition swap_entry_point_command :: "entry_point_command \<Rightarrow> entry_point_command" where
  "swap_entry_point_command ep =
     ep\<lparr>lc_cmd := SWAP_INT (lc_cmd ep), lc_cmdsize := SWAP_INT (lc_cmdsize ep),
      ep_entryoff := SWAP_LONG_LONG (ep_entryoff ep),
      ep_stacksize := SWAP_LONG_LONG (ep_stacksize ep)\<rparr>"

lemmas entry_point_command_codec = dec_entry_point_command_def enc_entry_point_command_def sizeof_entry_point_command_def slice_simps byte_simps slice_join
  slice_all length_slice

interpretation entry_point_command: endian_struct sizeof_entry_point_command dec_entry_point_command enc_entry_point_command "\<lambda>_. True" swap_entry_point_command
  by unfold_locales (simp_all add: entry_point_command_codec swap_entry_point_command_def)

section \<open>\<open>struct source_version_command\<close>\<close>

record source_version_command = load_command +
  sv_version :: u64

definition sizeof_source_version_command :: nat where
  "sizeof_source_version_command = 16"

definition dec_source_version_command :: "endian \<Rightarrow> bytes \<Rightarrow> source_version_command" where
  "dec_source_version_command e bs =
     \<lparr>lc_cmd = get32 e bs 0, lc_cmdsize = get32 e bs 4, sv_version = get64 e bs 8\<rparr>"

definition enc_source_version_command :: "endian \<Rightarrow> source_version_command \<Rightarrow> bytes" where
  "enc_source_version_command e sv =
     put32 e (lc_cmd sv) @ put32 e (lc_cmdsize sv) @ put64 e (sv_version sv)"

definition swap_source_version_command :: "source_version_command \<Rightarrow> source_version_command" where
  "swap_source_version_command sv =
     sv\<lparr>lc_cmd := SWAP_INT (lc_cmd sv), lc_cmdsize := SWAP_INT (lc_cmdsize sv),
      sv_version := SWAP_LONG_LONG (sv_version sv)\<rparr>"

lemmas source_version_command_codec = dec_source_version_command_def enc_source_version_command_def sizeof_source_version_command_def slice_simps byte_simps slice_join
  slice_all length_slice

interpretation source_version_command: endian_struct sizeof_source_version_command dec_source_version_command enc_source_version_command "\<lambda>_. True" swap_source_version_command
  by unfold_locales (simp_all add: source_version_command_codec swap_source_version_command_def)

section \<open>\<open>struct note_command\<close>\<close>

record note_command = load_command +
  nc_data_owner :: bytes
  nc_offset :: u64
  nc_size :: u64

definition sizeof_note_command :: nat where
  "sizeof_note_command = 40"

definition dec_note_command :: "endian \<Rightarrow> bytes \<Rightarrow> note_command" where
  "dec_note_command e bs =
     \<lparr>lc_cmd = get32 e bs 0, lc_cmdsize = get32 e bs 4, nc_data_owner = slice 8 16 bs,
      nc_offset = get64 e bs 24, nc_size = get64 e bs 32\<rparr>"

definition enc_note_command :: "endian \<Rightarrow> note_command \<Rightarrow> bytes" where
  "enc_note_command e nc =
     put32 e (lc_cmd nc) @ put32 e (lc_cmdsize nc) @ nc_data_owner nc @
     put64 e (nc_offset nc) @ put64 e (nc_size nc)"

definition wf_note_command :: "note_command \<Rightarrow> bool" where
  "wf_note_command nc \<longleftrightarrow> length (nc_data_owner nc) = 16"

definition swap_note_command :: "note_command \<Rightarrow> note_command" where
  "swap_note_command nc =
     nc\<lparr>lc_cmd := SWAP_INT (lc_cmd nc), lc_cmdsize := SWAP_INT (lc_cmdsize nc),
      nc_offset := SWAP_LONG_LONG (nc_offset nc), nc_size := SWAP_LONG_LONG (nc_size nc)\<rparr>"

lemmas note_command_codec = dec_note_command_def enc_note_command_def sizeof_note_command_def wf_note_command_def slice_simps byte_simps slice_join
  slice_all length_slice

interpretation note_command: endian_struct sizeof_note_command dec_note_command enc_note_command wf_note_command swap_note_command
  by unfold_locales (simp_all add: note_command_codec swap_note_command_def)

section \<open>\<open>struct fileset_entry_command\<close>\<close>

record fileset_entry_command = load_command +
  fse_vmaddr :: u64
  fse_fileoff :: u64
  fse_entry_id_offset :: u32
  fse_reserved :: u32

definition sizeof_fileset_entry_command :: nat where
  "sizeof_fileset_entry_command = 32"

definition dec_fileset_entry_command :: "endian \<Rightarrow> bytes \<Rightarrow> fileset_entry_command" where
  "dec_fileset_entry_command e bs =
     \<lparr>lc_cmd = get32 e bs 0, lc_cmdsize = get32 e bs 4, fse_vmaddr = get64 e bs 8,
      fse_fileoff = get64 e bs 16, fse_entry_id_offset = get32 e bs 24,
      fse_reserved = get32 e bs 28\<rparr>"

definition enc_fileset_entry_command :: "endian \<Rightarrow> fileset_entry_command \<Rightarrow> bytes" where
  "enc_fileset_entry_command e fse =
     put32 e (lc_cmd fse) @ put32 e (lc_cmdsize fse) @ put64 e (fse_vmaddr fse) @
     put64 e (fse_fileoff fse) @ put32 e (fse_entry_id_offset fse) @ put32 e (fse_reserved fse)"

definition swap_fileset_entry_command :: "fileset_entry_command \<Rightarrow> fileset_entry_command" where
  "swap_fileset_entry_command fse =
     fse\<lparr>lc_cmd := SWAP_INT (lc_cmd fse), lc_cmdsize := SWAP_INT (lc_cmdsize fse),
      fse_vmaddr := SWAP_LONG_LONG (fse_vmaddr fse),
      fse_fileoff := SWAP_LONG_LONG (fse_fileoff fse),
      fse_entry_id_offset := SWAP_INT (fse_entry_id_offset fse),
      fse_reserved := SWAP_INT (fse_reserved fse)\<rparr>"

lemmas fileset_entry_command_codec = dec_fileset_entry_command_def enc_fileset_entry_command_def sizeof_fileset_entry_command_def slice_simps byte_simps slice_join
  slice_all length_slice

interpretation fileset_entry_command: endian_struct sizeof_fileset_entry_command dec_fileset_entry_command enc_fileset_entry_command "\<lambda>_. True" swap_fileset_entry_command
  by unfold_locales (simp_all add: fileset_entry_command_codec swap_fileset_entry_command_def)

end
