(* ===== verification/MachO_Tables.thy ===== *)
theory MachO_Tables
  imports MachO_Headers
begin

text \<open>
  The tables an object file or an archive carries: sections, symbols, archive symbol tables,
  dylib tables of contents and modules, data in code entries, and the xar header, with their swap
  routines from \<^verbatim>\<open>cctools/libstuff/bytesex.c\<close>.
\<close>

section \<open>\<open>struct section\<close>\<close>

record section32 =
  s_sectname :: bytes
  s_segname :: bytes
  s_addr :: u32
  s_size :: u32
  s_offset :: u32
  s_align :: u32
  s_reloff :: u32
  s_nreloc :: u32
  s_flags :: u32
  s_reserved1 :: u32
  s_reserved2 :: u32

definition sizeof_section :: nat where
  "sizeof_section = 68"

definition dec_section :: "endian \<Rightarrow> bytes \<Rightarrow> section32" where
  "dec_section e bs =
     \<lparr>s_sectname = slice 0 16 bs, s_segname = slice 16 16 bs, s_addr = get32 e bs 32,
      s_size = get32 e bs 36, s_offset = get32 e bs 40, s_align = get32 e bs 44,
      s_reloff = get32 e bs 48, s_nreloc = get32 e bs 52, s_flags = get32 e bs 56,
      s_reserved1 = get32 e bs 60, s_reserved2 = get32 e bs 64\<rparr>"

definition enc_section :: "endian \<Rightarrow> section32 \<Rightarrow> bytes" where
  "enc_section e s =
     s_sectname s @ s_segname s @ put32 e (s_addr s) @ put32 e (s_size s) @
     put32 e (s_offset s) @ put32 e (s_align s) @ put32 e (s_reloff s) @ put32 e (s_nreloc s) @
     put32 e (s_flags s) @ put32 e (s_reserved1 s) @ put32 e (s_reserved2 s)"

definition wf_section :: "section32 \<Rightarrow> bool" where
  "wf_section s \<longleftrightarrow> length (s_sectname s) = 16 \<and> length (s_segname s) = 16"

definition swap_section_elem :: "section32 \<Rightarrow> section32" where
  "swap_section_elem s =
     s\<lparr>s_addr := SWAP_INT (s_addr s), s_size := SWAP_INT (s_size s),
      s_offset := SWAP_INT (s_offset s), s_align := SWAP_INT (s_align s),
      s_reloff := SWAP_INT (s_reloff s), s_nreloc := SWAP_INT (s_nreloc s),
      s_flags := SWAP_INT (s_flags s), s_reserved1 := SWAP_INT (s_reserved1 s),
      s_reserved2 := SWAP_INT (s_reserved2 s)\<rparr>"

definition swap_section :: "section32 list \<Rightarrow> nat \<Rightarrow> section32 list" where
  "swap_section xs n = map swap_section_elem (take n xs) @ drop n xs"

lemmas section_codec = dec_section_def enc_section_def sizeof_section_def wf_section_def slice_simps byte_simps slice_join
  slice_all length_slice

interpretation section32: endian_struct sizeof_section dec_section enc_section wf_section swap_section_elem
  by unfold_locales (simp_all add: section_codec swap_section_elem_def)

section \<open>\<open>struct section_64\<close>\<close>

record section_64 =
  s64_sectname :: bytes
  s64_segname :: bytes
  s64_addr :: u64
  s64_size :: u64
  s64_offset :: u32
  s64_align :: u32
  s64_reloff :: u32
  s64_nreloc :: u32
  s64_flags :: u32
  s64_reserved1 :: u32
  s64_reserved2 :: u32
  s64_reserved3 :: u32

definition sizeof_section_64 :: nat where
  "sizeof_section_64 = 80"

definition dec_section_64 :: "endian \<Rightarrow> bytes \<Rightarrow> section_64" where
  "dec_section_64 e bs =
     \<lparr>s64_sectname = slice 0 16 bs, s64_segname = slice 16 16 bs, s64_addr = get64 e bs 32,
      s64_size = get64 e bs 40, s64_offset = get32 e bs 48, s64_align = get32 e bs 52,
      s64_reloff = get32 e bs 56, s64_nreloc = get32 e bs 60, s64_flags = get32 e bs 64,
      s64_reserved1 = get32 e bs 68, s64_reserved2 = get32 e bs 72,
      s64_reserved3 = get32 e bs 76\<rparr>"

definition enc_section_64 :: "endian \<Rightarrow> section_64 \<Rightarrow> bytes" where
  "enc_section_64 e s =
     s64_sectname s @ s64_segname s @ put64 e (s64_addr s) @ put64 e (s64_size s) @
     put32 e (s64_offset s) @ put32 e (s64_align s) @ put32 e (s64_reloff s) @
     put32 e (s64_nreloc s) @ put32 e (s64_flags s) @ put32 e (s64_reserved1 s) @
     put32 e (s64_reserved2 s) @ put32 e (s64_reserved3 s)"

definition wf_section_64 :: "section_64 \<Rightarrow> bool" where
  "wf_section_64 s \<longleftrightarrow> length (s64_sectname s) = 16 \<and> length (s64_segname s) = 16"

definition swap_section_64_elem :: "section_64 \<Rightarrow> section_64" where
  "swap_section_64_elem s =
     s\<lparr>s64_addr := SWAP_LONG_LONG (s64_addr s), s64_size := SWAP_LONG_LONG (s64_size s),
      s64_offset := SWAP_INT (s64_offset s), s64_align := SWAP_INT (s64_align s),
      s64_reloff := SWAP_INT (s64_reloff s), s64_nreloc := SWAP_INT (s64_nreloc s),
      s64_flags := SWAP_INT (s64_flags s), s64_reserved1 := SWAP_INT (s64_reserved1 s),
      s64_reserved2 := SWAP_INT (s64_reserved2 s)\<rparr>"

definition swap_section_64 :: "section_64 list \<Rightarrow> nat \<Rightarrow> section_64 list" where
  "swap_section_64 xs n = map swap_section_64_elem (take n xs) @ drop n xs"

lemmas section_64_codec = dec_section_64_def enc_section_64_def sizeof_section_64_def wf_section_64_def slice_simps byte_simps slice_join
  slice_all length_slice

interpretation section_64: struct_codec sizeof_section_64 dec_section_64 enc_section_64 wf_section_64
  by unfold_locales (simp_all add: section_64_codec)

text \<open>The routine leaves the field \<open>reserved3\<close> as it is.\<close>

lemma swap_section_64_elem_dec:
  "length bs = sizeof_section_64 \<Longrightarrow>
   swap_section_64_elem (dec_section_64 e bs) =
     (dec_section_64 (opp e) bs)\<lparr>s64_reserved3 := get32 e bs 76\<rparr>"
  by (simp add: section_64_codec swap_section_64_elem_def)

section \<open>\<open>struct build_tool_version\<close>\<close>

record build_tool_version =
  btv_tool :: u32
  btv_version :: u32

definition sizeof_build_tool_version :: nat where
  "sizeof_build_tool_version = 8"

definition dec_build_tool_version :: "endian \<Rightarrow> bytes \<Rightarrow> build_tool_version" where
  "dec_build_tool_version e bs =
     \<lparr>btv_tool = get32 e bs 0, btv_version = get32 e bs 4\<rparr>"

definition enc_build_tool_version :: "endian \<Rightarrow> build_tool_version \<Rightarrow> bytes" where
  "enc_build_tool_version e btv =
     put32 e (btv_tool btv) @ put32 e (btv_version btv)"

definition swap_build_tool_version_elem :: "build_tool_version \<Rightarrow> build_tool_version" where
  "swap_build_tool_version_elem btv =
     btv\<lparr>btv_tool := SWAP_INT (btv_tool btv), btv_version := SWAP_INT (btv_version btv)\<rparr>"

definition swap_build_tool_version :: "build_tool_version list \<Rightarrow> nat \<Rightarrow> build_tool_version list" where
  "swap_build_tool_version xs n = map swap_build_tool_version_elem (take n xs) @ drop n xs"

lemmas build_tool_version_codec = dec_build_tool_version_def enc_build_tool_version_def sizeof_build_tool_version_def slice_simps byte_simps slice_join
  slice_all length_slice

interpretation build_tool_version: endian_struct sizeof_build_tool_version dec_build_tool_version enc_build_tool_version "\<lambda>_. True" swap_build_tool_version_elem
  by unfold_locales (simp_all add: build_tool_version_codec swap_build_tool_version_elem_def)

section \<open>\<open>struct data_in_code_entry\<close>\<close>

record data_in_code_entry =
  dice_offset :: u32
  dice_length :: u16
  dice_kind :: u16

definition sizeof_data_in_code_entry :: nat where
  "sizeof_data_in_code_entry = 8"

definition dec_data_in_code_entry :: "endian \<Rightarrow> bytes \<Rightarrow> data_in_code_entry" where
  "dec_data_in_code_entry e bs =
     \<lparr>dice_offset = get32 e bs 0, dice_length = get16 e bs 4, dice_kind = get16 e bs 6\<rparr>"

definition enc_data_in_code_entry :: "endian \<Rightarrow> data_in_code_entry \<Rightarrow> bytes" where
  "enc_data_in_code_entry e dice =
     put32 e (dice_offset dice) @ put16 e (dice_length dice) @ put16 e (dice_kind dice)"

definition swap_data_in_code_entry_elem :: "data_in_code_entry \<Rightarrow> data_in_code_entry" where
  "swap_data_in_code_entry_elem dice =
     dice\<lparr>dice_offset := SWAP_INT (dice_offset dice),
      dice_length := ucast (SWAP_INT (ucast (dice_length dice))),
      dice_kind := ucast (SWAP_INT (ucast (dice_kind dice)))\<rparr>"

definition swap_data_in_code_entry :: "data_in_code_entry list \<Rightarrow> nat \<Rightarrow> data_in_code_entry list" where
  "swap_data_in_code_entry xs n = map swap_data_in_code_entry_elem (take n xs) @ drop n xs"

lemmas data_in_code_entry_codec = dec_data_in_code_entry_def enc_data_in_code_entry_def sizeof_data_in_code_entry_def slice_simps byte_simps slice_join
  slice_all length_slice

interpretation data_in_code_entry: struct_codec sizeof_data_in_code_entry dec_data_in_code_entry enc_data_in_code_entry "\<lambda>_. True"
  by unfold_locales (simp_all add: data_in_code_entry_codec)

text \<open>The 16 bit fields are promoted to \<open>int\<close>, swapped as 32 bits and truncated, which leaves the two
  bytes that were zero.\<close>

lemma swap_data_in_code_entry_elem_dec:
  "length bs = sizeof_data_in_code_entry \<Longrightarrow>
   swap_data_in_code_entry_elem (dec_data_in_code_entry e bs) =
     (dec_data_in_code_entry (opp e) bs)\<lparr>dice_length := 0, dice_kind := 0\<rparr>"
  by (simp add: data_in_code_entry_codec swap_data_in_code_entry_elem_def)

section \<open>\<open>struct nlist\<close>\<close>

record nlist =
  n_un_n_strx :: u32
  n_type :: u8
  n_sect :: u8
  n_desc :: u16
  n_value :: u32

definition sizeof_nlist :: nat where
  "sizeof_nlist = 12"

definition dec_nlist :: "endian \<Rightarrow> bytes \<Rightarrow> nlist" where
  "dec_nlist e bs =
     \<lparr>n_un_n_strx = get32 e bs 0, n_type = get8 e bs 4, n_sect = get8 e bs 5,
      n_desc = get16 e bs 6, n_value = get32 e bs 8\<rparr>"

definition enc_nlist :: "endian \<Rightarrow> nlist \<Rightarrow> bytes" where
  "enc_nlist e s =
     put32 e (n_un_n_strx s) @ put8 e (n_type s) @ put8 e (n_sect s) @ put16 e (n_desc s) @
     put32 e (n_value s)"

definition swap_nlist_elem :: "nlist \<Rightarrow> nlist" where
  "swap_nlist_elem s =
     s\<lparr>n_un_n_strx := SWAP_INT (n_un_n_strx s), n_desc := SWAP_SHORT (n_desc s),
      n_value := SWAP_INT (n_value s)\<rparr>"

definition swap_nlist :: "nlist list \<Rightarrow> nat \<Rightarrow> nlist list" where
  "swap_nlist xs n = map swap_nlist_elem (take n xs) @ drop n xs"

lemmas nlist_codec = dec_nlist_def enc_nlist_def sizeof_nlist_def slice_simps byte_simps slice_join
  slice_all length_slice

interpretation nlist: endian_struct sizeof_nlist dec_nlist enc_nlist "\<lambda>_. True" swap_nlist_elem
  by unfold_locales (simp_all add: nlist_codec swap_nlist_elem_def)

section \<open>\<open>struct nlist_64\<close>\<close>

record nlist_64 =
  n64_n_un_n_strx :: u32
  n64_n_type :: u8
  n64_n_sect :: u8
  n64_n_desc :: u16
  n64_n_value :: u64

definition sizeof_nlist_64 :: nat where
  "sizeof_nlist_64 = 16"

definition dec_nlist_64 :: "endian \<Rightarrow> bytes \<Rightarrow> nlist_64" where
  "dec_nlist_64 e bs =
     \<lparr>n64_n_un_n_strx = get32 e bs 0, n64_n_type = get8 e bs 4, n64_n_sect = get8 e bs 5,
      n64_n_desc = get16 e bs 6, n64_n_value = get64 e bs 8\<rparr>"

definition enc_nlist_64 :: "endian \<Rightarrow> nlist_64 \<Rightarrow> bytes" where
  "enc_nlist_64 e s =
     put32 e (n64_n_un_n_strx s) @ put8 e (n64_n_type s) @ put8 e (n64_n_sect s) @
     put16 e (n64_n_desc s) @ put64 e (n64_n_value s)"

definition swap_nlist_64_elem :: "nlist_64 \<Rightarrow> nlist_64" where
  "swap_nlist_64_elem s =
     s\<lparr>n64_n_un_n_strx := SWAP_INT (n64_n_un_n_strx s), n64_n_desc := SWAP_SHORT (n64_n_desc s),
      n64_n_value := SWAP_LONG_LONG (n64_n_value s)\<rparr>"

definition swap_nlist_64 :: "nlist_64 list \<Rightarrow> nat \<Rightarrow> nlist_64 list" where
  "swap_nlist_64 xs n = map swap_nlist_64_elem (take n xs) @ drop n xs"

lemmas nlist_64_codec = dec_nlist_64_def enc_nlist_64_def sizeof_nlist_64_def slice_simps byte_simps slice_join
  slice_all length_slice

interpretation nlist_64: endian_struct sizeof_nlist_64 dec_nlist_64 enc_nlist_64 "\<lambda>_. True" swap_nlist_64_elem
  by unfold_locales (simp_all add: nlist_64_codec swap_nlist_64_elem_def)

section \<open>\<open>struct ranlib\<close>\<close>

record ranlib =
  ran_un_ran_strx :: u32
  ran_off :: u32

definition sizeof_ranlib :: nat where
  "sizeof_ranlib = 8"

definition dec_ranlib :: "endian \<Rightarrow> bytes \<Rightarrow> ranlib" where
  "dec_ranlib e bs =
     \<lparr>ran_un_ran_strx = get32 e bs 0, ran_off = get32 e bs 4\<rparr>"

definition enc_ranlib :: "endian \<Rightarrow> ranlib \<Rightarrow> bytes" where
  "enc_ranlib e r =
     put32 e (ran_un_ran_strx r) @ put32 e (ran_off r)"

definition swap_ranlib_elem :: "ranlib \<Rightarrow> ranlib" where
  "swap_ranlib_elem r =
     r\<lparr>ran_un_ran_strx := SWAP_INT (ran_un_ran_strx r), ran_off := SWAP_INT (ran_off r)\<rparr>"

definition swap_ranlib :: "ranlib list \<Rightarrow> nat \<Rightarrow> ranlib list" where
  "swap_ranlib xs n = map swap_ranlib_elem (take n xs) @ drop n xs"

lemmas ranlib_codec = dec_ranlib_def enc_ranlib_def sizeof_ranlib_def slice_simps byte_simps slice_join
  slice_all length_slice

interpretation ranlib: endian_struct sizeof_ranlib dec_ranlib enc_ranlib "\<lambda>_. True" swap_ranlib_elem
  by unfold_locales (simp_all add: ranlib_codec swap_ranlib_elem_def)

section \<open>\<open>struct ranlib_64\<close>\<close>

record ranlib_64 =
  r64_ran_un_ran_strx :: u64
  r64_ran_off :: u64

definition sizeof_ranlib_64 :: nat where
  "sizeof_ranlib_64 = 16"

definition dec_ranlib_64 :: "endian \<Rightarrow> bytes \<Rightarrow> ranlib_64" where
  "dec_ranlib_64 e bs =
     \<lparr>r64_ran_un_ran_strx = get64 e bs 0, r64_ran_off = get64 e bs 8\<rparr>"

definition enc_ranlib_64 :: "endian \<Rightarrow> ranlib_64 \<Rightarrow> bytes" where
  "enc_ranlib_64 e r =
     put64 e (r64_ran_un_ran_strx r) @ put64 e (r64_ran_off r)"

definition swap_ranlib_64_elem :: "ranlib_64 \<Rightarrow> ranlib_64" where
  "swap_ranlib_64_elem r =
     r\<lparr>r64_ran_un_ran_strx := SWAP_LONG_LONG (r64_ran_un_ran_strx r),
      r64_ran_off := SWAP_LONG_LONG (r64_ran_off r)\<rparr>"

definition swap_ranlib_64 :: "ranlib_64 list \<Rightarrow> nat \<Rightarrow> ranlib_64 list" where
  "swap_ranlib_64 xs n = map swap_ranlib_64_elem (take n xs) @ drop n xs"

lemmas ranlib_64_codec = dec_ranlib_64_def enc_ranlib_64_def sizeof_ranlib_64_def slice_simps byte_simps slice_join
  slice_all length_slice

interpretation ranlib_64: endian_struct sizeof_ranlib_64 dec_ranlib_64 enc_ranlib_64 "\<lambda>_. True" swap_ranlib_64_elem
  by unfold_locales (simp_all add: ranlib_64_codec swap_ranlib_64_elem_def)

section \<open>\<open>struct dylib_table_of_contents\<close>\<close>

record dylib_table_of_contents =
  toc_symbol_index :: u32
  toc_module_index :: u32

definition sizeof_dylib_table_of_contents :: nat where
  "sizeof_dylib_table_of_contents = 8"

definition dec_dylib_table_of_contents :: "endian \<Rightarrow> bytes \<Rightarrow> dylib_table_of_contents" where
  "dec_dylib_table_of_contents e bs =
     \<lparr>toc_symbol_index = get32 e bs 0, toc_module_index = get32 e bs 4\<rparr>"

definition enc_dylib_table_of_contents :: "endian \<Rightarrow> dylib_table_of_contents \<Rightarrow> bytes" where
  "enc_dylib_table_of_contents e toc =
     put32 e (toc_symbol_index toc) @ put32 e (toc_module_index toc)"

definition swap_dylib_table_of_contents_elem :: "dylib_table_of_contents \<Rightarrow> dylib_table_of_contents" where
  "swap_dylib_table_of_contents_elem toc =
     toc\<lparr>toc_symbol_index := SWAP_INT (toc_symbol_index toc),
      toc_module_index := SWAP_INT (toc_module_index toc)\<rparr>"

definition swap_dylib_table_of_contents :: "dylib_table_of_contents list \<Rightarrow> nat \<Rightarrow> dylib_table_of_contents list" where
  "swap_dylib_table_of_contents xs n = map swap_dylib_table_of_contents_elem (take n xs) @ drop n xs"

lemmas dylib_table_of_contents_codec = dec_dylib_table_of_contents_def enc_dylib_table_of_contents_def sizeof_dylib_table_of_contents_def slice_simps byte_simps slice_join
  slice_all length_slice

interpretation dylib_table_of_contents: endian_struct sizeof_dylib_table_of_contents dec_dylib_table_of_contents enc_dylib_table_of_contents "\<lambda>_. True" swap_dylib_table_of_contents_elem
  by unfold_locales (simp_all add: dylib_table_of_contents_codec swap_dylib_table_of_contents_elem_def)

section \<open>\<open>struct dylib_module\<close>\<close>

record dylib_module =
  mod_module_name :: u32
  mod_iextdefsym :: u32
  mod_nextdefsym :: u32
  mod_irefsym :: u32
  mod_nrefsym :: u32
  mod_ilocalsym :: u32
  mod_nlocalsym :: u32
  mod_iextrel :: u32
  mod_nextrel :: u32
  mod_iinit_iterm :: u32
  mod_ninit_nterm :: u32
  mod_objc_module_info_addr :: u32
  mod_objc_module_info_size :: u32

definition sizeof_dylib_module :: nat where
  "sizeof_dylib_module = 52"

definition dec_dylib_module :: "endian \<Rightarrow> bytes \<Rightarrow> dylib_module" where
  "dec_dylib_module e bs =
     \<lparr>mod_module_name = get32 e bs 0, mod_iextdefsym = get32 e bs 4,
      mod_nextdefsym = get32 e bs 8, mod_irefsym = get32 e bs 12, mod_nrefsym = get32 e bs 16,
      mod_ilocalsym = get32 e bs 20, mod_nlocalsym = get32 e bs 24,
      mod_iextrel = get32 e bs 28, mod_nextrel = get32 e bs 32,
      mod_iinit_iterm = get32 e bs 36, mod_ninit_nterm = get32 e bs 40,
      mod_objc_module_info_addr = get32 e bs 44, mod_objc_module_info_size = get32 e bs 48\<rparr>"

definition enc_dylib_module :: "endian \<Rightarrow> dylib_module \<Rightarrow> bytes" where
  "enc_dylib_module e m =
     put32 e (mod_module_name m) @ put32 e (mod_iextdefsym m) @ put32 e (mod_nextdefsym m) @
     put32 e (mod_irefsym m) @ put32 e (mod_nrefsym m) @ put32 e (mod_ilocalsym m) @
     put32 e (mod_nlocalsym m) @ put32 e (mod_iextrel m) @ put32 e (mod_nextrel m) @
     put32 e (mod_iinit_iterm m) @ put32 e (mod_ninit_nterm m) @
     put32 e (mod_objc_module_info_addr m) @ put32 e (mod_objc_module_info_size m)"

definition swap_dylib_module_elem :: "dylib_module \<Rightarrow> dylib_module" where
  "swap_dylib_module_elem m =
     m\<lparr>mod_module_name := SWAP_INT (mod_module_name m),
      mod_iextdefsym := SWAP_INT (mod_iextdefsym m),
      mod_nextdefsym := SWAP_INT (mod_nextdefsym m), mod_irefsym := SWAP_INT (mod_irefsym m),
      mod_nrefsym := SWAP_INT (mod_nrefsym m), mod_ilocalsym := SWAP_INT (mod_ilocalsym m),
      mod_nlocalsym := SWAP_INT (mod_nlocalsym m), mod_iextrel := SWAP_INT (mod_iextrel m),
      mod_nextrel := SWAP_INT (mod_nextrel m), mod_iinit_iterm := SWAP_INT (mod_iinit_iterm m),
      mod_ninit_nterm := SWAP_INT (mod_ninit_nterm m),
      mod_objc_module_info_addr := SWAP_INT (mod_objc_module_info_addr m),
      mod_objc_module_info_size := SWAP_INT (mod_objc_module_info_size m)\<rparr>"

definition swap_dylib_module :: "dylib_module list \<Rightarrow> nat \<Rightarrow> dylib_module list" where
  "swap_dylib_module xs n = map swap_dylib_module_elem (take n xs) @ drop n xs"

lemmas dylib_module_codec = dec_dylib_module_def enc_dylib_module_def sizeof_dylib_module_def slice_simps byte_simps slice_join
  slice_all length_slice

interpretation dylib_module: endian_struct sizeof_dylib_module dec_dylib_module enc_dylib_module "\<lambda>_. True" swap_dylib_module_elem
  by unfold_locales (simp_all add: dylib_module_codec swap_dylib_module_elem_def)

section \<open>\<open>struct dylib_module_64\<close>\<close>

record dylib_module_64 =
  mod64_module_name :: u32
  mod64_iextdefsym :: u32
  mod64_nextdefsym :: u32
  mod64_irefsym :: u32
  mod64_nrefsym :: u32
  mod64_ilocalsym :: u32
  mod64_nlocalsym :: u32
  mod64_iextrel :: u32
  mod64_nextrel :: u32
  mod64_iinit_iterm :: u32
  mod64_ninit_nterm :: u32
  mod64_objc_module_info_size :: u32
  mod64_objc_module_info_addr :: u64

definition sizeof_dylib_module_64 :: nat where
  "sizeof_dylib_module_64 = 56"

definition dec_dylib_module_64 :: "endian \<Rightarrow> bytes \<Rightarrow> dylib_module_64" where
  "dec_dylib_module_64 e bs =
     \<lparr>mod64_module_name = get32 e bs 0, mod64_iextdefsym = get32 e bs 4,
      mod64_nextdefsym = get32 e bs 8, mod64_irefsym = get32 e bs 12,
      mod64_nrefsym = get32 e bs 16, mod64_ilocalsym = get32 e bs 20,
      mod64_nlocalsym = get32 e bs 24, mod64_iextrel = get32 e bs 28,
      mod64_nextrel = get32 e bs 32, mod64_iinit_iterm = get32 e bs 36,
      mod64_ninit_nterm = get32 e bs 40, mod64_objc_module_info_size = get32 e bs 44,
      mod64_objc_module_info_addr = get64 e bs 48\<rparr>"

definition enc_dylib_module_64 :: "endian \<Rightarrow> dylib_module_64 \<Rightarrow> bytes" where
  "enc_dylib_module_64 e m =
     put32 e (mod64_module_name m) @ put32 e (mod64_iextdefsym m) @
     put32 e (mod64_nextdefsym m) @ put32 e (mod64_irefsym m) @ put32 e (mod64_nrefsym m) @
     put32 e (mod64_ilocalsym m) @ put32 e (mod64_nlocalsym m) @ put32 e (mod64_iextrel m) @
     put32 e (mod64_nextrel m) @ put32 e (mod64_iinit_iterm m) @
     put32 e (mod64_ninit_nterm m) @ put32 e (mod64_objc_module_info_size m) @
     put64 e (mod64_objc_module_info_addr m)"

definition swap_dylib_module_64_elem :: "dylib_module_64 \<Rightarrow> dylib_module_64" where
  "swap_dylib_module_64_elem m =
     m\<lparr>mod64_module_name := SWAP_INT (mod64_module_name m),
      mod64_iextdefsym := SWAP_INT (mod64_iextdefsym m),
      mod64_nextdefsym := SWAP_INT (mod64_nextdefsym m),
      mod64_irefsym := SWAP_INT (mod64_irefsym m), mod64_nrefsym := SWAP_INT (mod64_nrefsym m),
      mod64_ilocalsym := SWAP_INT (mod64_ilocalsym m),
      mod64_nlocalsym := SWAP_INT (mod64_nlocalsym m),
      mod64_iextrel := SWAP_INT (mod64_iextrel m), mod64_nextrel := SWAP_INT (mod64_nextrel m),
      mod64_iinit_iterm := SWAP_INT (mod64_iinit_iterm m),
      mod64_ninit_nterm := SWAP_INT (mod64_ninit_nterm m),
      mod64_objc_module_info_addr := SWAP_LONG_LONG (mod64_objc_module_info_addr m),
      mod64_objc_module_info_size := SWAP_INT (mod64_objc_module_info_size m)\<rparr>"

definition swap_dylib_module_64 :: "dylib_module_64 list \<Rightarrow> nat \<Rightarrow> dylib_module_64 list" where
  "swap_dylib_module_64 xs n = map swap_dylib_module_64_elem (take n xs) @ drop n xs"

lemmas dylib_module_64_codec = dec_dylib_module_64_def enc_dylib_module_64_def sizeof_dylib_module_64_def slice_simps byte_simps slice_join
  slice_all length_slice

interpretation dylib_module_64: endian_struct sizeof_dylib_module_64 dec_dylib_module_64 enc_dylib_module_64 "\<lambda>_. True" swap_dylib_module_64_elem
  by unfold_locales (simp_all add: dylib_module_64_codec swap_dylib_module_64_elem_def)

section \<open>\<open>struct xar_header\<close>\<close>

record xar_header =
  xar_magic :: u32
  xar_size :: u16
  xar_version :: u16
  xar_toc_length_compressed :: u64
  xar_toc_length_uncompressed :: u64
  xar_cksum_alg :: u32

definition sizeof_xar_header :: nat where
  "sizeof_xar_header = 28"

definition dec_xar_header :: "endian \<Rightarrow> bytes \<Rightarrow> xar_header" where
  "dec_xar_header e bs =
     \<lparr>xar_magic = get32 e bs 0, xar_size = get16 e bs 4, xar_version = get16 e bs 6,
      xar_toc_length_compressed = get64 e bs 8, xar_toc_length_uncompressed = get64 e bs 16,
      xar_cksum_alg = get32 e bs 24\<rparr>"

definition enc_xar_header :: "endian \<Rightarrow> xar_header \<Rightarrow> bytes" where
  "enc_xar_header e xar =
     put32 e (xar_magic xar) @ put16 e (xar_size xar) @ put16 e (xar_version xar) @
     put64 e (xar_toc_length_compressed xar) @ put64 e (xar_toc_length_uncompressed xar) @
     put32 e (xar_cksum_alg xar)"

definition swap_xar_header :: "xar_header \<Rightarrow> xar_header" where
  "swap_xar_header xar =
     xar\<lparr>xar_magic := SWAP_INT (xar_magic xar), xar_size := SWAP_SHORT (xar_size xar),
      xar_version := SWAP_SHORT (xar_version xar),
      xar_toc_length_compressed := SWAP_LONG_LONG (xar_toc_length_compressed xar),
      xar_toc_length_uncompressed := SWAP_LONG_LONG (xar_toc_length_uncompressed xar),
      xar_cksum_alg := SWAP_INT (xar_cksum_alg xar)\<rparr>"

lemmas xar_header_codec = dec_xar_header_def enc_xar_header_def sizeof_xar_header_def slice_simps byte_simps slice_join
  slice_all length_slice

interpretation xar_header: endian_struct sizeof_xar_header dec_xar_header enc_xar_header "\<lambda>_. True" swap_xar_header
  by unfold_locales (simp_all add: xar_header_codec swap_xar_header_def)

section \<open>Indirect symbols\<close>

definition swap_indirect_symbols :: "u32 list \<Rightarrow> nat \<Rightarrow> u32 list" where
  "swap_indirect_symbols xs n = map SWAP_INT (take n xs) @ drop n xs"

end
