(* ===== verification/MachO_Swap.thy ===== *)
theory MachO_Swap
  imports MachO_Headers MachO_Commands MachO_Commands2 MachO_Tables
begin

text \<open>
  What the swap routines of \<^verbatim>\<open>cctools/libstuff/bytesex.c\<close> do to a file: storing the
  swapped structure on a machine of byte order \<open>e\<close> writes the bytes that storing the structure itself
  would write on a machine of the other byte order. The four routines for which this does not hold
  have their exact behaviour stated instead.
\<close>

section \<open>The byte sex of the host\<close>

text \<open>The test on the first byte of a word in memory finds the byte order of the machine it runs
  on.\<close>

theorem get_host_byte_sex_correct: "get_host_byte_sex host = byte_sex_num (sex_of host)"
  by (cases host; simp; code_simp)

text \<open>The three byte swapping macros reverse the bytes of their argument.\<close>

theorem SWAP_macros_reverse:
  "to_bytes e 2 (SWAP_SHORT a) = rev (to_bytes e 2 a) \<and>
   to_bytes e 4 (SWAP_INT b) = rev (to_bytes e 4 b) \<and>
   to_bytes e 8 (SWAP_LONG_LONG c) = rev (to_bytes e 8 c)"
  by (simp add: swap16.rev_to_bytes_SWAP swap32.rev_to_bytes_SWAP swap64.rev_to_bytes_SWAP)

section \<open>Layout\<close>

text \<open>C27. The routines for the fat header, the fat architectures, the Mach-O headers and the load command
  prefix convert to the other byte order: the swapped structure has, in memory, the bytes of the
  original on a machine of the other byte order.\<close>

theorem swap_headers_layout:
  "enc_fat_header e (swap_fat_header x1) = enc_fat_header (opp e) x1 \<and>
   enc_fat_arch e (swap_fat_arch_elem x2) = enc_fat_arch (opp e) x2 \<and>
   enc_fat_arch_64 e (swap_fat_arch_64_elem x3) = enc_fat_arch_64 (opp e) x3 \<and>
   enc_mach_header e (swap_mach_header x4) = enc_mach_header (opp e) x4 \<and>
   enc_mach_header_64 e (swap_mach_header_64 x5) = enc_mach_header_64 (opp e) x5 \<and>
   enc_load_command e (swap_load_command x6) = enc_load_command (opp e) x6"
  by (simp add:
    fat_header.enc_swap fat_arch.enc_swap fat_arch_64.enc_swap mach_header.enc_swap
    mach_header_64.enc_swap load_command.enc_swap)




section \<open>Arrays\<close>

lemma swap_array_twice:
  "(\<And>x. f (f x) = x) \<Longrightarrow>
   map f (take n (map f (take n xs) @ drop n xs)) @ drop n (map f (take n xs) @ drop n xs) = xs"
  by (cases "n \<le> length xs") (simp_all add: o_def)

text \<open>C30. Swapping all entries of a symbol table, a table of contents of an archive or of a dynamic
  library, a module table or a list of build tools converts the whole array in memory, and so does
  swapping the indirect symbol table.\<close>

theorem swap_tables_layout:
  "concat (map (enc_build_tool_version e) (swap_build_tool_version x1 (length x1))) =
     concat (map (enc_build_tool_version (opp e)) x1) \<and>
   concat (map (enc_nlist e) (swap_nlist x2 (length x2))) =
     concat (map (enc_nlist (opp e)) x2) \<and>
   concat (map (enc_nlist_64 e) (swap_nlist_64 x3 (length x3))) =
     concat (map (enc_nlist_64 (opp e)) x3) \<and>
   concat (map (enc_ranlib e) (swap_ranlib x4 (length x4))) =
     concat (map (enc_ranlib (opp e)) x4) \<and>
   concat (map (enc_ranlib_64 e) (swap_ranlib_64 x5 (length x5))) =
     concat (map (enc_ranlib_64 (opp e)) x5) \<and>
   concat (map (enc_dylib_table_of_contents e) (swap_dylib_table_of_contents x6 (length x6))) =
     concat (map (enc_dylib_table_of_contents (opp e)) x6) \<and>
   concat (map (enc_dylib_module e) (swap_dylib_module x7 (length x7))) =
     concat (map (enc_dylib_module (opp e)) x7) \<and>
   concat (map (enc_dylib_module_64 e) (swap_dylib_module_64 x8 (length x8))) =
     concat (map (enc_dylib_module_64 (opp e)) x8)"
  by (simp add: swap_build_tool_version_def swap_nlist_def swap_nlist_64_def swap_ranlib_def swap_ranlib_64_def swap_dylib_table_of_contents_def swap_dylib_module_def swap_dylib_module_64_def
    build_tool_version.enc_map_swap nlist.enc_map_swap nlist_64.enc_map_swap ranlib.enc_map_swap
    ranlib_64.enc_map_swap dylib_table_of_contents.enc_map_swap dylib_module.enc_map_swap
    dylib_module_64.enc_map_swap
    del: map_map)

text \<open>Swapping the first \<open>n\<close> entries of a table twice gives the table back, so a tool that swaps its
  tables to the byte order of the file and back loses nothing.\<close>

theorem swap_tables_involutive:
  "swap_build_tool_version (swap_build_tool_version x1 n) n = x1 \<and>
   swap_nlist (swap_nlist x2 n) n = x2 \<and>
   swap_nlist_64 (swap_nlist_64 x3 n) n = x3 \<and>
   swap_ranlib (swap_ranlib x4 n) n = x4 \<and>
   swap_ranlib_64 (swap_ranlib_64 x5 n) n = x5 \<and>
   swap_dylib_table_of_contents (swap_dylib_table_of_contents x6 n) n = x6 \<and>
   swap_dylib_module (swap_dylib_module x7 n) n = x7 \<and>
   swap_dylib_module_64 (swap_dylib_module_64 x8 n) n = x8"
  unfolding swap_build_tool_version_def swap_nlist_def swap_nlist_64_def swap_ranlib_def swap_ranlib_64_def swap_dylib_table_of_contents_def swap_dylib_module_def swap_dylib_module_64_def
  by (intro conjI; rule swap_array_twice; simp add:
    build_tool_version.swap_swap nlist.swap_swap nlist_64.swap_swap ranlib.swap_swap
    ranlib_64.swap_swap dylib_table_of_contents.swap_swap dylib_module.swap_swap
    dylib_module_64.swap_swap)

section \<open>The routines that do not convert\<close>

text \<open>The 64 bit encryption command loses its \<open>cryptid\<close>: the routine stores the swapped padding
  there, so the result does not depend on \<open>cryptid\<close> at all, and a command whose padding is 0 comes out
  as not encrypted.\<close>

theorem swap_encryption_command_64_loses_cryptid:
  "swap_encryption_command_64 (ec\<lparr>ec64_cryptid := i\<rparr>) = swap_encryption_command_64 ec \<and>
   ec64_cryptid (swap_encryption_command_64 (ec\<lparr>ec64_pad := 0\<rparr>)) = 0"
  by (simp add: swap_encryption_command_64_def SWAP_INT_def)

text \<open>The data in code entries lose their length and kind: both come out as 0 whatever they were.\<close>

theorem swap_data_in_code_entry_clears:
  "swap_data_in_code_entry xs (length xs) =
     map (\<lambda>d. \<lparr>dice_offset = SWAP_INT (dice_offset d), dice_length = 0, dice_kind = 0\<rparr>) xs"
  by (simp add: swap_data_in_code_entry_def swap_data_in_code_entry_elem_def)

text \<open>The routines for the version minimum command and for the 64 bit section are exact but for one
  field each, \<open>sdk\<close> and \<open>reserved3\<close>, which keep the byte order they had.\<close>

theorem swap_unswapped_fields:
  assumes "length vbs = sizeof_version_min_command" "length sbs = sizeof_section_64"
  shows "swap_version_min_command (dec_version_min_command e vbs) =
           (dec_version_min_command (opp e) vbs)\<lparr>vc_sdk := get32 e vbs 12\<rparr> \<and>
         swap_section_64 [dec_section_64 e sbs] 1 =
           [(dec_section_64 (opp e) sbs)\<lparr>s64_reserved3 := get32 e sbs 76\<rparr>]"
  using swap_version_min_command_dec [OF assms(1), of e] swap_section_64_elem_dec [OF assms(2), of e]
  by (simp add: swap_section_64_def)

theorem swap_unswapped_fields_witness:
  "vc_sdk (swap_version_min_command (dec_version_min_command LE ([0x24,0,0,0, 0x10,0,0,0, 0,9,10,0, 0,9,10,0]))) =
     0x000a0900 \<and>
   s64_reserved3 (hd (swap_section_64 [dec_section_64 LE (replicate 76 0 @ [1, 0, 0, 0])] 1)) = 1"
  using swap_unswapped_fields [of "[0x24,0,0,0, 0x10,0,0,0, 0,9,10,0, 0,9,10,0]"
      "replicate 76 0 @ [1, 0, 0, 0]" LE]
  by (simp add: sizeof_version_min_command_def sizeof_section_64_def slice_def of_bytes_def)

end
