(* ===== verification/Machine.thy ===== *)
theory Machine
  imports Prelude
begin

text \<open>
  The processor types and subtypes of \<^verbatim>\<open>cctools/include/mach/machine-cctools.h\<close>. The C types
  \<open>cpu_type_t\<close> and \<open>cpu_subtype_t\<close> are 32 bit integers; they are words here, and \<open>-1\<close> is the all
  ones word. The high byte of a subtype holds feature flags, which \<open>unmask\<close> removes the way the
  code does with \<open>& ~CPU_SUBTYPE_MASK\<close>.
\<close>

type_synonym cpu_type_t = u32
type_synonym cpu_subtype_t = u32

abbreviation CPU_TYPE_ANY :: u32 where
  "CPU_TYPE_ANY \<equiv> - 1"

abbreviation CPU_TYPE_MC680x0 :: u32 where
  "CPU_TYPE_MC680x0 \<equiv> 6"

abbreviation CPU_TYPE_I386 :: u32 where
  "CPU_TYPE_I386 \<equiv> 7"

abbreviation CPU_TYPE_X86_64 :: u32 where
  "CPU_TYPE_X86_64 \<equiv> 0x1000007"

abbreviation CPU_TYPE_HPPA :: u32 where
  "CPU_TYPE_HPPA \<equiv> 11"

abbreviation CPU_TYPE_ARM :: u32 where
  "CPU_TYPE_ARM \<equiv> 12"

abbreviation CPU_TYPE_MC88000 :: u32 where
  "CPU_TYPE_MC88000 \<equiv> 13"

abbreviation CPU_TYPE_SPARC :: u32 where
  "CPU_TYPE_SPARC \<equiv> 14"

abbreviation CPU_TYPE_I860 :: u32 where
  "CPU_TYPE_I860 \<equiv> 15"

abbreviation CPU_TYPE_POWERPC :: u32 where
  "CPU_TYPE_POWERPC \<equiv> 18"

abbreviation CPU_TYPE_POWERPC64 :: u32 where
  "CPU_TYPE_POWERPC64 \<equiv> 0x1000012"

abbreviation CPU_TYPE_VEO :: u32 where
  "CPU_TYPE_VEO \<equiv> 255"

abbreviation CPU_TYPE_ARM64 :: u32 where
  "CPU_TYPE_ARM64 \<equiv> 0x100000c"

abbreviation CPU_TYPE_ARM64_32 :: u32 where
  "CPU_TYPE_ARM64_32 \<equiv> 0x200000c"

abbreviation CPU_SUBTYPE_MASK :: u32 where
  "CPU_SUBTYPE_MASK \<equiv> 0xff000000"

abbreviation CPU_SUBTYPE_MULTIPLE :: u32 where
  "CPU_SUBTYPE_MULTIPLE \<equiv> - 1"

abbreviation CPU_SUBTYPE_I386_ALL :: u32 where
  "CPU_SUBTYPE_I386_ALL \<equiv> 3"

abbreviation CPU_SUBTYPE_X86_64_ALL :: u32 where
  "CPU_SUBTYPE_X86_64_ALL \<equiv> 3"

abbreviation CPU_SUBTYPE_386 :: u32 where
  "CPU_SUBTYPE_386 \<equiv> 3"

abbreviation CPU_SUBTYPE_486 :: u32 where
  "CPU_SUBTYPE_486 \<equiv> 4"

abbreviation CPU_SUBTYPE_486SX :: u32 where
  "CPU_SUBTYPE_486SX \<equiv> 132"

abbreviation CPU_SUBTYPE_586 :: u32 where
  "CPU_SUBTYPE_586 \<equiv> 5"

abbreviation CPU_SUBTYPE_PENT :: u32 where
  "CPU_SUBTYPE_PENT \<equiv> 5"

abbreviation CPU_SUBTYPE_PENTPRO :: u32 where
  "CPU_SUBTYPE_PENTPRO \<equiv> 22"

abbreviation CPU_SUBTYPE_PENTII_M3 :: u32 where
  "CPU_SUBTYPE_PENTII_M3 \<equiv> 54"

abbreviation CPU_SUBTYPE_PENTII_M5 :: u32 where
  "CPU_SUBTYPE_PENTII_M5 \<equiv> 86"

abbreviation CPU_SUBTYPE_PENTIUM_4 :: u32 where
  "CPU_SUBTYPE_PENTIUM_4 \<equiv> 10"

abbreviation CPU_SUBTYPE_INTEL_FAMILY_MAX :: u32 where
  "CPU_SUBTYPE_INTEL_FAMILY_MAX \<equiv> 15"

abbreviation CPU_SUBTYPE_X86_64_H :: u32 where
  "CPU_SUBTYPE_X86_64_H \<equiv> 8"

abbreviation CPU_SUBTYPE_MC680x0_ALL :: u32 where
  "CPU_SUBTYPE_MC680x0_ALL \<equiv> 1"

abbreviation CPU_SUBTYPE_MC68030 :: u32 where
  "CPU_SUBTYPE_MC68030 \<equiv> 1"

abbreviation CPU_SUBTYPE_MC68040 :: u32 where
  "CPU_SUBTYPE_MC68040 \<equiv> 2"

abbreviation CPU_SUBTYPE_MC68030_ONLY :: u32 where
  "CPU_SUBTYPE_MC68030_ONLY \<equiv> 3"

abbreviation CPU_SUBTYPE_HPPA_ALL :: u32 where
  "CPU_SUBTYPE_HPPA_ALL \<equiv> 0"

abbreviation CPU_SUBTYPE_HPPA_7100 :: u32 where
  "CPU_SUBTYPE_HPPA_7100 \<equiv> 0"

abbreviation CPU_SUBTYPE_HPPA_7100LC :: u32 where
  "CPU_SUBTYPE_HPPA_7100LC \<equiv> 1"

abbreviation CPU_SUBTYPE_ARM_ALL :: u32 where
  "CPU_SUBTYPE_ARM_ALL \<equiv> 0"

abbreviation CPU_SUBTYPE_ARM_V4T :: u32 where
  "CPU_SUBTYPE_ARM_V4T \<equiv> 5"

abbreviation CPU_SUBTYPE_ARM_V6 :: u32 where
  "CPU_SUBTYPE_ARM_V6 \<equiv> 6"

abbreviation CPU_SUBTYPE_ARM_V5TEJ :: u32 where
  "CPU_SUBTYPE_ARM_V5TEJ \<equiv> 7"

abbreviation CPU_SUBTYPE_ARM_XSCALE :: u32 where
  "CPU_SUBTYPE_ARM_XSCALE \<equiv> 8"

abbreviation CPU_SUBTYPE_ARM_V7 :: u32 where
  "CPU_SUBTYPE_ARM_V7 \<equiv> 9"

abbreviation CPU_SUBTYPE_ARM_V7F :: u32 where
  "CPU_SUBTYPE_ARM_V7F \<equiv> 10"

abbreviation CPU_SUBTYPE_ARM_V7S :: u32 where
  "CPU_SUBTYPE_ARM_V7S \<equiv> 11"

abbreviation CPU_SUBTYPE_ARM_V7K :: u32 where
  "CPU_SUBTYPE_ARM_V7K \<equiv> 12"

abbreviation CPU_SUBTYPE_ARM_V6M :: u32 where
  "CPU_SUBTYPE_ARM_V6M \<equiv> 14"

abbreviation CPU_SUBTYPE_ARM_V7M :: u32 where
  "CPU_SUBTYPE_ARM_V7M \<equiv> 15"

abbreviation CPU_SUBTYPE_ARM_V7EM :: u32 where
  "CPU_SUBTYPE_ARM_V7EM \<equiv> 16"

abbreviation CPU_SUBTYPE_ARM_V8 :: u32 where
  "CPU_SUBTYPE_ARM_V8 \<equiv> 13"

abbreviation CPU_SUBTYPE_ARM64_ALL :: u32 where
  "CPU_SUBTYPE_ARM64_ALL \<equiv> 0"

abbreviation CPU_SUBTYPE_ARM64_V8 :: u32 where
  "CPU_SUBTYPE_ARM64_V8 \<equiv> 1"

abbreviation CPU_SUBTYPE_ARM64E :: u32 where
  "CPU_SUBTYPE_ARM64E \<equiv> 2"

abbreviation CPU_SUBTYPE_ARM64_32_V8 :: u32 where
  "CPU_SUBTYPE_ARM64_32_V8 \<equiv> 1"

abbreviation CPU_SUBTYPE_MC88000_ALL :: u32 where
  "CPU_SUBTYPE_MC88000_ALL \<equiv> 0"

abbreviation CPU_SUBTYPE_MC88110 :: u32 where
  "CPU_SUBTYPE_MC88110 \<equiv> 2"

abbreviation CPU_SUBTYPE_I860_ALL :: u32 where
  "CPU_SUBTYPE_I860_ALL \<equiv> 0"

abbreviation CPU_SUBTYPE_I860_860 :: u32 where
  "CPU_SUBTYPE_I860_860 \<equiv> 1"

abbreviation CPU_SUBTYPE_LITTLE_ENDIAN :: u32 where
  "CPU_SUBTYPE_LITTLE_ENDIAN \<equiv> 0"

abbreviation CPU_SUBTYPE_BIG_ENDIAN :: u32 where
  "CPU_SUBTYPE_BIG_ENDIAN \<equiv> 1"

abbreviation CPU_SUBTYPE_SPARC_ALL :: u32 where
  "CPU_SUBTYPE_SPARC_ALL \<equiv> 0"

abbreviation CPU_SUBTYPE_POWERPC_ALL :: u32 where
  "CPU_SUBTYPE_POWERPC_ALL \<equiv> 0"

abbreviation CPU_SUBTYPE_POWERPC_601 :: u32 where
  "CPU_SUBTYPE_POWERPC_601 \<equiv> 1"

abbreviation CPU_SUBTYPE_POWERPC_602 :: u32 where
  "CPU_SUBTYPE_POWERPC_602 \<equiv> 2"

abbreviation CPU_SUBTYPE_POWERPC_603 :: u32 where
  "CPU_SUBTYPE_POWERPC_603 \<equiv> 3"

abbreviation CPU_SUBTYPE_POWERPC_603e :: u32 where
  "CPU_SUBTYPE_POWERPC_603e \<equiv> 4"

abbreviation CPU_SUBTYPE_POWERPC_603ev :: u32 where
  "CPU_SUBTYPE_POWERPC_603ev \<equiv> 5"

abbreviation CPU_SUBTYPE_POWERPC_604 :: u32 where
  "CPU_SUBTYPE_POWERPC_604 \<equiv> 6"

abbreviation CPU_SUBTYPE_POWERPC_604e :: u32 where
  "CPU_SUBTYPE_POWERPC_604e \<equiv> 7"

abbreviation CPU_SUBTYPE_POWERPC_620 :: u32 where
  "CPU_SUBTYPE_POWERPC_620 \<equiv> 8"

abbreviation CPU_SUBTYPE_POWERPC_750 :: u32 where
  "CPU_SUBTYPE_POWERPC_750 \<equiv> 9"

abbreviation CPU_SUBTYPE_POWERPC_7400 :: u32 where
  "CPU_SUBTYPE_POWERPC_7400 \<equiv> 10"

abbreviation CPU_SUBTYPE_POWERPC_7450 :: u32 where
  "CPU_SUBTYPE_POWERPC_7450 \<equiv> 11"

abbreviation CPU_SUBTYPE_POWERPC_970 :: u32 where
  "CPU_SUBTYPE_POWERPC_970 \<equiv> 100"

abbreviation CPU_SUBTYPE_VEO_1 :: u32 where
  "CPU_SUBTYPE_VEO_1 \<equiv> 1"

abbreviation CPU_SUBTYPE_VEO_2 :: u32 where
  "CPU_SUBTYPE_VEO_2 \<equiv> 2"

abbreviation CPU_SUBTYPE_VEO_3 :: u32 where
  "CPU_SUBTYPE_VEO_3 \<equiv> 3"

abbreviation CPU_SUBTYPE_VEO_4 :: u32 where
  "CPU_SUBTYPE_VEO_4 \<equiv> 4"

abbreviation CPU_SUBTYPE_VEO_ALL :: u32 where
  "CPU_SUBTYPE_VEO_ALL \<equiv> 2"

definition unmask :: "cpu_subtype_t \<Rightarrow> u32" where
  "unmask s = s AND NOT CPU_SUBTYPE_MASK"

definition CPU_SUBTYPE_INTEL_FAMILY :: "u32 \<Rightarrow> u32" where
  "CPU_SUBTYPE_INTEL_FAMILY x = x AND 15"

definition CPU_SUBTYPE_INTEL_MODEL :: "u32 \<Rightarrow> u32" where
  "CPU_SUBTYPE_INTEL_MODEL x = drop_bit 4 x"

lemma unmask_unmask [simp]: "unmask (unmask s) = unmask s"
  by (simp add: unmask_def)

lemma INTEL_FAMILY_le: "CPU_SUBTYPE_INTEL_FAMILY x \<le> CPU_SUBTYPE_INTEL_FAMILY_MAX"
  by (simp add: CPU_SUBTYPE_INTEL_FAMILY_def word_and_le1)

end
