(* ===== verification/BestArch.thy ===== *)
theory BestArch
  imports Machine MachO_Headers
begin

text \<open>
  Selection and combination of architectures, \<^verbatim>\<open>cctools/libstuff/best_arch.c\<close>: choosing the slice
  of a fat file that suits a processor, combining the subtypes of two object files, and deciding
  whether a processor can run a subtype.

  Every loop of \<open>internal_cpusubtype_findbestarch\<close> looks for the first slice that has the wanted
  processor type and some subtype; a \<open>switch\<close> whose cases fall through is the list of the loops
  that run from the case that is entered. The routine returns an index or \<open>-1\<close>, here an option.
\<close>

section \<open>Choosing a slice\<close>

text \<open>The processor type and subtype of every slice, in file order.\<close>

type_synonym slices = "(cpu_type_t \<times> cpu_subtype_t) list"

fun find_index :: "('a \<Rightarrow> bool) \<Rightarrow> 'a list \<Rightarrow> nat option" where
  "find_index p [] = None"
| "find_index p (x # xs) = (if p x then Some 0 else map_option Suc (find_index p xs))"

text \<open>One loop of the routine: the first slice of the type with the subtype, feature flags masked.\<close>

definition pick :: "cpu_type_t \<Rightarrow> slices \<Rightarrow> cpu_subtype_t \<Rightarrow> nat option" where
  "pick cputype archs sub = find_index (\<lambda>(t, s). t = cputype \<and> unmask s = sub) archs"

text \<open>The loops of the ARM case compare the whole subtype.\<close>

definition pick_unmasked :: "cpu_type_t \<Rightarrow> slices \<Rightarrow> cpu_subtype_t \<Rightarrow> nat option" where
  "pick_unmasked cputype archs sub = find_index (\<lambda>(t, s). t = cputype \<and> s = sub) archs"

fun first_of :: "('a \<Rightarrow> nat option) \<Rightarrow> 'a list \<Rightarrow> nat option" where
  "first_of f [] = None"
| "first_of f (x # xs) = orelse (f x) (first_of f xs)"

definition exact_match :: "cpu_type_t \<Rightarrow> cpu_subtype_t \<Rightarrow> slices \<Rightarrow> nat option" where
  "exact_match cputype cpusubtype archs =
     find_index (\<lambda>(t, s). t = cputype \<and> unmask s = unmask cpusubtype) archs"

definition best_powerpc64 :: "cpu_type_t \<Rightarrow> cpu_subtype_t \<Rightarrow> slices \<Rightarrow> nat option" where
  "best_powerpc64 cputype cpusubtype archs =
     (let s = unmask cpusubtype in
      first_of (pick cputype archs)
        (if s = CPU_SUBTYPE_POWERPC_ALL \<or> s = CPU_SUBTYPE_POWERPC_970
         then [CPU_SUBTYPE_POWERPC_970, CPU_SUBTYPE_POWERPC_ALL]
         else [CPU_SUBTYPE_POWERPC_ALL]))"

definition best_x86_64 :: "cpu_type_t \<Rightarrow> slices \<Rightarrow> nat option" where
  "best_x86_64 cputype archs = pick cputype archs CPU_SUBTYPE_I386_ALL"

text \<open>The lowest Intel family of the slices, and in it the slice with the lowest model.\<close>

fun lowest_family :: "cpu_type_t \<Rightarrow> slices \<Rightarrow> nat \<Rightarrow> nat" where
  "lowest_family cputype [] low = low"
| "lowest_family cputype ((t, s) # archs) low =
     (if t \<noteq> cputype then lowest_family cputype archs low
      else let f = unat (CPU_SUBTYPE_INTEL_FAMILY (unmask s))
           in lowest_family cputype archs (if f < low then f else low))"

fun lowest_model ::
  "cpu_type_t \<Rightarrow> nat \<Rightarrow> nat \<Rightarrow> slices \<Rightarrow> nat \<Rightarrow> nat option \<Rightarrow> nat option" where
  "lowest_model cputype fam i [] low idx = idx"
| "lowest_model cputype fam i ((t, s) # archs) low idx =
     (if t \<noteq> cputype then lowest_model cputype fam (Suc i) archs low idx
      else if unat (CPU_SUBTYPE_INTEL_FAMILY (unmask s)) = fam
      then let m = unat (CPU_SUBTYPE_INTEL_MODEL (unmask s)) in
        if m < low then lowest_model cputype fam (Suc i) archs m (Some i)
        else lowest_model cputype fam (Suc i) archs low idx
      else lowest_model cputype fam (Suc i) archs low idx)"

text \<open>\<open>LONG_MAX\<close> where \<open>long\<close> has 64 bits.\<close>

definition LONG_MAX :: nat where
  "LONG_MAX = 2 ^ 63 - 1"

definition best_i386 :: "cpu_type_t \<Rightarrow> cpu_subtype_t \<Rightarrow> slices \<Rightarrow> nat option" where
  "best_i386 cputype cpusubtype archs =
     (let s = unmask cpusubtype;
          loops =
            (if s = CPU_SUBTYPE_PENT \<or> s = CPU_SUBTYPE_486SX then [CPU_SUBTYPE_486]
             else if s = CPU_SUBTYPE_I386_ALL \<or> s = CPU_SUBTYPE_486 then []
             else [CPU_SUBTYPE_PENT, CPU_SUBTYPE_486]) @
            [CPU_SUBTYPE_I386_ALL, CPU_SUBTYPE_486, CPU_SUBTYPE_486SX, CPU_SUBTYPE_586]
      in orelse (first_of (pick cputype archs) loops)
           (let fam = lowest_family cputype archs (unat CPU_SUBTYPE_INTEL_FAMILY_MAX + 1) in
            if fam = unat CPU_SUBTYPE_INTEL_FAMILY_MAX + 1 then None
            else lowest_model cputype fam 0 archs LONG_MAX None))"

definition best_mc680x0 :: "cpu_type_t \<Rightarrow> cpu_subtype_t \<Rightarrow> slices \<Rightarrow> nat option" where
  "best_mc680x0 cputype cpusubtype archs =
     orelse (pick cputype archs CPU_SUBTYPE_MC680x0_ALL)
       (if unmask cpusubtype = CPU_SUBTYPE_MC680x0_ALL
        then first_of (pick cputype archs) [CPU_SUBTYPE_MC68040, CPU_SUBTYPE_MC68030_ONLY]
        else None)"

text \<open>The PowerPC loops in the order of the source; a subtype enters the list at its own case.\<close>

definition powerpc_altivec_loops :: "cpu_subtype_t list" where
  "powerpc_altivec_loops = [CPU_SUBTYPE_POWERPC_7450, CPU_SUBTYPE_POWERPC_7400]"

definition powerpc_loops :: "cpu_subtype_t list" where
  "powerpc_loops =
     [CPU_SUBTYPE_POWERPC_750, CPU_SUBTYPE_POWERPC_604e, CPU_SUBTYPE_POWERPC_604,
      CPU_SUBTYPE_POWERPC_603ev, CPU_SUBTYPE_POWERPC_603e, CPU_SUBTYPE_POWERPC_603]"

definition best_powerpc :: "cpu_type_t \<Rightarrow> cpu_subtype_t \<Rightarrow> slices \<Rightarrow> nat option" where
  "best_powerpc cputype cpusubtype archs =
     (let s = unmask cpusubtype;
          from_all = [CPU_SUBTYPE_POWERPC_ALL];
          from_750 = powerpc_loops @ from_all;
          from_7450 = powerpc_altivec_loops @ from_750;
          from_970 = CPU_SUBTYPE_POWERPC_970 # from_7450
      in first_of (pick cputype archs)
           (if s = CPU_SUBTYPE_POWERPC_ALL \<or> s = CPU_SUBTYPE_POWERPC_970 then from_970
            else if s = CPU_SUBTYPE_POWERPC_7450 \<or> s = CPU_SUBTYPE_POWERPC_7400 then from_7450
            else if s = CPU_SUBTYPE_POWERPC_750 \<or> s = CPU_SUBTYPE_POWERPC_604e \<or>
              s = CPU_SUBTYPE_POWERPC_604 \<or> s = CPU_SUBTYPE_POWERPC_603ev \<or>
              s = CPU_SUBTYPE_POWERPC_603e \<or> s = CPU_SUBTYPE_POWERPC_603 then from_750
            else from_all))"

definition best_veo :: "cpu_type_t \<Rightarrow> cpu_subtype_t \<Rightarrow> slices \<Rightarrow> nat option" where
  "best_veo cputype cpusubtype archs =
     (let s = unmask cpusubtype in
      first_of (pick cputype archs)
        (if s = CPU_SUBTYPE_VEO_1 \<or> s = CPU_SUBTYPE_VEO_3
         then [CPU_SUBTYPE_VEO_2, CPU_SUBTYPE_VEO_3, CPU_SUBTYPE_VEO_2]
         else if s = CPU_SUBTYPE_VEO_4 then [CPU_SUBTYPE_VEO_3, CPU_SUBTYPE_VEO_2]
         else []))"

definition best_arm64 :: "cpu_type_t \<Rightarrow> slices \<Rightarrow> nat option" where
  "best_arm64 cputype archs = pick cputype archs CPU_SUBTYPE_ARM64_ALL"

text \<open>The loops every ARM subtype runs, and the ARM case with the loops before them. The case has
  no \<open>break\<close>: it runs into the loop of the ARM64 case.\<close>

definition arm_common_loops :: "cpu_subtype_t list" where
  "arm_common_loops =
     [CPU_SUBTYPE_ARM_V4T, CPU_SUBTYPE_ARM_V6M, CPU_SUBTYPE_ARM_V7M, CPU_SUBTYPE_ARM_V7EM,
      CPU_SUBTYPE_ARM_ALL]"

definition best_arm :: "cpu_type_t \<Rightarrow> cpu_subtype_t \<Rightarrow> slices \<Rightarrow> nat option" where
  "best_arm cputype cpusubtype archs =
     (let all = (cpusubtype = CPU_SUBTYPE_ARM_ALL) in
      orelse
       (first_of (pick_unmasked cputype archs)
         ((if all \<or> cpusubtype = CPU_SUBTYPE_ARM_V7K then [CPU_SUBTYPE_ARM_V7S] else []) @
          (if all \<or> cpusubtype = CPU_SUBTYPE_ARM_V7S then [CPU_SUBTYPE_ARM_V7F] else []) @
          (if all \<or> cpusubtype = CPU_SUBTYPE_ARM_V7F then [CPU_SUBTYPE_ARM_V7] else []) @
          (if all \<or> cpusubtype = CPU_SUBTYPE_ARM_V7 \<or> cpusubtype = CPU_SUBTYPE_ARM_V6
           then [CPU_SUBTYPE_ARM_V6] else []) @
          (if all \<or> cpusubtype = CPU_SUBTYPE_ARM_V6 \<or> cpusubtype = CPU_SUBTYPE_ARM_V5TEJ
           then [CPU_SUBTYPE_ARM_V5TEJ] else []) @
          (if all \<or> cpusubtype = CPU_SUBTYPE_ARM_XSCALE then [CPU_SUBTYPE_ARM_XSCALE] else []) @
          arm_common_loops))
       (best_arm64 cputype archs))"

definition best_match :: "cpu_type_t \<Rightarrow> cpu_subtype_t \<Rightarrow> slices \<Rightarrow> nat option" where
  "best_match cputype cpusubtype archs =
     (if cputype = CPU_TYPE_POWERPC64 then best_powerpc64 cputype cpusubtype archs
      else if cputype = CPU_TYPE_X86_64 then best_x86_64 cputype archs
      else if cputype = CPU_TYPE_I386 then best_i386 cputype cpusubtype archs
      else if cputype = CPU_TYPE_MC680x0 then best_mc680x0 cputype cpusubtype archs
      else if cputype = CPU_TYPE_POWERPC then best_powerpc cputype cpusubtype archs
      else if cputype = CPU_TYPE_VEO then best_veo cputype cpusubtype archs
      else if cputype = CPU_TYPE_MC88000 then pick cputype archs CPU_SUBTYPE_MC88000_ALL
      else if cputype = CPU_TYPE_I860 then pick cputype archs CPU_SUBTYPE_I860_ALL
      else if cputype = CPU_TYPE_HPPA then pick cputype archs CPU_SUBTYPE_HPPA_ALL
      else if cputype = CPU_TYPE_SPARC then pick cputype archs CPU_SUBTYPE_SPARC_ALL
      else if cputype = CPU_TYPE_ARM then best_arm cputype cpusubtype archs
      else if cputype = CPU_TYPE_ARM64 then best_arm64 cputype archs
      else None)"

definition internal_cpusubtype_findbestarch ::
  "cpu_type_t \<Rightarrow> cpu_subtype_t \<Rightarrow> slices \<Rightarrow> nat option" where
  "internal_cpusubtype_findbestarch cputype cpusubtype archs =
     orelse (exact_match cputype cpusubtype archs) (best_match cputype cpusubtype archs)"

definition cpusubtype_findbestarch ::
  "cpu_type_t \<Rightarrow> cpu_subtype_t \<Rightarrow> fat_arch list \<Rightarrow> fat_arch option" where
  "cpusubtype_findbestarch cputype cpusubtype fat_archs =
     map_option (nth fat_archs)
       (internal_cpusubtype_findbestarch cputype cpusubtype
         (map (\<lambda>fa. (fa_cputype fa, fa_cpusubtype fa)) fat_archs))"

definition cpusubtype_findbestarch_64 ::
  "cpu_type_t \<Rightarrow> cpu_subtype_t \<Rightarrow> fat_arch_64 list \<Rightarrow> fat_arch_64 option" where
  "cpusubtype_findbestarch_64 cputype cpusubtype fat_archs64 =
     map_option (nth fat_archs64)
       (internal_cpusubtype_findbestarch cputype cpusubtype
         (map (\<lambda>fa. (fa64_cputype fa, fa64_cpusubtype fa)) fat_archs64))"

section \<open>Combining subtypes\<close>

abbreviation no_subtype :: cpu_subtype_t where
  "no_subtype \<equiv> - 1"

definition combine_mc680x0 :: "cpu_subtype_t \<Rightarrow> cpu_subtype_t \<Rightarrow> cpu_subtype_t" where
  "combine_mc680x0 cpusubtype1 cpusubtype2 =
     (let s1 = unmask cpusubtype1; s2 = unmask cpusubtype2 in
      if s1 \<noteq> CPU_SUBTYPE_MC680x0_ALL \<and> s1 \<noteq> CPU_SUBTYPE_MC68030_ONLY \<and>
         s1 \<noteq> CPU_SUBTYPE_MC68040 then no_subtype
      else if s2 \<noteq> CPU_SUBTYPE_MC680x0_ALL \<and> s2 \<noteq> CPU_SUBTYPE_MC68030_ONLY \<and>
         s2 \<noteq> CPU_SUBTYPE_MC68040 then no_subtype
      else if s1 = CPU_SUBTYPE_MC68030_ONLY \<and> s2 = CPU_SUBTYPE_MC68040 then no_subtype
      else if s1 = CPU_SUBTYPE_MC68040 \<and> s2 = CPU_SUBTYPE_MC68030_ONLY then no_subtype
      else if s1 = CPU_SUBTYPE_MC68030_ONLY \<or> s2 = CPU_SUBTYPE_MC68030_ONLY
      then CPU_SUBTYPE_MC68030_ONLY
      else if s1 = CPU_SUBTYPE_MC68040 \<or> s2 = CPU_SUBTYPE_MC68040 then CPU_SUBTYPE_MC68040
      else no_subtype)"

definition combine_powerpc :: "cpu_subtype_t \<Rightarrow> cpu_subtype_t \<Rightarrow> cpu_subtype_t" where
  "combine_powerpc cpusubtype1 cpusubtype2 =
     (if unmask cpusubtype1 = CPU_SUBTYPE_POWERPC_ALL then cpusubtype2
      else if unmask cpusubtype2 = CPU_SUBTYPE_POWERPC_ALL then cpusubtype1
      else if unmask cpusubtype1 = CPU_SUBTYPE_POWERPC_601 \<or>
              unmask cpusubtype2 = CPU_SUBTYPE_POWERPC_601 then CPU_SUBTYPE_POWERPC_601
      else if unmask cpusubtype1 > unmask cpusubtype2 then cpusubtype1
      else cpusubtype2)"

definition combine_powerpc64 :: "cpu_subtype_t \<Rightarrow> cpu_subtype_t \<Rightarrow> cpu_subtype_t" where
  "combine_powerpc64 cpusubtype1 cpusubtype2 =
     (if unmask cpusubtype1 = CPU_SUBTYPE_POWERPC_ALL then cpusubtype2
      else if unmask cpusubtype2 = CPU_SUBTYPE_POWERPC_ALL then cpusubtype1
      else if unmask cpusubtype1 > unmask cpusubtype2 then cpusubtype1
      else cpusubtype2)"

definition combine_veo :: "cpu_subtype_t \<Rightarrow> cpu_subtype_t \<Rightarrow> cpu_subtype_t" where
  "combine_veo cpusubtype1 cpusubtype2 =
     (let s1 = unmask cpusubtype1; s2 = unmask cpusubtype2 in
      if s1 = CPU_SUBTYPE_VEO_1 \<and> s2 = CPU_SUBTYPE_VEO_2 then CPU_SUBTYPE_VEO_1
      else if s1 = CPU_SUBTYPE_VEO_2 \<and> s2 = CPU_SUBTYPE_VEO_1 then CPU_SUBTYPE_VEO_1
      else if s1 = CPU_SUBTYPE_VEO_3 \<and> s2 = CPU_SUBTYPE_VEO_2 then CPU_SUBTYPE_VEO_3
      else if s1 = CPU_SUBTYPE_VEO_2 \<and> s2 = CPU_SUBTYPE_VEO_3 then CPU_SUBTYPE_VEO_3
      else if s1 = CPU_SUBTYPE_VEO_4 \<and> (s2 = CPU_SUBTYPE_VEO_2 \<or> s2 = CPU_SUBTYPE_VEO_3)
      then CPU_SUBTYPE_VEO_4
      else if (s1 = CPU_SUBTYPE_VEO_2 \<or> s1 = CPU_SUBTYPE_VEO_3) \<and> s2 = CPU_SUBTYPE_VEO_4
      then CPU_SUBTYPE_VEO_4
      else no_subtype)"

definition combine_mc88000 :: "cpu_subtype_t \<Rightarrow> cpu_subtype_t \<Rightarrow> cpu_subtype_t" where
  "combine_mc88000 cpusubtype1 cpusubtype2 =
     (let s1 = unmask cpusubtype1; s2 = unmask cpusubtype2 in
      if s1 \<noteq> CPU_SUBTYPE_MC88000_ALL \<and> s1 \<noteq> CPU_SUBTYPE_MC88110 then no_subtype
      else if s2 \<noteq> CPU_SUBTYPE_MC88000_ALL \<and> s2 \<noteq> CPU_SUBTYPE_MC88110 then no_subtype
      else if s1 = CPU_SUBTYPE_MC88110 \<or> s2 = CPU_SUBTYPE_MC88110 then CPU_SUBTYPE_MC88110
      else no_subtype)"

definition combine_i860 :: "cpu_subtype_t \<Rightarrow> cpu_subtype_t \<Rightarrow> cpu_subtype_t" where
  "combine_i860 cpusubtype1 cpusubtype2 =
     (let s1 = unmask cpusubtype1; s2 = unmask cpusubtype2 in
      if s1 \<noteq> CPU_SUBTYPE_I860_ALL \<and> s1 \<noteq> CPU_SUBTYPE_I860_860 then no_subtype
      else if s2 \<noteq> CPU_SUBTYPE_I860_ALL \<and> s2 \<noteq> CPU_SUBTYPE_I860_860 then no_subtype
      else if s1 = CPU_SUBTYPE_I860_860 \<or> s2 = CPU_SUBTYPE_I860_860 then CPU_SUBTYPE_I860_860
      else no_subtype)"

definition combine_hppa :: "cpu_subtype_t \<Rightarrow> cpu_subtype_t \<Rightarrow> cpu_subtype_t" where
  "combine_hppa cpusubtype1 cpusubtype2 =
     (let s1 = unmask cpusubtype1; s2 = unmask cpusubtype2 in
      if s1 \<noteq> CPU_SUBTYPE_HPPA_ALL \<and> s1 \<noteq> CPU_SUBTYPE_HPPA_7100LC then no_subtype
      else if s2 \<noteq> CPU_SUBTYPE_HPPA_ALL \<and> s2 \<noteq> CPU_SUBTYPE_HPPA_7100LC then no_subtype
      else CPU_SUBTYPE_HPPA_7100LC)"

definition combine_arm :: "cpu_subtype_t \<Rightarrow> cpu_subtype_t \<Rightarrow> cpu_subtype_t" where
  "combine_arm cpusubtype1 cpusubtype2 =
     (let s1 = unmask cpusubtype1; s2 = unmask cpusubtype2 in
      if s1 = CPU_SUBTYPE_ARM_ALL then cpusubtype2
      else if s2 = CPU_SUBTYPE_ARM_ALL then cpusubtype1
      else if s1 = CPU_SUBTYPE_ARM_V7 then
        (if s2 = CPU_SUBTYPE_ARM_XSCALE then no_subtype else CPU_SUBTYPE_ARM_V7)
      else if s1 = CPU_SUBTYPE_ARM_V6 then
        (if s2 = CPU_SUBTYPE_ARM_XSCALE then no_subtype else CPU_SUBTYPE_ARM_V6)
      else if s1 = CPU_SUBTYPE_ARM_XSCALE then
        (if s2 = CPU_SUBTYPE_ARM_V7 \<or> s2 = CPU_SUBTYPE_ARM_V6 \<or> s2 = CPU_SUBTYPE_ARM_V5TEJ
         then no_subtype else CPU_SUBTYPE_ARM_XSCALE)
      else if s1 = CPU_SUBTYPE_ARM_V5TEJ then
        (if s2 = CPU_SUBTYPE_ARM_XSCALE then no_subtype
         else if s2 = CPU_SUBTYPE_ARM_V7 then CPU_SUBTYPE_ARM_V7
         else if s2 = CPU_SUBTYPE_ARM_V6 then CPU_SUBTYPE_ARM_V6
         else CPU_SUBTYPE_ARM_V5TEJ)
      else if s1 = CPU_SUBTYPE_ARM_V4T then s2
      else no_subtype)"

text \<open>Where only one subtype is known the code can only reach its final \<open>return -1\<close>.\<close>

definition cpusubtype_combine ::
  "cpu_type_t \<Rightarrow> cpu_subtype_t \<Rightarrow> cpu_subtype_t \<Rightarrow> cpu_subtype_t" where
  "cpusubtype_combine cputype cpusubtype1 cpusubtype2 =
     (if cputype = CPU_TYPE_X86_64 \<and>
         (cpusubtype1 = CPU_SUBTYPE_X86_64_H \<or> cpusubtype2 = CPU_SUBTYPE_X86_64_H)
      then no_subtype
      else if cputype = CPU_TYPE_I386 \<or> cputype = CPU_TYPE_X86_64 then CPU_SUBTYPE_I386_ALL
      else if unmask cpusubtype1 = unmask cpusubtype2 then cpusubtype1
      else if cputype = CPU_TYPE_MC680x0 then combine_mc680x0 cpusubtype1 cpusubtype2
      else if cputype = CPU_TYPE_POWERPC then combine_powerpc cpusubtype1 cpusubtype2
      else if cputype = CPU_TYPE_POWERPC64 then combine_powerpc64 cpusubtype1 cpusubtype2
      else if cputype = CPU_TYPE_VEO then combine_veo cpusubtype1 cpusubtype2
      else if cputype = CPU_TYPE_MC88000 then combine_mc88000 cpusubtype1 cpusubtype2
      else if cputype = CPU_TYPE_I860 then combine_i860 cpusubtype1 cpusubtype2
      else if cputype = CPU_TYPE_HPPA then combine_hppa cpusubtype1 cpusubtype2
      else if cputype = CPU_TYPE_SPARC then
        (if unmask cpusubtype1 \<noteq> CPU_SUBTYPE_SPARC_ALL then no_subtype
         else if unmask cpusubtype2 \<noteq> CPU_SUBTYPE_SPARC_ALL then no_subtype else no_subtype)
      else if cputype = CPU_TYPE_ARM then combine_arm cpusubtype1 cpusubtype2
      else if cputype = CPU_TYPE_ARM64 then
        (if unmask cpusubtype1 \<noteq> CPU_SUBTYPE_ARM64_ALL then no_subtype
         else if unmask cpusubtype2 \<noteq> CPU_SUBTYPE_ARM64_ALL then no_subtype else no_subtype)
      else no_subtype)"

section \<open>Executing a subtype\<close>

definition powerpc_base :: "cpu_subtype_t list" where
  "powerpc_base =
     [CPU_SUBTYPE_POWERPC_750, CPU_SUBTYPE_POWERPC_620, CPU_SUBTYPE_POWERPC_604e,
      CPU_SUBTYPE_POWERPC_604, CPU_SUBTYPE_POWERPC_603ev, CPU_SUBTYPE_POWERPC_603e,
      CPU_SUBTYPE_POWERPC_603, CPU_SUBTYPE_POWERPC_602]"

definition execute_powerpc :: "cpu_subtype_t \<Rightarrow> cpu_subtype_t \<Rightarrow> bool" where
  "execute_powerpc host_cpusubtype exec_cpusubtype =
     (let h = unmask host_cpusubtype; x = unmask exec_cpusubtype in
      if h = CPU_SUBTYPE_POWERPC_970 then
        x \<in> set ([CPU_SUBTYPE_POWERPC_970, CPU_SUBTYPE_POWERPC_7450, CPU_SUBTYPE_POWERPC_7400] @
                 powerpc_base @ [CPU_SUBTYPE_POWERPC_ALL])
      else if h = CPU_SUBTYPE_POWERPC_7450 \<or> h = CPU_SUBTYPE_POWERPC_7400 then
        x \<in> set ([CPU_SUBTYPE_POWERPC_7450, CPU_SUBTYPE_POWERPC_7400] @ powerpc_base @
                 [CPU_SUBTYPE_POWERPC_ALL])
      else if h \<in> set powerpc_base then x \<in> set (powerpc_base @ [CPU_SUBTYPE_POWERPC_ALL])
      else if h = CPU_SUBTYPE_POWERPC_601 then
        x \<in> set (powerpc_base @ [CPU_SUBTYPE_POWERPC_601, CPU_SUBTYPE_POWERPC_ALL])
      else x = CPU_SUBTYPE_POWERPC_ALL)"

definition execute_i386 :: "cpu_subtype_t \<Rightarrow> bool" where
  "execute_i386 exec_cpusubtype \<longleftrightarrow>
     unmask exec_cpusubtype \<in>
       set [CPU_SUBTYPE_I386_ALL, CPU_SUBTYPE_486, CPU_SUBTYPE_486SX, CPU_SUBTYPE_586,
            CPU_SUBTYPE_PENTPRO, CPU_SUBTYPE_PENTII_M3, CPU_SUBTYPE_PENTII_M5,
            CPU_SUBTYPE_PENTIUM_4]"

definition execute_mc680x0 :: "cpu_subtype_t \<Rightarrow> cpu_subtype_t \<Rightarrow> bool" where
  "execute_mc680x0 host_cpusubtype exec_cpusubtype =
     (let h = unmask host_cpusubtype; x = unmask exec_cpusubtype in
      if h = CPU_SUBTYPE_MC68040 then x = CPU_SUBTYPE_MC68040 \<or> x = CPU_SUBTYPE_MC680x0_ALL
      else if h = CPU_SUBTYPE_MC68030
      then x = CPU_SUBTYPE_MC680x0_ALL \<or> x = CPU_SUBTYPE_MC68030_ONLY
      else x = CPU_SUBTYPE_MC680x0_ALL)"

definition execute_mc88000 :: "cpu_subtype_t \<Rightarrow> cpu_subtype_t \<Rightarrow> bool" where
  "execute_mc88000 host_cpusubtype exec_cpusubtype =
     (let x = unmask exec_cpusubtype in
      if unmask host_cpusubtype = CPU_SUBTYPE_MC88110
      then x = CPU_SUBTYPE_MC88110 \<or> x = CPU_SUBTYPE_MC88000_ALL
      else x = CPU_SUBTYPE_MC88000_ALL)"

definition execute_hppa :: "cpu_subtype_t \<Rightarrow> cpu_subtype_t \<Rightarrow> bool" where
  "execute_hppa host_cpusubtype exec_cpusubtype =
     (let h = unmask host_cpusubtype; x = unmask exec_cpusubtype in
      if h = CPU_SUBTYPE_HPPA_7100LC then x = CPU_SUBTYPE_HPPA_ALL \<or> x = CPU_SUBTYPE_HPPA_7100LC
      else if h = CPU_SUBTYPE_HPPA_7100 then x = CPU_SUBTYPE_HPPA_ALL
      else x = CPU_SUBTYPE_HPPA_ALL)"

definition execute_arm :: "cpu_subtype_t \<Rightarrow> cpu_subtype_t \<Rightarrow> bool" where
  "execute_arm h x =
     (if h = CPU_SUBTYPE_ARM_V6 then
        x \<in> set [CPU_SUBTYPE_ARM_ALL, CPU_SUBTYPE_ARM_V4T, CPU_SUBTYPE_ARM_V5TEJ,
                  CPU_SUBTYPE_ARM_V6]
      else if h = CPU_SUBTYPE_ARM_V5TEJ then
        x \<in> set [CPU_SUBTYPE_ARM_ALL, CPU_SUBTYPE_ARM_V5TEJ, CPU_SUBTYPE_ARM_V4T]
      else if h = CPU_SUBTYPE_ARM_XSCALE then
        x \<in> set [CPU_SUBTYPE_ARM_ALL, CPU_SUBTYPE_ARM_XSCALE, CPU_SUBTYPE_ARM_V4T]
      else if h = CPU_SUBTYPE_ARM_V4T then
        x \<in> set [CPU_SUBTYPE_ARM_ALL, CPU_SUBTYPE_ARM_V4T]
      else x = CPU_SUBTYPE_ARM_ALL)"

text \<open>The ARM64 case falls through to the ARM case when it does not return.\<close>

definition execute_arm64 :: "cpu_subtype_t \<Rightarrow> cpu_subtype_t \<Rightarrow> bool" where
  "execute_arm64 h x =
     (if h = CPU_SUBTYPE_ARM64_V8 then
        x = CPU_SUBTYPE_ARM64_ALL \<or> x = CPU_SUBTYPE_ARM64_V8 \<or> x = CPU_SUBTYPE_ARM64E \<or>
        execute_arm h x
      else x = CPU_SUBTYPE_ARM64_ALL \<or> execute_arm h x)"

definition cpusubtype_execute :: "cpu_type_t \<Rightarrow> cpu_subtype_t \<Rightarrow> cpu_subtype_t \<Rightarrow> bool" where
  "cpusubtype_execute host_cputype host_cpusubtype exec_cpusubtype =
     (if unmask host_cpusubtype = unmask exec_cpusubtype then True
      else if host_cputype = CPU_TYPE_POWERPC then execute_powerpc host_cpusubtype exec_cpusubtype
      else if host_cputype = CPU_TYPE_I386 then execute_i386 exec_cpusubtype
      else if host_cputype = CPU_TYPE_MC680x0 then execute_mc680x0 host_cpusubtype exec_cpusubtype
      else if host_cputype = CPU_TYPE_MC88000 then execute_mc88000 host_cpusubtype exec_cpusubtype
      else if host_cputype = CPU_TYPE_HPPA then execute_hppa host_cpusubtype exec_cpusubtype
      else if host_cputype = CPU_TYPE_SPARC then unmask exec_cpusubtype = CPU_SUBTYPE_SPARC_ALL
      else if host_cputype = CPU_TYPE_ARM64_32 then
        host_cpusubtype = CPU_SUBTYPE_ARM64_32_V8 \<and> exec_cpusubtype = CPU_SUBTYPE_ARM64_32_V8
      else if host_cputype = CPU_TYPE_ARM64 then execute_arm64 host_cpusubtype exec_cpusubtype
      else if host_cputype = CPU_TYPE_ARM then execute_arm host_cpusubtype exec_cpusubtype
      else False)"

section \<open>Lemmas on the search loops\<close>

lemma find_index_SomeD:
  "find_index p xs = Some i \<Longrightarrow> i < length xs \<and> p (xs ! i) \<and> (\<forall>j<i. \<not> p (xs ! j))"
proof (induction xs arbitrary: i)
  case Nil
  then show ?case by simp
next
  case (Cons x xs)
  show ?case
  proof (cases "p x")
    case True
    with Cons.prems show ?thesis by simp
  next
    case False
    with Cons.prems obtain k where "find_index p xs = Some k" "i = Suc k" by auto
    with Cons.IH [of k] False show ?thesis by (auto simp: less_Suc_eq_0_disj)
  qed
qed

lemma find_index_None_iff: "find_index p xs = None \<longleftrightarrow> (\<forall>x \<in> set xs. \<not> p x)"
  by (induction xs) auto

lemma first_of_SomeD: "first_of f ss = Some i \<Longrightarrow> \<exists>s \<in> set ss. f s = Some i"
  by (induction ss) (auto simp: orelse_eq_Some_iff)

lemma first_of_append: "first_of f (xs @ ys) = orelse (first_of f xs) (first_of f ys)"
proof (induction xs)
  case (Cons x xs)
  then show ?case by (cases "f x") simp_all
qed simp

lemma first_of_None_iff [simp]: "first_of f ss = None \<longleftrightarrow> (\<forall>s \<in> set ss. f s = None)"
  by (induction ss) auto

text \<open>\<open>chosen\<close> says that slice \<open>i\<close> has the processor type and one of the masked subtypes \<open>S\<close>.\<close>

definition chosen :: "cpu_type_t \<Rightarrow> u32 set \<Rightarrow> slices \<Rightarrow> nat \<Rightarrow> bool" where
  "chosen cputype S archs i \<longleftrightarrow>
     i < length archs \<and> fst (archs ! i) = cputype \<and> unmask (snd (archs ! i)) \<in> S"

lemma chosen_mono: "chosen c S archs i \<Longrightarrow> S \<subseteq> T \<Longrightarrow> chosen c T archs i"
  by (auto simp: chosen_def)

lemma pick_SomeD: "pick c archs s = Some i \<Longrightarrow> chosen c {s} archs i"
  by (auto simp: pick_def chosen_def split_beta dest!: find_index_SomeD)

lemma first_of_pick_SomeD: "first_of (pick c archs) ss = Some i \<Longrightarrow> chosen c (set ss) archs i"
  by (auto dest!: first_of_SomeD pick_SomeD intro: chosen_mono)

lemma pick_unmasked_SomeD: "pick_unmasked c archs s = Some i \<Longrightarrow> chosen c {unmask s} archs i"
  by (auto simp: pick_unmasked_def chosen_def split_beta dest!: find_index_SomeD)

lemma first_of_pick_unmasked_SomeD:
  "first_of (pick_unmasked c archs) ss = Some i \<Longrightarrow> chosen c (unmask ` set ss) archs i"
  by (auto dest!: first_of_SomeD pick_unmasked_SomeD intro: chosen_mono)

lemma lowest_model_SomeD:
  "lowest_model c fam k archs low idx = Some i \<Longrightarrow>
   idx = Some i \<or> (k \<le> i \<and> chosen c {s. unat (CPU_SUBTYPE_INTEL_FAMILY s) = fam} archs (i - k))"
proof (induction c fam k archs low idx rule: lowest_model.induct)
  case (2 c fam k t s archs low idx)
  have shift: "chosen c S ((t, s) # archs) (i - k)"
    if "chosen c S archs (i - Suc k)" "Suc k \<le> i" for S
  proof -
    from that(2) obtain d where "i = Suc k + d" using le_Suc_ex by blast
    with that(1) show ?thesis by (auto simp: chosen_def)
  qed
  show ?case
  proof (cases "t = c \<and> unat (CPU_SUBTYPE_INTEL_FAMILY (unmask s)) = fam \<and>
      unat (CPU_SUBTYPE_INTEL_MODEL (unmask s)) < low")
    case True
    with "2.prems" "2.IH"(2) have "i = k \<or> Suc k \<le> i \<and>
        chosen c {s. unat (CPU_SUBTYPE_INTEL_FAMILY s) = fam} archs (i - Suc k)"
      by (auto simp: Let_def)
    with shift True show ?thesis by (auto simp: chosen_def)
  next
    case False
    with "2.prems" have "lowest_model c fam (Suc k) archs low idx = Some i"
      by (auto simp: Let_def split: if_splits)
    with False "2.IH"(1,3,4) have "idx = Some i \<or> Suc k \<le> i \<and>
        chosen c {s. unat (CPU_SUBTYPE_INTEL_FAMILY s) = fam} archs (i - Suc k)"
      by (auto simp: Let_def)
    with shift show ?thesis by auto
  qed
qed simp

lemmas first_of_pickD = first_of_pick_SomeD [THEN chosen_mono] pick_SomeD [THEN chosen_mono]

lemma best_match_chosen:
  "best_match cputype cpusubtype archs = Some i \<Longrightarrow> chosen cputype UNIV archs i"
  by (auto simp: best_match_def best_powerpc64_def best_x86_64_def best_i386_def best_mc680x0_def
        best_powerpc_def best_veo_def best_arm_def best_arm64_def Let_def orelse_eq_Some_iff
      simp del: first_of.simps
      dest!: first_of_pick_SomeD pick_SomeD first_of_pick_unmasked_SomeD lowest_model_SomeD
      elim!: chosen_mono split: if_splits)

lemma exact_match_chosen:
  "exact_match cputype cpusubtype archs = Some i \<Longrightarrow> chosen cputype {unmask cpusubtype} archs i"
  by (auto simp: exact_match_def chosen_def split_beta dest!: find_index_SomeD)

section \<open>The interface of a slice chooser\<close>

text \<open>
  What the users of the routine rely on: the index is that of a slice of the wanted processor type,
  and an exact match, when there is one, is found and is the first.
\<close>

locale slice_chooser =
  fixes select :: "cpu_type_t \<Rightarrow> cpu_subtype_t \<Rightarrow> slices \<Rightarrow> nat option"
  assumes select_chosen: "select c s archs = Some i \<Longrightarrow> chosen c UNIV archs i"
    and select_exact: "exact_match c s archs = Some i \<Longrightarrow> select c s archs = Some i"
begin

lemma select_array:
  assumes "map_option (nth xs) (select c s (map f xs)) = Some x"
  shows "x \<in> set xs \<and> fst (f x) = c"
proof -
  from assms obtain i where "select c s (map f xs) = Some i" "x = xs ! i" by auto
  with select_chosen [of c s "map f xs" i] show ?thesis by (auto simp: chosen_def)
qed

lemma select_exact_array:
  assumes "y \<in> set xs" "f y = (c, s')" "unmask s' = unmask s"
  shows "\<exists>x \<in> set xs. map_option (nth xs) (select c s (map f xs)) = Some x \<and>
           fst (f x) = c \<and> unmask (snd (f x)) = unmask s"
proof -
  from assms have "exact_match c s (map f xs) \<noteq> None"
    unfolding exact_match_def find_index_None_iff by force
  then obtain i where "exact_match c s (map f xs) = Some i" by auto
  with select_exact exact_match_chosen [of c s "map f xs" i] show ?thesis
    by (auto simp: chosen_def)
qed

lemma select_nonempty: "select c s archs = Some i \<Longrightarrow> archs \<noteq> []"
  using select_chosen [of c s archs i] by (auto simp: chosen_def)

end

interpretation findbest: slice_chooser internal_cpusubtype_findbestarch
  by unfold_locales
    (auto simp: internal_cpusubtype_findbestarch_def orelse_eq_Some_iff
      dest: best_match_chosen exact_match_chosen chosen_mono)

section \<open>Properties of the selection\<close>

text \<open>C25. A slice that \<open>cpusubtype_findbestarch\<close> returns is one of the slices of the fat file and has
  the processor type that was asked for, whatever the slices are; the same holds of the 64 bit
  variant.\<close>

theorem findbestarch_sound:
  "(cpusubtype_findbestarch c s fas = Some fa \<longrightarrow> fa \<in> set fas \<and> fa_cputype fa = c) \<and>
   (cpusubtype_findbestarch_64 c s fas64 = Some fa64 \<longrightarrow>
      fa64 \<in> set fas64 \<and> fa64_cputype fa64 = c)"
  using findbest.select_array [of fas c s "\<lambda>fa. (fa_cputype fa, fa_cpusubtype fa)" fa]
    findbest.select_array [of fas64 c s "\<lambda>fa. (fa64_cputype fa, fa64_cpusubtype fa)" fa64]
  by (auto simp: cpusubtype_findbestarch_def cpusubtype_findbestarch_64_def)

abbreviation sample_fat :: "fat_arch list" where
  "sample_fat \<equiv>
     [\<lparr>fa_cputype = CPU_TYPE_I386, fa_cpusubtype = CPU_SUBTYPE_I386_ALL, fa_offset = 4096,
       fa_size = 100, fa_align = 12\<rparr>,
      \<lparr>fa_cputype = CPU_TYPE_POWERPC, fa_cpusubtype = CPU_SUBTYPE_POWERPC_7400, fa_offset = 8192,
       fa_size = 100, fa_align = 12\<rparr>]"

theorem findbestarch_sound_witness:
  "cpusubtype_findbestarch CPU_TYPE_POWERPC CPU_SUBTYPE_POWERPC_970 sample_fat =
     Some (sample_fat ! 1) \<and>
   sample_fat ! 1 \<in> set sample_fat \<and> fa_cputype (sample_fat ! 1) = CPU_TYPE_POWERPC"
proof -
  have "cpusubtype_findbestarch CPU_TYPE_POWERPC CPU_SUBTYPE_POWERPC_970 sample_fat =
      Some (sample_fat ! 1)"
    by code_simp
  with findbestarch_sound [of CPU_TYPE_POWERPC CPU_SUBTYPE_POWERPC_970 sample_fat "sample_fat ! 1"
      "[]" undefined]
  show ?thesis by blast
qed

text \<open>C24. When a slice has the processor type and the subtype that are asked for, up to feature
  flags, the routine succeeds and what it returns matches them too, as its comment promises.\<close>

theorem findbestarch_exact:
  assumes "fa \<in> set fas" "fa_cputype fa = c" "unmask (fa_cpusubtype fa) = unmask s"
  shows "\<exists>r \<in> set fas. cpusubtype_findbestarch c s fas = Some r \<and> fa_cputype r = c \<and>
           unmask (fa_cpusubtype r) = unmask s"
  using findbest.select_exact_array
    [of fa fas "\<lambda>fa. (fa_cputype fa, fa_cpusubtype fa)" c "fa_cpusubtype fa" s] assms
  by (simp add: cpusubtype_findbestarch_def)

theorem findbestarch_exact_witness:
  "\<exists>r \<in> set sample_fat. cpusubtype_findbestarch CPU_TYPE_POWERPC CPU_SUBTYPE_POWERPC_7400 sample_fat =
       Some r \<and> fa_cputype r = CPU_TYPE_POWERPC \<and>
     unmask (fa_cpusubtype r) = unmask CPU_SUBTYPE_POWERPC_7400"
  by (rule findbestarch_exact [of "sample_fat ! 1"]) simp_all

text \<open>The masked subtypes a request can lead to.\<close>

lemma findbestarch_subtypes:
  assumes "internal_cpusubtype_findbestarch c s archs = Some i"
  shows "unmask (snd (archs ! i)) = unmask s \<or> best_match c s archs = Some i"
  using assms exact_match_chosen [of c s archs i]
  by (auto simp: internal_cpusubtype_findbestarch_def orelse_eq_Some_iff chosen_def)

lemma best_powerpc_chosen:
  assumes "best_powerpc c s archs = Some i" "unmask s \<noteq> CPU_SUBTYPE_POWERPC_ALL"
  shows "execute_powerpc s (snd (archs ! i))"
proof -
  consider "unmask s = CPU_SUBTYPE_POWERPC_970"
    | "unmask s = CPU_SUBTYPE_POWERPC_7450 \<or> unmask s = CPU_SUBTYPE_POWERPC_7400"
    | "unmask s \<in> set powerpc_loops"
    | "unmask s \<notin> {CPU_SUBTYPE_POWERPC_970, CPU_SUBTYPE_POWERPC_7450,
         CPU_SUBTYPE_POWERPC_7400} \<union> set powerpc_loops"
    by auto
  then show ?thesis
    by cases
      (use assms in \<open>auto simp: best_powerpc_def Let_def powerpc_loops_def powerpc_altivec_loops_def
         execute_powerpc_def powerpc_base_def chosen_def simp del: first_of.simps
         dest!: first_of_pick_SomeD split: if_splits\<close>)
qed

definition dyld_families :: "cpu_type_t list" where
  "dyld_families =
     [CPU_TYPE_POWERPC, CPU_TYPE_MC680x0, CPU_TYPE_MC88000, CPU_TYPE_HPPA, CPU_TYPE_SPARC]"

text \<open>The ALL subtype of each of these families.\<close>

definition family_all :: "cpu_type_t \<Rightarrow> u32" where
  "family_all c = (if c = CPU_TYPE_MC680x0 then CPU_SUBTYPE_MC680x0_ALL else 0)"

lemma best_match_executes:
  assumes "best_match c s archs = Some i" "c \<in> set dyld_families" "unmask s \<noteq> family_all c"
  shows "cpusubtype_execute c s (snd (archs ! i))"
proof -
  from assms(2) consider "c = CPU_TYPE_POWERPC" | "c = CPU_TYPE_MC680x0"
    | "c = CPU_TYPE_MC88000" | "c = CPU_TYPE_HPPA" | "c = CPU_TYPE_SPARC"
    by (auto simp: dyld_families_def)
  then show ?thesis
  proof cases
    case 1
    then show ?thesis using assms(1,3) best_powerpc_chosen [of c s archs i]
      by (simp add: best_match_def cpusubtype_execute_def family_all_def)
  next
    case 2
    then show ?thesis using assms(1,3)
      by (auto simp: best_match_def best_mc680x0_def cpusubtype_execute_def execute_mc680x0_def
          family_all_def orelse_eq_Some_iff chosen_def dest!: pick_SomeD)
  qed (use assms(1,3) in \<open>auto simp: best_match_def cpusubtype_execute_def execute_mc88000_def
    execute_hppa_def family_all_def chosen_def dest!: pick_SomeD\<close>)
qed



text \<open>A PowerPC 601 slice is only ever returned for a request for the 601 itself.\<close>

theorem findbestarch_601_exact:
  assumes "cpusubtype_findbestarch CPU_TYPE_POWERPC s fas = Some fa"
    "unmask (fa_cpusubtype fa) = CPU_SUBTYPE_POWERPC_601"
  shows "unmask s = CPU_SUBTYPE_POWERPC_601"
proof (rule ccontr)
  assume neq: "unmask s \<noteq> CPU_SUBTYPE_POWERPC_601"
  let ?archs = "map (\<lambda>fa. (fa_cputype fa, fa_cpusubtype fa)) fas"
  from assms(1) obtain i where i: "internal_cpusubtype_findbestarch CPU_TYPE_POWERPC s ?archs = Some i"
    and fa: "fa = fas ! i"
    by (auto simp: cpusubtype_findbestarch_def)
  from findbest.select_chosen [OF i] have "i < length fas" by (simp add: chosen_def)
  with fa assms(2) have sub: "unmask (snd (?archs ! i)) = CPU_SUBTYPE_POWERPC_601" by simp
  with neq findbestarch_subtypes [OF i] have "best_powerpc CPU_TYPE_POWERPC s ?archs = Some i"
    by (auto simp: best_match_def)
  then have "chosen CPU_TYPE_POWERPC ({CPU_SUBTYPE_POWERPC_970, CPU_SUBTYPE_POWERPC_7450,
      CPU_SUBTYPE_POWERPC_7400, CPU_SUBTYPE_POWERPC_ALL} \<union> set powerpc_loops) ?archs i"
    by (auto simp: best_powerpc_def Let_def powerpc_altivec_loops_def simp del: first_of.simps
        dest!: first_of_pick_SomeD elim!: chosen_mono split: if_splits)
  with sub show False by (auto simp: chosen_def powerpc_loops_def)
qed

theorem findbestarch_601_exact_witness:
  "unmask CPU_SUBTYPE_POWERPC_601 = CPU_SUBTYPE_POWERPC_601 \<and>
   cpusubtype_findbestarch CPU_TYPE_POWERPC CPU_SUBTYPE_POWERPC_601
     [(sample_fat ! 1)\<lparr>fa_cpusubtype := CPU_SUBTYPE_POWERPC_601\<rparr>] =
     Some ((sample_fat ! 1)\<lparr>fa_cpusubtype := CPU_SUBTYPE_POWERPC_601\<rparr>)"
proof -
  let ?fa = "(sample_fat ! 1)\<lparr>fa_cpusubtype := CPU_SUBTYPE_POWERPC_601\<rparr>"
  have "cpusubtype_findbestarch CPU_TYPE_POWERPC CPU_SUBTYPE_POWERPC_601 [?fa] = Some ?fa"
    by code_simp
  moreover have "unmask (fa_cpusubtype ?fa) = CPU_SUBTYPE_POWERPC_601" by code_simp
  ultimately show ?thesis
    using findbestarch_601_exact [of CPU_SUBTYPE_POWERPC_601 "[?fa]" ?fa] by blast
qed

section \<open>Properties of combination and execution\<close>

lemma combine_mc680x0_commute: "combine_mc680x0 a b = combine_mc680x0 b a"
  by (auto simp: combine_mc680x0_def Let_def)

lemma combine_veo_commute: "combine_veo a b = combine_veo b a"
  unfolding combine_veo_def Let_def
  by (cases "unmask a = CPU_SUBTYPE_VEO_2"; cases "unmask b = CPU_SUBTYPE_VEO_2"; simp; simp)

lemma combine_mc88000_commute: "combine_mc88000 a b = combine_mc88000 b a"
  by (auto simp: combine_mc88000_def Let_def)

lemma combine_i860_commute: "combine_i860 a b = combine_i860 b a"
  by (auto simp: combine_i860_def Let_def)

lemma combine_hppa_commute: "combine_hppa a b = combine_hppa b a"
  by (auto simp: combine_hppa_def Let_def)

lemma unmask_combine_powerpc64:
  "unmask (combine_powerpc64 a b) = max (unmask a) (unmask b)"
  by (auto simp: combine_powerpc64_def max_def)

lemma unmask_combine_powerpc:
  assumes "unmask a \<noteq> CPU_SUBTYPE_POWERPC_601" "unmask b \<noteq> CPU_SUBTYPE_POWERPC_601"
  shows "unmask (combine_powerpc a b) = max (unmask a) (unmask b)"
  using assms by (auto simp: combine_powerpc_def max_def)

lemma combine_powerpc_commute:
  "unmask a \<noteq> unmask b \<Longrightarrow> combine_powerpc a b = combine_powerpc b a"
  by (auto simp: combine_powerpc_def)

lemmas combine_commutes = combine_mc680x0_commute combine_veo_commute combine_mc88000_commute
  combine_i860_commute combine_hppa_commute combine_powerpc_commute

text \<open>Combining two subtypes does not depend on their order, up to feature flags, for every
  processor type except ARM.\<close>

theorem cpusubtype_combine_commute:
  assumes "c \<noteq> CPU_TYPE_ARM"
  shows "unmask (cpusubtype_combine c a b) = unmask (cpusubtype_combine c b a)"
proof (cases "unmask a = unmask b")
  case True
  then show ?thesis by (simp add: cpusubtype_combine_def disj_commute)
next
  case False
  with assms show ?thesis
    using combine_commutes [of a b]
    by (simp add: cpusubtype_combine_def unmask_combine_powerpc64 max.commute disj_commute)
qed

theorem cpusubtype_combine_commute_witness:
  "CPU_TYPE_VEO \<noteq> CPU_TYPE_ARM \<and>
   cpusubtype_combine CPU_TYPE_VEO CPU_SUBTYPE_VEO_3 CPU_SUBTYPE_VEO_4 = CPU_SUBTYPE_VEO_4 \<and>
   unmask (cpusubtype_combine CPU_TYPE_VEO CPU_SUBTYPE_VEO_4 CPU_SUBTYPE_VEO_3) = CPU_SUBTYPE_VEO_4"
proof -
  have "cpusubtype_combine CPU_TYPE_VEO CPU_SUBTYPE_VEO_3 CPU_SUBTYPE_VEO_4 = CPU_SUBTYPE_VEO_4"
    by code_simp
  moreover have "unmask CPU_SUBTYPE_VEO_4 = CPU_SUBTYPE_VEO_4" by code_simp
  ultimately show ?thesis
    using cpusubtype_combine_commute [of CPU_TYPE_VEO CPU_SUBTYPE_VEO_3 CPU_SUBTYPE_VEO_4] by simp
qed

text \<open>For ARM the order matters: version 6 with version 7 gives version 6, version 7 with
  version 6 gives version 7, where the matrix in the comment has version 7 in both places; and
  combining with the ALL subtype gives the other subtype, where the matrix has ALL.\<close>

theorem cpusubtype_combine_arm_order:
  "cpusubtype_combine CPU_TYPE_ARM CPU_SUBTYPE_ARM_V6 CPU_SUBTYPE_ARM_V7 = CPU_SUBTYPE_ARM_V6 \<and>
   cpusubtype_combine CPU_TYPE_ARM CPU_SUBTYPE_ARM_V7 CPU_SUBTYPE_ARM_V6 = CPU_SUBTYPE_ARM_V7 \<and>
   cpusubtype_combine CPU_TYPE_ARM CPU_SUBTYPE_ARM_ALL CPU_SUBTYPE_ARM_V4T = CPU_SUBTYPE_ARM_V4T"
  by (simp add: cpusubtype_combine_def combine_arm_def unmask_def)

text \<open>On the known subtypes, what a PowerPC host executes is an initial segment.\<close>

abbreviation powerpc_known :: "cpu_subtype_t list" where
  "powerpc_known \<equiv> powerpc_base @ [CPU_SUBTYPE_POWERPC_ALL, CPU_SUBTYPE_POWERPC_7400,
     CPU_SUBTYPE_POWERPC_7450, CPU_SUBTYPE_POWERPC_970]"

definition powerpc_bound :: "cpu_subtype_t \<Rightarrow> u32" where
  "powerpc_bound h =
     (if h = CPU_SUBTYPE_POWERPC_970 then CPU_SUBTYPE_POWERPC_970
      else if h = CPU_SUBTYPE_POWERPC_7450 \<or> h = CPU_SUBTYPE_POWERPC_7400
      then CPU_SUBTYPE_POWERPC_7450
      else if h \<in> set powerpc_base \<or> h = CPU_SUBTYPE_POWERPC_601 then CPU_SUBTYPE_POWERPC_750
      else CPU_SUBTYPE_POWERPC_ALL)"

lemma execute_powerpc_bound:
  assumes "unmask z \<in> set powerpc_known"
  shows "execute_powerpc h z \<longleftrightarrow> unmask z \<le> powerpc_bound (unmask h)"
proof -
  have "unmask z = 0 \<or> unmask z = 2 \<or> unmask z = 3 \<or> unmask z = 4 \<or> unmask z = 5 \<or>
      unmask z = 6 \<or> unmask z = 7 \<or> unmask z = 8 \<or> unmask z = 9 \<or> unmask z = 10 \<or>
      unmask z = 11 \<or> unmask z = 100"
    using assms by (simp add: powerpc_base_def) blast
  then show ?thesis
    unfolding execute_powerpc_def powerpc_bound_def Let_def
    by (elim disjE) (simp_all add: powerpc_base_def)
qed

lemma execute_powerpc_self:
  assumes "unmask h \<in> set powerpc_known"
  shows "execute_powerpc h h"
  using assms unfolding execute_powerpc_def Let_def by auto

lemma execute_powerpc_downward:
  assumes "unmask x \<in> set powerpc_known" "unmask y \<in> set powerpc_known" "unmask y \<le> unmask x"
    "cpusubtype_execute CPU_TYPE_POWERPC h x"
  shows "cpusubtype_execute CPU_TYPE_POWERPC h y"
proof -
  have exec: "cpusubtype_execute CPU_TYPE_POWERPC h z \<longleftrightarrow> unmask h = unmask z \<or> execute_powerpc h z"
    for z
    by (simp add: cpusubtype_execute_def)
  have "execute_powerpc h x"
  proof (cases "unmask h = unmask x")
    case True
    with assms(1) execute_powerpc_self [of h] show ?thesis by (simp add: execute_powerpc_def)
  next
    case False
    with assms(4) exec show ?thesis by blast
  qed
  with assms(1-3) execute_powerpc_bound have "execute_powerpc h y" by (meson order_trans)
  with exec show ?thesis by blast
qed

text \<open>C26. The subtype of a combination is no weaker than its parts: for the known PowerPC subtypes
  other than the 601, a host that can execute the combined subtype can execute both.\<close>

theorem cpusubtype_combine_powerpc_safe:
  assumes "unmask a \<in> set powerpc_known"
    "unmask b \<in> set powerpc_known"
    "cpusubtype_execute CPU_TYPE_POWERPC h (cpusubtype_combine CPU_TYPE_POWERPC a b)"
  shows "cpusubtype_execute CPU_TYPE_POWERPC h a \<and> cpusubtype_execute CPU_TYPE_POWERPC h b"
proof -
  let ?r = "cpusubtype_combine CPU_TYPE_POWERPC a b"
  have r: "unmask ?r = max (unmask a) (unmask b)"
    using assms(1,2) unmask_combine_powerpc [of a b]
    by (auto simp: cpusubtype_combine_def powerpc_base_def)
  then have "unmask ?r = unmask a \<or> unmask ?r = unmask b" by (auto simp: max_def)
  with assms(1,2) have "unmask ?r \<in> set powerpc_known"
    by auto
  with r assms execute_powerpc_downward [of ?r a h] execute_powerpc_downward [of ?r b h]
  show ?thesis by simp
qed

theorem cpusubtype_combine_powerpc_safe_witness:
  "cpusubtype_combine CPU_TYPE_POWERPC CPU_SUBTYPE_POWERPC_750 CPU_SUBTYPE_POWERPC_7400 =
     CPU_SUBTYPE_POWERPC_7400 \<and>
   cpusubtype_execute CPU_TYPE_POWERPC CPU_SUBTYPE_POWERPC_7450 CPU_SUBTYPE_POWERPC_750"
proof -
  have combine: "cpusubtype_combine CPU_TYPE_POWERPC CPU_SUBTYPE_POWERPC_750 CPU_SUBTYPE_POWERPC_7400 =
      CPU_SUBTYPE_POWERPC_7400"
    by code_simp
  have "cpusubtype_execute CPU_TYPE_POWERPC CPU_SUBTYPE_POWERPC_7450 CPU_SUBTYPE_POWERPC_7400"
    by code_simp
  moreover have "unmask CPU_SUBTYPE_POWERPC_750 \<in> set powerpc_known" by code_simp
  moreover have "unmask CPU_SUBTYPE_POWERPC_7400 \<in> set powerpc_known" by code_simp
  ultimately show ?thesis
    using combine cpusubtype_combine_powerpc_safe
      [of CPU_SUBTYPE_POWERPC_750 CPU_SUBTYPE_POWERPC_7400 CPU_SUBTYPE_POWERPC_7450]
    by simp
qed

end
