(* ===== verification/Command_Codecs.thy ===== *)
theory Command_Codecs
  imports MachO_Swap
begin

text \<open>
  Swap routines as operations on memory. \<open>in_place\<close> reads a structure, swaps it and stores it where
  it was. What the load command walk needs of a routine is the contract \<open>command_codec\<close>: it keeps
  the size, the same routine on the machine of the other byte order undoes it, and that machine sees
  the same \<open>cmd\<close> and \<open>cmdsize\<close> in the result. It is interpreted on every routine that meets it; the
  one for the 64 bit encryption command does not.
\<close>

definition in_place ::
  "(endian \<Rightarrow> bytes \<Rightarrow> 'a) \<Rightarrow> (endian \<Rightarrow> 'a \<Rightarrow> bytes) \<Rightarrow> ('a \<Rightarrow> 'a) \<Rightarrow> endian \<Rightarrow> bytes \<Rightarrow> bytes" where
  "in_place dec enc swap e bs = enc e (swap (dec e bs))"

locale memory_codec =
  fixes sz :: nat
    and conv :: "endian \<Rightarrow> bytes \<Rightarrow> bytes"
  assumes length_conv: "length bs = sz \<Longrightarrow> length (conv e bs) = sz"
    and conv_conv: "length bs = sz \<Longrightarrow> conv (opp e) (conv e bs) = bs"

locale command_codec = memory_codec +
  assumes sz_ge_8: "8 \<le> sz"
    and conv_cmd: "length bs = sz \<Longrightarrow> get32 (opp e) (conv e bs) 0 = get32 e bs 0"
    and conv_cmdsize: "length bs = sz \<Longrightarrow> get32 (opp e) (conv e bs) 4 = get32 e bs 4"

locale string_command = command_codec +
  fixes offs :: "nat list"
  assumes offs_inside: "off \<in> set offs \<Longrightarrow> off + 4 \<le> sz"
    and conv_offs:
      "off \<in> set offs \<Longrightarrow> length bs = sz \<Longrightarrow> get32 (opp e) (conv e bs) off = get32 e bs off"

context endian_struct
begin

lemma in_place_enc: "length bs = sz \<Longrightarrow> in_place dec enc swap e bs = enc (opp e) (dec e bs)"
  by (simp add: in_place_def enc_swap wf_dec)

lemma in_place_codec: "memory_codec sz (in_place dec enc swap)"
  by unfold_locales
    (simp_all add: in_place_enc length_enc wf_dec dec_enc enc_dec)

end

lemma command_codecI:
  assumes "memory_codec sz conv" "8 \<le> sz"
    "\<And>bs e. length bs = sz \<Longrightarrow> get32 (opp e) (conv e bs) 0 = get32 e bs 0"
    "\<And>bs e. length bs = sz \<Longrightarrow> get32 (opp e) (conv e bs) 4 = get32 e bs 4"
  shows "command_codec sz conv"
  using assms by (intro command_codec.intro command_codec_axioms.intro)

section \<open>The load commands\<close>

interpretation symtab_command_conv: command_codec sizeof_symtab_command
  "in_place dec_symtab_command enc_symtab_command swap_symtab_command"
  by (rule command_codecI [OF symtab_command.in_place_codec])
    (simp_all add: symtab_command.in_place_enc symtab_command_codec)

interpretation dysymtab_command_conv: command_codec sizeof_dysymtab_command
  "in_place dec_dysymtab_command enc_dysymtab_command swap_dysymtab_command"
  by (rule command_codecI [OF dysymtab_command.in_place_codec])
    (simp_all add: dysymtab_command.in_place_enc dysymtab_command_codec)

interpretation symseg_command_conv: command_codec sizeof_symseg_command
  "in_place dec_symseg_command enc_symseg_command swap_symseg_command"
  by (rule command_codecI [OF symseg_command.in_place_codec])
    (simp_all add: symseg_command.in_place_enc symseg_command_codec)

interpretation fvmlib_command_conv: command_codec sizeof_fvmlib_command
  "in_place dec_fvmlib_command enc_fvmlib_command swap_fvmlib_command"
  by (rule command_codecI [OF fvmlib_command.in_place_codec])
    (simp_all add: fvmlib_command.in_place_enc fvmlib_command_codec)

interpretation dylib_command_conv: command_codec sizeof_dylib_command
  "in_place dec_dylib_command enc_dylib_command swap_dylib_command"
  by (rule command_codecI [OF dylib_command.in_place_codec])
    (simp_all add: dylib_command.in_place_enc dylib_command_codec)

interpretation sub_framework_command_conv: command_codec sizeof_sub_framework_command
  "in_place dec_sub_framework_command enc_sub_framework_command swap_sub_framework_command"
  by (rule command_codecI [OF sub_framework_command.in_place_codec])
    (simp_all add: sub_framework_command.in_place_enc sub_framework_command_codec)

interpretation sub_umbrella_command_conv: command_codec sizeof_sub_umbrella_command
  "in_place dec_sub_umbrella_command enc_sub_umbrella_command swap_sub_umbrella_command"
  by (rule command_codecI [OF sub_umbrella_command.in_place_codec])
    (simp_all add: sub_umbrella_command.in_place_enc sub_umbrella_command_codec)

interpretation sub_library_command_conv: command_codec sizeof_sub_library_command
  "in_place dec_sub_library_command enc_sub_library_command swap_sub_library_command"
  by (rule command_codecI [OF sub_library_command.in_place_codec])
    (simp_all add: sub_library_command.in_place_enc sub_library_command_codec)

interpretation sub_client_command_conv: command_codec sizeof_sub_client_command
  "in_place dec_sub_client_command enc_sub_client_command swap_sub_client_command"
  by (rule command_codecI [OF sub_client_command.in_place_codec])
    (simp_all add: sub_client_command.in_place_enc sub_client_command_codec)

interpretation prebound_dylib_command_conv: command_codec sizeof_prebound_dylib_command
  "in_place dec_prebound_dylib_command enc_prebound_dylib_command swap_prebound_dylib_command"
  by (rule command_codecI [OF prebound_dylib_command.in_place_codec])
    (simp_all add: prebound_dylib_command.in_place_enc prebound_dylib_command_codec)

interpretation dylinker_command_conv: command_codec sizeof_dylinker_command
  "in_place dec_dylinker_command enc_dylinker_command swap_dylinker_command"
  by (rule command_codecI [OF dylinker_command.in_place_codec])
    (simp_all add: dylinker_command.in_place_enc dylinker_command_codec)

interpretation thread_command_conv: command_codec sizeof_thread_command
  "in_place dec_thread_command enc_thread_command swap_thread_command"
  by (rule command_codecI [OF thread_command.in_place_codec])
    (simp_all add: thread_command.in_place_enc thread_command_codec)

interpretation entry_point_command_conv: command_codec sizeof_entry_point_command
  "in_place dec_entry_point_command enc_entry_point_command swap_entry_point_command"
  by (rule command_codecI [OF entry_point_command.in_place_codec])
    (simp_all add: entry_point_command.in_place_enc entry_point_command_codec)

interpretation source_version_command_conv: command_codec sizeof_source_version_command
  "in_place dec_source_version_command enc_source_version_command swap_source_version_command"
  by (rule command_codecI [OF source_version_command.in_place_codec])
    (simp_all add: source_version_command.in_place_enc source_version_command_codec)

interpretation note_command_conv: command_codec sizeof_note_command
  "in_place dec_note_command enc_note_command swap_note_command"
  by (rule command_codecI [OF note_command.in_place_codec])
    (simp_all add: note_command.in_place_enc note_command_codec)

interpretation ident_command_conv: command_codec sizeof_ident_command
  "in_place dec_ident_command enc_ident_command swap_ident_command"
  by (rule command_codecI [OF ident_command.in_place_codec])
    (simp_all add: ident_command.in_place_enc ident_command_codec)

interpretation routines_command_conv: command_codec sizeof_routines_command
  "in_place dec_routines_command enc_routines_command swap_routines_command"
  by (rule command_codecI [OF routines_command.in_place_codec])
    (simp_all add: routines_command.in_place_enc routines_command_codec)

interpretation routines_command_64_conv: command_codec sizeof_routines_command_64
  "in_place dec_routines_command_64 enc_routines_command_64 swap_routines_command_64"
  by (rule command_codecI [OF routines_command_64.in_place_codec])
    (simp_all add: routines_command_64.in_place_enc routines_command_64_codec)

interpretation twolevel_hints_command_conv: command_codec sizeof_twolevel_hints_command
  "in_place dec_twolevel_hints_command enc_twolevel_hints_command swap_twolevel_hints_command"
  by (rule command_codecI [OF twolevel_hints_command.in_place_codec])
    (simp_all add: twolevel_hints_command.in_place_enc twolevel_hints_command_codec)

interpretation prebind_cksum_command_conv: command_codec sizeof_prebind_cksum_command
  "in_place dec_prebind_cksum_command enc_prebind_cksum_command swap_prebind_cksum_command"
  by (rule command_codecI [OF prebind_cksum_command.in_place_codec])
    (simp_all add: prebind_cksum_command.in_place_enc prebind_cksum_command_codec)

interpretation uuid_command_conv: command_codec sizeof_uuid_command
  "in_place dec_uuid_command enc_uuid_command swap_uuid_command"
  by (rule command_codecI [OF uuid_command.in_place_codec])
    (simp_all add: uuid_command.in_place_enc uuid_command_codec)

interpretation linkedit_data_command_conv: command_codec sizeof_linkedit_data_command
  "in_place dec_linkedit_data_command enc_linkedit_data_command swap_linkedit_data_command"
  by (rule command_codecI [OF linkedit_data_command.in_place_codec])
    (simp_all add: linkedit_data_command.in_place_enc linkedit_data_command_codec)

interpretation rpath_command_conv: command_codec sizeof_rpath_command
  "in_place dec_rpath_command enc_rpath_command swap_rpath_command"
  by (rule command_codecI [OF rpath_command.in_place_codec])
    (simp_all add: rpath_command.in_place_enc rpath_command_codec)

interpretation encryption_info_command_conv: command_codec sizeof_encryption_info_command
  "in_place dec_encryption_info_command enc_encryption_info_command swap_encryption_command"
  by (rule command_codecI [OF encryption_info_command.in_place_codec])
    (simp_all add: encryption_info_command.in_place_enc encryption_info_command_codec)

interpretation linker_option_command_conv: command_codec sizeof_linker_option_command
  "in_place dec_linker_option_command enc_linker_option_command swap_linker_option_command"
  by (rule command_codecI [OF linker_option_command.in_place_codec])
    (simp_all add: linker_option_command.in_place_enc linker_option_command_codec)

interpretation dyld_info_command_conv: command_codec sizeof_dyld_info_command
  "in_place dec_dyld_info_command enc_dyld_info_command swap_dyld_info_command"
  by (rule command_codecI [OF dyld_info_command.in_place_codec])
    (simp_all add: dyld_info_command.in_place_enc dyld_info_command_codec)

interpretation segment_command_conv: command_codec sizeof_segment_command
  "in_place dec_segment_command enc_segment_command swap_segment_command"
  by (rule command_codecI [OF segment_command.in_place_codec])
    (simp_all add: segment_command.in_place_enc segment_command_codec)

interpretation segment_command_64_conv: command_codec sizeof_segment_command_64
  "in_place dec_segment_command_64 enc_segment_command_64 swap_segment_command_64"
  by (rule command_codecI [OF segment_command_64.in_place_codec])
    (simp_all add: segment_command_64.in_place_enc segment_command_64_codec)

interpretation build_version_command_conv: command_codec sizeof_build_version_command
  "in_place dec_build_version_command enc_build_version_command swap_build_version_command"
  by (rule command_codecI [OF build_version_command.in_place_codec])
    (simp_all add: build_version_command.in_place_enc build_version_command_codec)

section \<open>String offsets\<close>

interpretation fvmlib_command_strings: string_command sizeof_fvmlib_command
  "in_place dec_fvmlib_command enc_fvmlib_command swap_fvmlib_command" "[8]"
  by unfold_locales
    (auto simp: fvmlib_command.in_place_enc fvmlib_command_codec)

interpretation dylib_command_strings: string_command sizeof_dylib_command
  "in_place dec_dylib_command enc_dylib_command swap_dylib_command" "[8]"
  by unfold_locales
    (auto simp: dylib_command.in_place_enc dylib_command_codec)

interpretation sub_framework_command_strings: string_command sizeof_sub_framework_command
  "in_place dec_sub_framework_command enc_sub_framework_command swap_sub_framework_command" "[8]"
  by unfold_locales
    (auto simp: sub_framework_command.in_place_enc sub_framework_command_codec)

interpretation sub_umbrella_command_strings: string_command sizeof_sub_umbrella_command
  "in_place dec_sub_umbrella_command enc_sub_umbrella_command swap_sub_umbrella_command" "[8]"
  by unfold_locales
    (auto simp: sub_umbrella_command.in_place_enc sub_umbrella_command_codec)

interpretation sub_library_command_strings: string_command sizeof_sub_library_command
  "in_place dec_sub_library_command enc_sub_library_command swap_sub_library_command" "[8]"
  by unfold_locales
    (auto simp: sub_library_command.in_place_enc sub_library_command_codec)

interpretation sub_client_command_strings: string_command sizeof_sub_client_command
  "in_place dec_sub_client_command enc_sub_client_command swap_sub_client_command" "[8]"
  by unfold_locales
    (auto simp: sub_client_command.in_place_enc sub_client_command_codec)

interpretation prebound_dylib_command_strings: string_command sizeof_prebound_dylib_command
  "in_place dec_prebound_dylib_command enc_prebound_dylib_command swap_prebound_dylib_command" "[8, 16]"
  by unfold_locales
    (auto simp: prebound_dylib_command.in_place_enc prebound_dylib_command_codec)

interpretation dylinker_command_strings: string_command sizeof_dylinker_command
  "in_place dec_dylinker_command enc_dylinker_command swap_dylinker_command" "[8]"
  by unfold_locales
    (auto simp: dylinker_command.in_place_enc dylinker_command_codec)

interpretation rpath_command_strings: string_command sizeof_rpath_command
  "in_place dec_rpath_command enc_rpath_command swap_rpath_command" "[8]"
  by unfold_locales
    (auto simp: rpath_command.in_place_enc rpath_command_codec)

interpretation linker_option_command_strings: string_command sizeof_linker_option_command
  "in_place dec_linker_option_command enc_linker_option_command swap_linker_option_command" "[]"
  by unfold_locales
    (auto simp: linker_option_command.in_place_enc linker_option_command_codec)

section \<open>Routines that miss a field\<close>

lemma of_bytes_put_opp:
  "off + 4 \<le> length bs \<Longrightarrow> of_bytes (opp e) (put32 e (get32 (opp e) bs off)) = get32 e bs off"
  "off + 8 \<le> length bs \<Longrightarrow> of_bytes (opp e) (put64 e (get64 (opp e) bs off)) = get64 e bs off"
  using SWAP_get(2) [of off bs e] SWAP_get(3) [of off bs e]
    swap32.to_bytes_SWAP [of e "get32 e bs off"] swap64.to_bytes_SWAP [of e "get64 e bs off"]
  by (simp_all add: of_bytes_to_bytes)

text \<open>The version minimum command misses a field, but it misses it both times.\<close>

interpretation version_min_command_conv: command_codec sizeof_version_min_command
  "in_place dec_version_min_command enc_version_min_command swap_version_min_command"
  by unfold_locales (simp_all add: in_place_def swap_version_min_command_dec,
      simp_all add: version_min_command_codec of_bytes_put_opp swap_version_min_command_def)

section \<open>Elements of tables\<close>

interpretation section_conv: memory_codec sizeof_section
  "in_place dec_section enc_section swap_section_elem"
  by (rule section32.in_place_codec)

interpretation build_tool_version_conv: memory_codec sizeof_build_tool_version
  "in_place dec_build_tool_version enc_build_tool_version swap_build_tool_version_elem"
  by (rule build_tool_version.in_place_codec)

interpretation section_64_conv: memory_codec sizeof_section_64
  "in_place dec_section_64 enc_section_64 swap_section_64_elem"
  by unfold_locales (simp_all add: in_place_def section_64_codec of_bytes_put_opp swap_section_64_elem_def)

section \<open>The counts of tables\<close>

lemma nsects_conv:
  "length bs = sizeof_segment_command \<Longrightarrow>
   get32 (opp e) (in_place dec_segment_command enc_segment_command swap_segment_command e bs) 48 =
     get32 e bs 48"
  by (simp add: segment_command.in_place_enc segment_command_codec)

lemma nsects_64_conv:
  "length bs = sizeof_segment_command_64 \<Longrightarrow>
   get32 (opp e) (in_place dec_segment_command_64 enc_segment_command_64 swap_segment_command_64 e bs) 64 =
     get32 e bs 64"
  by (simp add: segment_command_64.in_place_enc segment_command_64_codec)

lemma ntools_conv:
  "length bs = sizeof_build_version_command \<Longrightarrow>
   get32 (opp e) (in_place dec_build_version_command enc_build_version_command swap_build_version_command e bs) 20 =
     get32 e bs 20"
  by (simp add: build_version_command.in_place_enc build_version_command_codec)

end
