(* ===== verification/Thread_States.thy ===== *)
theory Thread_States
  imports Bytesex Machine
begin

text \<open>
  The machine thread states inside \<open>LC_THREAD\<close> and \<open>LC_UNIXTHREAD\<close> load commands, from the
  \<^verbatim>\<open>thread_status.h\<close> files under \<^verbatim>\<open>cctools/include/mach\<close>, and their swap routines from
  \<^verbatim>\<open>cctools/libstuff/bytesex.c\<close>. A state is given by its layout, the list of its fields in the
  order of the structure with what the swap routine does to each; the routine walks the bytes of the
  state along its layout. The layouts are those of an LP64 build by a compiler that defines
  \<open>__GNUC__\<close>, the padding the compiler adds at the end of a structure included.

  A status register declared with bit fields is a field \<open>Bits\<close>. How a compiler packs bit fields is
  its own choice, and the routines leave the unused bits of the register undefined, so what happens to
  the bytes of such a register is the parameter \<open>bits\<close> of the model.
\<close>

section \<open>Fields\<close>

datatype bit_register =
    M88K_FPSR | M88K_FPCR | M88110_BP_CTRL | M88110_PSR | M88110_FP_TRAP_STATUS
  | FP_CONTROL | FP_STATUS | SPARC_PSR | SPARC_FSR

datatype field =
    Swap_Short            \<comment> \<open>\<open>SWAP_SHORT\<close> on 16 bits\<close>
  | Swap_Int              \<comment> \<open>\<open>SWAP_INT\<close> on 32 bits\<close>
  | Swap_Short_As_Int     \<comment> \<open>\<open>SWAP_INT\<close> on 16 bits\<close>
  | Swap_Long_Long        \<comment> \<open>\<open>SWAP_LONG_LONG\<close>\<close>
  | Swap_Double           \<comment> \<open>\<open>SWAP_DOUBLE\<close>\<close>
  | Swap_Ext96            \<comment> \<open>three words, swapped and in the other order\<close>
  | Keep nat         \<comment> \<open>bytes the routine does not touch\<close>
  | Bits bit_register nat

type_synonym layout = "field list"
type_synonym bit_swap = "bit_register \<Rightarrow> bytes \<Rightarrow> bytes"

fun field_size :: "field \<Rightarrow> nat" where
  "field_size Swap_Short = 2"
| "field_size Swap_Int = 4"
| "field_size Swap_Short_As_Int = 2"
| "field_size Swap_Long_Long = 8"
| "field_size Swap_Double = 8"
| "field_size Swap_Ext96 = 12"
| "field_size (Keep n) = n"
| "field_size (Bits r n) = n"

definition layout_size :: "layout \<Rightarrow> nat" where
  "layout_size fs = sum_list (map field_size fs)"

text \<open>\<open>SWAP_DOUBLE\<close> reverses the bytes of a double through a union.\<close>

definition SWAP_DOUBLE :: "bytes \<Rightarrow> bytes" where
  "SWAP_DOUBLE c = [c ! 7, c ! 6, c ! 5, c ! 4, c ! 3, c ! 2, c ! 1, c ! 0]"

text \<open>The loop over the 68882 registers: \<open>fp[0]\<close> and \<open>fp[2]\<close> change places.\<close>

definition SWAP_EXT96 :: "endian \<Rightarrow> bytes \<Rightarrow> bytes" where
  "SWAP_EXT96 e bs =
     (let tmp = SWAP_INT (get32 e bs 0) in
      put32 e (SWAP_INT (get32 e bs 8)) @ put32 e (SWAP_INT (get32 e bs 4)) @ put32 e tmp)"

fun swap_field :: "endian \<Rightarrow> bit_swap \<Rightarrow> field \<Rightarrow> bytes \<Rightarrow> bytes" where
  "swap_field e bits Swap_Short bs = put16 e (SWAP_SHORT (of_bytes e bs))"
| "swap_field e bits Swap_Int bs = put32 e (SWAP_INT (of_bytes e bs))"
| "swap_field e bits Swap_Short_As_Int bs = put16 e (ucast (SWAP_INT (ucast (of_bytes e bs :: u16))))"
| "swap_field e bits Swap_Long_Long bs = put64 e (SWAP_LONG_LONG (of_bytes e bs))"
| "swap_field e bits Swap_Double bs = SWAP_DOUBLE bs"
| "swap_field e bits Swap_Ext96 bs = SWAP_EXT96 e bs"
| "swap_field e bits (Keep n) bs = bs"
| "swap_field e bits (Bits r n) bs = bits r bs"

fun swap_layout :: "endian \<Rightarrow> bit_swap \<Rightarrow> layout \<Rightarrow> bytes \<Rightarrow> bytes" where
  "swap_layout e bits [] bs = bs"
| "swap_layout e bits (f # fs) bs =
     swap_field e bits f (take (field_size f) bs) @
     swap_layout e bits fs (drop (field_size f) bs)"

section \<open>The states\<close>

definition m68k_thread_state_regs :: layout where
  "m68k_thread_state_regs = replicate 8 Swap_Int @ replicate 8 Swap_Int @ [Swap_Short, Swap_Short, Swap_Int]"

definition m68k_thread_state_68882 :: layout where
  "m68k_thread_state_68882 = replicate 8 Swap_Ext96 @ [Swap_Int, Swap_Int, Swap_Int, Swap_Int]"

definition m68k_thread_state_user_reg :: layout where
  "m68k_thread_state_user_reg = [Swap_Int]"

definition ppc_thread_state :: layout where
  "ppc_thread_state = [Swap_Int, Swap_Int] @ replicate 32 Swap_Int @ [Swap_Int, Swap_Int, Swap_Int, Swap_Int, Swap_Int, Swap_Int]"

definition ppc_thread_state64 :: layout where
  "ppc_thread_state64 =
     [Swap_Long_Long, Swap_Long_Long] @ replicate 32 Swap_Long_Long @
     [Swap_Int, Swap_Long_Long, Swap_Long_Long, Swap_Long_Long, Swap_Int]"

definition ppc_float_state :: layout where
  "ppc_float_state = replicate 32 Swap_Double @ [Swap_Int, Swap_Int]"

definition ppc_exception_state :: layout where
  "ppc_exception_state = [Swap_Int, Swap_Int, Swap_Int, Swap_Int] @ replicate 4 Swap_Int"

definition m88k_thread_state_grf :: layout where
  "m88k_thread_state_grf = replicate 31 Swap_Int @ [Swap_Int, Swap_Int, Swap_Int]"

definition m88k_thread_state_xrf :: layout where
  "m88k_thread_state_xrf =
     concat (replicate 31 [Swap_Int, Swap_Int, Swap_Int, Swap_Int]) @ [Bits M88K_FPSR 4, Bits M88K_FPCR 4, Keep 8]"

definition m88k_thread_state_user :: layout where
  "m88k_thread_state_user = [Swap_Int]"

definition m88110_thread_state_impl :: layout where
  "m88110_thread_state_impl =
     concat (replicate 2 [Swap_Int, Bits M88110_BP_CTRL 4]) @ [Bits M88110_PSR 4, Keep 12] @
     replicate 4 Swap_Int @ [Bits M88110_FP_TRAP_STATUS 4, Keep 12]"

definition i860_thread_state_regs :: layout where
  "i860_thread_state_regs =
     replicate 31 Swap_Int @ replicate 30 Swap_Int @ replicate 5 Swap_Int @ replicate 13 Swap_Double @
     replicate 5 Swap_Int @ [Keep 4]"

definition i386_thread_state :: layout where
  "i386_thread_state = replicate 16 Swap_Int"

definition x86_thread_state64 :: layout where
  "x86_thread_state64 = replicate 21 Swap_Long_Long"

text \<open>The 16 bit \<open>cpu\<close> between \<open>trapno\<close> and \<open>err\<close> is not touched.\<close>

definition i386_exception_state :: layout where
  "i386_exception_state = [Swap_Short_As_Int, Keep 2, Swap_Int, Swap_Int]"

definition i386_float_state :: layout where
  "i386_float_state =
     [Swap_Int, Swap_Int, Bits FP_CONTROL 2, Bits FP_STATUS 2, Keep 1, Keep 1, Swap_Short, Swap_Int, Swap_Short, Swap_Short, Swap_Int,
      Swap_Short, Swap_Short, Swap_Int, Swap_Int, Keep (8 * 16), Keep (8 * 16), Keep (14 * 16), Swap_Int]"

definition hppa_integer_thread_state :: layout where
  "hppa_integer_thread_state = replicate 31 Swap_Int @ replicate 4 Swap_Int @ [Swap_Int]"

text \<open>The two booleans at the end of the frame state are not touched.\<close>

definition hppa_frame_thread_state :: layout where
  "hppa_frame_thread_state = replicate 9 Swap_Int @ [Keep 4, Keep 4]"

definition hppa_fp_thread_state :: layout where
  "hppa_fp_thread_state = replicate 32 Swap_Double"

definition sparc_thread_state_regs :: layout where
  "sparc_thread_state_regs = Bits SPARC_PSR 4 # replicate 18 Swap_Int"

text \<open>The queue has 16 entries of 16 bytes; the routine swaps the double of the first two.\<close>

definition sparc_thread_state_fpu :: layout where
  "sparc_thread_state_fpu =
     replicate 16 Swap_Double @ [Bits SPARC_FSR 4, Swap_Int, Swap_Int, Swap_Int] @
     [Swap_Double, Keep 8, Swap_Double, Keep 8, Keep (14 * 16)]"

definition arm_thread_state :: layout where
  "arm_thread_state = replicate 13 Swap_Int @ [Swap_Int, Swap_Int, Swap_Int, Swap_Int]"

definition arm_thread_state64 :: layout where
  "arm_thread_state64 =
     replicate 29 Swap_Long_Long @ [Swap_Long_Long, Swap_Long_Long, Swap_Long_Long, Swap_Long_Long, Swap_Int, Keep 4]"

lemmas state_layouts = m68k_thread_state_regs_def m68k_thread_state_68882_def
  m68k_thread_state_user_reg_def ppc_thread_state_def ppc_thread_state64_def ppc_float_state_def
  ppc_exception_state_def m88k_thread_state_grf_def m88k_thread_state_xrf_def
  m88k_thread_state_user_def m88110_thread_state_impl_def i860_thread_state_regs_def
  i386_thread_state_def x86_thread_state64_def i386_exception_state_def i386_float_state_def
  hppa_integer_thread_state_def hppa_frame_thread_state_def hppa_fp_thread_state_def
  sparc_thread_state_regs_def sparc_thread_state_fpu_def arm_thread_state_def
  arm_thread_state64_def

section \<open>Properties of a walk along a layout\<close>

lemma layout_size_simps [simp]:
  "layout_size [] = 0"
  "layout_size (f # fs) = field_size f + layout_size fs"
  "layout_size (fs @ gs) = layout_size fs + layout_size gs"
  by (simp_all add: layout_size_def)

lemma layout_size_replicate [simp]: "layout_size (replicate n f) = n * field_size f"
  by (simp add: layout_size_def sum_list_replicate)

text \<open>The parameter keeps the size of a register.\<close>

definition bits_ok :: "bit_swap \<Rightarrow> bool" where
  "bits_ok bits \<longleftrightarrow> (\<forall>r bs. length (bits r bs) = length bs)"

definition no_bits :: "layout \<Rightarrow> bool" where
  "no_bits fs \<longleftrightarrow> (\<forall>f \<in> set fs. case f of Bits r n \<Rightarrow> False | Swap_Short_As_Int \<Rightarrow> False | _ \<Rightarrow> True)"

lemma length_swap_field:
  "bits_ok bits \<Longrightarrow> length bs = field_size f \<Longrightarrow> length (swap_field e bits f bs) = length bs"
  by (cases f) (simp_all add: SWAP_DOUBLE_def SWAP_EXT96_def bits_ok_def Let_def)

lemma length_swap_layout:
  "bits_ok bits \<Longrightarrow> layout_size fs \<le> length bs \<Longrightarrow>
   length (swap_layout e bits fs bs) = length bs"
  by (induction fs arbitrary: bs) (simp_all add: length_swap_field)

lemma swap_layout_append:
  "bits_ok bits \<Longrightarrow> layout_size fs = length as \<Longrightarrow>
   swap_layout e bits fs (as @ bs) = swap_layout e bits fs as @ bs"
  by (induction fs arbitrary: as) (simp_all add: )

lemma length_bytes_numeral:
  "length bs = 8 \<Longrightarrow> \<exists>a b c d e f g h. bs = [a, b, c, d, e, f, g, h]"
  by (auto simp: numeral_eq_Suc length_Suc_conv)

lemma SWAP_DOUBLE_rev: "length bs = 8 \<Longrightarrow> SWAP_DOUBLE bs = rev bs"
  by (drule length_bytes_numeral) (auto simp: SWAP_DOUBLE_def)

lemma put_SWAP_rev:
  "length bs = 2 \<Longrightarrow> put16 e (SWAP_SHORT (of_bytes e bs)) = rev bs"
  "length bs = 4 \<Longrightarrow> put32 e (SWAP_INT (of_bytes e bs)) = rev bs"
  "length bs = 8 \<Longrightarrow> put64 e (SWAP_LONG_LONG (of_bytes e bs)) = rev bs"
  by (simp_all add: swap16.rev_to_bytes_SWAP swap32.rev_to_bytes_SWAP swap64.rev_to_bytes_SWAP
      to_bytes_of_bytes)

lemma SWAP_EXT96_rev:
  assumes "length bs = 12"
  shows "SWAP_EXT96 e bs = rev bs"
proof -
  have "slice 0 4 bs @ slice 4 4 bs @ slice 8 4 bs = bs"
    using assms by (simp add: slice_join slice_all)
  then have "rev bs = rev (slice 8 4 bs) @ rev (slice 4 4 bs) @ rev (slice 0 4 bs)"
    by (metis append_assoc rev_append)
  with assms show ?thesis
    by (simp add: SWAP_EXT96_def put_SWAP_rev length_slice)
qed

text \<open>A number field is reversed, whatever the byte order of the host.\<close>

fun number_field :: "field \<Rightarrow> bool" where
  "number_field Swap_Short_As_Int = False"
| "number_field (Keep n) = False"
| "number_field (Bits r n) = False"
| "number_field _ = True"

lemma swap_field_rev:
  "number_field f \<Longrightarrow> length bs = field_size f \<Longrightarrow> swap_field e bits f bs = rev bs"
  by (cases f) (simp_all add: put_SWAP_rev SWAP_DOUBLE_rev SWAP_EXT96_rev)

fun plain_field :: "field \<Rightarrow> bool" where
  "plain_field (Keep n) = True"
| "plain_field f = number_field f"

lemma swap_field_twice:
  assumes "plain_field f" "length bs = field_size f"
  shows "swap_field e' bits f (swap_field e bits f bs) = bs"
proof (cases "number_field f")
  case True
  with assms show ?thesis by (simp add: swap_field_rev)
next
  case False
  with assms(1) obtain n where "f = Keep n" by (cases f) auto
  then show ?thesis by simp
qed

lemma length_swap_plain_field:
  assumes "plain_field f" "length bs = field_size f"
  shows "length (swap_field e bits f bs) = field_size f"
  using assms by (cases f) (simp_all add: SWAP_DOUBLE_def SWAP_EXT96_def Let_def)

lemma length_swap_plain_layout:
  "list_all plain_field fs \<Longrightarrow> layout_size fs \<le> length bs \<Longrightarrow>
   length (swap_layout e bits fs bs) = length bs"
  by (induction fs arbitrary: bs) (simp_all add: length_swap_plain_field)

lemma swap_layout_twice:
  "list_all plain_field fs \<Longrightarrow> layout_size fs \<le> length bs \<Longrightarrow>
   swap_layout e' bits fs (swap_layout e bits fs bs) = bs"
proof (induction fs arbitrary: bs)
  case (Cons f fs)
  then have len: "length (take (field_size f) bs) = field_size f"
    and tail: "layout_size fs \<le> length (drop (field_size f) bs)" by auto
  have f: "plain_field f" using Cons.prems by simp
  from len f have "length (swap_field e bits f (take (field_size f) bs)) = field_size f"
    by (simp only: length_swap_plain_field)
  with f len Cons.IH [OF _ tail] Cons.prems show ?case
    by (simp add: swap_field_twice)
qed simp

section \<open>The contract of a thread state\<close>

definition plain_states :: "layout list" where
  "plain_states =
     [m68k_thread_state_regs, m68k_thread_state_68882, m68k_thread_state_user_reg,
      ppc_thread_state, ppc_thread_state64, ppc_float_state, ppc_exception_state,
      m88k_thread_state_grf, m88k_thread_state_user, i860_thread_state_regs, i386_thread_state,
      x86_thread_state64, hppa_integer_thread_state, hppa_frame_thread_state,
      hppa_fp_thread_state, arm_thread_state, arm_thread_state64]"

lemma plain_states_plain: "fs \<in> set plain_states \<Longrightarrow> list_all plain_field fs"
  by (auto simp: plain_states_def state_layouts list_all_iff)



text \<open>The i386 exception state loses its trap number: the 32 bit swap of the 16 bit field leaves 0.\<close>

theorem swap_i386_exception_state_trapno:
  "take 2 (swap_layout e bits i386_exception_state bs) = [0, 0]"
  by (cases e) (simp_all add: i386_exception_state_def to_bytes_def numeral_2_eq_2)

end
