(* ===== verification/Loader.thy ===== *)
theory Loader
  imports Prelude
begin

text \<open>
  The magic numbers and the load command numbers of \<^verbatim>\<open>cctools/include/mach-o/loader.h\<close>.
\<close>

abbreviation MH_OBJECT :: u32 where
  "MH_OBJECT \<equiv> 0x1"

abbreviation MH_MAGIC :: u32 where
  "MH_MAGIC \<equiv> 0xfeedface"

abbreviation MH_CIGAM :: u32 where
  "MH_CIGAM \<equiv> 0xcefaedfe"

abbreviation MH_MAGIC_64 :: u32 where
  "MH_MAGIC_64 \<equiv> 0xfeedfacf"

abbreviation MH_CIGAM_64 :: u32 where
  "MH_CIGAM_64 \<equiv> 0xcffaedfe"

abbreviation LC_REQ_DYLD :: u32 where
  "LC_REQ_DYLD \<equiv> 0x80000000"

abbreviation LC_SEGMENT :: u32 where
  "LC_SEGMENT \<equiv> 0x1"

abbreviation LC_SYMTAB :: u32 where
  "LC_SYMTAB \<equiv> 0x2"

abbreviation LC_SYMSEG :: u32 where
  "LC_SYMSEG \<equiv> 0x3"

abbreviation LC_THREAD :: u32 where
  "LC_THREAD \<equiv> 0x4"

abbreviation LC_UNIXTHREAD :: u32 where
  "LC_UNIXTHREAD \<equiv> 0x5"

abbreviation LC_LOADFVMLIB :: u32 where
  "LC_LOADFVMLIB \<equiv> 0x6"

abbreviation LC_IDFVMLIB :: u32 where
  "LC_IDFVMLIB \<equiv> 0x7"

abbreviation LC_IDENT :: u32 where
  "LC_IDENT \<equiv> 0x8"

abbreviation LC_FVMFILE :: u32 where
  "LC_FVMFILE \<equiv> 0x9"

abbreviation LC_PREPAGE :: u32 where
  "LC_PREPAGE \<equiv> 0xa"

abbreviation LC_DYSYMTAB :: u32 where
  "LC_DYSYMTAB \<equiv> 0xb"

abbreviation LC_LOAD_DYLIB :: u32 where
  "LC_LOAD_DYLIB \<equiv> 0xc"

abbreviation LC_ID_DYLIB :: u32 where
  "LC_ID_DYLIB \<equiv> 0xd"

abbreviation LC_LOAD_DYLINKER :: u32 where
  "LC_LOAD_DYLINKER \<equiv> 0xe"

abbreviation LC_ID_DYLINKER :: u32 where
  "LC_ID_DYLINKER \<equiv> 0xf"

abbreviation LC_PREBOUND_DYLIB :: u32 where
  "LC_PREBOUND_DYLIB \<equiv> 0x10"

abbreviation LC_ROUTINES :: u32 where
  "LC_ROUTINES \<equiv> 0x11"

abbreviation LC_SUB_FRAMEWORK :: u32 where
  "LC_SUB_FRAMEWORK \<equiv> 0x12"

abbreviation LC_SUB_UMBRELLA :: u32 where
  "LC_SUB_UMBRELLA \<equiv> 0x13"

abbreviation LC_SUB_CLIENT :: u32 where
  "LC_SUB_CLIENT \<equiv> 0x14"

abbreviation LC_SUB_LIBRARY :: u32 where
  "LC_SUB_LIBRARY \<equiv> 0x15"

abbreviation LC_TWOLEVEL_HINTS :: u32 where
  "LC_TWOLEVEL_HINTS \<equiv> 0x16"

abbreviation LC_PREBIND_CKSUM :: u32 where
  "LC_PREBIND_CKSUM \<equiv> 0x17"

abbreviation LC_LOAD_WEAK_DYLIB :: u32 where
  "LC_LOAD_WEAK_DYLIB \<equiv> 0x80000018"

abbreviation LC_SEGMENT_64 :: u32 where
  "LC_SEGMENT_64 \<equiv> 0x19"

abbreviation LC_ROUTINES_64 :: u32 where
  "LC_ROUTINES_64 \<equiv> 0x1a"

abbreviation LC_UUID :: u32 where
  "LC_UUID \<equiv> 0x1b"

abbreviation LC_RPATH :: u32 where
  "LC_RPATH \<equiv> 0x8000001c"

abbreviation LC_CODE_SIGNATURE :: u32 where
  "LC_CODE_SIGNATURE \<equiv> 0x1d"

abbreviation LC_SEGMENT_SPLIT_INFO :: u32 where
  "LC_SEGMENT_SPLIT_INFO \<equiv> 0x1e"

abbreviation LC_REEXPORT_DYLIB :: u32 where
  "LC_REEXPORT_DYLIB \<equiv> 0x8000001f"

abbreviation LC_LAZY_LOAD_DYLIB :: u32 where
  "LC_LAZY_LOAD_DYLIB \<equiv> 0x20"

abbreviation LC_ENCRYPTION_INFO :: u32 where
  "LC_ENCRYPTION_INFO \<equiv> 0x21"

abbreviation LC_DYLD_INFO :: u32 where
  "LC_DYLD_INFO \<equiv> 0x22"

abbreviation LC_DYLD_INFO_ONLY :: u32 where
  "LC_DYLD_INFO_ONLY \<equiv> 0x80000022"

abbreviation LC_LOAD_UPWARD_DYLIB :: u32 where
  "LC_LOAD_UPWARD_DYLIB \<equiv> 0x80000023"

abbreviation LC_VERSION_MIN_MACOSX :: u32 where
  "LC_VERSION_MIN_MACOSX \<equiv> 0x24"

abbreviation LC_VERSION_MIN_IPHONEOS :: u32 where
  "LC_VERSION_MIN_IPHONEOS \<equiv> 0x25"

abbreviation LC_FUNCTION_STARTS :: u32 where
  "LC_FUNCTION_STARTS \<equiv> 0x26"

abbreviation LC_DYLD_ENVIRONMENT :: u32 where
  "LC_DYLD_ENVIRONMENT \<equiv> 0x27"

abbreviation LC_MAIN :: u32 where
  "LC_MAIN \<equiv> 0x80000028"

abbreviation LC_DATA_IN_CODE :: u32 where
  "LC_DATA_IN_CODE \<equiv> 0x29"

abbreviation LC_SOURCE_VERSION :: u32 where
  "LC_SOURCE_VERSION \<equiv> 0x2a"

abbreviation LC_DYLIB_CODE_SIGN_DRS :: u32 where
  "LC_DYLIB_CODE_SIGN_DRS \<equiv> 0x2b"

abbreviation LC_ENCRYPTION_INFO_64 :: u32 where
  "LC_ENCRYPTION_INFO_64 \<equiv> 0x2c"

abbreviation LC_LINKER_OPTION :: u32 where
  "LC_LINKER_OPTION \<equiv> 0x2d"

abbreviation LC_LINKER_OPTIMIZATION_HINT :: u32 where
  "LC_LINKER_OPTIMIZATION_HINT \<equiv> 0x2e"

abbreviation LC_VERSION_MIN_TVOS :: u32 where
  "LC_VERSION_MIN_TVOS \<equiv> 0x2f"

abbreviation LC_VERSION_MIN_WATCHOS :: u32 where
  "LC_VERSION_MIN_WATCHOS \<equiv> 0x30"

abbreviation LC_NOTE :: u32 where
  "LC_NOTE \<equiv> 0x31"

abbreviation LC_BUILD_VERSION :: u32 where
  "LC_BUILD_VERSION \<equiv> 0x32"

abbreviation LC_DYLD_EXPORTS_TRIE :: u32 where
  "LC_DYLD_EXPORTS_TRIE \<equiv> 0x80000033"

abbreviation LC_DYLD_CHAINED_FIXUPS :: u32 where
  "LC_DYLD_CHAINED_FIXUPS \<equiv> 0x80000034"

abbreviation LC_FILESET_ENTRY :: u32 where
  "LC_FILESET_ENTRY \<equiv> 0x80000035"

abbreviation LC_ATOM_INFO :: u32 where
  "LC_ATOM_INFO \<equiv> 0x36"

end
