(* ===== verification/SwapHeaders.thy ===== *)
theory SwapHeaders
  imports Command_Codecs Thread_States Loader
begin

text \<open>
  \<open>swap_object_headers\<close> of \<^verbatim>\<open>cctools/libstuff/swap_headers.c\<close>, which converts the headers of
  an object file in memory to the other byte order: a first pass over the load commands checks that
  they can be parsed, a second pass swaps them in place.

  The memory is the byte string that starts at the load commands; it may go on behind them. A pointer
  to a load command is what is left of that string. A read or a write past the end of the string is
  the error \<open>Memory_Fault\<close>, every call of \<open>error\<close> followed by \<open>return(FALSE)\<close> is another constructor of
  \<open>swap_error\<close> with the numbers the message prints.
\<close>

section \<open>Memory\<close>

datatype swap_error =
    Memory_Fault
  | Cmdsize_Not_Multiple nat
  | Extends_Past_End nat
  | Cmdsize_Zero nat
  | Incorrect_Cmdsize u32 nat
  | Too_Small_Cmdsize u32 nat
  | Offset_Past_End u32 nat nat
  | Cmdsize_Past_End u32 nat
  | Bad_Flavor_Count u32 u32 nat nat
  | Unknown_Flavor u32 u32 nat nat
  | Unknown_Cputype u32 nat
  | Unknown_Command nat
  | Next_Past_End nat
  | Inconsistent_Sizeofcmds

type_synonym 'a result = "swap_error + 'a"

definition read32 :: "endian \<Rightarrow> bytes \<Rightarrow> nat \<Rightarrow> u32 result" where
  "read32 e lc off = (if off + 4 \<le> length lc then Inr (get32 e lc off) else Inl Memory_Fault)"

definition apply_at :: "nat \<Rightarrow> nat \<Rightarrow> (bytes \<Rightarrow> bytes) \<Rightarrow> bytes \<Rightarrow> bytes result" where
  "apply_at off n f lc =
     (if off + n \<le> length lc
      then Inr (take off lc @ f (slice off n lc) @ drop (off + n) lc)
      else Inl Memory_Fault)"

fun apply_array :: "nat \<Rightarrow> nat \<Rightarrow> (bytes \<Rightarrow> bytes) \<Rightarrow> nat \<Rightarrow> bytes \<Rightarrow> bytes result" where
  "apply_array off n f 0 lc = Inr lc"
| "apply_array off n f (Suc k) lc = andthen (apply_at off n f lc) (apply_array (off + n) n f k)"

section \<open>The check of one load command\<close>

text \<open>What the switch of the first pass asks of the \<open>cmdsize\<close> of a command: an exact size, a least
  size with string offsets that lie inside the command, a base size with a counted number of
  elements, that the command ends with the load commands (which was checked before), or a walk over
  thread states.\<close>

datatype size_rule =
    Exact nat
  | At_Least nat "nat list"
  | Counted nat nat nat
  | Within
  | Thread_Flavors

definition size_rule_segments :: "u32 \<Rightarrow> size_rule option" where
  "size_rule_segments cmd =
     (if cmd = LC_SEGMENT then Some (Counted sizeof_segment_command sizeof_section 48)
      else if cmd = LC_SEGMENT_64 then Some (Counted sizeof_segment_command_64 sizeof_section_64 64)
      else if cmd = LC_SYMTAB then Some (Exact sizeof_symtab_command)
      else if cmd = LC_DYSYMTAB then Some (Exact sizeof_dysymtab_command)
      else if cmd = LC_SYMSEG then Some (Exact sizeof_symseg_command)
      else None)"

definition size_rule_libraries :: "u32 \<Rightarrow> size_rule option" where
  "size_rule_libraries cmd =
     (if cmd \<in> {LC_IDFVMLIB, LC_LOADFVMLIB} then Some (At_Least sizeof_fvmlib_command [8])
      else if cmd \<in> {LC_ID_DYLIB, LC_LOAD_DYLIB, LC_LOAD_WEAK_DYLIB, LC_REEXPORT_DYLIB,
        LC_LOAD_UPWARD_DYLIB, LC_LAZY_LOAD_DYLIB} then Some (At_Least sizeof_dylib_command [8])
      else if cmd = LC_SUB_FRAMEWORK then Some (At_Least sizeof_sub_framework_command [8])
      else if cmd = LC_SUB_UMBRELLA then Some (At_Least sizeof_sub_umbrella_command [8])
      else if cmd = LC_SUB_LIBRARY then Some (At_Least sizeof_sub_library_command [8])
      else if cmd = LC_SUB_CLIENT then Some (At_Least sizeof_sub_client_command [8])
      else if cmd = LC_PREBOUND_DYLIB
      then Some (At_Least sizeof_prebound_dylib_command [8, 16])
      else if cmd \<in> {LC_ID_DYLINKER, LC_LOAD_DYLINKER, LC_DYLD_ENVIRONMENT}
      then Some (At_Least sizeof_dylinker_command [8])
      else None)"

definition size_rule_images :: "u32 \<Rightarrow> size_rule option" where
  "size_rule_images cmd =
     (if cmd \<in> {LC_UNIXTHREAD, LC_THREAD} then Some Thread_Flavors
      else if cmd \<in> {LC_MAIN, LC_SOURCE_VERSION, LC_NOTE, LC_IDENT} then Some Within
      else if cmd = LC_ROUTINES then Some (Exact sizeof_routines_command)
      else if cmd = LC_ROUTINES_64 then Some (Exact sizeof_routines_command_64)
      else if cmd = LC_TWOLEVEL_HINTS then Some (Exact sizeof_twolevel_hints_command)
      else if cmd = LC_PREBIND_CKSUM then Some (Exact sizeof_prebind_cksum_command)
      else if cmd = LC_UUID then Some (Exact sizeof_uuid_command)
      else None)"

definition size_rule_linkedit :: "u32 \<Rightarrow> size_rule option" where
  "size_rule_linkedit cmd =
     (if cmd \<in> {LC_CODE_SIGNATURE, LC_SEGMENT_SPLIT_INFO, LC_FUNCTION_STARTS, LC_DATA_IN_CODE,
        LC_ATOM_INFO, LC_DYLIB_CODE_SIGN_DRS, LC_LINKER_OPTIMIZATION_HINT}
      then Some (Exact sizeof_linkedit_data_command)
      else if cmd \<in> {LC_VERSION_MIN_MACOSX, LC_VERSION_MIN_IPHONEOS, LC_VERSION_MIN_TVOS,
        LC_VERSION_MIN_WATCHOS} then Some (Exact sizeof_version_min_command)
      else if cmd = LC_BUILD_VERSION
      then Some (Counted sizeof_build_version_command sizeof_build_tool_version 20)
      else if cmd = LC_RPATH then Some (At_Least sizeof_rpath_command [8])
      else if cmd = LC_ENCRYPTION_INFO then Some (Exact sizeof_encryption_info_command)
      else if cmd = LC_ENCRYPTION_INFO_64 then Some (Exact sizeof_encryption_info_command_64)
      else if cmd = LC_LINKER_OPTION then Some (At_Least sizeof_linker_option_command [])
      else if cmd \<in> {LC_DYLD_INFO, LC_DYLD_INFO_ONLY}
      then Some (Exact sizeof_dyld_info_command)
      else None)"

definition size_rule :: "u32 \<Rightarrow> size_rule option" where
  "size_rule cmd =
     orelse (size_rule_segments cmd) (orelse (size_rule_libraries cmd)
       (orelse (size_rule_images cmd) (size_rule_linkedit cmd)))"

lemmas size_rule_defs = size_rule_def size_rule_segments_def size_rule_libraries_def
  size_rule_images_def size_rule_linkedit_def

fun check_offsets :: "endian \<Rightarrow> bytes \<Rightarrow> u32 \<Rightarrow> nat \<Rightarrow> u32 \<Rightarrow> nat list \<Rightarrow> unit result" where
  "check_offsets e lc cmd i cmdsize [] = Inr ()"
| "check_offsets e lc cmd i cmdsize (off # offs) =
     andthen (read32 e lc off)
       (\<lambda>v. if cmdsize \<le> v then Inl (Offset_Past_End cmd off i)
            else check_offsets e lc cmd i cmdsize offs)"

text \<open>The thread states a processor type knows: for each flavor the count the command has to give, in
  words, and the bytes the walk advances. The loops differ only in this table, except that the one
  for SPARC has no default case: it skips a flavor it does not know, and does not count flavors.
  The loop for ARM64 looks for the flavor and the count of the 32 bit state.\<close>

type_synonym flavor_table = "(u32 \<times> nat \<times> nat) list"

abbreviation flavor_entry :: "u32 \<Rightarrow> layout \<Rightarrow> u32 \<times> nat \<times> nat" where
  "flavor_entry flavor fs \<equiv> (flavor, layout_size fs div 4, layout_size fs)"

definition m68k_flavors :: flavor_table where
  "m68k_flavors =
     [flavor_entry 1 m68k_thread_state_regs, flavor_entry 2 m68k_thread_state_68882,
      flavor_entry 3 m68k_thread_state_user_reg]"

definition ppc_flavors :: flavor_table where
  "ppc_flavors =
     [flavor_entry 1 ppc_thread_state, flavor_entry 2 ppc_float_state,
      flavor_entry 3 ppc_exception_state, flavor_entry 5 ppc_thread_state64]"

definition m88k_flavors :: flavor_table where
  "m88k_flavors =
     [flavor_entry 1 m88k_thread_state_grf, flavor_entry 2 m88k_thread_state_xrf,
      flavor_entry 3 m88k_thread_state_user, flavor_entry 4 m88110_thread_state_impl]"

definition i860_flavors :: flavor_table where
  "i860_flavors = [flavor_entry 4 i860_thread_state_regs]"

definition i386_flavors :: flavor_table where
  "i386_flavors =
     [flavor_entry 1 i386_thread_state, flavor_entry (- 1) i386_thread_state,
      flavor_entry 2 i386_float_state, flavor_entry 3 i386_exception_state,
      flavor_entry 4 x86_thread_state64]"

definition hppa_flavors :: flavor_table where
  "hppa_flavors =
     [flavor_entry 1 hppa_integer_thread_state, flavor_entry 2 hppa_frame_thread_state,
      flavor_entry 3 hppa_fp_thread_state]"

definition sparc_flavors :: flavor_table where
  "sparc_flavors = [flavor_entry 1 sparc_thread_state_regs, flavor_entry 2 sparc_thread_state_fpu]"

definition arm_flavors :: flavor_table where
  "arm_flavors = [flavor_entry 1 arm_thread_state]"

definition arm64_flavors :: flavor_table where
  "arm64_flavors = [(1, layout_size arm_thread_state div 4, layout_size arm_thread_state64)]"

definition check_table :: "cpu_type_t \<Rightarrow> (bool \<times> flavor_table) option" where
  "check_table cputype =
     (if cputype = CPU_TYPE_MC680x0 then Some (True, m68k_flavors)
      else if cputype = CPU_TYPE_POWERPC \<or> cputype = CPU_TYPE_VEO \<or> cputype = CPU_TYPE_POWERPC64
      then Some (True, ppc_flavors)
      else if cputype = CPU_TYPE_MC88000 then Some (True, m88k_flavors)
      else if cputype = CPU_TYPE_I860 then Some (True, i860_flavors)
      else if cputype = CPU_TYPE_I386 \<or> cputype = CPU_TYPE_X86_64 then Some (True, i386_flavors)
      else if cputype = CPU_TYPE_HPPA then Some (True, hppa_flavors)
      else if cputype = CPU_TYPE_SPARC then Some (False, sparc_flavors)
      else if cputype = CPU_TYPE_ARM then Some (True, arm_flavors)
      else if cputype = CPU_TYPE_ARM64 then Some (True, arm64_flavors)
      else None)"

function check_flavors ::
  "endian \<Rightarrow> bool \<Rightarrow> flavor_table \<Rightarrow> u32 \<Rightarrow> nat \<Rightarrow> nat \<Rightarrow> bytes \<Rightarrow> nat \<Rightarrow> nat \<Rightarrow> unit result" where
  "check_flavors e strict tab cmd i nflavor lc state p =
     (if state < p then
        (case read32 e lc state of Inl x \<Rightarrow> Inl x | Inr flavor \<Rightarrow>
         (case read32 e lc (state + 4) of Inl x \<Rightarrow> Inl x | Inr count \<Rightarrow>
          (case map_of tab flavor of
             None \<Rightarrow>
               if strict then Inl (Unknown_Flavor cmd flavor nflavor i)
               else check_flavors e strict tab cmd i nflavor lc (state + 8) p
           | Some (n, adv) \<Rightarrow>
               if unat count \<noteq> n then Inl (Bad_Flavor_Count cmd flavor nflavor i)
               else check_flavors e strict tab cmd i (if strict then nflavor + 1 else nflavor) lc
                      (state + 8 + adv) p)))
      else Inr ())"
  by pat_completeness auto
termination
  by (relation "measure (\<lambda>(e, strict, tab, cmd, i, nflavor, lc, state, p). p - state)") auto

declare check_flavors.simps [simp del]

definition check_command ::
  "endian \<Rightarrow> cpu_type_t \<Rightarrow> nat \<Rightarrow> bytes \<Rightarrow> nat \<Rightarrow> u32 \<Rightarrow> u32 \<Rightarrow> unit result" where
  "check_command e cputype i lc left cmd cmdsize =
     (case size_rule cmd of
        None \<Rightarrow> Inl (Unknown_Command i)
      | Some (Exact n) \<Rightarrow> if unat cmdsize \<noteq> n then Inl (Incorrect_Cmdsize cmd i) else Inr ()
      | Some (At_Least n offs) \<Rightarrow>
          if unat cmdsize < n then Inl (Too_Small_Cmdsize cmd i)
          else check_offsets e lc cmd i cmdsize offs
      | Some (Counted base n off) \<Rightarrow>
          andthen (read32 e lc off)
            (\<lambda>count. if unat cmdsize \<noteq> base + unat count * n then Inl (Incorrect_Cmdsize cmd i)
                     else Inr ())
      | Some Within \<Rightarrow> if left < unat cmdsize then Inl (Cmdsize_Past_End cmd i) else Inr ()
      | Some Thread_Flavors \<Rightarrow>
          (case check_table cputype of
             None \<Rightarrow> Inl (Unknown_Cputype cputype i)
           | Some (strict, tab) \<Rightarrow>
               check_flavors e strict tab cmd i 0 lc sizeof_thread_command (unat cmdsize)))"

section \<open>The first pass\<close>

text \<open>\<open>left\<close> is the distance from the current command to the end of the load commands.\<close>

fun check_commands ::
  "endian \<Rightarrow> cpu_type_t \<Rightarrow> nat \<Rightarrow> nat \<Rightarrow> nat \<Rightarrow> bytes \<Rightarrow> nat \<Rightarrow> unit result" where
  "check_commands e cputype cmd_multiple 0 i lc left =
     (if left \<noteq> 0 then Inl Inconsistent_Sizeofcmds else Inr ())"
| "check_commands e cputype cmd_multiple (Suc n) i lc left =
     andthen (read32 e lc 0) (\<lambda>cmd.
     andthen (read32 e lc 4) (\<lambda>cmdsize.
       if unat cmdsize mod cmd_multiple \<noteq> 0 then Inl (Cmdsize_Not_Multiple i)
       else if left < unat cmdsize then Inl (Extends_Past_End i)
       else if cmdsize = 0 then Inl (Cmdsize_Zero i)
       else andthen (check_command e cputype i lc left cmd cmdsize) (\<lambda>_.
         if left < unat cmdsize then Inl (Next_Past_End (i + 1))
         else check_commands e cputype cmd_multiple n (i + 1) (drop (unat cmdsize) lc)
                (left - unat cmdsize))))"

section \<open>The second pass\<close>

text \<open>The commands that are one structure, with its size and its routine.\<close>

definition swap_struct_libraries :: "u32 \<Rightarrow> (nat \<times> (endian \<Rightarrow> bytes \<Rightarrow> bytes)) option" where
  "swap_struct_libraries cmd =
     (if cmd = LC_SYMTAB
      then Some (sizeof_symtab_command, in_place dec_symtab_command enc_symtab_command swap_symtab_command)
      else if cmd = LC_DYSYMTAB
      then Some (sizeof_dysymtab_command, in_place dec_dysymtab_command enc_dysymtab_command swap_dysymtab_command)
      else if cmd = LC_SYMSEG
      then Some (sizeof_symseg_command, in_place dec_symseg_command enc_symseg_command swap_symseg_command)
      else if cmd \<in> {LC_IDFVMLIB, LC_LOADFVMLIB}
      then Some (sizeof_fvmlib_command, in_place dec_fvmlib_command enc_fvmlib_command swap_fvmlib_command)
      else if cmd \<in> {LC_ID_DYLIB, LC_LOAD_DYLIB, LC_LOAD_WEAK_DYLIB, LC_REEXPORT_DYLIB,
        LC_LOAD_UPWARD_DYLIB, LC_LAZY_LOAD_DYLIB}
      then Some (sizeof_dylib_command, in_place dec_dylib_command enc_dylib_command swap_dylib_command)
      else if cmd = LC_SUB_FRAMEWORK
      then Some (sizeof_sub_framework_command, in_place dec_sub_framework_command enc_sub_framework_command swap_sub_framework_command)
      else if cmd = LC_SUB_UMBRELLA
      then Some (sizeof_sub_umbrella_command, in_place dec_sub_umbrella_command enc_sub_umbrella_command swap_sub_umbrella_command)
      else if cmd = LC_SUB_LIBRARY
      then Some (sizeof_sub_library_command, in_place dec_sub_library_command enc_sub_library_command swap_sub_library_command)
      else if cmd = LC_SUB_CLIENT
      then Some (sizeof_sub_client_command, in_place dec_sub_client_command enc_sub_client_command swap_sub_client_command)
      else if cmd = LC_PREBOUND_DYLIB
      then Some (sizeof_prebound_dylib_command, in_place dec_prebound_dylib_command enc_prebound_dylib_command swap_prebound_dylib_command)
      else if cmd \<in> {LC_ID_DYLINKER, LC_LOAD_DYLINKER, LC_DYLD_ENVIRONMENT}
      then Some (sizeof_dylinker_command, in_place dec_dylinker_command enc_dylinker_command swap_dylinker_command)
      else None)"

definition swap_struct_images :: "u32 \<Rightarrow> (nat \<times> (endian \<Rightarrow> bytes \<Rightarrow> bytes)) option" where
  "swap_struct_images cmd =
     (if cmd = LC_MAIN
      then Some (sizeof_entry_point_command, in_place dec_entry_point_command enc_entry_point_command swap_entry_point_command)
      else if cmd = LC_SOURCE_VERSION
      then Some (sizeof_source_version_command, in_place dec_source_version_command enc_source_version_command swap_source_version_command)
      else if cmd = LC_NOTE
      then Some (sizeof_note_command, in_place dec_note_command enc_note_command swap_note_command)
      else if cmd = LC_IDENT
      then Some (sizeof_ident_command, in_place dec_ident_command enc_ident_command swap_ident_command)
      else if cmd = LC_ROUTINES
      then Some (sizeof_routines_command, in_place dec_routines_command enc_routines_command swap_routines_command)
      else if cmd = LC_ROUTINES_64
      then Some (sizeof_routines_command_64, in_place dec_routines_command_64 enc_routines_command_64 swap_routines_command_64)
      else if cmd = LC_TWOLEVEL_HINTS
      then Some (sizeof_twolevel_hints_command, in_place dec_twolevel_hints_command enc_twolevel_hints_command swap_twolevel_hints_command)
      else if cmd = LC_PREBIND_CKSUM
      then Some (sizeof_prebind_cksum_command, in_place dec_prebind_cksum_command enc_prebind_cksum_command swap_prebind_cksum_command)
      else if cmd = LC_UUID
      then Some (sizeof_uuid_command, in_place dec_uuid_command enc_uuid_command swap_uuid_command)
      else if cmd \<in> {LC_CODE_SIGNATURE, LC_SEGMENT_SPLIT_INFO, LC_FUNCTION_STARTS, LC_DATA_IN_CODE,
        LC_ATOM_INFO, LC_DYLIB_CODE_SIGN_DRS, LC_LINKER_OPTIMIZATION_HINT, LC_DYLD_EXPORTS_TRIE,
        LC_DYLD_CHAINED_FIXUPS}
      then Some (sizeof_linkedit_data_command, in_place dec_linkedit_data_command enc_linkedit_data_command swap_linkedit_data_command)
      else if cmd = LC_RPATH
      then Some (sizeof_rpath_command, in_place dec_rpath_command enc_rpath_command swap_rpath_command)
      else if cmd = LC_ENCRYPTION_INFO
      then Some (sizeof_encryption_info_command, in_place dec_encryption_info_command enc_encryption_info_command swap_encryption_command)
      else if cmd = LC_ENCRYPTION_INFO_64
      then Some (sizeof_encryption_info_command_64, in_place dec_encryption_info_command_64 enc_encryption_info_command_64 swap_encryption_command_64)
      else if cmd = LC_LINKER_OPTION
      then Some (sizeof_linker_option_command, in_place dec_linker_option_command enc_linker_option_command swap_linker_option_command)
      else if cmd \<in> {LC_DYLD_INFO, LC_DYLD_INFO_ONLY}
      then Some (sizeof_dyld_info_command, in_place dec_dyld_info_command enc_dyld_info_command swap_dyld_info_command)
      else if cmd \<in> {LC_VERSION_MIN_MACOSX, LC_VERSION_MIN_IPHONEOS, LC_VERSION_MIN_WATCHOS,
        LC_VERSION_MIN_TVOS}
      then Some (sizeof_version_min_command, in_place dec_version_min_command enc_version_min_command swap_version_min_command)
      else None)"

definition swap_struct :: "u32 \<Rightarrow> (nat \<times> (endian \<Rightarrow> bytes \<Rightarrow> bytes)) option" where
  "swap_struct cmd = orelse (swap_struct_libraries cmd) (swap_struct_images cmd)"

lemmas swap_struct_defs = swap_struct_def swap_struct_libraries_def swap_struct_images_def

text \<open>The states the second pass swaps for each flavor. The case for the PowerPC floating point state
  runs into the one for the exception state.\<close>

type_synonym swap_table = "(u32 \<times> layout list) list"

definition m68k_swaps :: swap_table where
  "m68k_swaps =
     [(1, [m68k_thread_state_regs]), (2, [m68k_thread_state_68882]),
      (3, [m68k_thread_state_user_reg])]"

definition ppc_swaps :: swap_table where
  "ppc_swaps =
     [(1, [ppc_thread_state]), (5, [ppc_thread_state64]),
      (2, [ppc_float_state, ppc_exception_state]), (3, [ppc_exception_state])]"

definition m88k_swaps :: swap_table where
  "m88k_swaps =
     [(1, [m88k_thread_state_grf]), (2, [m88k_thread_state_xrf]),
      (3, [m88k_thread_state_user]), (4, [m88110_thread_state_impl])]"

definition i860_swaps :: swap_table where
  "i860_swaps = [(4, [i860_thread_state_regs])]"

definition i386_swaps :: swap_table where
  "i386_swaps =
     [(1, [i386_thread_state]), (- 1, [i386_thread_state]), (2, [i386_float_state]),
      (3, [i386_exception_state]), (4, [x86_thread_state64])]"

definition hppa_swaps :: swap_table where
  "hppa_swaps =
     [(1, [hppa_integer_thread_state]), (2, [hppa_frame_thread_state]),
      (3, [hppa_fp_thread_state])]"

definition sparc_swaps :: swap_table where
  "sparc_swaps = [(1, [sparc_thread_state_regs]), (2, [sparc_thread_state_fpu])]"

definition arm_swaps :: swap_table where
  "arm_swaps = [(1, [arm_thread_state])]"

definition arm64_swaps :: swap_table where
  "arm64_swaps = [(6, [arm_thread_state64])]"

definition swap_table :: "cpu_type_t \<Rightarrow> swap_table option" where
  "swap_table cputype =
     (if cputype = CPU_TYPE_MC680x0 then Some m68k_swaps
      else if cputype = CPU_TYPE_POWERPC \<or> cputype = CPU_TYPE_VEO \<or> cputype = CPU_TYPE_POWERPC64
      then Some ppc_swaps
      else if cputype = CPU_TYPE_MC88000 then Some m88k_swaps
      else if cputype = CPU_TYPE_I860 then Some i860_swaps
      else if cputype = CPU_TYPE_I386 \<or> cputype = CPU_TYPE_X86_64 then Some i386_swaps
      else if cputype = CPU_TYPE_HPPA then Some hppa_swaps
      else if cputype = CPU_TYPE_SPARC then Some sparc_swaps
      else if cputype = CPU_TYPE_ARM then Some arm_swaps
      else if cputype = CPU_TYPE_ARM64 then Some arm64_swaps
      else None)"

fun apply_layouts :: "endian \<Rightarrow> bit_swap \<Rightarrow> nat \<Rightarrow> layout list \<Rightarrow> bytes \<Rightarrow> bytes result" where
  "apply_layouts e bits off [] lc = Inr lc"
| "apply_layouts e bits off (fs # fss) lc =
     andthen (apply_at off (layout_size fs) (swap_layout e bits fs) lc)
       (apply_layouts e bits (off + layout_size fs) fss)"

function swap_flavors ::
  "endian \<Rightarrow> bit_swap \<Rightarrow> (u32 \<times> layout list) list \<Rightarrow> nat \<Rightarrow> nat \<Rightarrow> bytes \<Rightarrow> bytes result" where
  "swap_flavors e bits tab state p lc =
     (if state < p then
        (case read32 e lc state of Inl x \<Rightarrow> Inl x | Inr flavor \<Rightarrow>
         (case apply_array state 4 (swap_field e bits Swap_Int) 2 lc of Inl x \<Rightarrow> Inl x | Inr lc1 \<Rightarrow>
          (case map_of tab flavor of
             None \<Rightarrow> swap_flavors e bits tab (state + 8) p lc1
           | Some fss \<Rightarrow>
               (case apply_layouts e bits (state + 8) fss lc1 of Inl x \<Rightarrow> Inl x | Inr lc2 \<Rightarrow>
                  swap_flavors e bits tab (state + 8 + sum_list (map layout_size fss)) p lc2))))
      else Inr lc)"
  by pat_completeness auto
termination
  by (relation "measure (\<lambda>(e, bits, tab, state, p, lc). p - state)") auto

declare swap_flavors.simps [simp del]

text \<open>A command followed by a counted table: the table first, as its count is read from the command.\<close>

definition swap_counted ::
  "endian \<Rightarrow> nat \<Rightarrow> (endian \<Rightarrow> bytes \<Rightarrow> bytes) \<Rightarrow> nat \<Rightarrow> (endian \<Rightarrow> bytes \<Rightarrow> bytes) \<Rightarrow> nat \<Rightarrow> bytes \<Rightarrow>
   bytes result" where
  "swap_counted e base f n g off lc =
     andthen (read32 e lc off) (\<lambda>count.
     andthen (apply_array base n (g e) (unat count) lc) (apply_at 0 base (f e)))"

definition swap_command ::
  "endian \<Rightarrow> cpu_type_t \<Rightarrow> bit_swap \<Rightarrow> u32 \<Rightarrow> u32 \<Rightarrow> bytes \<Rightarrow> bytes result" where
  "swap_command e cputype bits cmd cmdsize lc =
     (if cmd = LC_SEGMENT then
        swap_counted e
          sizeof_segment_command
          (in_place dec_segment_command enc_segment_command swap_segment_command)
          sizeof_section (in_place dec_section enc_section swap_section_elem) 48 lc
      else if cmd = LC_SEGMENT_64 then
        swap_counted e
          sizeof_segment_command_64
          (in_place dec_segment_command_64 enc_segment_command_64 swap_segment_command_64)
          sizeof_section_64 (in_place dec_section_64 enc_section_64 swap_section_64_elem) 64 lc
      else if cmd = LC_BUILD_VERSION then
        swap_counted e
          sizeof_build_version_command
          (in_place dec_build_version_command enc_build_version_command swap_build_version_command)
          sizeof_build_tool_version
          (in_place dec_build_tool_version enc_build_tool_version swap_build_tool_version_elem) 20 lc
      else if cmd = LC_UNIXTHREAD \<or> cmd = LC_THREAD then
        andthen (apply_at 0 sizeof_thread_command
            (in_place dec_thread_command enc_thread_command swap_thread_command e) lc)
          (case swap_table cputype of
             None \<Rightarrow> Inr
           | Some tab \<Rightarrow> swap_flavors e bits tab sizeof_thread_command (unat cmdsize))
      else
        (case swap_struct cmd of None \<Rightarrow> Inr lc | Some (n, f) \<Rightarrow> apply_at 0 n (f e) lc))"

fun swap_commands ::
  "endian \<Rightarrow> cpu_type_t \<Rightarrow> bit_swap \<Rightarrow> nat \<Rightarrow> bytes \<Rightarrow> bytes result" where
  "swap_commands e cputype bits 0 lc = Inr lc"
| "swap_commands e cputype bits (Suc n) lc =
     andthen (read32 e lc 0) (\<lambda>cmd.
     andthen (read32 e lc 4) (\<lambda>cmdsize.
     andthen (swap_command e cputype bits cmd cmdsize lc) (\<lambda>lc1.
       if length lc1 < unat cmdsize then Inl Memory_Fault
       else andthen (swap_commands e cputype bits n (drop (unat cmdsize) lc1)) (\<lambda>rest.
         Inr (take (unat cmdsize) lc1 @ rest)))))"

section \<open>The routine\<close>

text \<open>\<open>mach_header\<close> is the memory that starts at the header, \<open>load_commands\<close> the memory that starts at the
  load commands; the result is both after the call.\<close>

definition swap_object_headers ::
  "endian \<Rightarrow> bit_swap \<Rightarrow> bytes \<Rightarrow> bytes \<Rightarrow> (bytes \<times> bytes) result" where
  "swap_object_headers e bits mach_header load_commands =
     andthen (read32 e mach_header 0) (\<lambda>magic.
       if length mach_header <
          (if magic = MH_MAGIC then sizeof_mach_header else sizeof_mach_header_64)
       then Inl Memory_Fault
       else if magic = MH_MAGIC then
         (let mh = dec_mach_header e mach_header in
          andthen (check_commands e (mh_cputype mh) 4 (unat (mh_ncmds mh)) 0 load_commands
              (unat (mh_sizeofcmds mh))) (\<lambda>_.
          andthen (swap_commands e (mh_cputype mh) bits (unat (mh_ncmds mh)) load_commands) (\<lambda>lc.
          andthen (apply_at 0 sizeof_mach_header
              (in_place dec_mach_header enc_mach_header swap_mach_header e) mach_header) (\<lambda>hdr.
            Inr (hdr, lc)))))
       else
         (let mh = dec_mach_header_64 e mach_header in
          andthen (check_commands e (mh64_cputype mh) 8 (unat (mh64_ncmds mh)) 0 load_commands
              (unat (mh64_sizeofcmds mh))) (\<lambda>_.
          andthen (swap_commands e (mh64_cputype mh) bits (unat (mh64_ncmds mh)) load_commands) (\<lambda>lc.
          andthen (apply_at 0 sizeof_mach_header_64
              (in_place dec_mach_header_64 enc_mach_header_64 swap_mach_header_64 e) mach_header)
            (\<lambda>hdr. Inr (hdr, lc))))))"

end
