(* ===== verification/Elements.thy ===== *)
theory Elements
  imports Prelude
begin

text \<open>
  The list of the parts of an object file that \<open>check_Mach_O\<close> of \<^verbatim>\<open>cctools/libstuff/ofile.c\<close>
  keeps to find parts that overlap: \<open>struct element\<close> and \<open>check_overlaping_element\<close>. The list that
  hangs off the head element is a list here; the offsets are 32 bit numbers, and their sums wrap as
  they do in the code.

  The routine is meant to keep the list ordered by offset and stops looking as soon as the next element
  lies behind the new one. It is shown to decide overlap on an ordered list. It does not keep the list
  ordered: a new element goes before the element it was compared with last, not behind it, and
  \<open>overlap_missed\<close> shows an overlap that goes unnoticed because of that.
\<close>

record element =
  el_offset :: u32
  el_size :: u32
  el_name :: string

datatype overlap_error = Overlaps element element

definition overlaps :: "element \<Rightarrow> element \<Rightarrow> bool" where
  "overlaps n e \<longleftrightarrow>
     el_offset n \<ge> el_offset e \<and> el_offset n < el_offset e + el_size e \<or>
     el_offset n + el_size n > el_offset e \<and> el_offset n + el_size n < el_offset e + el_size e \<or>
     el_offset n \<le> el_offset e \<and> el_offset n + el_size n \<ge> el_offset e + el_size e"

text \<open>The loop, at an element \<open>e\<close> of the list and what follows it.\<close>

fun element_walk :: "element \<Rightarrow> element list \<Rightarrow> overlap_error + element list" where
  "element_walk n [] = Inr [n]"
| "element_walk n [e] = (if overlaps n e then Inl (Overlaps n e) else Inr [e, n])"
| "element_walk n (e # e' # es) =
     (if overlaps n e then Inl (Overlaps n e)
      else if el_offset n + el_size n \<le> el_offset e' then Inr (n # e # e' # es)
      else andthen (element_walk n (e' # es)) (\<lambda>es'. Inr (e # es')))"

definition check_overlaping_element ::
  "element list \<Rightarrow> u32 \<Rightarrow> u32 \<Rightarrow> string \<Rightarrow> overlap_error + element list" where
  "check_overlaping_element elements offset sz name =
     (if sz = 0 then Inr elements
      else element_walk \<lparr>el_offset = offset, el_size = sz, el_name = name\<rparr> elements)"

section \<open>What overlap means\<close>

definition extent :: "element \<Rightarrow> nat set" where
  "extent e = {unat (el_offset e) ..< unat (el_offset e) + unat (el_size e)}"

definition apart :: "element \<Rightarrow> element \<Rightarrow> bool" where
  "apart a b \<longleftrightarrow> extent a \<inter> extent b = {}"

text \<open>An element that is not empty and ends inside the 32 bit offsets.\<close>

definition proper :: "element \<Rightarrow> bool" where
  "proper e \<longleftrightarrow> el_size e \<noteq> 0 \<and> unat (el_offset e) + unat (el_size e) < 2 ^ 32"

lemma unat_end: "proper e \<Longrightarrow> unat (el_offset e + el_size e) = unat (el_offset e) + unat (el_size e)"
  by (simp add: proper_def unat_word_ariths)

lemma proper_size: "proper e \<Longrightarrow> 0 < unat (el_size e)"
  by (simp add: proper_def unat_gt_0)

lemma overlaps_iff:
  assumes "proper n" "proper e"
  shows "overlaps n e \<longleftrightarrow> \<not> apart n e"
proof -
  have "\<not> apart n e \<longleftrightarrow>
      unat (el_offset n) < unat (el_offset e) + unat (el_size e) \<and>
      unat (el_offset e) < unat (el_offset n) + unat (el_size n)"
    using proper_size [OF assms(1)] proper_size [OF assms(2)]
    by (auto simp: apart_def extent_def disjoint_iff intro: exI [of _ "max (unat (el_offset n)) (unat (el_offset e))"])
  then show ?thesis
    using proper_size [OF assms(1)] proper_size [OF assms(2)]
    unfolding overlaps_def word_le_nat_alt word_less_nat_alt unat_end [OF assms(1)] unat_end [OF assms(2)]
    by linarith
qed

section \<open>The list\<close>

lemma element_walk_set: "element_walk n es = Inr es' \<Longrightarrow> set es' = insert n (set es)"
  by (induction n es arbitrary: es' rule: element_walk.induct)
    (auto simp: andthen_eq_Inr split: if_splits)

lemma element_walk_error: "element_walk n es = Inl (Overlaps a b) \<Longrightarrow> a = n \<and> b \<in> set es \<and> overlaps n b"
  by (induction n es rule: element_walk.induct) (auto simp: andthen_eq_Inl split: if_splits)

definition ordered :: "element list \<Rightarrow> bool" where
  "ordered = sorted_wrt (\<lambda>a b. unat (el_offset a) + unat (el_size a) \<le> unat (el_offset b))"

lemma ordered_walk:
  assumes "ordered es" "proper n" "\<forall>e \<in> set es. proper e" "element_walk n es = Inr es'"
  shows "\<forall>e \<in> set es. apart n e"
  using assms
proof (induction n es arbitrary: es' rule: element_walk.induct)
  case (3 n e e' es)
  have ne: "apart n e"
    using "3.prems" overlaps_iff [of n e] by (auto split: if_splits)
  show ?case
  proof (cases "el_offset n + el_size n \<le> el_offset e'")
    case True
    then have "unat (el_offset n) + unat (el_size n) \<le> unat (el_offset e')"
      using unat_end [OF 3(3)] by (simp add: word_le_nat_alt)
    moreover have "\<forall>d \<in> set (e' # es). unat (el_offset e') \<le> unat (el_offset d)"
      using 3(2) by (auto simp: ordered_def)
    ultimately have "\<forall>d \<in> set (e' # es). apart n d"
      by (fastforce simp: apart_def extent_def)
    with ne show ?thesis by simp
  next
    case False
    with 3 ne show ?thesis by (auto simp: ordered_def andthen_eq_Inr split: if_splits)
  qed
qed (auto simp: overlaps_iff split: if_splits)

lemma append_walk:
  assumes "proper n" "\<forall>e \<in> set es. proper e" "\<forall>e \<in> set es. unat (el_offset e) + unat (el_size e) \<le> unat (el_offset n)"
  shows "element_walk n es = Inr (es @ [n])"
  using assms
proof (induction n es rule: element_walk.induct)
  case (2 n e)
  then show ?case by (auto simp: overlaps_iff apart_def extent_def)
next
  case (3 n e e' es)
  have "\<not> overlaps n e" using 3 by (auto simp: overlaps_iff apart_def extent_def)
  moreover have "unat (el_offset e') < unat (el_offset n + el_size n)"
    using 3 proper_size [of n] proper_size [of e'] by (auto simp: unat_end)
  ultimately show ?case using 3 by (auto simp: word_le_nat_alt)
qed simp

text \<open>C5. An overlap that is reported is one: the element named in the error is in the list and has a byte
  in common with the new one, and an accepted element is added to the list. On a list in the order of
  the offsets every overlap is reported, and elements that come in ascending order keep it so.\<close>

theorem check_overlaping_element_correct:
  assumes "sz \<noteq> 0" "n = \<lparr>el_offset = offset, el_size = sz, el_name = name\<rparr>" "proper n"
    "\<forall>e \<in> set es. proper e"
  shows "(\<forall>a b. check_overlaping_element es offset sz name = Inl (Overlaps a b) \<longrightarrow>
            a = n \<and> b \<in> set es \<and> \<not> apart n b) \<and>
    (\<forall>es'. check_overlaping_element es offset sz name = Inr es' \<longrightarrow> set es' = insert n (set es)) \<and>
    (ordered es \<longrightarrow>
       ((\<exists>es'. check_overlaping_element es offset sz name = Inr es') \<longleftrightarrow>
          (\<forall>e \<in> set es. apart n e))) \<and>
    (ordered es \<longrightarrow> (\<forall>e \<in> set es. unat (el_offset e) + unat (el_size e) \<le> unat offset) \<longrightarrow>
       check_overlaping_element es offset sz name = Inr (es @ [n]) \<and> ordered (es @ [n]))"
proof -
  have c: "check_overlaping_element es offset sz name = element_walk n es"
    using assms(1,2) by (simp add: check_overlaping_element_def)
  have err: "a = n \<and> b \<in> set es \<and> \<not> apart n b" if "element_walk n es = Inl (Overlaps a b)" for a b
    using element_walk_error [OF that] assms(3,4) overlaps_iff by blast
  have "\<exists>es'. element_walk n es = Inr es'" if "\<forall>e \<in> set es. apart n e"
  proof (cases "element_walk n es")
    case (Inl x)
    then show ?thesis using err that by (cases x) auto
  qed simp
  then show ?thesis
    unfolding c using err element_walk_set ordered_walk [OF _ assms(3,4)] append_walk [OF assms(3,4)] assms(2)
    by (auto simp: ordered_def sorted_wrt_append)
qed

theorem check_overlaping_element_correct_witness:
  "check_overlaping_element [\<lparr>el_offset = 0, el_size = 32, el_name = ''headers''\<rparr>] 16 8 ''symbol table'' =
     Inl (Overlaps \<lparr>el_offset = 16, el_size = 8, el_name = ''symbol table''\<rparr>
       \<lparr>el_offset = 0, el_size = 32, el_name = ''headers''\<rparr>) \<and>
   \<not> apart \<lparr>el_offset = 16, el_size = 8, el_name = ''symbol table''\<rparr>
       \<lparr>el_offset = 0, el_size = 32, el_name = ''headers''\<rparr>"
proof -
  let ?h = "\<lparr>el_offset = 0, el_size = 32, el_name = ''headers''\<rparr>"
  let ?n = "\<lparr>el_offset = 16, el_size = 8, el_name = ''symbol table''\<rparr>"
  have "check_overlaping_element [?h] 16 8 ''symbol table'' = Inl (Overlaps ?n ?h)"
    by (simp add: check_overlaping_element_def overlaps_def)
  moreover have "proper ?n" "proper ?h" by (simp_all add: proper_def)
  ultimately show ?thesis
    using check_overlaping_element_correct [of 8 ?n 16 "''symbol table''" "[?h]"] by simp
qed

text \<open>The elements that are in the list after a sequence of calls, as long as none is rejected.\<close>

fun add_elements :: "element list \<Rightarrow> (u32 \<times> u32) list \<Rightarrow> overlap_error + element list" where
  "add_elements es [] = Inr es"
| "add_elements es ((offset, sz) # rs) =
     andthen (check_overlaping_element es offset sz []) (\<lambda>es'. add_elements es' rs)"

text \<open>Six parts of a file are accepted one after the other although the last, at offset 25, lies inside
  the part at offset 20: the list is out of order by then.\<close>

theorem overlap_missed:
  "\<exists>es. add_elements [] [(0, 10), (100, 10), (50, 10), (20, 10), (12, 3), (25, 3)] = Inr es \<and>
     (\<exists>a \<in> set es. \<exists>b \<in> set es. a \<noteq> b \<and> proper a \<and> proper b \<and> \<not> apart a b)"
proof -
  let ?el = "\<lambda>offset sz. \<lparr>el_offset = offset, el_size = sz, el_name = []\<rparr> :: element"
  have "add_elements [] [(0, 10), (100, 10), (50, 10), (20, 10), (12, 3), (25, 3)] =
      Inr [?el 25 3, ?el 12 3, ?el 50 10, ?el 20 10, ?el 0 10, ?el 100 10]"
    by (simp add: check_overlaping_element_def overlaps_def)
  moreover have "proper (?el 25 3)" "proper (?el 20 10)" by (simp_all add: proper_def)
  moreover have "\<not> apart (?el 25 3) (?el 20 10)"
    by (auto simp: apart_def extent_def disjoint_iff intro: exI [of _ 26])
  ultimately show ?thesis by (intro exI conjI) auto
qed

end
