(* ===== verification/Ofile.thy ===== *)
theory Ofile
  imports Machine MachO_Headers Loader Bytesex
begin

text \<open>
  The structure \<open>ofile\<close> of \<^verbatim>\<open>cctools/include/stuff/ofile.h\<close>, the cursor that the routines of
  \<^verbatim>\<open>cctools/libstuff/ofile.c\<close> move over the architectures of a fat file, the members of an archive and
  the modules of a library.

  There are two areas of memory: the mapped file \<open>o_file_addr\<close>, and the buffer a member is copied to when
  it is not aligned in its archive. A pointer is \<open>NULL\<close> or an offset into one of them; when the buffer is
  freed, the pointers into it dangle. The headers of a fat
  file are kept as the program sees them, in the byte order of the host.
\<close>

section \<open>The structure\<close>

datatype ofile_type = OFILE_UNKNOWN | OFILE_FAT | OFILE_ARCHIVE | OFILE_Mach_O | OFILE_LLVM_BITCODE

datatype pointer = Null | Mapped nat | Buffered nat | Dangling

record ofile =
  o_file_addr :: bytes
  o_file_size :: u64
  o_file_type :: ofile_type
  o_fat_header :: "fat_header option"
  o_fat_archs :: "fat_arch list"
  o_fat_archs64 :: "fat_arch_64 list"
  o_narch :: u32
  o_arch_type :: ofile_type
  o_arch_name :: "string option"
  o_arch_cputype :: cpu_type_t
  o_arch_cpusubtype :: cpu_subtype_t
  o_toc_addr :: pointer
  o_toc_size :: u32
  o_toc_ar_hdr :: pointer
  o_toc_name :: pointer
  o_toc_name_size :: u32
  o_toc_is_32bit :: bool
  o_toc_ranlibs :: pointer
  o_toc_ranlibs64 :: pointer
  o_toc_nranlibs :: u64
  o_toc_strings :: pointer
  o_toc_strsize :: u64
  o_toc_bad :: bool
  o_sysv_ar_strtab :: pointer
  o_sysv_ar_strtab_size :: u32
  o_member_offset :: u64
  o_member_addr :: pointer
  o_member_size :: u32
  o_member_ar_hdr :: pointer
  o_member_name :: pointer
  o_member_name_size :: u32
  o_member_type :: ofile_type
  o_archive_cputype :: cpu_type_t
  o_archive_cpusubtype :: cpu_subtype_t
  o_member_buffer :: "bytes option"
  o_modtab :: pointer
  o_modtab64 :: pointer
  o_nmodtab :: u32
  o_dylib_module :: pointer
  o_dylib_module64 :: pointer
  o_dylib_module_name :: pointer
  o_headers_swapped :: bool
  o_object_addr :: pointer
  o_object_size :: u32
  o_object_byte_sex :: byte_sex
  o_mh :: pointer
  o_mh64 :: pointer
  o_load_commands :: pointer
  o_mh_cputype :: cpu_type_t
  o_mh_cpusubtype :: cpu_subtype_t
  o_mh_filetype :: u32
  o_lto_cputype :: cpu_type_t
  o_lto_cpusubtype :: cpu_subtype_t

text \<open>The structure after \<open>memset(ofile, 0, sizeof(struct ofile))\<close>.\<close>

definition zero_ofile :: ofile where
  "zero_ofile = \<lparr>o_file_addr = [], o_file_size = 0, o_file_type = OFILE_UNKNOWN, o_fat_header = None,
     o_fat_archs = [], o_fat_archs64 = [], o_narch = 0, o_arch_type = OFILE_UNKNOWN, o_arch_name = None,
     o_arch_cputype = 0, o_arch_cpusubtype = 0, o_toc_addr = Null, o_toc_size = 0, o_toc_ar_hdr = Null,
     o_toc_name = Null, o_toc_name_size = 0, o_toc_is_32bit = False, o_toc_ranlibs = Null,
     o_toc_ranlibs64 = Null, o_toc_nranlibs = 0, o_toc_strings = Null, o_toc_strsize = 0, o_toc_bad = False,
     o_sysv_ar_strtab = Null, o_sysv_ar_strtab_size = 0, o_member_offset = 0, o_member_addr = Null,
     o_member_size = 0, o_member_ar_hdr = Null, o_member_name = Null, o_member_name_size = 0,
     o_member_type = OFILE_UNKNOWN, o_archive_cputype = 0, o_archive_cpusubtype = 0, o_member_buffer = None,
     o_modtab = Null, o_modtab64 = Null, o_nmodtab = 0, o_dylib_module = Null, o_dylib_module64 = Null,
     o_dylib_module_name = Null, o_headers_swapped = False, o_object_addr = Null, o_object_size = 0,
     o_object_byte_sex = UNKNOWN_BYTE_SEX, o_mh = Null, o_mh64 = Null, o_load_commands = Null,
     o_mh_cputype = 0, o_mh_cpusubtype = 0, o_mh_filetype = 0, o_lto_cputype = 0, o_lto_cpusubtype = 0\<rparr>"

section \<open>Memory\<close>

text \<open>The memory from a pointer to the end of its area, and the structure after that memory was changed.\<close>

definition memory :: "ofile \<Rightarrow> pointer \<Rightarrow> bytes option" where
  "memory ofl p =
     (case p of
        Null \<Rightarrow> None
      | Dangling \<Rightarrow> None
      | Mapped n \<Rightarrow> if n \<le> length (o_file_addr ofl) then Some (drop n (o_file_addr ofl)) else None
      | Buffered n \<Rightarrow>
          (case o_member_buffer ofl of
             None \<Rightarrow> None
           | Some buf \<Rightarrow> if n \<le> length buf then Some (drop n buf) else None))"

definition store :: "ofile \<Rightarrow> pointer \<Rightarrow> bytes \<Rightarrow> ofile" where
  "store ofl p bs =
     (case p of
        Null \<Rightarrow> ofl
      | Dangling \<Rightarrow> ofl
      | Mapped n \<Rightarrow> ofl\<lparr>o_file_addr := take n (o_file_addr ofl) @ bs\<rparr>
      | Buffered n \<Rightarrow>
          (case o_member_buffer ofl of
             None \<Rightarrow> ofl
           | Some buf \<Rightarrow> ofl\<lparr>o_member_buffer := Some (take n buf @ bs)\<rparr>))"

fun advance :: "pointer \<Rightarrow> nat \<Rightarrow> pointer" where
  "advance Null k = Null"
| "advance Dangling k = Dangling"
| "advance (Mapped n) k = Mapped (n + k)"
| "advance (Buffered n) k = Buffered (n + k)"

lemma memory_cong:
  "o_file_addr a = o_file_addr b \<Longrightarrow> o_member_buffer a = o_member_buffer b \<Longrightarrow> memory a p = memory b p"
  by (cases p) (simp_all add: memory_def)

lemma memory_advance:
  "memory ofl p = Some bs \<Longrightarrow> k \<le> length bs \<Longrightarrow> memory ofl (advance p k) = Some (drop k bs)"
  by (cases p) (auto simp: memory_def add.commute split: if_splits option.splits)

lemma memory_store:
  "memory ofl p = Some bs \<Longrightarrow> length bs' = length bs \<Longrightarrow> memory (store ofl p bs') p = Some bs'"
  by (cases p) (auto simp: memory_def store_def split: if_splits option.splits)

section \<open>Constants and loops\<close>

text \<open>The magic numbers of \<^verbatim>\<open>mach-o/fat.h\<close> and the largest alignment \<^verbatim>\<open>ofile.c\<close> allows.\<close>

abbreviation FAT_MAGIC :: u32 where
  "FAT_MAGIC \<equiv> 0xcafebabe"

abbreviation FAT_MAGIC_64 :: u32 where
  "FAT_MAGIC_64 \<equiv> 0xcafebabf"

abbreviation MAXSECTALIGN :: u32 where
  "MAXSECTALIGN \<equiv> 15"

text \<open>A loop over an array that stops at the first element that is not accepted.\<close>

fun check_each :: "('a \<Rightarrow> 'e + unit) \<Rightarrow> 'a list \<Rightarrow> 'e + unit" where
  "check_each f [] = Inr ()"
| "check_each f (x # xs) = andthen (f x) (\<lambda>_. check_each f xs)"

lemma check_each_good: "check_each f xs = Inr () \<longleftrightarrow> (\<forall>x \<in> set xs. f x = Inr ())"
  by (induction xs) (auto simp: andthen_eq_Inr)

lemma check_each_bad: "check_each f xs = Inl e \<Longrightarrow> \<exists>x \<in> set xs. f x = Inl e"
  by (induction xs) (auto simp: andthen_eq_Inl)

end
