(* ===== verification/FatCheck.thy ===== *)
theory FatCheck
  imports Ofile BestArch
begin

text \<open>
  The checks of fat headers in \<^verbatim>\<open>cctools/libstuff/ofile.c\<close>: \<open>check_fat\<close> for a fat file and
  \<open>check_fat_object_in_archive\<close> for a fat file that is a member of an archive. Both have the same two
  loops, over the slices and over the pairs of slices. The array of slices behind the header has to be
  there, which the callers check; otherwise the result is \<open>Archs_Fault\<close>.

  Whether a slice is LLVM bit code is decided by a library that is loaded at run time; the routine
  \<open>is_llvm_bitcode\<close> is a parameter. The alignment tests that are compiled on processors that need them
  are left out: they are not compiled for x86 and ARM.
\<close>

section \<open>The loops\<close>

datatype fat_error =
    Archs_Fault
  | Wrong_File_Type
  | Zero_Architectures
  | Past_End_Of_File cpu_type_t u32
  | Align_Too_Large u32 cpu_type_t u32
  | Offset_Not_Aligned u64 cpu_type_t u32 u32
  | Two_Of_The_Same cpu_type_t u32
  | Too_Small_For_Object cpu_type_t u32
  | Not_An_Object cpu_type_t u32

text \<open>The local variables the first loop sets from either array.\<close>

record fat_slice =
  fs_cputype :: cpu_type_t
  fs_cpusubtype :: cpu_subtype_t
  fs_offset :: u64
  fs_size :: u64
  fs_align :: u32

definition slice_of_arch :: "fat_arch \<Rightarrow> fat_slice" where
  "slice_of_arch fa = \<lparr>fs_cputype = fa_cputype fa, fs_cpusubtype = fa_cpusubtype fa,
     fs_offset = ucast (fa_offset fa), fs_size = ucast (fa_size fa), fs_align = fa_align fa\<rparr>"

definition slice_of_arch_64 :: "fat_arch_64 \<Rightarrow> fat_slice" where
  "slice_of_arch_64 fa = \<lparr>fs_cputype = fa64_cputype fa, fs_cpusubtype = fa64_cpusubtype fa,
     fs_offset = fa64_offset fa, fs_size = fa64_size fa, fs_align = fa64_align fa\<rparr>"

definition fat_slices :: "fat_header \<Rightarrow> ofile \<Rightarrow> fat_error + fat_slice list" where
  "fat_slices fh ofl =
     (let n = unat (fh_nfat_arch fh);
          archs = (if fh_magic fh = FAT_MAGIC_64 then map slice_of_arch_64 (o_fat_archs64 ofl)
                   else map slice_of_arch (o_fat_archs ofl))
      in if n \<le> length archs then Inr (take n archs) else Inl Archs_Fault)"

definition check_slice :: "u64 \<Rightarrow> fat_slice \<Rightarrow> fat_error + unit" where
  "check_slice limit s =
     (if fs_offset s + fs_size s > limit
      then Inl (Past_End_Of_File (fs_cputype s) (unmask (fs_cpusubtype s)))
      else if fs_align s > MAXSECTALIGN
      then Inl (Align_Too_Large (fs_align s) (fs_cputype s) (unmask (fs_cpusubtype s)))
      else if fs_offset s mod push_bit (unat (fs_align s)) 1 \<noteq> 0
      then Inl (Offset_Not_Aligned (fs_offset s) (fs_cputype s) (unmask (fs_cpusubtype s)) (fs_align s))
      else Inr ())"

definition same_architecture :: "fat_slice \<Rightarrow> fat_slice \<Rightarrow> bool" where
  "same_architecture s t \<longleftrightarrow>
     fs_cputype s = fs_cputype t \<and> unmask (fs_cpusubtype s) = unmask (fs_cpusubtype t)"

fun check_pairs :: "fat_slice list \<Rightarrow> fat_error + unit" where
  "check_pairs [] = Inr ()"
| "check_pairs (s # ss) =
     (if list_ex (same_architecture s) ss
      then Inl (Two_Of_The_Same (fs_cputype s) (unmask (fs_cpusubtype s)))
      else check_pairs ss)"

section \<open>The two checks\<close>

definition check_fat :: "ofile \<Rightarrow> fat_error + unit" where
  "check_fat ofl =
     (if o_file_type ofl \<noteq> OFILE_FAT then Inl Wrong_File_Type
      else (case o_fat_header ofl of
        None \<Rightarrow> Inl Archs_Fault
      | Some fh \<Rightarrow>
          if fh_nfat_arch fh = 0 then Inl Zero_Architectures
          else andthen (fat_slices fh ofl) (\<lambda>ss.
            andthen (check_each (check_slice (o_file_size ofl)) ss) (\<lambda>_. check_pairs ss))))"

definition check_object_slice ::
  "endian \<Rightarrow> (bytes \<Rightarrow> bool) \<Rightarrow> ofile \<Rightarrow> fat_slice \<Rightarrow> fat_error + unit" where
  "check_object_slice e is_llvm_bitcode ofl s =
     andthen (check_slice (ucast (o_member_size ofl)) s) (\<lambda>_.
       if fs_size s < of_nat sizeof_mach_header
       then Inl (Too_Small_For_Object (fs_cputype s) (unmask (fs_cpusubtype s)))
       else let addr = unat (o_member_offset ofl + fs_offset s) in
         if length (o_file_addr ofl) < addr + 4 then Inl Archs_Fault
         else let magic = get32 e (o_file_addr ofl) addr in
           if magic = MH_MAGIC \<or> magic = SWAP_INT MH_MAGIC then Inr ()
           else if magic = MH_MAGIC_64 \<or> magic = SWAP_INT MH_MAGIC_64 then Inr ()
           else if is_llvm_bitcode (slice addr (unat (fs_size s)) (o_file_addr ofl)) then Inr ()
           else Inl (Not_An_Object (fs_cputype s) (unmask (fs_cpusubtype s))))"

definition check_fat_object_in_archive ::
  "endian \<Rightarrow> (bytes \<Rightarrow> bool) \<Rightarrow> ofile \<Rightarrow> fat_error + unit" where
  "check_fat_object_in_archive e is_llvm_bitcode ofl =
     (if o_file_type ofl \<noteq> OFILE_ARCHIVE then Inl Wrong_File_Type
      else (case o_fat_header ofl of
        None \<Rightarrow> Inl Archs_Fault
      | Some fh \<Rightarrow>
          if fh_nfat_arch fh = 0 then Inl Zero_Architectures
          else andthen (fat_slices fh ofl) (\<lambda>ss.
            andthen (check_each (check_object_slice e is_llvm_bitcode ofl) ss) (\<lambda>_. check_pairs ss))))"

section \<open>What an accepted header gives\<close>

definition slice_key :: "fat_slice \<Rightarrow> cpu_type_t \<times> u32" where
  "slice_key s = (fs_cputype s, unmask (fs_cpusubtype s))"

lemma check_pairs_good: "check_pairs ss = Inr () \<longleftrightarrow> distinct (map slice_key ss)"
proof (induction ss)
  case (Cons s ss)
  have "list_ex (same_architecture s) ss \<longleftrightarrow> slice_key s \<in> slice_key ` set ss"
    by (auto simp: list_ex_iff same_architecture_def slice_key_def image_iff)
  with Cons show ?case by simp
qed simp

definition slice_fits :: "nat \<Rightarrow> fat_slice \<Rightarrow> bool" where
  "slice_fits limit s \<longleftrightarrow>
     unat (fs_offset s) + unat (fs_size s) \<le> limit \<and> fs_align s \<le> MAXSECTALIGN \<and>
     2 ^ unat (fs_align s) dvd unat (fs_offset s)"

lemma unat_push_bit_1: "k < 64 \<Longrightarrow> unat (push_bit k (1 :: u64)) = 2 ^ k"
  by (subst unsigned_push_bit_eq) (simp add: push_bit_eq_mult take_bit_nat_eq_self power_strict_increasing)

lemma check_slice_good:
  assumes "unat (fs_offset s) + unat (fs_size s) < 2 ^ 64"
  shows "check_slice limit s = Inr () \<longleftrightarrow> slice_fits (unat limit) s"
proof -
  have "unat (fs_offset s + fs_size s) = unat (fs_offset s) + unat (fs_size s)"
    using assms by (simp add: unat_word_ariths)
  moreover have "fs_offset s mod push_bit (unat (fs_align s)) 1 = 0 \<longleftrightarrow> 2 ^ unat (fs_align s) dvd unat (fs_offset s)"
    if "fs_align s \<le> MAXSECTALIGN"
  proof -
    from that have "unat (fs_align s) < 64" by (simp add: word_le_nat_alt)
    then show ?thesis
      by (simp only: unat_eq_0 [symmetric] unat_mod unat_push_bit_1 dvd_eq_mod_eq_0)
  qed
  ultimately show ?thesis
    by (auto simp: check_slice_def slice_fits_def word_less_nat_alt not_less word_le_nat_alt)
qed

lemma arch_no_wrap: "unat (fs_offset (slice_of_arch fa)) + unat (fs_size (slice_of_arch fa)) < 2 ^ 64"
proof -
  have "unat (fa_offset fa) < 2 ^ 32" "unat (fa_size fa) < 2 ^ 32"
    using unsigned_less [of "fa_offset fa", where 'a = nat] unsigned_less [of "fa_size fa", where 'a = nat]
    by simp_all
  then show ?thesis
    by (simp add: slice_of_arch_def unsigned_ucast_eq take_bit_nat_eq_self)
qed

lemma check_fat_good:
  "o_fat_header ofl = Some fh \<Longrightarrow>
   check_fat ofl = Inr () \<longleftrightarrow> o_file_type ofl = OFILE_FAT \<and> fh_nfat_arch fh \<noteq> 0 \<and>
     (\<exists>ss. fat_slices fh ofl = Inr ss \<and> (\<forall>s \<in> set ss. check_slice (o_file_size ofl) s = Inr ()) \<and>
        distinct (map slice_key ss))"
  by (auto simp: check_fat_def andthen_eq_Inr check_each_good check_pairs_good)

lemma fat_slices_32:
  assumes "fh_magic fh \<noteq> FAT_MAGIC_64" "unat (fh_nfat_arch fh) = length (o_fat_archs ofl)"
  shows "fat_slices fh ofl = Inr (map slice_of_arch (o_fat_archs ofl))"
  using assms by (simp add: fat_slices_def Let_def)

lemma slice_fits_arch:
  "slice_fits n (slice_of_arch fa) \<longleftrightarrow> unat (fa_offset fa) + unat (fa_size fa) \<le> n \<and>
     unat (fa_align fa) \<le> 15 \<and> 2 ^ unat (fa_align fa) dvd unat (fa_offset fa)"
proof -
  have "unat (fa_offset fa) < 2 ^ 32" "unat (fa_size fa) < 2 ^ 32"
    using unsigned_less [of "fa_offset fa", where 'a = nat] unsigned_less [of "fa_size fa", where 'a = nat]
    by simp_all
  then show ?thesis
    by (simp add: slice_fits_def slice_of_arch_def unsigned_ucast_eq take_bit_nat_eq_self word_le_nat_alt)
qed

lemma slice_key_arch: "slice_key \<circ> slice_of_arch = (\<lambda>fa. (fa_cputype fa, unmask (fa_cpusubtype fa)))"
  by (simp add: fun_eq_iff slice_key_def slice_of_arch_def)

text \<open>C6. \<open>check_fat\<close> accepts a 32 bit fat header exactly when it has a slice, all slices lie inside the
  file on their alignment of at most \<open>2 ^ 15\<close>, and no two slices are for the same architecture.\<close>

theorem check_fat_32:
  assumes "o_file_type ofl = OFILE_FAT" "o_fat_header ofl = Some fh" "fh_magic fh = FAT_MAGIC"
    "unat (fh_nfat_arch fh) = length (o_fat_archs ofl)"
  shows "check_fat ofl = Inr () \<longleftrightarrow> o_fat_archs ofl \<noteq> [] \<and>
    (\<forall>fa \<in> set (o_fat_archs ofl).
       unat (fa_offset fa) + unat (fa_size fa) \<le> unat (o_file_size ofl) \<and> unat (fa_align fa) \<le> 15 \<and>
       2 ^ unat (fa_align fa) dvd unat (fa_offset fa)) \<and>
    distinct (map (\<lambda>fa. (fa_cputype fa, unmask (fa_cpusubtype fa))) (o_fat_archs ofl))"
proof -
  have ss: "fat_slices fh ofl = Inr (map slice_of_arch (o_fat_archs ofl))"
    using assms by (intro fat_slices_32) simp_all
  have "fh_nfat_arch fh \<noteq> 0 \<longleftrightarrow> o_fat_archs ofl \<noteq> []"
    using assms(4) by (metis length_0_conv unat_eq_0)
  then show ?thesis
    unfolding check_fat_good [OF assms(2)]
    using assms(1) ss by (simp add: check_slice_good [OF arch_no_wrap] slice_fits_arch slice_key_arch)
qed

text \<open>A fat file with a PowerPC and an Intel slice.\<close>

definition sample_fat_file :: ofile where
  "sample_fat_file = zero_ofile\<lparr>o_file_size := 0x3000, o_file_type := OFILE_FAT,
     o_fat_header := Some \<lparr>fh_magic = FAT_MAGIC, fh_nfat_arch = 2\<rparr>,
     o_fat_archs :=
       [\<lparr>fa_cputype = CPU_TYPE_POWERPC, fa_cpusubtype = CPU_SUBTYPE_POWERPC_ALL, fa_offset = 0x1000,
         fa_size = 0x800, fa_align = 12\<rparr>,
        \<lparr>fa_cputype = CPU_TYPE_I386, fa_cpusubtype = CPU_SUBTYPE_I386_ALL, fa_offset = 0x2000,
         fa_size = 0x1000, fa_align = 12\<rparr>]\<rparr>"

lemma sample_fat_file_ok: "check_fat sample_fat_file = Inr ()"
  by code_simp

theorem check_fat_32_witness:
  "check_fat sample_fat_file = Inr () \<and>
   list_all (\<lambda>fa. unat (fa_offset fa) + unat (fa_size fa) \<le> 0x3000) (o_fat_archs sample_fat_file)"
proof -
  have "o_file_type sample_fat_file = OFILE_FAT"
    "o_fat_header sample_fat_file = Some \<lparr>fh_magic = FAT_MAGIC, fh_nfat_arch = 2\<rparr>"
    "length (o_fat_archs sample_fat_file) = 2" "unat (o_file_size sample_fat_file) = 0x3000"
    by (simp_all add: sample_fat_file_def)
  with check_fat_32 [of sample_fat_file] sample_fat_file_ok show ?thesis by (simp add: list_all_iff)
qed



text \<open>The sum of the offset and the size of a 64 bit slice wraps around: a slice that starts 8 bytes
  before the end of the 64 bit numbers is accepted in a file of 4096 bytes.\<close>

theorem check_fat_64_wraps:
  "let fa = \<lparr>fa64_cputype = CPU_TYPE_ARM64, fa64_cpusubtype = 0, fa64_offset = 0xfffffffffffffff8,
         fa64_size = 16, fa64_align = 3, fa64_reserved = 0\<rparr>;
       ofl = sample_fat_file\<lparr>o_file_size := 4096, o_fat_header := Some \<lparr>fh_magic = FAT_MAGIC_64, fh_nfat_arch = 1\<rparr>,
         o_fat_archs64 := [fa]\<rparr>
   in check_fat ofl = Inr () \<and> fa64_offset fa > o_file_size ofl"
  by code_simp

end
