(* ===== verification/ObjectScan.thy ===== *)
theory ObjectScan
  imports Elements Machine Loader MachO_Headers Command_Codecs
begin

text \<open>
  The state and the shared steps of \<open>check_Mach_O\<close> of \<^verbatim>\<open>cctools/libstuff/ofile.c\<close>, the routine
  every tool runs on an object file before it reads it: what the routine knows of the object
  (\<open>object\<close>), what it has seen of the load commands so far (\<open>scan\<close>), how it reads a structure of the
  object, swapping it in place when the object has the other byte order (\<open>fetch\<close>), and the check
  that a table of the object ends before the object does and overlaps no other (\<open>check_extent\<close>).

  Every call of \<open>Mach_O_error\<close> is a constructor of \<open>macho_error\<close> with the numbers its message prints.
  \<open>Memory_Access\<close> is a read or a write outside of the object, \<open>Null_Header\<close> a read through the header
  pointer of the other word size, which is \<open>NULL\<close>. What a check that fails leaves in memory is not
  kept: the tools drop such an object.
\<close>

section \<open>Constants\<close>

abbreviation MH_CORE :: u32 where
  "MH_CORE \<equiv> 0x4"

abbreviation MH_DYLIB_STUB :: u32 where
  "MH_DYLIB_STUB \<equiv> 0x9"

abbreviation MH_DSYM :: u32 where
  "MH_DSYM \<equiv> 0xa"

abbreviation MH_SIM_SUPPORT :: u32 where
  "MH_SIM_SUPPORT \<equiv> 0x08000000"

abbreviation S_ZEROFILL :: u32 where
  "S_ZEROFILL \<equiv> 0x1"

abbreviation S_THREAD_LOCAL_ZEROFILL :: u32 where
  "S_THREAD_LOCAL_ZEROFILL \<equiv> 0x12"

abbreviation PLATFORM_MACOS :: u32 where
  "PLATFORM_MACOS \<equiv> 1"

abbreviation PLATFORM_MACCATALYST :: u32 where
  "PLATFORM_MACCATALYST \<equiv> 6"

abbreviation PLATFORM_IOSSIMULATOR :: u32 where
  "PLATFORM_IOSSIMULATOR \<equiv> 7"

abbreviation PLATFORM_TVOSSIMULATOR :: u32 where
  "PLATFORM_TVOSSIMULATOR \<equiv> 8"

abbreviation PLATFORM_WATCHOSSIMULATOR :: u32 where
  "PLATFORM_WATCHOSSIMULATOR \<equiv> 9"

text \<open>The entries of tables the check only counts.\<close>

abbreviation sizeof_relocation_info :: nat where
  "sizeof_relocation_info \<equiv> 8"

abbreviation sizeof_dylib_reference :: nat where
  "sizeof_dylib_reference \<equiv> 4"

abbreviation sizeof_twolevel_hint :: nat where
  "sizeof_twolevel_hint \<equiv> 4"

section \<open>Errors\<close>

datatype macho_error =
    Memory_Access
  | Null_Header
  | Headers_Past_End
  | Fat_Cputype_Mismatch
  | Command_Past_All nat
  | Not_A_Multiple nat
  | Command_Past_End nat
  | Zero_Cmdsize nat
  | Small_Cmdsize u32 nat
  | Wrong_Cmdsize u32 nat
  | More_Than_One u32
  | Field_Past_End u32 string nat
  | Range_Past_End u32 string nat
  | String_Past_End u32 string nat
  | Filesize_Above_Vmsize nat
  | Section_Offset_Past_End nat nat
  | Section_In_Headers nat nat
  | Section_Past_End nat nat
  | Section_Above_Segment nat nat
  | Section_Below_Vmaddr nat nat
  | Section_Past_Vmsize nat nat
  | Reloff_Past_End nat nat
  | Relocs_Past_End nat nat
  | Overlapping overlap_error
  | Version_Min_And_Build_Version u32
  | Version_Min_Macos_And_Build_Macos nat
  | Build_Version_And_Version_Min
  | Version_Min_Macos_Without_Catalyst
  | More_Than_Two_Build_Versions
  | Platform_Not_Allowed nat
  | Not_Macos_And_Maccatalyst
  | Flavor_Past_End u32 nat
  | Count_Past_End u32 nat
  | Count_Not_Right u32 nat nat
  | State_Past_End u32 nat
  | Cannot_Swap_Flavor u32 nat nat
  | Cannot_Swap_Cputype u32 nat
  | Unknown_Load_Command nat
  | Next_Command_Past_End nat
  | Dysymtab_Without_Symtab
  | Index_Past_Symbols string
  | Indexes_Past_Symbols string
  | Init_Module_Past_End u32
  | Hints_Not_Undefined_Symbols
  | Bad_Sizeofcmds

section \<open>State\<close>

text \<open>What does not change during the pass. \<open>ob_is64\<close> says which of \<open>ofile->mh\<close> and \<open>ofile->mh64\<close> is
  not \<open>NULL\<close>.\<close>

record object =
  ob_host :: endian
  ob_swapped :: bool
  ob_is64 :: bool
  ob_size :: u32
  ob_sizeofhdrs :: u32
  ob_cputype :: cpu_type_t
  ob_filetype :: u32
  ob_flags :: u32

text \<open>The pointers the routine sets when it meets a command. Of the pointers it only compares with
  \<open>NULL\<close> the commands are kept in \<open>sc_seen\<close>; of the version commands the field it reads again.
  \<open>sc_messages\<close> are the messages that do not make the routine return.\<close>

record scan =
  sc_elements :: "element list"
  sc_st :: "symtab_command option"
  sc_dyst :: "dysymtab_command option"
  sc_rc :: "routines_command option"
  sc_rc64 :: "routines_command_64 option"
  sc_hints :: "twolevel_hints_command option"
  sc_seen :: "u32 list"
  sc_vers :: "u32 option"
  sc_bv1 :: "u32 option"
  sc_bv2 :: "u32 option"
  sc_messages :: "macho_error list"

definition no_scan :: scan where
  "no_scan = \<lparr>sc_elements = [], sc_st = None, sc_dyst = None, sc_rc = None, sc_rc64 = None,
     sc_hints = None, sc_seen = [], sc_vers = None, sc_bv1 = None, sc_bv2 = None, sc_messages = []\<rparr>"

section \<open>Reading the object\<close>

definition fetch ::
  "object \<Rightarrow> nat \<Rightarrow> (endian \<Rightarrow> bytes \<Rightarrow> 'r) \<Rightarrow> (endian \<Rightarrow> 'r \<Rightarrow> bytes) \<Rightarrow> ('r \<Rightarrow> 'r) \<Rightarrow> bytes \<Rightarrow>
   macho_error + ('r \<times> bytes)" where
  "fetch ob n dec enc swap lc =
     (if length lc < n then Inl Memory_Access
      else
        let r = dec (ob_host ob) (take n lc) in
        if ob_swapped ob then Inr (swap r, enc (ob_host ob) (swap r) @ drop n lc) else Inr (r, lc))"

fun fetch_array ::
  "object \<Rightarrow> nat \<Rightarrow> (endian \<Rightarrow> bytes \<Rightarrow> 'r) \<Rightarrow> (endian \<Rightarrow> 'r \<Rightarrow> bytes) \<Rightarrow> ('r \<Rightarrow> 'r) \<Rightarrow> nat \<Rightarrow> bytes \<Rightarrow>
   macho_error + ('r list \<times> bytes)" where
  "fetch_array ob n dec enc swap 0 lc = Inr ([], lc)"
| "fetch_array ob n dec enc swap (Suc k) lc =
     andthen (fetch ob n dec enc swap lc) (\<lambda>(r, lc1).
     andthen (fetch_array ob n dec enc swap k (drop n lc1)) (\<lambda>(rs, rest).
       Inr (r # rs, take n lc1 @ rest)))"

text \<open>A command that is one structure: read it and apply the checks of its fields.\<close>

definition with_struct ::
  "object \<Rightarrow> nat \<Rightarrow> (endian \<Rightarrow> bytes \<Rightarrow> 'r) \<Rightarrow> (endian \<Rightarrow> 'r \<Rightarrow> bytes) \<Rightarrow> ('r \<Rightarrow> 'r) \<Rightarrow>
   ('r \<Rightarrow> macho_error + scan) \<Rightarrow> bytes \<Rightarrow> macho_error + (scan \<times> bytes)" where
  "with_struct ob n dec enc swap checks lc =
     andthen (fetch ob n dec enc swap lc) (\<lambda>(r, lc1). andthen (checks r) (\<lambda>s. Inr (s, lc1)))"

section \<open>Extents\<close>

definition add_element :: "u32 \<Rightarrow> u32 \<Rightarrow> string \<Rightarrow> scan \<Rightarrow> macho_error + scan" where
  "add_element off n name s =
     (case check_overlaping_element (sc_elements s) off n name of
        Inl x \<Rightarrow> Inl (Overlapping x)
      | Inr es \<Rightarrow> Inr (s\<lparr>sc_elements := es\<rparr>))"

text \<open>A table of \<open>n\<close> entries of \<open>esz\<close> bytes at \<open>off\<close>; the end is computed in 64 bits.\<close>

definition check_extent ::
  "object \<Rightarrow> macho_error \<Rightarrow> macho_error \<Rightarrow> u32 \<Rightarrow> u32 \<Rightarrow> nat \<Rightarrow> string \<Rightarrow> scan \<Rightarrow> macho_error + scan"
  where
  "check_extent ob err_off err_end off n esz name s =
     (if off > ob_size ob then Inl err_off
      else if (ucast n * of_nat esz + ucast off :: u64) > ucast (ob_size ob) then Inl err_end
      else add_element off (n * of_nat esz) name s)"

text \<open>Several tables of one command, one after the other: the name of the field, the offset, the number and
  size of the entries, and the name of the table.\<close>

type_synonym extent = "string \<times> u32 \<times> u32 \<times> nat \<times> string"

fun check_extents :: "object \<Rightarrow> u32 \<Rightarrow> nat \<Rightarrow> extent list \<Rightarrow> scan \<Rightarrow> macho_error + scan" where
  "check_extents ob cmd i [] s = Inr s"
| "check_extents ob cmd i ((field, off, n, esz, name) # xs) s =
     andthen (check_extent ob (Field_Past_End cmd field i) (Range_Past_End cmd field i) off n esz name s)
       (check_extents ob cmd i xs)"

text \<open>The variant for \<open>LC_DYLD_INFO\<close>: an offset of zero is not checked against the size.\<close>

definition check_dyld_extent ::
  "object \<Rightarrow> nat \<Rightarrow> string \<Rightarrow> u32 \<Rightarrow> u32 \<Rightarrow> string \<Rightarrow> scan \<Rightarrow> macho_error + scan" where
  "check_dyld_extent ob i field off n name s =
     (if off \<noteq> 0 \<and> off > ob_size ob then Inl (Field_Past_End LC_DYLD_INFO field i)
      else if off \<noteq> 0 \<and> (ucast off + ucast n :: u64) > ucast (ob_size ob)
      then Inl (Range_Past_End LC_DYLD_INFO field i)
      else add_element off n name s)"

fun check_dyld_extents ::
  "object \<Rightarrow> nat \<Rightarrow> (string \<times> u32 \<times> u32 \<times> string) list \<Rightarrow> scan \<Rightarrow> macho_error + scan" where
  "check_dyld_extents ob i [] s = Inr s"
| "check_dyld_extents ob i ((field, off, n, name) # xs) s =
     andthen (check_dyld_extent ob i field off n name s) (check_dyld_extents ob i xs)"

section \<open>What the steps guarantee\<close>

definition view :: "object \<Rightarrow> endian" where
  "view ob = (if ob_swapped ob then opp (ob_host ob) else ob_host ob)"

lemma unat_u32_less: "unat (w :: u32) < 2 ^ 32"
  using unsigned_less [of w, where 'a = nat] by simp

lemma unat_ucast_u64 [simp]: "unat (ucast (w :: u32) :: u64) = unat w"
  using unat_u32_less [of w] by (simp add: unsigned_ucast_eq take_bit_nat_eq_self)

lemma u64_extent:
  assumes "esz < 2 ^ 31"
  shows "unat (ucast n * of_nat esz + ucast (off :: u32) :: u64) = unat (n :: u32) * esz + unat off"
proof -
  have "unat n * esz \<le> 2 ^ 32 * 2 ^ 31"
    using unat_u32_less [of n] assms by (intro mult_mono) auto
  then have "unat n * esz < 2 ^ 64" "unat n * esz + unat off < 2 ^ 64"
    using unat_u32_less [of off] by auto
  moreover have "unat (of_nat esz :: u64) = esz"
    using assms by (simp add: unsigned_of_nat take_bit_nat_eq_self)
  ultimately show ?thesis by (simp add: unat_word_ariths)
qed

text \<open>Only the list of elements changes.\<close>

definition elements_only :: "scan \<Rightarrow> scan \<Rightarrow> bool" where
  "elements_only s s' \<longleftrightarrow> s'\<lparr>sc_elements := []\<rparr> = s\<lparr>sc_elements := []\<rparr>"

lemma elements_only_refl [simp]: "elements_only s s"
  by (simp add: elements_only_def)

lemma elements_only_trans: "elements_only s s' \<Longrightarrow> elements_only s' s'' \<Longrightarrow> elements_only s s''"
  by (auto simp: elements_only_def)

lemma elements_only_fields:
  assumes "elements_only s s'"
  shows "sc_st s' = sc_st s" "sc_dyst s' = sc_dyst s" "sc_rc s' = sc_rc s" "sc_rc64 s' = sc_rc64 s"
    "sc_hints s' = sc_hints s" "sc_seen s' = sc_seen s" "sc_vers s' = sc_vers s"
    "sc_bv1 s' = sc_bv1 s" "sc_bv2 s' = sc_bv2 s" "sc_messages s' = sc_messages s"
  using assms by (cases s; cases s'; simp add: elements_only_def)+

lemma add_element_keeps: "add_element off n name s = Inr s' \<Longrightarrow> elements_only s s'"
  by (auto simp: add_element_def elements_only_def split: sum.splits)

lemma check_extent_good:
  "check_extent ob e1 e2 off n esz name s = Inr s' \<Longrightarrow> esz < 2 ^ 31 \<Longrightarrow>
   unat off + unat n * esz \<le> unat (ob_size ob) \<and> elements_only s s'"
  using u64_extent [of esz n off]
  by (auto simp: check_extent_def word_less_nat_alt add.commute intro: add_element_keeps split: if_splits)

lemma check_dyld_extent_good:
  "check_dyld_extent ob i field off n name s = Inr s' \<Longrightarrow>
   (off \<noteq> 0 \<longrightarrow> unat off + unat n \<le> unat (ob_size ob)) \<and> elements_only s s'"
  using u64_extent [of 1 n off]
  by (auto simp: check_dyld_extent_def word_less_nat_alt add.commute intro: add_element_keeps
      split: if_splits)

lemma check_extents_good:
  "check_extents ob cmd i xs s = Inr s' \<Longrightarrow>
   (\<forall>(field, off, n, esz, name) \<in> set xs. esz < 2 ^ 31 \<longrightarrow> unat off + unat n * esz \<le> unat (ob_size ob)) \<and>
   ((\<forall>(field, off, n, esz, name) \<in> set xs. esz < 2 ^ 31) \<longrightarrow> elements_only s s')"
  by (induction ob cmd i xs s rule: check_extents.induct)
    (fastforce simp: andthen_eq_Inr elements_only_def dest!: check_extent_good)+

lemma check_dyld_extents_good:
  "check_dyld_extents ob i xs s = Inr s' \<Longrightarrow>
   (\<forall>(field, off, n, name) \<in> set xs. off \<noteq> 0 \<longrightarrow> unat off + unat n \<le> unat (ob_size ob)) \<and>
   elements_only s s'"
  by (induction ob i xs s rule: check_dyld_extents.induct)
    (fastforce simp: andthen_eq_Inr elements_only_def dest!: check_dyld_extent_good)+

section \<open>The contract of a structure that is read in place\<close>

text \<open>A step may change the first \<open>k\<close> bytes of the memory, never its length, and it stays inside of it.\<close>

definition same_behind :: "nat \<Rightarrow> bytes \<Rightarrow> bytes \<Rightarrow> bool" where
  "same_behind k lc lc' \<longleftrightarrow> length lc' = length lc \<and> drop k lc' = drop k lc"

definition safe_step :: "nat \<Rightarrow> bytes \<Rightarrow> macho_error + ('a \<times> bytes) \<Rightarrow> bool" where
  "safe_step k lc r \<longleftrightarrow>
     r \<noteq> Inl Memory_Access \<and> (\<forall>x lc'. r = Inr (x, lc') \<longrightarrow> same_behind k lc lc')"

lemma same_behind_refl [simp]: "same_behind k lc lc"
  by (simp add: same_behind_def)

lemma same_behind_mono: "same_behind k lc lc' \<Longrightarrow> k \<le> k' \<Longrightarrow> same_behind k' lc lc'"
  unfolding same_behind_def by (metis drop_drop le_add_diff_inverse2)

lemma same_behind_trans: "same_behind k a b \<Longrightarrow> same_behind k b c \<Longrightarrow> same_behind k a c"
  by (simp add: same_behind_def)

lemma same_behind_splice:
  "m \<le> length lc \<Longrightarrow> same_behind k (drop m lc) rest \<Longrightarrow> same_behind (m + k) lc (take m lc @ rest)"
  by (auto simp: same_behind_def min_def add.commute)

lemma safe_step_Inl [simp]: "safe_step k lc (Inl x) \<longleftrightarrow> x \<noteq> Memory_Access"
  by (auto simp: safe_step_def)

lemma safe_step_Inr [simp]: "safe_step k lc (Inr (x, lc')) \<longleftrightarrow> same_behind k lc lc'"
  by (auto simp: safe_step_def)

lemma safe_step_mono: "safe_step k lc r \<Longrightarrow> k \<le> k' \<Longrightarrow> safe_step k' lc r"
  by (auto simp: safe_step_def intro: same_behind_mono)

lemma safe_step_andthen:
  assumes "safe_step k lc r"
    "\<And>x lc'. r = Inr (x, lc') \<Longrightarrow> same_behind k lc lc' \<Longrightarrow> safe_step k' lc (f (x, lc'))"
  shows "safe_step k' lc (andthen r f)"
  using assms by (cases r) (auto simp: safe_step_def)

locale stored_struct =
  fixes n :: nat
    and dec_s :: "endian \<Rightarrow> bytes \<Rightarrow> 'r"
    and enc_s :: "endian \<Rightarrow> 'r \<Rightarrow> bytes"
    and swap_s :: "'r \<Rightarrow> 'r"
  assumes length_stored: "length bs = n \<Longrightarrow> length (enc_s e (swap_s (dec_s e bs))) = n"
begin

lemma fetch_safe: "n \<le> length lc \<Longrightarrow> safe_step n lc (fetch ob n dec_s enc_s swap_s lc)"
  using length_stored [of "take n lc" "ob_host ob"]
  by (auto simp: fetch_def Let_def same_behind_def)

lemma fetch_array_safe:
  "k * n \<le> length lc \<Longrightarrow> safe_step (k * n) lc (fetch_array ob n dec_s enc_s swap_s k lc)"
proof (induction k arbitrary: lc)
  case 0
  then show ?case by simp
next
  case (Suc k)
  have n: "n \<le> length lc" using Suc.prems by simp
  have rest: "safe_step (Suc k * n) lc
      (andthen (fetch_array ob n dec_s enc_s swap_s k (drop n lc1)) (\<lambda>(rs, rest).
         Inr (r # rs, take n lc1 @ rest)))"
    if "same_behind n lc lc1" for r lc1
  proof -
    have len: "length lc1 = length lc" and same: "drop n lc1 = drop n lc"
      using that by (simp_all add: same_behind_def)
    have "safe_step (k * n) (drop n lc1) (fetch_array ob n dec_s enc_s swap_s k (drop n lc1))"
      using Suc.prems len by (intro Suc.IH) simp
    then show ?thesis
      using same_behind_splice [of n lc1 "k * n"] len n
        same_behind_trans [OF same_behind_mono [OF that, of "n + k * n"]]
      by (cases "fetch_array ob n dec_s enc_s swap_s k (drop n lc1)") (auto simp: safe_step_def)
  qed
  show ?case
    unfolding fetch_array.simps
    by (rule safe_step_andthen [OF fetch_safe [OF n]]) (auto intro: rest simp del: mult_Suc)
qed

lemma with_struct_safe:
  assumes "n \<le> k" "n \<le> length lc" "\<And>r. checks r \<noteq> Inl Memory_Access"
  shows "safe_step k lc (with_struct ob n dec_s enc_s swap_s checks lc)"
  unfolding with_struct_def
proof (rule safe_step_andthen [OF fetch_safe [OF assms(2)]])
  fix r lc1
  assume "same_behind n lc lc1"
  then show "safe_step k lc (case (r, lc1) of (r, lc1) \<Rightarrow> andthen (checks r) (\<lambda>s. Inr (s, lc1)))"
    using assms(3) [of r] same_behind_mono [OF _ assms(1)] by (cases "checks r") auto
qed

end

text \<open>Every structure that reads the same through the other byte order after its swap routine meets
  the contract; so do the three whose routine misses a field.\<close>

sublocale endian_struct \<subseteq> stored_struct sz dec enc swap
  by unfold_locales (simp add: length_enc swap_wf wf_dec)

interpretation version_min_command: stored_struct sizeof_version_min_command
  dec_version_min_command enc_version_min_command swap_version_min_command
  by unfold_locales (simp add: version_min_command_codec)

interpretation encryption_info_command_64: stored_struct sizeof_encryption_info_command_64
  dec_encryption_info_command_64 enc_encryption_info_command_64 swap_encryption_command_64
  by unfold_locales (simp add: encryption_info_command_64_codec)

interpretation section_64: stored_struct sizeof_section_64
  dec_section_64 enc_section_64 swap_section_64_elem
  by unfold_locales (simp add: section_64_codec swap_section_64_elem_def)

section \<open>Reading in the byte order of the object\<close>

context endian_struct
begin

lemma fetch_view:
  "sz \<le> length lc \<Longrightarrow>
   fetch ob sz dec enc swap lc =
     Inr (dec (view ob) (take sz lc),
       if ob_swapped ob then enc (ob_host ob) (dec (view ob) (take sz lc)) @ drop sz lc else lc)"
  by (simp add: fetch_def Let_def view_def swap_dec)

lemma fetch_viewE:
  assumes "sz \<le> length lc"
  obtains lc1 where "fetch ob sz dec enc swap lc = Inr (dec (view ob) (take sz lc), lc1)"
    "same_behind sz lc lc1"
  using fetch_view [OF assms, of ob] fetch_safe [OF assms, of ob] by (auto simp: safe_step_def)

end

text \<open>What the routine says of a command, without the memory it leaves.\<close>

fun verdict :: "macho_error + ('a \<times> bytes) \<Rightarrow> macho_error + 'a" where
  "verdict (Inl x) = Inl x"
| "verdict (Inr (a, lc)) = Inr a"

lemma verdict_if [simp]: "verdict (if P then a else b) = (if P then verdict a else verdict b)"
  by simp

lemma verdict_eq_Inr: "verdict r = Inr a \<longleftrightarrow> (\<exists>lc. r = Inr (a, lc))"
  by (cases r rule: verdict.cases) auto

lemma verdict_eq_Inl: "verdict r = Inl x \<longleftrightarrow> r = Inl x"
  by (cases r rule: verdict.cases) auto

text \<open>A structure whose fields, as far as \<open>obs\<close> observes them, come out of the swap routine as a reader of
  the other byte order sees them. The verdict of checks that only depend on those fields is that of
  the checks on the structure as the byte order of the object gives it.\<close>

locale viewed_struct = stored_struct +
  fixes obs :: "'a \<Rightarrow> 'b"
  assumes obs_swap: "length bs = n \<Longrightarrow> obs (swap_s (dec_s e bs)) = obs (dec_s (opp e) bs)"
begin

lemma fetch_obsE:
  assumes "n \<le> length lc"
  obtains r lc1 where "fetch ob n dec_s enc_s swap_s lc = Inr (r, lc1)" "same_behind n lc lc1"
    "obs r = obs (dec_s (view ob) (take n lc))"
  using fetch_safe [OF assms, of ob] assms obs_swap [of "take n lc" "ob_host ob"]
  by (auto simp: fetch_def Let_def view_def split: if_splits)

lemma fetch_array_obsE:
  assumes "k * n \<le> length lc"
  obtains rs lc1 where "fetch_array ob n dec_s enc_s swap_s k lc = Inr (rs, lc1)"
    "map obs rs = map (\<lambda>j. obs (dec_s (view ob) (slice (j * n) n lc))) [0..<k]"
  using assms
proof (induction k arbitrary: lc thesis)
  case 0
  then show ?case by simp
next
  case (Suc k)
  have "n \<le> length lc" using Suc.prems(2) by simp
  then obtain r lc1 where r: "fetch ob n dec_s enc_s swap_s lc = Inr (r, lc1)" "same_behind n lc lc1"
    "obs r = obs (dec_s (view ob) (take n lc))" by (rule fetch_obsE)
  have d: "drop n lc1 = drop n lc" using r(2) by (simp add: same_behind_def)
  have k: "k * n \<le> length (drop n lc)" using Suc.prems(2) by simp
  obtain rs rest where rs: "fetch_array ob n dec_s enc_s swap_s k (drop n lc) = Inr (rs, rest)"
    "map obs rs = map (\<lambda>j. obs (dec_s (view ob) (slice (j * n) n (drop n lc)))) [0..<k]"
    by (rule Suc.IH [OF _ k])
  have "map (\<lambda>j. obs (dec_s (view ob) (slice (j * n) n lc))) [0..<Suc k] =
      obs (dec_s (view ob) (take n lc)) #
      map (\<lambda>j. obs (dec_s (view ob) (slice (j * n) n (drop n lc)))) [0..<k]"
    by (simp add: map_upt_Suc slice_def add.commute del: upt_Suc)
  with r rs d Suc.prems(1) show ?case by simp
qed

lemma with_struct_verdict:
  assumes "n \<le> length lc" "\<And>r r'. obs r = obs r' \<Longrightarrow> checks r = checks r'"
  shows "verdict (with_struct ob n dec_s enc_s swap_s checks lc) =
    checks (dec_s (view ob) (take n lc))"
proof -
  obtain r lc1 where r: "fetch ob n dec_s enc_s swap_s lc = Inr (r, lc1)"
    "obs r = obs (dec_s (view ob) (take n lc))"
    using fetch_obsE [OF assms(1), of ob] by blast
  then have "checks r = checks (dec_s (view ob) (take n lc))" by (intro assms(2))
  with r show ?thesis
    by (cases "checks (dec_s (view ob) (take n lc))") (simp_all add: with_struct_def)
qed

end

sublocale endian_struct \<subseteq> viewed_struct sz dec enc swap "\<lambda>r. r"
  by unfold_locales (rule swap_dec)

interpretation version_min_command: viewed_struct sizeof_version_min_command
  dec_version_min_command enc_version_min_command swap_version_min_command "\<lambda>r. r\<lparr>vc_sdk := 0\<rparr>"
  by unfold_locales (simp add: swap_version_min_command_dec)

interpretation encryption_info_command_64: viewed_struct sizeof_encryption_info_command_64
  dec_encryption_info_command_64 enc_encryption_info_command_64 swap_encryption_command_64
  "\<lambda>r. r\<lparr>ec64_cryptid := 0, ec64_pad := 0\<rparr>"
  by unfold_locales (simp add: swap_encryption_command_64_dec)

interpretation section_64: viewed_struct sizeof_section_64
  dec_section_64 enc_section_64 swap_section_64_elem "\<lambda>r. r\<lparr>s64_reserved3 := 0\<rparr>"
  by unfold_locales (simp add: swap_section_64_elem_dec)

end
