(* ===== verification/ObjectCommands.thy ===== *)
theory ObjectCommands
  imports ObjectScan
begin

text \<open>
  The cases of the switch of \<open>check_Mach_O\<close> of \<^verbatim>\<open>cctools/libstuff/ofile.c\<close>, one definition for
  each, for all load commands but the thread commands. \<open>l\<close> is the copy of the command's first two
  fields in the byte order of the host, \<open>lc\<close> the memory from the command on, \<open>i\<close> the number of the
  command. The checks of the fields of a structure that was read are definitions of their own.
\<close>

section \<open>Segments\<close>

text \<open>Whether a section has contents in the file.\<close>

definition file_contents :: "object \<Rightarrow> u32 \<Rightarrow> bool" where
  "file_contents ob flags \<longleftrightarrow>
     ob_filetype ob \<noteq> MH_DYLIB_STUB \<and> ob_filetype ob \<noteq> MH_DSYM \<and>
     flags \<noteq> S_ZEROFILL \<and> flags \<noteq> S_THREAD_LOCAL_ZEROFILL"

definition check_section ::
  "object \<Rightarrow> nat \<Rightarrow> segment_command \<Rightarrow> nat \<Rightarrow> section32 \<Rightarrow> scan \<Rightarrow> macho_error + scan" where
  "check_section ob i sg j s sc =
     (if ob_is64 ob then Inl Null_Header
      else if file_contents ob (s_flags s) \<and> s_offset s > ob_size ob
      then Inl (Section_Offset_Past_End j i)
      else if file_contents ob (s_flags s) \<and> sg_fileoff sg = 0 \<and> s_offset s < ob_sizeofhdrs ob \<and>
        s_size s \<noteq> 0
      then Inl (Section_In_Headers j i)
      else if file_contents ob (s_flags s) \<and>
        (ucast (s_offset s) + ucast (s_size s) :: u64) > ucast (ob_size ob)
      then Inl (Section_Past_End j i)
      else if file_contents ob (s_flags s) \<and> s_size s > sg_filesize sg
      then Inl (Section_Above_Segment j i)
      else if ob_filetype ob \<noteq> MH_DYLIB_STUB \<and> ob_filetype ob \<noteq> MH_DSYM \<and> s_size s \<noteq> 0 \<and>
        s_addr s < sg_vmaddr sg
      then Inl (Section_Below_Vmaddr j i)
      else if sg_vmsize sg \<noteq> 0 \<and> s_size s \<noteq> 0 \<and>
        (ucast (s_addr s) + ucast (s_size s) :: u64) > ucast (sg_vmaddr sg) + ucast (sg_vmsize sg)
      then Inl (Section_Past_Vmsize j i)
      else
        andthen
          (if file_contents ob (s_flags s)
           then add_element (s_offset s) (s_size s) ''section contents'' sc
           else Inr sc)
          (check_extent ob (Reloff_Past_End j i) (Relocs_Past_End j i) (s_reloff s) (s_nreloc s)
            sizeof_relocation_info ''section relocation entries''))"

fun check_sections ::
  "object \<Rightarrow> nat \<Rightarrow> segment_command \<Rightarrow> nat \<Rightarrow> section32 list \<Rightarrow> scan \<Rightarrow> macho_error + scan" where
  "check_sections ob i sg j [] sc = Inr sc"
| "check_sections ob i sg j (s # ss) sc =
     andthen (check_section ob i sg j s sc) (check_sections ob i sg (Suc j) ss)"

definition check_segment :: "object \<Rightarrow> nat \<Rightarrow> segment_command \<Rightarrow> macho_error + unit" where
  "check_segment ob i sg =
     (if unat (lc_cmdsize sg) \<noteq> unat (sg_nsects sg) * sizeof_section + sizeof_segment_command
      then Inl (Wrong_Cmdsize LC_SEGMENT i)
      else if sg_fileoff sg > ob_size ob then Inl (Field_Past_End LC_SEGMENT ''fileoff'' i)
      else if (ucast (sg_fileoff sg) + ucast (sg_filesize sg) :: u64) > ucast (ob_size ob)
      then Inl (Range_Past_End LC_SEGMENT ''fileoff'' i)
      else if sg_vmsize sg \<noteq> 0 \<and> sg_filesize sg > sg_vmsize sg then Inl (Filesize_Above_Vmsize i)
      else Inr ())"

definition case_segment ::
  "object \<Rightarrow> nat \<Rightarrow> load_command \<Rightarrow> bytes \<Rightarrow> scan \<Rightarrow> macho_error + (scan \<times> bytes)" where
  "case_segment ob i l lc sc =
     (if unat (lc_cmdsize l) < sizeof_segment_command then Inl (Small_Cmdsize LC_SEGMENT i)
      else
        andthen (fetch ob sizeof_segment_command dec_segment_command enc_segment_command
          swap_segment_command lc) (\<lambda>(sg, lc1).
        andthen (check_segment ob i sg) (\<lambda>_.
        andthen (fetch_array ob sizeof_section dec_section enc_section swap_section_elem
          (unat (sg_nsects sg)) (drop sizeof_segment_command lc1)) (\<lambda>(ss, rest).
        andthen (check_sections ob i sg 0 ss sc) (\<lambda>sc1.
          Inr (sc1, take sizeof_segment_command lc1 @ rest))))))"

text \<open>The case for 64 bit segments does not compare the sections with the segment, and its sums are sums
  of 64 bit fields.\<close>

definition check_section_64 ::
  "object \<Rightarrow> nat \<Rightarrow> segment_command_64 \<Rightarrow> nat \<Rightarrow> section_64 \<Rightarrow> scan \<Rightarrow> macho_error + scan" where
  "check_section_64 ob i sg64 j s64 sc =
     (if \<not> ob_is64 ob then Inl Null_Header
      else if file_contents ob (s64_flags s64) \<and> s64_offset s64 > ob_size ob
      then Inl (Section_Offset_Past_End j i)
      else if file_contents ob (s64_flags s64) \<and> sg64_fileoff sg64 = 0 \<and>
        s64_offset s64 < ob_sizeofhdrs ob \<and> s64_size s64 \<noteq> 0
      then Inl (Section_In_Headers j i)
      else if file_contents ob (s64_flags s64) \<and>
        ucast (s64_offset s64) + s64_size s64 > ucast (ob_size ob)
      then Inl (Section_Past_End j i)
      else
        andthen
          (if file_contents ob (s64_flags s64)
           then add_element (s64_offset s64) (ucast (s64_size s64)) ''section contents'' sc
           else Inr sc)
          (check_extent ob (Reloff_Past_End j i) (Relocs_Past_End j i) (s64_reloff s64)
            (s64_nreloc s64) sizeof_relocation_info ''section relocation entries''))"

fun check_sections_64 ::
  "object \<Rightarrow> nat \<Rightarrow> segment_command_64 \<Rightarrow> nat \<Rightarrow> section_64 list \<Rightarrow> scan \<Rightarrow> macho_error + scan" where
  "check_sections_64 ob i sg64 j [] sc = Inr sc"
| "check_sections_64 ob i sg64 j (s64 # ss) sc =
     andthen (check_section_64 ob i sg64 j s64 sc) (check_sections_64 ob i sg64 (Suc j) ss)"

definition check_segment_64 :: "object \<Rightarrow> nat \<Rightarrow> segment_command_64 \<Rightarrow> macho_error + unit" where
  "check_segment_64 ob i sg64 =
     (if unat (lc_cmdsize sg64) \<noteq> unat (sg64_nsects sg64) * sizeof_section_64 + sizeof_segment_command_64
      then Inl (Wrong_Cmdsize LC_SEGMENT_64 i)
      else if sg64_fileoff sg64 > ucast (ob_size ob)
      then Inl (Field_Past_End LC_SEGMENT_64 ''fileoff'' i)
      else if sg64_fileoff sg64 + sg64_filesize sg64 > ucast (ob_size ob)
      then Inl (Range_Past_End LC_SEGMENT_64 ''fileoff'' i)
      else Inr ())"

definition case_segment_64 ::
  "object \<Rightarrow> nat \<Rightarrow> load_command \<Rightarrow> bytes \<Rightarrow> scan \<Rightarrow> macho_error + (scan \<times> bytes)" where
  "case_segment_64 ob i l lc sc =
     (if unat (lc_cmdsize l) < sizeof_segment_command_64 then Inl (Small_Cmdsize LC_SEGMENT_64 i)
      else
        andthen (fetch ob sizeof_segment_command_64 dec_segment_command_64 enc_segment_command_64
          swap_segment_command_64 lc) (\<lambda>(sg64, lc1).
        andthen (check_segment_64 ob i sg64) (\<lambda>_.
        andthen (fetch_array ob sizeof_section_64 dec_section_64 enc_section_64 swap_section_64_elem
          (unat (sg64_nsects sg64)) (drop sizeof_segment_command_64 lc1)) (\<lambda>(ss, rest).
        andthen (check_sections_64 ob i sg64 0 ss sc) (\<lambda>sc1.
          Inr (sc1, take sizeof_segment_command_64 lc1 @ rest))))))"

section \<open>Symbol tables\<close>

definition check_symtab :: "object \<Rightarrow> nat \<Rightarrow> symtab_command \<Rightarrow> scan \<Rightarrow> macho_error + scan" where
  "check_symtab ob i st sc =
     (if unat (lc_cmdsize st) \<noteq> sizeof_symtab_command then Inl (Wrong_Cmdsize LC_SYMTAB i)
      else
        check_extents ob LC_SYMTAB i
          [(''symoff'', st_symoff st, st_nsyms st,
              if ob_is64 ob then sizeof_nlist_64 else sizeof_nlist, ''symbol table''),
           (''stroff'', st_stroff st, st_strsize st, 1, ''string table'')] sc)"

definition case_symtab ::
  "object \<Rightarrow> nat \<Rightarrow> load_command \<Rightarrow> bytes \<Rightarrow> scan \<Rightarrow> macho_error + (scan \<times> bytes)" where
  "case_symtab ob i l lc sc =
     (if unat (lc_cmdsize l) < sizeof_symtab_command then Inl (Small_Cmdsize LC_SYMTAB i)
      else if sc_st sc \<noteq> None then Inl (More_Than_One LC_SYMTAB)
      else
        with_struct ob sizeof_symtab_command dec_symtab_command enc_symtab_command
          swap_symtab_command (\<lambda>st. check_symtab ob i st (sc\<lparr>sc_st := Some st\<rparr>)) lc)"

definition check_dysymtab :: "object \<Rightarrow> nat \<Rightarrow> dysymtab_command \<Rightarrow> scan \<Rightarrow> macho_error + scan" where
  "check_dysymtab ob i dyst sc =
     (if unat (lc_cmdsize dyst) \<noteq> sizeof_dysymtab_command then Inl (Wrong_Cmdsize LC_DYSYMTAB i)
      else
        check_extents ob LC_DYSYMTAB i
          [(''tocoff'', dyst_tocoff dyst, dyst_ntoc dyst, sizeof_dylib_table_of_contents,
              ''table of contents''),
           (''modtaboff'', dyst_modtaboff dyst, dyst_nmodtab dyst,
              if ob_is64 ob then sizeof_dylib_module_64 else sizeof_dylib_module, ''module table''),
           (''extrefsymoff'', dyst_extrefsymoff dyst, dyst_nextrefsyms dyst, sizeof_dylib_reference,
              ''reference table''),
           (''indirectsymoff'', dyst_indirectsymoff dyst, dyst_nindirectsyms dyst, 4, ''indirect table''),
           (''extreloff'', dyst_extreloff dyst, dyst_nextrel dyst, sizeof_relocation_info,
              ''external relocation table''),
           (''locreloff'', dyst_locreloff dyst, dyst_nlocrel dyst, sizeof_relocation_info,
              ''local relocation table'')] sc)"

definition case_dysymtab ::
  "object \<Rightarrow> nat \<Rightarrow> load_command \<Rightarrow> bytes \<Rightarrow> scan \<Rightarrow> macho_error + (scan \<times> bytes)" where
  "case_dysymtab ob i l lc sc =
     (if unat (lc_cmdsize l) < sizeof_dysymtab_command then Inl (Small_Cmdsize LC_DYSYMTAB i)
      else if sc_dyst sc \<noteq> None then Inl (More_Than_One LC_DYSYMTAB)
      else
        with_struct ob sizeof_dysymtab_command dec_dysymtab_command enc_dysymtab_command
          swap_dysymtab_command (\<lambda>dyst. check_dysymtab ob i dyst (sc\<lparr>sc_dyst := Some dyst\<rparr>)) lc)"

definition case_symseg ::
  "object \<Rightarrow> nat \<Rightarrow> load_command \<Rightarrow> bytes \<Rightarrow> scan \<Rightarrow> macho_error + (scan \<times> bytes)" where
  "case_symseg ob i l lc sc =
     (if unat (lc_cmdsize l) < sizeof_symseg_command then Inl (Small_Cmdsize LC_SYMSEG i)
      else
        with_struct ob sizeof_symseg_command dec_symseg_command enc_symseg_command
          swap_symseg_command (\<lambda>ss.
            if unat (lc_cmdsize ss) \<noteq> sizeof_symseg_command then Inl (Wrong_Cmdsize LC_SYMSEG i)
            else
              check_extent ob (Field_Past_End LC_SYMSEG ''offset'' i)
                (Range_Past_End LC_SYMSEG ''offset'' i) (ss_offset ss) (ss_size ss) 1
                ''symseg info'' sc) lc)"

section \<open>Routines and hints\<close>

definition case_routines ::
  "object \<Rightarrow> nat \<Rightarrow> load_command \<Rightarrow> bytes \<Rightarrow> scan \<Rightarrow> macho_error + (scan \<times> bytes)" where
  "case_routines ob i l lc sc =
     (if unat (lc_cmdsize l) < sizeof_routines_command then Inl (Small_Cmdsize LC_ROUTINES i)
      else if sc_rc sc \<noteq> None then Inl (More_Than_One LC_ROUTINES)
      else
        with_struct ob sizeof_routines_command dec_routines_command enc_routines_command
          swap_routines_command (\<lambda>rc.
            if unat (lc_cmdsize rc) \<noteq> sizeof_routines_command then Inl (Wrong_Cmdsize LC_ROUTINES i)
            else Inr (sc\<lparr>sc_rc := Some rc\<rparr>)) lc)"

definition case_routines_64 ::
  "object \<Rightarrow> nat \<Rightarrow> load_command \<Rightarrow> bytes \<Rightarrow> scan \<Rightarrow> macho_error + (scan \<times> bytes)" where
  "case_routines_64 ob i l lc sc =
     (if unat (lc_cmdsize l) < sizeof_routines_command_64 then Inl (Small_Cmdsize LC_ROUTINES_64 i)
      else if sc_rc64 sc \<noteq> None then Inl (More_Than_One LC_ROUTINES_64)
      else
        with_struct ob sizeof_routines_command_64 dec_routines_command_64 enc_routines_command_64
          swap_routines_command_64 (\<lambda>rc64.
            if unat (lc_cmdsize rc64) \<noteq> sizeof_routines_command_64
            then Inl (Wrong_Cmdsize LC_ROUTINES_64 i)
            else Inr (sc\<lparr>sc_rc64 := Some rc64\<rparr>)) lc)"

definition case_twolevel_hints ::
  "object \<Rightarrow> nat \<Rightarrow> load_command \<Rightarrow> bytes \<Rightarrow> scan \<Rightarrow> macho_error + (scan \<times> bytes)" where
  "case_twolevel_hints ob i l lc sc =
     (if unat (lc_cmdsize l) < sizeof_twolevel_hints_command
      then Inl (Small_Cmdsize LC_TWOLEVEL_HINTS i)
      else if sc_hints sc \<noteq> None then Inl (More_Than_One LC_TWOLEVEL_HINTS)
      else
        with_struct ob sizeof_twolevel_hints_command dec_twolevel_hints_command
          enc_twolevel_hints_command swap_twolevel_hints_command (\<lambda>hints.
            if unat (lc_cmdsize hints) \<noteq> sizeof_twolevel_hints_command
            then Inl (Wrong_Cmdsize LC_TWOLEVEL_HINTS i)
            else
              check_extent ob (Field_Past_End LC_TWOLEVEL_HINTS ''offset'' i)
                (Range_Past_End LC_TWOLEVEL_HINTS ''offset'' i) (hints_offset hints)
                (hints_nhints hints) sizeof_twolevel_hint ''two level hints''
                (sc\<lparr>sc_hints := Some hints\<rparr>)) lc)"


section \<open>Link edit data\<close>

text \<open>The commands that share \<open>check_linkedit_data_command\<close>, with the name of what they describe.\<close>

definition linkedit_name :: "u32 \<Rightarrow> string option" where
  "linkedit_name cmd =
     (if cmd = LC_SEGMENT_SPLIT_INFO then Some ''split info data''
      else if cmd = LC_ATOM_INFO then Some ''atom info''
      else if cmd = LC_CODE_SIGNATURE then Some ''code signature data''
      else if cmd = LC_FUNCTION_STARTS then Some ''function starts data''
      else if cmd = LC_DATA_IN_CODE then Some ''data in code info''
      else if cmd = LC_DYLIB_CODE_SIGN_DRS then Some ''dylib codesign designated requirements data''
      else if cmd = LC_LINKER_OPTIMIZATION_HINT then Some ''linker optimization hint''
      else if cmd = LC_DYLD_EXPORTS_TRIE then Some ''exports trie''
      else if cmd = LC_DYLD_CHAINED_FIXUPS then Some ''chained fixups''
      else None)"

definition case_linkedit_data ::
  "string \<Rightarrow> object \<Rightarrow> nat \<Rightarrow> load_command \<Rightarrow> bytes \<Rightarrow> scan \<Rightarrow> macho_error + (scan \<times> bytes)" where
  "case_linkedit_data element_name ob i l lc sc =
     (if lc_cmd l \<in> set (sc_seen sc) then Inl (More_Than_One (lc_cmd l))
      else if unat (lc_cmdsize l) < sizeof_linkedit_data_command then Inl (Small_Cmdsize (lc_cmd l) i)
      else
        with_struct ob sizeof_linkedit_data_command dec_linkedit_data_command
          enc_linkedit_data_command swap_linkedit_data_command (\<lambda>ld.
            if unat (lc_cmdsize ld) \<noteq> sizeof_linkedit_data_command
            then Inl (Wrong_Cmdsize (lc_cmd l) i)
            else
              check_extent ob (Field_Past_End (lc_cmd l) ''dataoff'' i)
                (Range_Past_End (lc_cmd l) ''dataoff'' i) (ld_dataoff ld) (ld_datasize ld) 1
                element_name (sc\<lparr>sc_seen := lc_cmd l # sc_seen sc\<rparr>)) lc)"

definition check_dyld_info :: "object \<Rightarrow> nat \<Rightarrow> dyld_info_command \<Rightarrow> scan \<Rightarrow> macho_error + scan" where
  "check_dyld_info ob i dc sc =
     (if unat (lc_cmdsize dc) \<noteq> sizeof_dyld_info_command then Inl (Wrong_Cmdsize LC_DYLD_INFO i)
      else
        check_dyld_extents ob i
          [(''rebase_off'', dc_rebase_off dc, dc_rebase_size dc, ''dyld rebase info''),
           (''bind_off'', dc_bind_off dc, dc_bind_size dc, ''dyld bind info''),
           (''weak_bind_off'', dc_weak_bind_off dc, dc_weak_bind_size dc, ''dyld bind info''),
           (''lazy_bind_off'', dc_lazy_bind_off dc, dc_lazy_bind_size dc, ''dyld lazy bind info''),
           (''export_off'', dc_export_off dc, dc_export_size dc, ''dyld export info'')] sc)"

definition case_dyld_info ::
  "object \<Rightarrow> nat \<Rightarrow> load_command \<Rightarrow> bytes \<Rightarrow> scan \<Rightarrow> macho_error + (scan \<times> bytes)" where
  "case_dyld_info ob i l lc sc =
     (if unat (lc_cmdsize l) < sizeof_dyld_info_command then Inl (Small_Cmdsize (lc_cmd l) i)
      else
        with_struct ob sizeof_dyld_info_command dec_dyld_info_command enc_dyld_info_command
          swap_dyld_info_command (\<lambda>dc. check_dyld_info ob i dc sc) lc)"

section \<open>Encryption and notes\<close>

text \<open>These extents are not entered into the list of elements.\<close>

definition case_encryption_info ::
  "object \<Rightarrow> nat \<Rightarrow> load_command \<Rightarrow> bytes \<Rightarrow> scan \<Rightarrow> macho_error + (scan \<times> bytes)" where
  "case_encryption_info ob i l lc sc =
     (if unat (lc_cmdsize l) < sizeof_encryption_info_command
      then Inl (Small_Cmdsize LC_ENCRYPTION_INFO i)
      else
        with_struct ob sizeof_encryption_info_command dec_encryption_info_command
          enc_encryption_info_command swap_encryption_command (\<lambda>ec.
            if unat (lc_cmdsize ec) \<noteq> sizeof_encryption_info_command
            then Inl (Wrong_Cmdsize LC_ENCRYPTION_INFO i)
            else if ec_cryptoff ec > ob_size ob
            then Inl (Field_Past_End LC_ENCRYPTION_INFO ''cryptoff'' i)
            else if (ucast (ec_cryptoff ec) + ucast (ec_cryptsize ec) :: u64) > ucast (ob_size ob)
            then Inl (Range_Past_End LC_ENCRYPTION_INFO ''cryptoff'' i)
            else Inr sc) lc)"

definition case_encryption_info_64 ::
  "object \<Rightarrow> nat \<Rightarrow> load_command \<Rightarrow> bytes \<Rightarrow> scan \<Rightarrow> macho_error + (scan \<times> bytes)" where
  "case_encryption_info_64 ob i l lc sc =
     (if unat (lc_cmdsize l) < sizeof_encryption_info_command_64
      then Inl (Small_Cmdsize LC_ENCRYPTION_INFO_64 i)
      else
        with_struct ob sizeof_encryption_info_command_64 dec_encryption_info_command_64
          enc_encryption_info_command_64 swap_encryption_command_64 (\<lambda>ec.
            if unat (lc_cmdsize ec) \<noteq> sizeof_encryption_info_command_64
            then Inl (Wrong_Cmdsize LC_ENCRYPTION_INFO_64 i)
            else if ec64_cryptoff ec > ob_size ob
            then Inl (Field_Past_End LC_ENCRYPTION_INFO_64 ''cryptoff'' i)
            else if (ucast (ec64_cryptoff ec) + ucast (ec64_cryptsize ec) :: u64) > ucast (ob_size ob)
            then Inl (Range_Past_End LC_ENCRYPTION_INFO_64 ''cryptoff'' i)
            else Inr sc) lc)"

definition case_note ::
  "object \<Rightarrow> nat \<Rightarrow> load_command \<Rightarrow> bytes \<Rightarrow> scan \<Rightarrow> macho_error + (scan \<times> bytes)" where
  "case_note ob i l lc sc =
     (if unat (lc_cmdsize l) \<noteq> sizeof_note_command then Inl (Wrong_Cmdsize LC_NOTE i)
      else
        with_struct ob sizeof_note_command dec_note_command enc_note_command swap_note_command (\<lambda>nc.
            if nc_offset nc > ucast (ob_size ob) then Inl (Field_Past_End LC_NOTE ''offset'' i)
            else if nc_offset nc + nc_size nc > ucast (ob_size ob)
            then Inl (Range_Past_End LC_NOTE ''offset'' i)
            else Inr sc) lc)"

section \<open>Versions\<close>

definition case_version_min_macosx ::
  "object \<Rightarrow> nat \<Rightarrow> load_command \<Rightarrow> bytes \<Rightarrow> scan \<Rightarrow> macho_error + (scan \<times> bytes)" where
  "case_version_min_macosx ob i l lc sc =
     (if unat (lc_cmdsize l) < sizeof_version_min_command
      then Inl (Small_Cmdsize LC_VERSION_MIN_MACOSX i)
      else if sc_vers sc \<noteq> None then Inl (More_Than_One LC_VERSION_MIN_MACOSX)
      else
        with_struct ob sizeof_version_min_command dec_version_min_command enc_version_min_command
          swap_version_min_command (\<lambda>vers.
            if unat (lc_cmdsize vers) < sizeof_version_min_command
            then Inl (Small_Cmdsize LC_VERSION_MIN_MACOSX i)
            else if sc_bv1 sc = Some PLATFORM_MACOS
            then Inl (Version_Min_Macos_And_Build_Macos i)
            else Inr (sc\<lparr>sc_vers := Some (lc_cmd vers)\<rparr>)) lc)"

text \<open>The cases for the other systems differ only in the name of the command.\<close>

definition case_version_min ::
  "object \<Rightarrow> nat \<Rightarrow> load_command \<Rightarrow> bytes \<Rightarrow> scan \<Rightarrow> macho_error + (scan \<times> bytes)" where
  "case_version_min ob i l lc sc =
     (if unat (lc_cmdsize l) < sizeof_version_min_command then Inl (Small_Cmdsize (lc_cmd l) i)
      else if sc_vers sc \<noteq> None then Inl (More_Than_One (lc_cmd l))
      else if sc_bv1 sc \<noteq> None then Inl (Version_Min_And_Build_Version (lc_cmd l))
      else
        with_struct ob sizeof_version_min_command dec_version_min_command enc_version_min_command
          swap_version_min_command (\<lambda>vers.
            if unat (lc_cmdsize vers) < sizeof_version_min_command
            then Inl (Small_Cmdsize (lc_cmd l) i)
            else Inr (sc\<lparr>sc_vers := Some (lc_cmd vers)\<rparr>)) lc)"

definition sim_support :: "object \<Rightarrow> bool" where
  "sim_support ob \<longleftrightarrow> ob_flags ob AND MH_SIM_SUPPORT \<noteq> 0"

definition sim_platform :: "u32 \<Rightarrow> bool" where
  "sim_platform p \<longleftrightarrow>
     p \<in> {PLATFORM_MACOS, PLATFORM_MACCATALYST, PLATFORM_IOSSIMULATOR, PLATFORM_TVOSSIMULATOR,
       PLATFORM_WATCHOSSIMULATOR}"

text \<open>The messages a build version command for platform \<open>p\<close> gives rise to when the other build version
  commands are as in \<open>bv1\<close>. None of them makes the routine return.\<close>

definition build_version_messages :: "object \<Rightarrow> nat \<Rightarrow> u32 option \<Rightarrow> u32 \<Rightarrow> macho_error list" where
  "build_version_messages ob i bv1 p =
     (case bv1 of
        None \<Rightarrow> if sim_support ob \<and> \<not> sim_platform p then [Platform_Not_Allowed i] else []
      | Some p1 \<Rightarrow>
          if (p1 \<noteq> PLATFORM_MACOS \<and> p1 \<noteq> PLATFORM_MACCATALYST) \<or>
             (p1 = PLATFORM_MACOS \<and> p \<noteq> PLATFORM_MACCATALYST) \<or>
             (p1 = PLATFORM_MACCATALYST \<and> p \<noteq> PLATFORM_MACOS)
          then
            if \<not> sim_support ob then [Not_Macos_And_Maccatalyst]
            else if \<not> sim_platform p then [Platform_Not_Allowed i]
            else []
          else [])"

definition build_version_step ::
  "object \<Rightarrow> nat \<Rightarrow> build_version_command \<Rightarrow> scan \<Rightarrow> macho_error + scan" where
  "build_version_step ob i bv sc =
     (if sc_vers sc = Some LC_VERSION_MIN_MACOSX \<and> bv_platform bv \<noteq> PLATFORM_MACCATALYST
      then Inl Version_Min_Macos_Without_Catalyst
      else
        let ms = build_version_messages ob i (sc_bv1 sc) (bv_platform bv) in
        Inr (if sc_bv1 sc = None
          then sc\<lparr>sc_bv1 := Some (bv_platform bv), sc_messages := sc_messages sc @ ms\<rparr>
          else sc\<lparr>sc_bv2 := Some (bv_platform bv), sc_messages := sc_messages sc @ ms\<rparr>))"

definition case_build_version ::
  "object \<Rightarrow> nat \<Rightarrow> load_command \<Rightarrow> bytes \<Rightarrow> scan \<Rightarrow> macho_error + (scan \<times> bytes)" where
  "case_build_version ob i l lc sc =
     (if unat (lc_cmdsize l) < sizeof_build_version_command then Inl (Small_Cmdsize LC_BUILD_VERSION i)
      else if sc_vers sc \<noteq> None \<and> sc_vers sc \<noteq> Some LC_VERSION_MIN_MACOSX
      then Inl Build_Version_And_Version_Min
      else
        let sc =
          (if sc_bv1 sc \<noteq> None \<and> sc_bv2 sc \<noteq> None \<and> \<not> sim_support ob
           then sc\<lparr>sc_messages := sc_messages sc @ [More_Than_Two_Build_Versions]\<rparr> else sc) in
        andthen (fetch ob sizeof_build_version_command dec_build_version_command
          enc_build_version_command swap_build_version_command lc) (\<lambda>(bv, lc1).
        andthen
          (if unat (lc_cmdsize bv) <
              sizeof_build_version_command + unat (bv_ntools bv) * sizeof_build_tool_version
           then Inl (Small_Cmdsize LC_BUILD_VERSION i) else Inr ()) (\<lambda>_.
        andthen (fetch_array ob sizeof_build_tool_version dec_build_tool_version
          enc_build_tool_version swap_build_tool_version_elem (unat (bv_ntools bv))
          (drop sizeof_build_version_command lc1)) (\<lambda>(btv, rest).
        andthen (build_version_step ob i bv sc) (\<lambda>sc1.
          Inr (sc1, take sizeof_build_version_command lc1 @ rest))))))"

section \<open>Commands that occur once\<close>

definition case_prebind_cksum ::
  "object \<Rightarrow> nat \<Rightarrow> load_command \<Rightarrow> bytes \<Rightarrow> scan \<Rightarrow> macho_error + (scan \<times> bytes)" where
  "case_prebind_cksum ob i l lc sc =
     (if unat (lc_cmdsize l) < sizeof_prebind_cksum_command then Inl (Small_Cmdsize LC_PREBIND_CKSUM i)
      else if LC_PREBIND_CKSUM \<in> set (sc_seen sc) then Inl (More_Than_One LC_PREBIND_CKSUM)
      else
        with_struct ob sizeof_prebind_cksum_command dec_prebind_cksum_command
          enc_prebind_cksum_command swap_prebind_cksum_command (\<lambda>cs.
            if unat (lc_cmdsize cs) \<noteq> sizeof_prebind_cksum_command
            then Inl (Wrong_Cmdsize LC_PREBIND_CKSUM i)
            else Inr (sc\<lparr>sc_seen := LC_PREBIND_CKSUM # sc_seen sc\<rparr>)) lc)"

definition case_uuid ::
  "object \<Rightarrow> nat \<Rightarrow> load_command \<Rightarrow> bytes \<Rightarrow> scan \<Rightarrow> macho_error + (scan \<times> bytes)" where
  "case_uuid ob i l lc sc =
     (if unat (lc_cmdsize l) < sizeof_uuid_command then Inl (Small_Cmdsize LC_UUID i)
      else if LC_UUID \<in> set (sc_seen sc) then Inl (More_Than_One LC_UUID)
      else
        with_struct ob sizeof_uuid_command dec_uuid_command enc_uuid_command swap_uuid_command (\<lambda>uuid.
            if unat (lc_cmdsize uuid) \<noteq> sizeof_uuid_command then Inl (Wrong_Cmdsize LC_UUID i)
            else Inr (sc\<lparr>sc_seen := LC_UUID # sc_seen sc\<rparr>)) lc)"

section \<open>Commands with strings\<close>

definition case_fvmlib ::
  "object \<Rightarrow> nat \<Rightarrow> load_command \<Rightarrow> bytes \<Rightarrow> scan \<Rightarrow> macho_error + (scan \<times> bytes)" where
  "case_fvmlib ob i l lc sc =
     (if unat (lc_cmdsize l) < sizeof_fvmlib_command then Inl (Small_Cmdsize (lc_cmd l) i)
      else
        with_struct ob sizeof_fvmlib_command dec_fvmlib_command enc_fvmlib_command
          swap_fvmlib_command (\<lambda>c.
            if unat (lc_cmdsize c) < sizeof_fvmlib_command then Inl (Small_Cmdsize (lc_cmd l) i)
            else if fl_fvmlib_name_offset c \<ge> lc_cmdsize c then Inl (String_Past_End (lc_cmd l) ''name'' i)
            else Inr sc) lc)"

definition case_dylib ::
  "object \<Rightarrow> nat \<Rightarrow> load_command \<Rightarrow> bytes \<Rightarrow> scan \<Rightarrow> macho_error + (scan \<times> bytes)" where
  "case_dylib ob i l lc sc =
     (if unat (lc_cmdsize l) < sizeof_dylib_command then Inl (Small_Cmdsize (lc_cmd l) i)
      else
        with_struct ob sizeof_dylib_command dec_dylib_command enc_dylib_command
          swap_dylib_command (\<lambda>c.
            if unat (lc_cmdsize c) < sizeof_dylib_command then Inl (Small_Cmdsize (lc_cmd l) i)
            else if dl_dylib_name_offset c \<ge> lc_cmdsize c then Inl (String_Past_End (lc_cmd l) ''name'' i)
            else Inr sc) lc)"

definition case_sub_framework ::
  "object \<Rightarrow> nat \<Rightarrow> load_command \<Rightarrow> bytes \<Rightarrow> scan \<Rightarrow> macho_error + (scan \<times> bytes)" where
  "case_sub_framework ob i l lc sc =
     (if unat (lc_cmdsize l) < sizeof_sub_framework_command then Inl (Small_Cmdsize LC_SUB_FRAMEWORK i)
      else
        with_struct ob sizeof_sub_framework_command dec_sub_framework_command enc_sub_framework_command
          swap_sub_framework_command (\<lambda>c.
            if unat (lc_cmdsize c) < sizeof_sub_framework_command then Inl (Small_Cmdsize LC_SUB_FRAMEWORK i)
            else if sub_umbrella_offset c \<ge> lc_cmdsize c then Inl (String_Past_End LC_SUB_FRAMEWORK ''umbrella'' i)
            else Inr sc) lc)"

definition case_sub_umbrella ::
  "object \<Rightarrow> nat \<Rightarrow> load_command \<Rightarrow> bytes \<Rightarrow> scan \<Rightarrow> macho_error + (scan \<times> bytes)" where
  "case_sub_umbrella ob i l lc sc =
     (if unat (lc_cmdsize l) < sizeof_sub_umbrella_command then Inl (Small_Cmdsize LC_SUB_UMBRELLA i)
      else
        with_struct ob sizeof_sub_umbrella_command dec_sub_umbrella_command enc_sub_umbrella_command
          swap_sub_umbrella_command (\<lambda>c.
            if unat (lc_cmdsize c) < sizeof_sub_umbrella_command then Inl (Small_Cmdsize LC_SUB_UMBRELLA i)
            else if usub_sub_umbrella_offset c \<ge> lc_cmdsize c then Inl (String_Past_End LC_SUB_UMBRELLA ''sub_umbrella'' i)
            else Inr sc) lc)"

definition case_sub_library ::
  "object \<Rightarrow> nat \<Rightarrow> load_command \<Rightarrow> bytes \<Rightarrow> scan \<Rightarrow> macho_error + (scan \<times> bytes)" where
  "case_sub_library ob i l lc sc =
     (if unat (lc_cmdsize l) < sizeof_sub_library_command then Inl (Small_Cmdsize LC_SUB_LIBRARY i)
      else
        with_struct ob sizeof_sub_library_command dec_sub_library_command enc_sub_library_command
          swap_sub_library_command (\<lambda>c.
            if unat (lc_cmdsize c) < sizeof_sub_library_command then Inl (Small_Cmdsize LC_SUB_LIBRARY i)
            else if lsub_sub_library_offset c \<ge> lc_cmdsize c then Inl (String_Past_End LC_SUB_LIBRARY ''sub_library'' i)
            else Inr sc) lc)"

definition case_sub_client ::
  "object \<Rightarrow> nat \<Rightarrow> load_command \<Rightarrow> bytes \<Rightarrow> scan \<Rightarrow> macho_error + (scan \<times> bytes)" where
  "case_sub_client ob i l lc sc =
     (if unat (lc_cmdsize l) < sizeof_sub_client_command then Inl (Small_Cmdsize LC_SUB_CLIENT i)
      else
        with_struct ob sizeof_sub_client_command dec_sub_client_command enc_sub_client_command
          swap_sub_client_command (\<lambda>c.
            if unat (lc_cmdsize c) < sizeof_sub_client_command then Inl (Small_Cmdsize LC_SUB_CLIENT i)
            else if csub_client_offset c \<ge> lc_cmdsize c then Inl (String_Past_End LC_SUB_CLIENT ''client'' i)
            else Inr sc) lc)"

text \<open>The size is compared with that of another structure.\<close>

definition case_prebound_dylib ::
  "object \<Rightarrow> nat \<Rightarrow> load_command \<Rightarrow> bytes \<Rightarrow> scan \<Rightarrow> macho_error + (scan \<times> bytes)" where
  "case_prebound_dylib ob i l lc sc =
     (if unat (lc_cmdsize l) < sizeof_prebound_dylib_command then Inl (Small_Cmdsize LC_PREBOUND_DYLIB i)
      else
        with_struct ob sizeof_prebound_dylib_command dec_prebound_dylib_command enc_prebound_dylib_command
          swap_prebound_dylib_command (\<lambda>c.
            if unat (lc_cmdsize c) < sizeof_dylib_command then Inl (Small_Cmdsize LC_PREBOUND_DYLIB i)
            else if pbdylib_name_offset c \<ge> lc_cmdsize c then Inl (String_Past_End LC_PREBOUND_DYLIB ''name'' i)
            else if pbdylib_linked_modules_offset c \<ge> lc_cmdsize c then Inl (String_Past_End LC_PREBOUND_DYLIB ''linked_modules'' i)
            else Inr sc) lc)"

definition case_dylinker ::
  "object \<Rightarrow> nat \<Rightarrow> load_command \<Rightarrow> bytes \<Rightarrow> scan \<Rightarrow> macho_error + (scan \<times> bytes)" where
  "case_dylinker ob i l lc sc =
     (if unat (lc_cmdsize l) < sizeof_dylinker_command then Inl (Small_Cmdsize (lc_cmd l) i)
      else
        with_struct ob sizeof_dylinker_command dec_dylinker_command enc_dylinker_command
          swap_dylinker_command (\<lambda>c.
            if unat (lc_cmdsize c) < sizeof_dylinker_command then Inl (Small_Cmdsize (lc_cmd l) i)
            else if dyld_name_offset c \<ge> lc_cmdsize c then Inl (String_Past_End (lc_cmd l) ''name'' i)
            else Inr sc) lc)"

definition case_rpath ::
  "object \<Rightarrow> nat \<Rightarrow> load_command \<Rightarrow> bytes \<Rightarrow> scan \<Rightarrow> macho_error + (scan \<times> bytes)" where
  "case_rpath ob i l lc sc =
     (if unat (lc_cmdsize l) < sizeof_rpath_command then Inl (Small_Cmdsize LC_RPATH i)
      else
        with_struct ob sizeof_rpath_command dec_rpath_command enc_rpath_command
          swap_rpath_command (\<lambda>c.
            if unat (lc_cmdsize c) < sizeof_rpath_command then Inl (Small_Cmdsize LC_RPATH i)
            else if rpath_path_offset c \<ge> lc_cmdsize c then Inl (String_Past_End LC_RPATH ''path'' i)
            else Inr sc) lc)"

definition case_fileset_entry ::
  "object \<Rightarrow> nat \<Rightarrow> load_command \<Rightarrow> bytes \<Rightarrow> scan \<Rightarrow> macho_error + (scan \<times> bytes)" where
  "case_fileset_entry ob i l lc sc =
     (if unat (lc_cmdsize l) < sizeof_fileset_entry_command then Inl (Small_Cmdsize LC_FILESET_ENTRY i)
      else
        with_struct ob sizeof_fileset_entry_command dec_fileset_entry_command enc_fileset_entry_command
          swap_fileset_entry_command (\<lambda>c.
            if unat (lc_cmdsize c) < sizeof_fileset_entry_command then Inl (Small_Cmdsize LC_FILESET_ENTRY i)
            else if fse_entry_id_offset c \<ge> lc_cmdsize c then Inl (String_Past_End LC_FILESET_ENTRY ''entry_id'' i)
            else Inr sc) lc)"

definition case_linker_option ::
  "object \<Rightarrow> nat \<Rightarrow> load_command \<Rightarrow> bytes \<Rightarrow> scan \<Rightarrow> macho_error + (scan \<times> bytes)" where
  "case_linker_option ob i l lc sc =
     (if unat (lc_cmdsize l) < sizeof_linker_option_command then Inl (Small_Cmdsize LC_LINKER_OPTION i)
      else
        with_struct ob sizeof_linker_option_command dec_linker_option_command enc_linker_option_command
          swap_linker_option_command (\<lambda>c.
            if unat (lc_cmdsize c) < sizeof_linker_option_command then Inl (Small_Cmdsize LC_LINKER_OPTION i)
            else Inr sc) lc)"

section \<open>Commands whose fields are not checked\<close>

definition case_main ::
  "object \<Rightarrow> nat \<Rightarrow> load_command \<Rightarrow> bytes \<Rightarrow> scan \<Rightarrow> macho_error + (scan \<times> bytes)" where
  "case_main ob i l lc sc =
     (if unat (lc_cmdsize l) < sizeof_entry_point_command then Inl (Small_Cmdsize LC_MAIN i)
      else
        with_struct ob sizeof_entry_point_command dec_entry_point_command enc_entry_point_command
          swap_entry_point_command (\<lambda>_. Inr sc) lc)"

definition case_source_version ::
  "object \<Rightarrow> nat \<Rightarrow> load_command \<Rightarrow> bytes \<Rightarrow> scan \<Rightarrow> macho_error + (scan \<times> bytes)" where
  "case_source_version ob i l lc sc =
     (if unat (lc_cmdsize l) < sizeof_source_version_command then Inl (Small_Cmdsize LC_SOURCE_VERSION i)
      else
        with_struct ob sizeof_source_version_command dec_source_version_command enc_source_version_command
          swap_source_version_command (\<lambda>_. Inr sc) lc)"

definition case_ident ::
  "object \<Rightarrow> nat \<Rightarrow> load_command \<Rightarrow> bytes \<Rightarrow> scan \<Rightarrow> macho_error + (scan \<times> bytes)" where
  "case_ident ob i l lc sc =
     (if unat (lc_cmdsize l) < sizeof_ident_command then Inl (Small_Cmdsize LC_IDENT i)
      else
        with_struct ob sizeof_ident_command dec_ident_command enc_ident_command
          swap_ident_command (\<lambda>_. Inr sc) lc)"

end
