(* ===== verification/ObjectThreads.thy ===== *)
theory ObjectThreads
  imports ObjectScan Thread_States
begin

text \<open>
  The cases \<open>LC_THREAD\<close> and \<open>LC_UNIXTHREAD\<close> of \<open>check_Mach_O\<close> of \<^verbatim>\<open>cctools/libstuff/ofile.c\<close>.
  For each processor type the code has a loop over the thread states of the command. The loops differ
  only in the flavors they know, which are tables here, and \<open>thread_walk\<close> is the loop. Unlike
  \<open>swap_object_headers\<close> the loops check that a flavor, a count and a state end inside of the command
  before they read them.
\<close>

section \<open>Flavors\<close>

text \<open>A flavor the loop knows the state of, or one it only skips by its count.\<close>

datatype flavor_rule = Known layout | Skipped

type_synonym flavor_rules = "(u32 \<times> flavor_rule) list"

definition m68k_states :: flavor_rules where
  "m68k_states =
     [(1, Known m68k_thread_state_regs), (2, Known m68k_thread_state_68882),
      (3, Known m68k_thread_state_user_reg)]"

definition ppc_states :: flavor_rules where
  "ppc_states = [(1, Known ppc_thread_state)]"

definition ppc64_states :: flavor_rules where
  "ppc64_states = [(5, Known ppc_thread_state64)]"

definition m88k_states :: flavor_rules where
  "m88k_states =
     [(1, Known m88k_thread_state_grf), (2, Known m88k_thread_state_xrf),
      (3, Known m88k_thread_state_user), (4, Known m88110_thread_state_impl)]"

text \<open>The state of the i860 is checked and swapped only when the code is built for the 68000.\<close>

definition i860_states :: flavor_rules where
  "i860_states = [(4, Skipped)]"

definition i386_states :: flavor_rules where
  "i386_states =
     [(1, Known i386_thread_state), (- 1, Known i386_thread_state), (2, Known i386_float_state),
      (3, Known i386_exception_state)]"

definition x86_64_states :: flavor_rules where
  "x86_64_states = [(4, Known x86_thread_state64)]"

definition hppa_states :: flavor_rules where
  "hppa_states =
     [(1, Known hppa_integer_thread_state), (2, Known hppa_frame_thread_state),
      (3, Known hppa_fp_thread_state)]"

definition sparc_states :: flavor_rules where
  "sparc_states = [(1, Known sparc_thread_state_regs), (2, Known sparc_thread_state_fpu)]"

definition arm_states :: flavor_rules where
  "arm_states = [(1, Known arm_thread_state)]"

definition arm64_states :: flavor_rules where
  "arm64_states = [(6, Known arm_thread_state64)]"

definition thread_rules :: "cpu_type_t \<Rightarrow> flavor_rules option" where
  "thread_rules cputype =
     (if cputype = CPU_TYPE_MC680x0 then Some m68k_states
      else if cputype = CPU_TYPE_POWERPC \<or> cputype = CPU_TYPE_VEO then Some ppc_states
      else if cputype = CPU_TYPE_POWERPC64 then Some ppc64_states
      else if cputype = CPU_TYPE_MC88000 then Some m88k_states
      else if cputype = CPU_TYPE_I860 then Some i860_states
      else if cputype = CPU_TYPE_I386 then Some i386_states
      else if cputype = CPU_TYPE_X86_64 then Some x86_64_states
      else if cputype = CPU_TYPE_HPPA then Some hppa_states
      else if cputype = CPU_TYPE_SPARC then Some sparc_states
      else if cputype = CPU_TYPE_ARM then Some arm_states
      else if cputype = CPU_TYPE_ARM64 \<or> cputype = CPU_TYPE_ARM64_32 then Some arm64_states
      else None)"

section \<open>The loop\<close>

definition fetch_word :: "object \<Rightarrow> nat \<Rightarrow> bytes \<Rightarrow> macho_error + (u32 \<times> bytes)" where
  "fetch_word ob state lc =
     andthen (fetch ob 4 (\<lambda>e bs. get32 e bs 0) (\<lambda>e w. put32 e w) SWAP_INT (drop state lc))
       (\<lambda>(w, rest). Inr (w, take state lc @ rest))"

definition swap_state :: "object \<Rightarrow> bit_swap \<Rightarrow> layout \<Rightarrow> nat \<Rightarrow> bytes \<Rightarrow> macho_error + bytes" where
  "swap_state ob bits fs state lc =
     (if \<not> ob_swapped ob then Inr lc
      else if length lc < state + layout_size fs then Inl Memory_Access
      else Inr (take state lc @ swap_layout (ob_host ob) bits fs (slice state (layout_size fs) lc) @
        drop (state + layout_size fs) lc))"

text \<open>\<open>state\<close> and \<open>p\<close> are offsets from the command; \<open>p\<close> is its size.\<close>

function thread_walk ::
  "object \<Rightarrow> bit_swap \<Rightarrow> flavor_rules \<Rightarrow> nat \<Rightarrow> u32 \<Rightarrow> nat \<Rightarrow> nat \<Rightarrow> nat \<Rightarrow> bytes \<Rightarrow>
   macho_error + bytes" where
  "thread_walk ob bits tab i cmd nflavor state p lc =
     (if state < p then
        if state + 4 > p then Inl (Flavor_Past_End cmd i)
        else (case fetch_word ob state lc of Inl x \<Rightarrow> Inl x | Inr (flavor, lc1) \<Rightarrow>
          if state + 8 > p then Inl (Count_Past_End cmd i)
          else (case fetch_word ob (state + 4) lc1 of Inl x \<Rightarrow> Inl x | Inr (count, lc2) \<Rightarrow>
            (case map_of tab flavor of
               Some (Known fs) \<Rightarrow>
                 if unat count \<noteq> layout_size fs div 4 then Inl (Count_Not_Right cmd nflavor i)
                 else if state + 8 + layout_size fs > p then Inl (State_Past_End cmd i)
                 else (case swap_state ob bits fs (state + 8) lc2 of Inl x \<Rightarrow> Inl x | Inr lc3 \<Rightarrow>
                   thread_walk ob bits tab i cmd (nflavor + 1) (state + 8 + layout_size fs) p lc3)
             | Some Skipped \<Rightarrow>
                 thread_walk ob bits tab i cmd (nflavor + 1) (state + 8 + unat count * 4) p lc2
             | None \<Rightarrow>
                 if ob_swapped ob then Inl (Cannot_Swap_Flavor cmd nflavor i)
                 else thread_walk ob bits tab i cmd (nflavor + 1) (state + 8 + unat count * 4) p lc2)))
      else Inr lc)"
  by pat_completeness auto
termination
  by (relation "measure (\<lambda>(ob, bits, tab, i, cmd, nflavor, state, p, lc). p - state)") auto

declare thread_walk.simps [simp del]

definition case_thread ::
  "bit_swap \<Rightarrow> object \<Rightarrow> nat \<Rightarrow> load_command \<Rightarrow> bytes \<Rightarrow> scan \<Rightarrow> macho_error + (scan \<times> bytes)" where
  "case_thread bits ob i l lc sc =
     (if unat (lc_cmdsize l) < sizeof_thread_command then Inl (Small_Cmdsize (lc_cmd l) i)
      else
        andthen (fetch ob sizeof_thread_command dec_thread_command enc_thread_command
          swap_thread_command lc) (\<lambda>(ut, lc1).
        case thread_rules (ob_cputype ob) of
          Some tab \<Rightarrow>
            andthen (thread_walk ob bits tab i (lc_cmd ut) 0 sizeof_thread_command
              (unat (lc_cmdsize ut)) lc1) (\<lambda>lc2. Inr (sc, lc2))
        | None \<Rightarrow>
            if ob_swapped ob then Inl (Cannot_Swap_Cputype (lc_cmd ut) i) else Inr (sc, lc1)))"

end
