(* ===== verification/CheckMachO.thy ===== *)
theory CheckMachO
  imports ObjectCommands ObjectThreads
begin

text \<open>
  \<open>check_Mach_O\<close> of \<^verbatim>\<open>cctools/libstuff/ofile.c\<close>: the header, the pass over the load commands, the
  checks of the symbol table against the dynamic symbol table, and \<open>sizeofcmds\<close>. The object is given
  as the memory of its header and the memory from the load commands to its end. A good object comes
  with what the pass has recorded and with the memory after the call.

  The default case of the switch is that of the library; the build \<open>OFI\<close> of the file does not have it.
\<close>

section \<open>The switch\<close>

definition switch_linkedit ::
  "object \<Rightarrow> nat \<Rightarrow> load_command \<Rightarrow> bytes \<Rightarrow> scan \<Rightarrow> macho_error + (scan \<times> bytes)" where
  "switch_linkedit ob i l lc sc =
     (case linkedit_name (lc_cmd l) of
        Some name \<Rightarrow> case_linkedit_data name ob i l lc sc
      | None \<Rightarrow>
          if lc_cmd l = LC_NOTE then case_note ob i l lc sc
          else if lc_cmd l = LC_ENCRYPTION_INFO then case_encryption_info ob i l lc sc
          else if lc_cmd l = LC_ENCRYPTION_INFO_64 then case_encryption_info_64 ob i l lc sc
          else if lc_cmd l = LC_DYLD_INFO \<or> lc_cmd l = LC_DYLD_INFO_ONLY
          then case_dyld_info ob i l lc sc
          else if lc_cmd l = LC_VERSION_MIN_MACOSX then case_version_min_macosx ob i l lc sc
          else if lc_cmd l = LC_VERSION_MIN_IPHONEOS \<or> lc_cmd l = LC_VERSION_MIN_TVOS \<or>
            lc_cmd l = LC_VERSION_MIN_WATCHOS
          then case_version_min ob i l lc sc
          else if lc_cmd l = LC_BUILD_VERSION then case_build_version ob i l lc sc
          else if lc_cmd l = LC_PREBIND_CKSUM then case_prebind_cksum ob i l lc sc
          else if lc_cmd l = LC_UUID then case_uuid ob i l lc sc
          else Inl (Unknown_Load_Command i))"

definition switch_libraries ::
  "object \<Rightarrow> nat \<Rightarrow> load_command \<Rightarrow> bytes \<Rightarrow> scan \<Rightarrow> macho_error + (scan \<times> bytes)" where
  "switch_libraries ob i l lc sc =
     (if lc_cmd l = LC_IDFVMLIB \<or> lc_cmd l = LC_LOADFVMLIB then case_fvmlib ob i l lc sc
      else if lc_cmd l \<in> {LC_ID_DYLIB, LC_LOAD_DYLIB, LC_LOAD_WEAK_DYLIB, LC_REEXPORT_DYLIB,
        LC_LOAD_UPWARD_DYLIB, LC_LAZY_LOAD_DYLIB}
      then case_dylib ob i l lc sc
      else if lc_cmd l = LC_SUB_FRAMEWORK then case_sub_framework ob i l lc sc
      else if lc_cmd l = LC_SUB_UMBRELLA then case_sub_umbrella ob i l lc sc
      else if lc_cmd l = LC_SUB_LIBRARY then case_sub_library ob i l lc sc
      else if lc_cmd l = LC_SUB_CLIENT then case_sub_client ob i l lc sc
      else if lc_cmd l = LC_PREBOUND_DYLIB then case_prebound_dylib ob i l lc sc
      else if lc_cmd l = LC_ID_DYLINKER \<or> lc_cmd l = LC_LOAD_DYLINKER \<or>
        lc_cmd l = LC_DYLD_ENVIRONMENT
      then case_dylinker ob i l lc sc
      else if lc_cmd l = LC_RPATH then case_rpath ob i l lc sc
      else if lc_cmd l = LC_FILESET_ENTRY then case_fileset_entry ob i l lc sc
      else if lc_cmd l = LC_LINKER_OPTION then case_linker_option ob i l lc sc
      else if lc_cmd l = LC_MAIN then case_main ob i l lc sc
      else if lc_cmd l = LC_SOURCE_VERSION then case_source_version ob i l lc sc
      else if lc_cmd l = LC_IDENT then case_ident ob i l lc sc
      else switch_linkedit ob i l lc sc)"

definition switch_command ::
  "bit_swap \<Rightarrow> object \<Rightarrow> nat \<Rightarrow> load_command \<Rightarrow> bytes \<Rightarrow> scan \<Rightarrow> macho_error + (scan \<times> bytes)" where
  "switch_command bits ob i l lc sc =
     (if lc_cmd l = LC_SEGMENT then case_segment ob i l lc sc
      else if lc_cmd l = LC_SEGMENT_64 then case_segment_64 ob i l lc sc
      else if lc_cmd l = LC_SYMTAB then case_symtab ob i l lc sc
      else if lc_cmd l = LC_DYSYMTAB then case_dysymtab ob i l lc sc
      else if lc_cmd l = LC_ROUTINES then case_routines ob i l lc sc
      else if lc_cmd l = LC_ROUTINES_64 then case_routines_64 ob i l lc sc
      else if lc_cmd l = LC_TWOLEVEL_HINTS then case_twolevel_hints ob i l lc sc
      else if lc_cmd l = LC_SYMSEG then case_symseg ob i l lc sc
      else if lc_cmd l = LC_UNIXTHREAD \<or> lc_cmd l = LC_THREAD then case_thread bits ob i l lc sc
      else switch_libraries ob i l lc sc)"

section \<open>The pass over the load commands\<close>

text \<open>The copy \<open>l\<close> of the command's first fields; the object itself is not changed.\<close>

definition load_command_at :: "object \<Rightarrow> bytes \<Rightarrow> macho_error + load_command" where
  "load_command_at ob lc =
     (if length lc < sizeof_load_command then Inl Memory_Access
      else
        let l = dec_load_command (ob_host ob) (take sizeof_load_command lc) in
        Inr (if ob_swapped ob then swap_load_command l else l))"

definition core_thread :: "object \<Rightarrow> load_command \<Rightarrow> bool" where
  "core_thread ob l \<longleftrightarrow>
     ob_is64 ob \<and> ob_filetype ob = MH_CORE \<and> lc_cmd l = LC_THREAD \<and> unat (lc_cmdsize l) mod 4 = 0"

text \<open>\<open>left\<close> is \<open>sizeofcmds\<close> less \<open>big_load_end\<close>, the bytes of the load commands that are left.\<close>

fun scan_commands ::
  "bit_swap \<Rightarrow> object \<Rightarrow> nat \<Rightarrow> nat \<Rightarrow> bytes \<Rightarrow> nat \<Rightarrow> scan \<Rightarrow> macho_error + (scan \<times> bytes \<times> nat)" where
  "scan_commands bits ob 0 i lc left sc = Inr (sc, lc, left)"
| "scan_commands bits ob (Suc n) i lc left sc =
     (if left < sizeof_load_command then Inl (Command_Past_All i)
      else
        andthen (load_command_at ob lc) (\<lambda>l.
          if unat (lc_cmdsize l) mod (if ob_is64 ob then 8 else 4) \<noteq> 0 \<and> \<not> core_thread ob l
          then Inl (Not_A_Multiple i)
          else if left < unat (lc_cmdsize l) then Inl (Command_Past_End i)
          else if lc_cmdsize l = 0 then Inl (Zero_Cmdsize i)
          else
            andthen (switch_command bits ob i l lc sc) (\<lambda>(sc1, lc1).
              if left < unat (lc_cmdsize l) then Inl (Next_Command_Past_End (i + 1))
              else
                andthen (scan_commands bits ob n (i + 1) (drop (unat (lc_cmdsize l)) lc1)
                  (left - unat (lc_cmdsize l)) sc1) (\<lambda>(sc2, rest, left2).
                  Inr (sc2, take (unat (lc_cmdsize l)) lc1 @ rest, left2)))))"

section \<open>The symbol tables together\<close>

definition check_symbol_range :: "string \<Rightarrow> u32 \<Rightarrow> u32 \<Rightarrow> u32 \<Rightarrow> macho_error + unit" where
  "check_symbol_range field i n nsyms =
     (if n \<noteq> 0 \<and> i > nsyms then Inl (Index_Past_Symbols field)
      else if n \<noteq> 0 \<and> (ucast i + ucast n :: u64) > ucast nsyms then Inl (Indexes_Past_Symbols field)
      else Inr ())"

definition check_tables :: "scan \<Rightarrow> macho_error + unit" where
  "check_tables sc =
     (case sc_st sc of
        None \<Rightarrow> if sc_dyst sc \<noteq> None then Inl Dysymtab_Without_Symtab else Inr ()
      | Some st \<Rightarrow>
          (case sc_dyst sc of
             None \<Rightarrow> Inr ()
           | Some dyst \<Rightarrow>
               andthen (check_symbol_range ''ilocalsym'' (dyst_ilocalsym dyst) (dyst_nlocalsym dyst)
                 (st_nsyms st)) (\<lambda>_.
               andthen (check_symbol_range ''iextdefsym'' (dyst_iextdefsym dyst) (dyst_nextdefsym dyst)
                 (st_nsyms st)) (\<lambda>_.
               andthen (check_symbol_range ''iundefsym'' (dyst_iundefsym dyst) (dyst_nundefsym dyst)
                 (st_nsyms st)) (\<lambda>_.
                 if (case sc_rc sc of None \<Rightarrow> False
                     | Some rc \<Rightarrow> rc_init_module rc > dyst_nmodtab dyst)
                 then Inl (Init_Module_Past_End LC_ROUTINES)
                 else if (case sc_rc64 sc of None \<Rightarrow> False
                     | Some rc64 \<Rightarrow> rc64_init_module rc64 > ucast (dyst_nmodtab dyst))
                 then Inl (Init_Module_Past_End LC_ROUTINES_64)
                 else if (case sc_hints sc of None \<Rightarrow> False
                     | Some hints \<Rightarrow> hints_nhints hints \<noteq> dyst_nundefsym dyst)
                 then Inl Hints_Not_Undefined_Symbols
                 else Inr ())))))"

section \<open>The routine\<close>

text \<open>The part behind the header, for either word size.\<close>

definition check_load_commands ::
  "bit_swap \<Rightarrow> cpu_type_t option \<Rightarrow> object \<Rightarrow> u32 \<Rightarrow> u32 \<Rightarrow> bytes \<Rightarrow> macho_error + (scan \<times> bytes)" where
  "check_load_commands bits fat_cputype ob ncmds sizeofcmds lc =
     andthen (add_element 0 (ob_sizeofhdrs ob) ''Mach-O headers'' no_scan) (\<lambda>sc.
       if fat_cputype \<noteq> None \<and> fat_cputype \<noteq> Some (ob_cputype ob) then Inl Fat_Cputype_Mismatch
       else
         andthen (scan_commands bits ob (unat ncmds) 0 lc (unat sizeofcmds) sc) (\<lambda>(sc1, lc1, left).
         andthen (check_tables sc1) (\<lambda>_.
           if left \<noteq> 0 then Inl Bad_Sizeofcmds else Inr (sc1, lc1))))"

text \<open>\<open>fat_cputype\<close> is the processor type the fat header gives for the object, when it comes from a fat
  file; \<open>is64\<close> is whether \<open>ofile->mh64\<close> is set, which the caller decides from the magic number.\<close>

definition check_Mach_O ::
  "endian \<Rightarrow> bit_swap \<Rightarrow> bool \<Rightarrow> bool \<Rightarrow> cpu_type_t option \<Rightarrow> u32 \<Rightarrow> bytes \<Rightarrow> bytes \<Rightarrow>
   macho_error + (scan \<times> bytes \<times> bytes)" where
  "check_Mach_O e bits swapped is64 fat_cputype sz mach_header load_commands =
     (let fields = \<lparr>ob_host = e, ob_swapped = swapped, ob_is64 = is64, ob_size = sz,
        ob_sizeofhdrs = 0, ob_cputype = 0, ob_filetype = 0, ob_flags = 0\<rparr> in
      if \<not> is64 then
        andthen (fetch fields sizeof_mach_header dec_mach_header enc_mach_header swap_mach_header
          mach_header) (\<lambda>(mh, hdr).
          if unat (mh_sizeofcmds mh) + sizeof_mach_header > unat sz then Inl Headers_Past_End
          else
            andthen (check_load_commands bits fat_cputype
              (fields\<lparr>ob_sizeofhdrs := mh_sizeofcmds mh + of_nat sizeof_mach_header,
                 ob_cputype := mh_cputype mh, ob_filetype := mh_filetype mh, ob_flags := mh_flags mh\<rparr>)
              (mh_ncmds mh) (mh_sizeofcmds mh) load_commands) (\<lambda>(sc, lc). Inr (sc, hdr, lc)))
      else
        andthen (fetch fields sizeof_mach_header_64 dec_mach_header_64 enc_mach_header_64
          swap_mach_header_64 mach_header) (\<lambda>(mh, hdr).
          if unat (mh64_sizeofcmds mh) + sizeof_mach_header_64 > unat sz then Inl Headers_Past_End
          else
            andthen (check_load_commands bits fat_cputype
              (fields\<lparr>ob_sizeofhdrs := mh64_sizeofcmds mh + of_nat sizeof_mach_header_64,
                 ob_cputype := mh64_cputype mh, ob_filetype := mh64_filetype mh,
                 ob_flags := mh64_flags mh\<rparr>)
              (mh64_ncmds mh) (mh64_sizeofcmds mh) load_commands) (\<lambda>(sc, lc). Inr (sc, hdr, lc))))"

end
