(* ===== verification/CheckMachO_Safe.thy ===== *)
theory CheckMachO_Safe
  imports CheckMachO
begin

text \<open>
  \<open>check_Mach_O\<close> stays inside of the object: whatever its bytes are, no read and no write of the routine,
  of the swap routines it calls included, is outside of the header and the load commands, and each
  command only changes its own bytes.
\<close>

section \<open>The checks of fields\<close>

lemma add_element_safe [simp]: "add_element off n name s \<noteq> Inl Memory_Access"
  by (simp add: add_element_def split: sum.split)

lemma check_extent_safe [simp]:
  "e1 \<noteq> Memory_Access \<Longrightarrow> e2 \<noteq> Memory_Access \<Longrightarrow>
   check_extent ob e1 e2 off n esz name s \<noteq> Inl Memory_Access"
  by (simp add: check_extent_def)

lemma check_dyld_extent_safe [simp]:
  "check_dyld_extent ob i field off n name s \<noteq> Inl Memory_Access"
  by (simp add: check_dyld_extent_def)

lemma check_extents_safe [simp]: "check_extents ob cmd i xs s \<noteq> Inl Memory_Access"
  by (induction ob cmd i xs s rule: check_extents.induct) (simp_all add: andthen_eq_Inl)

lemma check_dyld_extents_safe [simp]: "check_dyld_extents ob i xs s \<noteq> Inl Memory_Access"
  by (induction ob i xs s rule: check_dyld_extents.induct) (simp_all add: andthen_eq_Inl)

lemma check_section_safe [simp]: "check_section ob i sg j s sc \<noteq> Inl Memory_Access"
  unfolding check_section_def by (simp add: andthen_eq_Inl)

lemma check_section_64_safe [simp]: "check_section_64 ob i sg64 j s64 sc \<noteq> Inl Memory_Access"
  unfolding check_section_64_def by (simp add: andthen_eq_Inl)

lemma check_sections_safe [simp]:
  "check_sections ob i sg j ss sc \<noteq> Inl Memory_Access"
  "check_sections_64 ob i sg64 j ss64 sc \<noteq> Inl Memory_Access"
  by (induction ss arbitrary: j sc, simp_all add: andthen_eq_Inl)
    (induction ss64 arbitrary: j sc, simp_all add: andthen_eq_Inl)

lemma check_fields_safe [simp]:
  "check_segment ob i sg \<noteq> Inl Memory_Access"
  "check_segment_64 ob i sg64 \<noteq> Inl Memory_Access"
  "check_symtab ob i st sc \<noteq> Inl Memory_Access"
  "check_dysymtab ob i dyst sc \<noteq> Inl Memory_Access"
  "check_dyld_info ob i dc sc \<noteq> Inl Memory_Access"
  "build_version_step ob i bv sc \<noteq> Inl Memory_Access"
  by (simp_all add: check_segment_def check_segment_64_def check_symtab_def check_dysymtab_def
      check_dyld_info_def build_version_step_def Let_def andthen_eq_Inl)

section \<open>A structure and its table\<close>

lemma table_safe:
  assumes "safe_step k (drop base lc1) r" "same_behind base lc lc1" "base + k \<le> length lc"
    "base + k \<le> m" "\<And>x. f x \<noteq> Inl Memory_Access"
  shows "safe_step m lc (andthen r (\<lambda>(ts, rest). andthen (f ts) (\<lambda>sc. Inr (sc, take base lc1 @ rest))))"
proof (rule safe_step_mono [OF _ assms(4)])
  have len: "length lc1 = length lc" using assms(2) by (simp add: same_behind_def)
  have "same_behind (base + k) lc (take base lc1 @ rest)" if "r = Inr (ts, rest)" for ts rest
    using that assms(1,3) len same_behind_splice [of base lc1 k rest]
      same_behind_trans [OF same_behind_mono [OF assms(2), of "base + k"]]
    by (simp add: safe_step_def)
  then show "safe_step (base + k) lc
      (andthen r (\<lambda>(ts, rest). andthen (f ts) (\<lambda>sc. Inr (sc, take base lc1 @ rest))))"
    using assms(1,5) by (cases r) (auto simp: safe_step_def andthen_eq_Inr andthen_eq_Inl)
qed

context endian_struct
begin

lemma counted_safe:
  assumes m: "sz \<le> m" "m \<le> length lc"
    and table: "stored_struct n dec_t enc_t swap_t"
    and pre: "\<And>r. pre r \<noteq> Inl Memory_Access" "\<And>r ts. f r ts \<noteq> Inl Memory_Access"
    and size: "\<And>u. pre (dec (view ob) (take sz lc)) = Inr u \<Longrightarrow>
      sz + count (dec (view ob) (take sz lc)) * n \<le> m"
  shows "safe_step m lc
    (andthen (fetch ob sz dec enc swap lc) (\<lambda>(r, lc1).
     andthen (pre r) (\<lambda>_.
     andthen (fetch_array ob n dec_t enc_t swap_t (count r) (drop sz lc1)) (\<lambda>(ts, rest).
     andthen (f r ts) (\<lambda>sc. Inr (sc, take sz lc1 @ rest))))))"
proof -
  have n: "sz \<le> length lc" using m by simp
  let ?r = "dec (view ob) (take sz lc)"
  obtain lc1 where lc1: "fetch ob sz dec enc swap lc = Inr (?r, lc1)" "same_behind sz lc lc1"
    by (rule fetch_viewE [OF n])
  show ?thesis
  proof (cases "pre ?r")
    case (Inl x)
    then show ?thesis using lc1(1) pre(1) [of ?r] by auto
  next
    case (Inr u)
    have len: "length lc1 = length lc" using lc1(2) by (simp add: same_behind_def)
    have "count ?r * n \<le> length (drop sz lc1)"
      using size [OF Inr] m(2) len by simp
    from table_safe [OF stored_struct.fetch_array_safe [OF table this, of ob] lc1(2), of m "f ?r"]
    show ?thesis using size [OF Inr] m(2) Inr lc1(1) pre(2) by simp
  qed
qed

end

lemma get32_take_4 [simp]: "8 \<le> n \<Longrightarrow> get32 e (take n bs) 4 = get32 e bs 4"
  by (simp add: slice_def drop_take)

lemma segment_size:
  "check_segment ob i (dec_segment_command v (take sizeof_segment_command lc)) = Inr u \<Longrightarrow>
   sizeof_segment_command +
     unat (sg_nsects (dec_segment_command v (take sizeof_segment_command lc))) * sizeof_section =
   unat (get32 v lc 4)"
  by (simp add: check_segment_def dec_segment_command_def sizeof_segment_command_def split: if_splits)

lemma segment_64_size:
  "check_segment_64 ob i (dec_segment_command_64 v (take sizeof_segment_command_64 lc)) = Inr u \<Longrightarrow>
   sizeof_segment_command_64 +
     unat (sg64_nsects (dec_segment_command_64 v (take sizeof_segment_command_64 lc))) * sizeof_section_64 =
   unat (get32 v lc 4)"
  by (simp add: check_segment_64_def dec_segment_command_64_def sizeof_segment_command_64_def
      split: if_splits)

lemma case_counted_safe:
  assumes "unat (lc_cmdsize l) \<le> length lc" "lc_cmdsize l = get32 (view ob) lc 4"
  shows "safe_step (unat (lc_cmdsize l)) lc (case_segment ob i l lc sc)"
    "safe_step (unat (lc_cmdsize l)) lc (case_segment_64 ob i l lc sc)"
    "safe_step (unat (lc_cmdsize l)) lc (case_build_version ob i l lc sc)"
proof -
  show "safe_step (unat (lc_cmdsize l)) lc (case_segment ob i l lc sc)"
    using assms unfolding case_segment_def
    by (auto intro!: segment_command.counted_safe section32.stored_struct_axioms simp: segment_size)
  show "safe_step (unat (lc_cmdsize l)) lc (case_segment_64 ob i l lc sc)"
    using assms unfolding case_segment_64_def
    by (auto intro!: segment_command_64.counted_safe section_64.stored_struct_axioms
        simp: segment_64_size)
  have bv: "lc_cmdsize (dec_build_version_command (view ob) (take sizeof_build_version_command lc)) =
      lc_cmdsize l"
    using assms(2) by (simp add: dec_build_version_command_def sizeof_build_version_command_def)
  show "safe_step (unat (lc_cmdsize l)) lc (case_build_version ob i l lc sc)"
    using assms(1) bv unfolding case_build_version_def Let_def
    by (auto intro!: build_version_command.counted_safe build_tool_version.stored_struct_axioms
        split: if_splits)
qed

section \<open>The single structures\<close>

lemma case_struct_safe:
  assumes "unat (lc_cmdsize l) \<le> length lc"
  shows "safe_step (unat (lc_cmdsize l)) lc (case_symtab ob i l lc sc)"
    "safe_step (unat (lc_cmdsize l)) lc (case_dysymtab ob i l lc sc)"
    "safe_step (unat (lc_cmdsize l)) lc (case_symseg ob i l lc sc)"
    "safe_step (unat (lc_cmdsize l)) lc (case_routines ob i l lc sc)"
    "safe_step (unat (lc_cmdsize l)) lc (case_routines_64 ob i l lc sc)"
    "safe_step (unat (lc_cmdsize l)) lc (case_twolevel_hints ob i l lc sc)"
    "safe_step (unat (lc_cmdsize l)) lc (case_linkedit_data name ob i l lc sc)"
    "safe_step (unat (lc_cmdsize l)) lc (case_dyld_info ob i l lc sc)"
    "safe_step (unat (lc_cmdsize l)) lc (case_encryption_info ob i l lc sc)"
    "safe_step (unat (lc_cmdsize l)) lc (case_encryption_info_64 ob i l lc sc)"
    "safe_step (unat (lc_cmdsize l)) lc (case_note ob i l lc sc)"
    "safe_step (unat (lc_cmdsize l)) lc (case_version_min_macosx ob i l lc sc)"
    "safe_step (unat (lc_cmdsize l)) lc (case_version_min ob i l lc sc)"
    "safe_step (unat (lc_cmdsize l)) lc (case_prebind_cksum ob i l lc sc)"
    "safe_step (unat (lc_cmdsize l)) lc (case_uuid ob i l lc sc)"
  unfolding case_symtab_def case_dysymtab_def case_symseg_def case_routines_def case_routines_64_def
    case_twolevel_hints_def case_linkedit_data_def case_dyld_info_def case_encryption_info_def
    case_encryption_info_64_def case_note_def case_version_min_macosx_def case_version_min_def
    case_prebind_cksum_def case_uuid_def
  using assms by (simp_all add: symtab_command.with_struct_safe dysymtab_command.with_struct_safe
      symseg_command.with_struct_safe routines_command.with_struct_safe
      routines_command_64.with_struct_safe twolevel_hints_command.with_struct_safe
      linkedit_data_command.with_struct_safe dyld_info_command.with_struct_safe
      encryption_info_command.with_struct_safe encryption_info_command_64.with_struct_safe
      note_command.with_struct_safe version_min_command.with_struct_safe
      prebind_cksum_command.with_struct_safe uuid_command.with_struct_safe)

lemma case_string_safe:
  assumes "unat (lc_cmdsize l) \<le> length lc"
  shows "safe_step (unat (lc_cmdsize l)) lc (case_fvmlib ob i l lc sc)"
    "safe_step (unat (lc_cmdsize l)) lc (case_dylib ob i l lc sc)"
    "safe_step (unat (lc_cmdsize l)) lc (case_sub_framework ob i l lc sc)"
    "safe_step (unat (lc_cmdsize l)) lc (case_sub_umbrella ob i l lc sc)"
    "safe_step (unat (lc_cmdsize l)) lc (case_sub_library ob i l lc sc)"
    "safe_step (unat (lc_cmdsize l)) lc (case_sub_client ob i l lc sc)"
    "safe_step (unat (lc_cmdsize l)) lc (case_prebound_dylib ob i l lc sc)"
    "safe_step (unat (lc_cmdsize l)) lc (case_dylinker ob i l lc sc)"
    "safe_step (unat (lc_cmdsize l)) lc (case_rpath ob i l lc sc)"
    "safe_step (unat (lc_cmdsize l)) lc (case_fileset_entry ob i l lc sc)"
    "safe_step (unat (lc_cmdsize l)) lc (case_linker_option ob i l lc sc)"
    "safe_step (unat (lc_cmdsize l)) lc (case_main ob i l lc sc)"
    "safe_step (unat (lc_cmdsize l)) lc (case_source_version ob i l lc sc)"
    "safe_step (unat (lc_cmdsize l)) lc (case_ident ob i l lc sc)"
  unfolding case_fvmlib_def case_dylib_def case_sub_framework_def case_sub_umbrella_def
    case_sub_library_def case_sub_client_def case_prebound_dylib_def case_dylinker_def case_rpath_def
    case_fileset_entry_def case_linker_option_def case_main_def case_source_version_def case_ident_def
  using assms by (simp_all add: fvmlib_command.with_struct_safe dylib_command.with_struct_safe
      sub_framework_command.with_struct_safe sub_umbrella_command.with_struct_safe
      sub_library_command.with_struct_safe sub_client_command.with_struct_safe
      prebound_dylib_command.with_struct_safe dylinker_command.with_struct_safe
      rpath_command.with_struct_safe fileset_entry_command.with_struct_safe
      linker_option_command.with_struct_safe entry_point_command.with_struct_safe
      source_version_command.with_struct_safe ident_command.with_struct_safe)

section \<open>Thread states\<close>

interpretation word_at: endian_struct 4 "\<lambda>e bs. get32 e bs 0" "\<lambda>e w. put32 e w" "\<lambda>_. True" SWAP_INT
  by unfold_locales
    (simp_all add: slice_all of_bytes_to_bytes to_bytes_of_bytes swap32.SWAP_of_bytes)

lemma fetch_word_safe:
  assumes "state + 4 \<le> length lc"
  obtains w lc1 where "fetch_word ob state lc = Inr (w, lc1)" "same_behind (state + 4) lc lc1"
    "w = get32 (view ob) lc state"
proof -
  have n: "4 \<le> length (drop state lc)" using assms by simp
  obtain rest where "fetch ob 4 (\<lambda>e bs. get32 e bs 0) (\<lambda>e w. put32 e w) SWAP_INT (drop state lc) =
      Inr (get32 (view ob) (take 4 (drop state lc)) 0, rest)" "same_behind 4 (drop state lc) rest"
    by (rule word_at.fetch_viewE [OF n])
  then show ?thesis
    using that [of "get32 (view ob) lc state" "take state lc @ rest"] assms
      same_behind_splice [of state lc 4 rest]
    by (simp add: fetch_word_def slice_def)
qed

lemma swap_state_safe:
  assumes "bits_ok bits" "state + layout_size fs \<le> length lc"
  obtains lc1 where "swap_state ob bits fs state lc = Inr lc1"
    "same_behind (state + layout_size fs) lc lc1"
proof (cases "ob_swapped ob")
  case True
  let ?new = "take state lc @ swap_layout (ob_host ob) bits fs (slice state (layout_size fs) lc) @
    drop (state + layout_size fs) lc"
  have "length (swap_layout (ob_host ob) bits fs (slice state (layout_size fs) lc)) = layout_size fs"
    using assms by (simp add: length_swap_layout length_slice)
  with True assms(2) show ?thesis
    by (intro that [of ?new]) (simp_all add: swap_state_def same_behind_def)
qed (use that in \<open>simp add: swap_state_def\<close>)

lemma thread_walk_safe:
  assumes "bits_ok bits" "p \<le> length lc"
  shows "thread_walk ob bits tab i cmd nflavor state p lc \<noteq> Inl Memory_Access \<and>
    (\<forall>lc'. thread_walk ob bits tab i cmd nflavor state p lc = Inr lc' \<longrightarrow> same_behind p lc lc')"
  using assms
proof (induction ob bits tab i cmd nflavor state p lc rule: thread_walk.induct)
  case (1 ob bits tab i cmd nflavor state p lc)
  show ?case
  proof (cases "state < p \<and> state + 8 \<le> p")
    case False
    moreover have "state + 4 \<le> p \<Longrightarrow> fetch_word ob state lc \<noteq> Inl Memory_Access"
      using fetch_word_safe [of state lc ob] "1.prems" by (metis Inl_Inr_False le_trans)
    ultimately show ?thesis
      using "1.prems" by (subst (1 2) thread_walk.simps) (auto split: sum.splits)
  next
    case True
    then have "state + 4 \<le> length lc" using "1.prems" by simp
    then obtain flavor lc1 where f: "fetch_word ob state lc = Inr (flavor, lc1)"
      and s1: "same_behind (state + 4) lc lc1" by (rule fetch_word_safe)
    have "state + 4 + 4 \<le> length lc1" using True "1.prems" s1 by (simp add: same_behind_def)
    then obtain count lc2 where c: "fetch_word ob (state + 4) lc1 = Inr (count, lc2)"
      and s2: "same_behind (state + 4 + 4) lc1 lc2" by (rule fetch_word_safe)
    have s: "same_behind p lc lc2"
      using same_behind_trans [OF same_behind_mono [OF s1] same_behind_mono [OF s2]] True by simp
    then have len: "length lc2 = length lc" by (simp add: same_behind_def)
    have next_safe: "?thesis"
      if "thread_walk ob bits tab i cmd nflavor state p lc = thread_walk ob bits tab i cmd nf st p lc3"
        "same_behind p lc2 lc3"
        "p \<le> length lc3 \<Longrightarrow> thread_walk ob bits tab i cmd nf st p lc3 \<noteq> Inl Memory_Access \<and>
          (\<forall>lc'. thread_walk ob bits tab i cmd nf st p lc3 = Inr lc' \<longrightarrow> same_behind p lc3 lc')" for nf st lc3
      using that "1.prems"(2) len same_behind_trans [OF s that(2)]
      by (auto simp: same_behind_def)
    note eq = thread_walk.simps [of ob bits tab i cmd nflavor state p lc]
    consider (known) fs where "map_of tab flavor = Some (Known fs)"
      | (skipped) "map_of tab flavor = Some Skipped" | (unknown) "map_of tab flavor = None"
      by (cases "map_of tab flavor") (auto elim: flavor_rule.exhaust)
    then show ?thesis
    proof cases
      case known
      show ?thesis
      proof (cases "unat count \<noteq> layout_size fs div 4 \<or> state + 8 + layout_size fs > p")
        case False
        then have "state + 8 + layout_size fs \<le> length lc2" using "1.prems" len by simp
        then obtain lc3 where "swap_state ob bits fs (state + 8) lc2 = Inr lc3"
          "same_behind (state + 8 + layout_size fs) lc2 lc3"
          by (rule swap_state_safe [OF "1.prems"(1)])
        with False known True f c "1.IH"(2) [OF _ _ f _ _ c _ known] "1.prems"(1) show ?thesis
          by (intro next_safe) (auto simp: eq intro: same_behind_mono)
      qed (use known True f c in \<open>auto simp: eq\<close>)
    next
      case skipped
      with True f c "1.IH"(3) [OF _ _ f _ _ c _ skipped] "1.prems"(1) show ?thesis
        by (intro next_safe [of _ _ lc2]) (auto simp: eq)
    next
      case unknown
      show ?thesis
      proof (cases "ob_swapped ob")
        case False
        with unknown True f c "1.IH"(1) [OF _ _ f _ _ c _ unknown] "1.prems"(1) show ?thesis
          by (intro next_safe [of _ _ lc2]) (auto simp: eq)
      qed (use unknown True f c in \<open>auto simp: eq\<close>)
    qed
  qed
qed

lemma case_thread_safe:
  assumes "bits_ok bits" "unat (lc_cmdsize l) \<le> length lc" "lc_cmdsize l = get32 (view ob) lc 4"
  shows "safe_step (unat (lc_cmdsize l)) lc (case_thread bits ob i l lc sc)"
proof (cases "unat (lc_cmdsize l) < sizeof_thread_command")
  case False
  then have n: "sizeof_thread_command \<le> length lc" using assms(2) by simp
  let ?ut = "dec_thread_command (view ob) (take sizeof_thread_command lc)"
  obtain lc1 where lc1: "fetch ob sizeof_thread_command dec_thread_command enc_thread_command
      swap_thread_command lc = Inr (?ut, lc1)" "same_behind sizeof_thread_command lc lc1"
    by (rule thread_command.fetch_viewE [OF n])
  have ut: "lc_cmdsize ?ut = lc_cmdsize l"
    using assms(3) by (simp add: dec_thread_command_def sizeof_thread_command_def)
  have s1: "same_behind (unat (lc_cmdsize l)) lc lc1"
    using same_behind_mono [OF lc1(2)] False by simp
  then have "unat (lc_cmdsize l) \<le> length lc1" using assms(2) by (simp add: same_behind_def)
  note walk = thread_walk_safe [OF assms(1) this]
  show ?thesis
  proof (cases "thread_rules (ob_cputype ob)")
    case (Some tab)
    then show ?thesis
      using False lc1(1) ut walk [of ob tab i "lc_cmd ?ut" 0 sizeof_thread_command]
        same_behind_trans [OF s1]
      by (cases "thread_walk ob bits tab i (lc_cmd ?ut) 0 sizeof_thread_command
            (unat (lc_cmdsize l)) lc1") (auto simp: case_thread_def)
  qed (use False lc1(1) s1 in \<open>simp add: case_thread_def\<close>)
qed (simp add: case_thread_def)

section \<open>The pass\<close>

lemma safe_if: "safe_step k lc a \<Longrightarrow> safe_step k lc b \<Longrightarrow> safe_step k lc (if P then a else b)"
  by simp

lemma safe_option:
  "safe_step k lc a \<Longrightarrow> (\<And>x. safe_step k lc (f x)) \<Longrightarrow> safe_step k lc (case m of None \<Rightarrow> a | Some x \<Rightarrow> f x)"
  by (cases m) auto

lemma safe_unknown: "safe_step k lc (Inl (Unknown_Load_Command i))"
  by simp

lemma switch_command_safe:
  assumes "bits_ok bits" "unat (lc_cmdsize l) \<le> length lc" "lc_cmdsize l = get32 (view ob) lc 4"
  shows "safe_step (unat (lc_cmdsize l)) lc (switch_command bits ob i l lc sc)"
  unfolding switch_command_def switch_libraries_def switch_linkedit_def
  by (intro safe_if safe_option safe_unknown case_thread_safe [OF assms] case_counted_safe [OF assms(2,3)]
      case_struct_safe [OF assms(2)] case_string_safe [OF assms(2)])

lemma load_command_at_view:
  "sizeof_load_command \<le> length lc \<Longrightarrow>
   load_command_at ob lc = Inr (dec_load_command (view ob) (take sizeof_load_command lc))"
  by (simp add: load_command_at_def Let_def view_def load_command.swap_dec)

text \<open>The first two fields of the command at the start of the memory, in the byte order of the object.\<close>

abbreviation head :: "object \<Rightarrow> bytes \<Rightarrow> load_command" where
  "head ob lc \<equiv> dec_load_command (view ob) (take sizeof_load_command lc)"

lemma head_cmdsize: "lc_cmdsize (head ob lc) = get32 (view ob) lc 4"
  by (simp add: dec_load_command_def sizeof_load_command_def)

lemma scan_commands_safe:
  assumes "bits_ok bits" "left \<le> length lc"
  shows "scan_commands bits ob n i lc left sc \<noteq> Inl Memory_Access \<and>
    (\<forall>sc' lc' left'. scan_commands bits ob n i lc left sc = Inr (sc', lc', left') \<longrightarrow>
      same_behind left lc lc')"
  using assms(2)
proof (induction n arbitrary: i lc left sc)
  case 0
  then show ?case by simp
next
  case (Suc n)
  show ?case
  proof (cases "left < sizeof_load_command \<or> left < unat (lc_cmdsize (head ob lc))")
    case True
    then show ?thesis
      using Suc.prems load_command_at_view [of lc ob] by (auto simp: Let_def)
  next
    case False
    let ?k = "unat (lc_cmdsize (head ob lc))"
    have at: "load_command_at ob lc = Inr (head ob lc)"
      using False Suc.prems by (intro load_command_at_view) simp
    have k: "?k \<le> left" "?k \<le> length lc" using False Suc.prems by auto
    note sw = switch_command_safe [OF assms(1) k(2) head_cmdsize, of i sc]
    show ?thesis
    proof (cases "switch_command bits ob i (head ob lc) lc sc")
      case (Inl x)
      with sw at False show ?thesis by (auto simp: safe_step_def)
    next
      case (Inr y)
      then obtain sc1 lc1 where y: "switch_command bits ob i (head ob lc) lc sc = Inr (sc1, lc1)"
        and s1: "same_behind ?k lc lc1" using sw by (cases y) (auto simp: safe_step_def)
      have len: "length lc1 = length lc" using s1 by (simp add: same_behind_def)
      have IH: "scan_commands bits ob n (i + 1) (drop ?k lc1) (left - ?k) sc1 \<noteq> Inl Memory_Access"
        "scan_commands bits ob n (i + 1) (drop ?k lc1) (left - ?k) sc1 = Inr (sc', rest, left') \<Longrightarrow>
           same_behind (left - ?k) (drop ?k lc1) rest" for sc' rest left'
        using Suc.IH [of "left - ?k" "drop ?k lc1" "i + 1" sc1] Suc.prems len by auto
      have "same_behind left lc (take ?k lc1 @ rest)"
        if "same_behind (left - ?k) (drop ?k lc1) rest" for rest
        using same_behind_trans [OF same_behind_mono [OF s1 k(1)]] k len
          same_behind_splice [OF _ that] by simp
      with y at False IH show ?thesis by (auto simp: andthen_eq_Inr andthen_eq_Inl)
    qed
  qed
qed

lemma check_symbol_range_safe [simp]: "check_symbol_range f i n m \<noteq> Inl Memory_Access"
  by (simp add: check_symbol_range_def)

lemma check_tables_safe [simp]: "check_tables sc \<noteq> Inl Memory_Access"
  by (simp add: check_tables_def andthen_eq_Inl split: option.split)

lemma check_load_commands_safe:
  assumes "bits_ok bits" "unat sizeofcmds \<le> length lc"
  shows "check_load_commands bits fc ob ncmds sizeofcmds lc \<noteq> Inl Memory_Access"
  using scan_commands_safe [OF assms]
  by (auto simp: check_load_commands_def andthen_eq_Inl split: if_splits)

lemma check_load_commandsE:
  assumes "check_load_commands bits fc ob ncmds sizeofcmds lc = Inr (sc, lc')"
  obtains sc0 where "add_element 0 (ob_sizeofhdrs ob) ''Mach-O headers'' no_scan = Inr sc0"
    "fc = None \<or> fc = Some (ob_cputype ob)"
    "scan_commands bits ob (unat ncmds) 0 lc (unat sizeofcmds) sc0 = Inr (sc, lc', 0)"
    "check_tables sc = Inr ()"
  using assms that
  by (auto simp: check_load_commands_def andthen_eq_Inr split: if_splits)

section \<open>The routine\<close>

abbreviation sizeof_header :: "bool \<Rightarrow> nat" where
  "sizeof_header is64 \<equiv> (if is64 then sizeof_mach_header_64 else sizeof_mach_header)"

definition mach_object :: "endian \<Rightarrow> bool \<Rightarrow> bool \<Rightarrow> u32 \<Rightarrow> bytes \<Rightarrow> object" where
  "mach_object e swapped is64 sz hdr =
     (let mh = dec_mach_header (if swapped then opp e else e) hdr in
      \<lparr>ob_host = e, ob_swapped = swapped, ob_is64 = is64, ob_size = sz,
       ob_sizeofhdrs = mh_sizeofcmds mh + of_nat (sizeof_header is64),
       ob_cputype = mh_cputype mh, ob_filetype = mh_filetype mh, ob_flags = mh_flags mh\<rparr>)"

text \<open>Both headers begin with the same fields, so one decoding describes the routine for both.\<close>

lemma check_Mach_O_eq:
  fixes e :: endian and swapped is64 :: bool and hdr :: bytes
  assumes "sizeof_header is64 \<le> length hdr"
  defines "mh \<equiv> dec_mach_header (if swapped then opp e else e) hdr"
  obtains hdr' where "length hdr' = length hdr"
    "drop (sizeof_header is64) hdr' = drop (sizeof_header is64) hdr"
    "check_Mach_O e bits swapped is64 fc sz hdr lc =
       (if unat (mh_sizeofcmds mh) + sizeof_header is64 > unat sz then Inl Headers_Past_End
        else
          andthen (check_load_commands bits fc (mach_object e swapped is64 sz hdr) (mh_ncmds mh)
            (mh_sizeofcmds mh) lc) (\<lambda>(sc, lc'). Inr (sc, hdr', lc')))"
proof -
  let ?ob = "\<lparr>ob_host = e, ob_swapped = swapped, ob_is64 = is64, ob_size = sz,
    ob_sizeofhdrs = 0, ob_cputype = 0, ob_filetype = 0, ob_flags = 0\<rparr>"
  show ?thesis
  proof (cases is64)
    case True
    then have n: "sizeof_mach_header_64 \<le> length hdr" using assms(1) by simp
    obtain hdr' where h: "fetch ?ob sizeof_mach_header_64 dec_mach_header_64 enc_mach_header_64
        swap_mach_header_64 hdr = Inr (dec_mach_header_64 (view ?ob) (take sizeof_mach_header_64 hdr), hdr')"
      "same_behind sizeof_mach_header_64 hdr hdr'"
      by (rule mach_header_64.fetch_viewE [OF n])
    show ?thesis
      using that [of hdr'] h True
      by (simp add: check_Mach_O_def view_def mh_def mach_object_def Let_def same_behind_def
          dec_mach_header_def dec_mach_header_64_def sizeof_mach_header_64_def get32_take cong: if_cong)
  next
    case False
    then have n: "sizeof_mach_header \<le> length hdr" using assms(1) by simp
    obtain hdr' where h: "fetch ?ob sizeof_mach_header dec_mach_header enc_mach_header
        swap_mach_header hdr = Inr (dec_mach_header (view ?ob) (take sizeof_mach_header hdr), hdr')"
      "same_behind sizeof_mach_header hdr hdr'"
      by (rule mach_header.fetch_viewE [OF n])
    show ?thesis
      using that [of hdr'] h False
      by (simp add: check_Mach_O_def view_def mh_def mach_object_def Let_def same_behind_def
          dec_mach_header_def sizeof_mach_header_def get32_take cong: if_cong)
  qed
qed

section \<open>An object\<close>

text \<open>A big endian PowerPC object with a symbol table of one symbol, its strings and function starts.\<close>

definition example_header :: bytes where
  "example_header = enc_mach_header BE \<lparr>mh_magic = MH_MAGIC, mh_cputype = CPU_TYPE_POWERPC,
     mh_cpusubtype = 0, mh_filetype = MH_OBJECT, mh_ncmds = 2, mh_sizeofcmds = 40, mh_flags = 0\<rparr>"

definition example_commands :: bytes where
  "example_commands =
     enc_symtab_command BE \<lparr>lc_cmd = LC_SYMTAB, lc_cmdsize = 24, st_symoff = 68, st_nsyms = 1,
       st_stroff = 80, st_strsize = 4\<rparr> @
     enc_linkedit_data_command BE \<lparr>lc_cmd = LC_FUNCTION_STARTS, lc_cmdsize = 16, ld_dataoff = 84,
       ld_datasize = 4\<rparr> @
     replicate 20 0"

abbreviation keep_bits :: bit_swap where
  "keep_bits \<equiv> \<lambda>_ bs. bs"

lemma keep_bits_ok: "bits_ok keep_bits"
  by (simp add: bits_ok_def)

lemma length_example: "length example_header = 28" "length example_commands = 60"
  by code_simp+

lemma example_accepted:
  obtains sc hdr' lc' where
    "check_Mach_O LE keep_bits True False None 88 example_header example_commands = Inr (sc, hdr', lc')"
    "sc_messages sc = []"
proof -
  have "case check_Mach_O LE keep_bits True False None 88 example_header example_commands of
      Inl x \<Rightarrow> False | Inr (sc, hdr', lc') \<Rightarrow> sc_messages sc = []"
    by code_simp
  then show ?thesis using that by (auto split: sum.splits)
qed



end
