(* ===== verification/CheckMachO_View.thy ===== *)
theory CheckMachO_View
  imports CheckMachO_Safe
begin

text \<open>
  What \<open>check_Mach_O\<close> says of an object does not depend on the host: an object of the other byte order,
  which the routine swaps as it goes, gets the verdict that a host of the byte order of the object
  gives it, with the same message. The only exception are thread states the routine cannot swap.
\<close>

section \<open>The same object on a host of its own byte order\<close>

definition native :: "object \<Rightarrow> object" where
  "native ob = ob\<lparr>ob_host := view ob, ob_swapped := False\<rparr>"

lemma native_simps [simp]:
  "view (native ob) = view ob" "ob_is64 (native ob) = ob_is64 ob" "ob_size (native ob) = ob_size ob"
  "ob_sizeofhdrs (native ob) = ob_sizeofhdrs ob" "ob_cputype (native ob) = ob_cputype ob"
  "ob_filetype (native ob) = ob_filetype ob" "ob_flags (native ob) = ob_flags ob"
  "ob_swapped (native ob) = False" "ob_host (native ob) = view ob"
  by (simp_all add: native_def view_def)

lemma andthen_cong: "r = r' \<Longrightarrow> (\<And>x. r' = Inr x \<Longrightarrow> f x = f' x) \<Longrightarrow> andthen r f = andthen r' f'"
  by (cases r') auto

lemma checks_native [simp]:
  "check_extent (native ob) = check_extent ob"
  "check_dyld_extent (native ob) = check_dyld_extent ob"
  "file_contents (native ob) = file_contents ob"
  "sim_support (native ob) = sim_support ob"
  "core_thread (native ob) = core_thread ob"
  by ((intro ext)?, simp only: check_extent_def check_dyld_extent_def file_contents_def sim_support_def
      core_thread_def native_simps)+

lemma check_extents_native [simp]: "check_extents (native ob) = check_extents ob"
proof (intro ext)
  show "check_extents (native ob) cmd i xs s = check_extents ob cmd i xs s" for cmd i xs s
    by (induction ob cmd i xs s rule: check_extents.induct) (auto split: sum.split intro: andthen_cong)
qed

lemma check_dyld_extents_native [simp]: "check_dyld_extents (native ob) = check_dyld_extents ob"
proof (intro ext)
  show "check_dyld_extents (native ob) i xs s = check_dyld_extents ob i xs s" for i xs s
    by (induction ob i xs s rule: check_dyld_extents.induct) (auto intro: andthen_cong)
qed

lemma check_section_native [simp]:
  "check_section (native ob) = check_section ob"
  "check_section_64 (native ob) = check_section_64 ob"
  by (intro ext, simp only: check_section_def check_section_64_def native_simps checks_native)+

lemma check_sections_native [simp]:
  "check_sections (native ob) i sg j ss = check_sections ob i sg j ss"
  by (induction ss arbitrary: j) (rule ext, simp)+

lemma check_sections_64_native [simp]:
  "check_sections_64 (native ob) i sg64 j ss = check_sections_64 ob i sg64 j ss"
  by (induction ss arbitrary: j) (rule ext, simp)+

lemma check_fields_native [simp]:
  "check_segment (native ob) = check_segment ob"
  "check_segment_64 (native ob) = check_segment_64 ob"
  "check_symtab (native ob) = check_symtab ob"
  "check_dysymtab (native ob) = check_dysymtab ob"
  "check_dyld_info (native ob) = check_dyld_info ob"
  "build_version_step (native ob) = build_version_step ob"
  by (intro ext, simp only: check_segment_def check_segment_64_def check_symtab_def
      check_dysymtab_def check_dyld_info_def build_version_step_def build_version_messages_def
      native_simps checks_native check_extents_native check_dyld_extents_native)+

section \<open>Single structures\<close>

context viewed_struct
begin

lemma with_struct_native:
  assumes "n \<le> length lc" "\<And>r r'. obs r = obs r' \<Longrightarrow> checks r = checks r'"
  shows "verdict (with_struct ob n dec_s enc_s swap_s checks lc) =
    verdict (with_struct (native ob) n dec_s enc_s swap_s checks lc)"
  by (simp add: with_struct_verdict [OF assms])

end

lemmas struct_verdicts = symtab_command.with_struct_verdict dysymtab_command.with_struct_verdict
  symseg_command.with_struct_verdict routines_command.with_struct_verdict
  routines_command_64.with_struct_verdict twolevel_hints_command.with_struct_verdict
  linkedit_data_command.with_struct_verdict dyld_info_command.with_struct_verdict
  encryption_info_command.with_struct_verdict note_command.with_struct_verdict
  prebind_cksum_command.with_struct_verdict uuid_command.with_struct_verdict

lemmas string_verdicts = fvmlib_command.with_struct_verdict dylib_command.with_struct_verdict
  sub_framework_command.with_struct_verdict sub_umbrella_command.with_struct_verdict
  sub_library_command.with_struct_verdict sub_client_command.with_struct_verdict
  prebound_dylib_command.with_struct_verdict dylinker_command.with_struct_verdict
  rpath_command.with_struct_verdict fileset_entry_command.with_struct_verdict
  linker_option_command.with_struct_verdict entry_point_command.with_struct_verdict
  source_version_command.with_struct_verdict ident_command.with_struct_verdict

lemmas case_struct_defs = case_symtab_def case_dysymtab_def case_symseg_def case_routines_def
  case_routines_64_def case_twolevel_hints_def case_linkedit_data_def case_dyld_info_def
  case_encryption_info_def case_note_def case_prebind_cksum_def case_uuid_def

lemmas case_string_defs = case_fvmlib_def case_dylib_def case_sub_framework_def
  case_sub_umbrella_def case_sub_library_def case_sub_client_def case_prebound_dylib_def
  case_dylinker_def case_rpath_def case_fileset_entry_def case_linker_option_def case_main_def
  case_source_version_def case_ident_def

lemma case_struct_native:
  assumes "unat (lc_cmdsize l) \<le> length lc"
  shows "verdict (case_symtab ob i l lc sc) = verdict (case_symtab (native ob) i l lc sc)"
    "verdict (case_dysymtab ob i l lc sc) = verdict (case_dysymtab (native ob) i l lc sc)"
    "verdict (case_symseg ob i l lc sc) = verdict (case_symseg (native ob) i l lc sc)"
    "verdict (case_routines ob i l lc sc) = verdict (case_routines (native ob) i l lc sc)"
    "verdict (case_routines_64 ob i l lc sc) = verdict (case_routines_64 (native ob) i l lc sc)"
    "verdict (case_twolevel_hints ob i l lc sc) = verdict (case_twolevel_hints (native ob) i l lc sc)"
    "verdict (case_linkedit_data name ob i l lc sc) =
       verdict (case_linkedit_data name (native ob) i l lc sc)"
    "verdict (case_dyld_info ob i l lc sc) = verdict (case_dyld_info (native ob) i l lc sc)"
    "verdict (case_encryption_info ob i l lc sc) =
       verdict (case_encryption_info (native ob) i l lc sc)"
    "verdict (case_note ob i l lc sc) = verdict (case_note (native ob) i l lc sc)"
    "verdict (case_prebind_cksum ob i l lc sc) = verdict (case_prebind_cksum (native ob) i l lc sc)"
    "verdict (case_uuid ob i l lc sc) = verdict (case_uuid (native ob) i l lc sc)"
  using assms by (simp_all add: case_struct_defs struct_verdicts cong: if_cong)

lemma case_string_native:
  assumes "unat (lc_cmdsize l) \<le> length lc"
  shows "verdict (case_fvmlib ob i l lc sc) = verdict (case_fvmlib (native ob) i l lc sc)"
    "verdict (case_dylib ob i l lc sc) = verdict (case_dylib (native ob) i l lc sc)"
    "verdict (case_sub_framework ob i l lc sc) = verdict (case_sub_framework (native ob) i l lc sc)"
    "verdict (case_sub_umbrella ob i l lc sc) = verdict (case_sub_umbrella (native ob) i l lc sc)"
    "verdict (case_sub_library ob i l lc sc) = verdict (case_sub_library (native ob) i l lc sc)"
    "verdict (case_sub_client ob i l lc sc) = verdict (case_sub_client (native ob) i l lc sc)"
    "verdict (case_prebound_dylib ob i l lc sc) = verdict (case_prebound_dylib (native ob) i l lc sc)"
    "verdict (case_dylinker ob i l lc sc) = verdict (case_dylinker (native ob) i l lc sc)"
    "verdict (case_rpath ob i l lc sc) = verdict (case_rpath (native ob) i l lc sc)"
    "verdict (case_fileset_entry ob i l lc sc) = verdict (case_fileset_entry (native ob) i l lc sc)"
    "verdict (case_linker_option ob i l lc sc) = verdict (case_linker_option (native ob) i l lc sc)"
    "verdict (case_main ob i l lc sc) = verdict (case_main (native ob) i l lc sc)"
    "verdict (case_source_version ob i l lc sc) = verdict (case_source_version (native ob) i l lc sc)"
    "verdict (case_ident ob i l lc sc) = verdict (case_ident (native ob) i l lc sc)"
  using assms by (simp_all add: case_string_defs string_verdicts cong: if_cong)

text \<open>The structures whose swap routine misses a field: the checks do not read it.\<close>

lemma version_min_same:
  "v\<lparr>vc_sdk := 0\<rparr> = v'\<lparr>vc_sdk := 0\<rparr> \<Longrightarrow> lc_cmd v = lc_cmd v' \<and> lc_cmdsize v = lc_cmdsize v'"
  by (cases v; cases v') simp

lemma encryption_64_same:
  "c\<lparr>ec64_cryptid := 0, ec64_pad := 0\<rparr> = c'\<lparr>ec64_cryptid := 0, ec64_pad := 0\<rparr> \<Longrightarrow>
   lc_cmdsize c = lc_cmdsize c' \<and> ec64_cryptoff c = ec64_cryptoff c' \<and> ec64_cryptsize c = ec64_cryptsize c'"
  by (cases c; cases c') simp

lemma case_missing_native:
  assumes "unat (lc_cmdsize l) \<le> length lc"
  shows "verdict (case_version_min_macosx ob i l lc sc) =
      verdict (case_version_min_macosx (native ob) i l lc sc)"
    "verdict (case_version_min ob i l lc sc) = verdict (case_version_min (native ob) i l lc sc)"
    "verdict (case_encryption_info_64 ob i l lc sc) =
      verdict (case_encryption_info_64 (native ob) i l lc sc)"
  using assms unfolding case_version_min_macosx_def case_version_min_def case_encryption_info_64_def
    native_simps
  by (auto intro!: version_min_command.with_struct_native encryption_info_command_64.with_struct_native
      dest: version_min_same encryption_64_same)

section \<open>Structures with a table\<close>

context endian_struct
begin

lemma counted_verdict:
  assumes m: "sz \<le> m" "m \<le> length lc"
    and table: "viewed_struct n dec_t enc_t swap_t obs_t"
    and f: "\<And>r ts ts'. map obs_t ts = map obs_t ts' \<Longrightarrow> f r ts = f r ts'"
    and size: "\<And>u. pre (dec (view ob) (take sz lc)) = Inr u \<Longrightarrow>
      sz + count (dec (view ob) (take sz lc)) * n \<le> m"
  shows "verdict
    (andthen (fetch ob sz dec enc swap lc) (\<lambda>(r, lc1).
     andthen (pre r) (\<lambda>_.
     andthen (fetch_array ob n dec_t enc_t swap_t (count r) (drop sz lc1)) (\<lambda>(ts, rest).
     andthen (f r ts) (\<lambda>sc. Inr (sc, take sz lc1 @ rest)))))) =
    andthen (pre (dec (view ob) (take sz lc))) (\<lambda>_.
      f (dec (view ob) (take sz lc))
        (map (\<lambda>j. dec_t (view ob) (slice (sz + j * n) n lc))
          [0..<count (dec (view ob) (take sz lc))]))"
proof -
  have n: "sz \<le> length lc" using m by simp
  let ?r = "dec (view ob) (take sz lc)"
  obtain lc1 where lc1: "fetch ob sz dec enc swap lc = Inr (?r, lc1)" "same_behind sz lc lc1"
    by (rule fetch_viewE [OF n])
  show ?thesis
  proof (cases "pre ?r")
    case (Inl x)
    then show ?thesis using lc1(1) by simp
  next
    case (Inr u)
    have d: "drop sz lc1 = drop sz lc" using lc1(2) by (simp add: same_behind_def)
    have "count ?r * n \<le> length (drop sz lc)" using size [OF Inr] m(2) by simp
    then obtain ts rest where ts:
      "fetch_array ob n dec_t enc_t swap_t (count ?r) (drop sz lc) = Inr (ts, rest)"
      "map obs_t ts = map (\<lambda>j. obs_t (dec_t (view ob) (slice (j * n) n (drop sz lc)))) [0..<count ?r]"
      by (rule viewed_struct.fetch_array_obsE [OF table])
    then have "f ?r ts = f ?r (map (\<lambda>j. dec_t (view ob) (slice (sz + j * n) n lc)) [0..<count ?r])"
      by (intro f) (simp add: slice_def comp_def add.commute)
    then show ?thesis
      using Inr lc1(1) d ts(1)
      by (cases "f ?r (map (\<lambda>j. dec_t (view ob) (slice (sz + j * n) n lc)) [0..<count ?r])") simp_all
  qed
qed

end

lemma section_64_same:
  "s\<lparr>s64_reserved3 := 0\<rparr> = s'\<lparr>s64_reserved3 := 0\<rparr> \<Longrightarrow>
   check_section_64 ob i sg j s sc = check_section_64 ob i sg j s' sc"
  by (cases s; cases s') (simp add: check_section_64_def cong: if_cong)

lemma sections_64_same:
  "map (\<lambda>s. s\<lparr>s64_reserved3 := 0\<rparr>) ss = map (\<lambda>s. s\<lparr>s64_reserved3 := 0\<rparr>) ss' \<Longrightarrow>
   check_sections_64 ob i sg j ss sc = check_sections_64 ob i sg j ss' sc"
proof (induction ss arbitrary: ss' j sc)
  case (Cons s ss)
  then obtain s' ss'' where "ss' = s' # ss''" "s\<lparr>s64_reserved3 := 0\<rparr> = s'\<lparr>s64_reserved3 := 0\<rparr>"
    "map (\<lambda>s. s\<lparr>s64_reserved3 := 0\<rparr>) ss = map (\<lambda>s. s\<lparr>s64_reserved3 := 0\<rparr>) ss''"
    by (cases ss') auto
  with Cons.IH section_64_same show ?case
    by (cases "check_section_64 ob i sg j s' sc") (metis andthen.simps check_sections_64.simps(2))+
qed simp

lemma case_counted_verdict:
  assumes "unat (lc_cmdsize l) \<le> length lc" "lc_cmdsize l = get32 (view ob) lc 4"
  shows "sizeof_segment_command \<le> unat (lc_cmdsize l) \<Longrightarrow>
    verdict (case_segment ob i l lc sc) =
      (let sg = dec_segment_command (view ob) (take sizeof_segment_command lc) in
       andthen (check_segment ob i sg) (\<lambda>_.
         check_sections ob i sg 0
           (map (\<lambda>j. dec_section (view ob) (slice (sizeof_segment_command + j * sizeof_section)
             sizeof_section lc)) [0..<unat (sg_nsects sg)]) sc))"
    "sizeof_segment_command_64 \<le> unat (lc_cmdsize l) \<Longrightarrow>
    verdict (case_segment_64 ob i l lc sc) =
      (let sg = dec_segment_command_64 (view ob) (take sizeof_segment_command_64 lc) in
       andthen (check_segment_64 ob i sg) (\<lambda>_.
         check_sections_64 ob i sg 0
           (map (\<lambda>j. dec_section_64 (view ob) (slice (sizeof_segment_command_64 + j * sizeof_section_64)
             sizeof_section_64 lc)) [0..<unat (sg64_nsects sg)]) sc))"
proof -
  assume "sizeof_segment_command \<le> unat (lc_cmdsize l)"
  then show "verdict (case_segment ob i l lc sc) =
      (let sg = dec_segment_command (view ob) (take sizeof_segment_command lc) in
       andthen (check_segment ob i sg) (\<lambda>_.
         check_sections ob i sg 0
           (map (\<lambda>j. dec_section (view ob) (slice (sizeof_segment_command + j * sizeof_section)
             sizeof_section lc)) [0..<unat (sg_nsects sg)]) sc))"
    using segment_command.counted_verdict [OF _ assms(1) section32.viewed_struct_axioms,
        of "\<lambda>sg ss. check_sections ob i sg 0 ss sc" "check_segment ob i" ob "\<lambda>sg. unat (sg_nsects sg)"]
      assms(2) segment_size [of ob i "view ob" lc]
    by (simp add: case_segment_def Let_def)
next
  have same: "check_sections_64 ob i sg 0 ss sc = check_sections_64 ob i sg 0 ss' sc"
    if "map (\<lambda>s. s\<lparr>s64_reserved3 := 0\<rparr>) ss = map (\<lambda>s. s\<lparr>s64_reserved3 := 0\<rparr>) ss'" for sg ss ss'
    using that by (rule sections_64_same)
  assume "sizeof_segment_command_64 \<le> unat (lc_cmdsize l)"
  then show "verdict (case_segment_64 ob i l lc sc) =
      (let sg = dec_segment_command_64 (view ob) (take sizeof_segment_command_64 lc) in
       andthen (check_segment_64 ob i sg) (\<lambda>_.
         check_sections_64 ob i sg 0
           (map (\<lambda>j. dec_section_64 (view ob) (slice (sizeof_segment_command_64 + j * sizeof_section_64)
             sizeof_section_64 lc)) [0..<unat (sg64_nsects sg)]) sc))"
    using segment_command_64.counted_verdict [where f = "\<lambda>sg ss. check_sections_64 ob i sg 0 ss sc"
          and pre = "check_segment_64 ob i" and count = "\<lambda>sg. unat (sg64_nsects sg)",
        OF _ assms(1) section_64.viewed_struct_axioms same, of ob]
      assms(2) segment_64_size [of ob i "view ob" lc]
    by (simp add: case_segment_64_def Let_def)
qed

lemma small_counted:
  "unat (lc_cmdsize l) < sizeof_segment_command \<Longrightarrow>
     case_segment ob i l lc sc = Inl (Small_Cmdsize LC_SEGMENT i)"
  "unat (lc_cmdsize l) < sizeof_segment_command_64 \<Longrightarrow>
     case_segment_64 ob i l lc sc = Inl (Small_Cmdsize LC_SEGMENT_64 i)"
  by (simp_all add: case_segment_def case_segment_64_def)

lemma case_build_version_native:
  assumes "unat (lc_cmdsize l) \<le> length lc" "lc_cmdsize l = get32 (view ob) lc 4"
  shows "verdict (case_build_version ob i l lc sc) = verdict (case_build_version (native ob) i l lc sc)"
proof -
  let ?pre = "\<lambda>bv. if unat (lc_cmdsize bv) <
      sizeof_build_version_command + unat (bv_ntools bv) * sizeof_build_tool_version
    then Inl (Small_Cmdsize LC_BUILD_VERSION i) else Inr ()"
  have bv: "lc_cmdsize (dec_build_version_command (view ob) (take sizeof_build_version_command lc)) =
      lc_cmdsize l"
    using assms(2) by (simp add: dec_build_version_command_def sizeof_build_version_command_def)
  have size: "sizeof_build_version_command + unat (bv_ntools bv) * sizeof_build_tool_version \<le>
      unat (lc_cmdsize l)"
    if "bv = dec_build_version_command (view ob) (take sizeof_build_version_command lc)"
      "?pre bv = Inr u" for bv u
    using that bv by (auto split: if_splits)
  note v = build_version_command.counted_verdict [where pre = ?pre
      and f = "\<lambda>bv _. build_version_step ob' i bv sc'" and count = "\<lambda>bv. unat (bv_ntools bv)"
      for ob' sc', OF _ assms(1) build_tool_version.viewed_struct_axioms refl]
  show ?thesis
    using v [of ob] v [of "native ob"] size [OF refl]
    by (simp add: case_build_version_def Let_def cong: if_cong)
qed

lemma case_counted_native:
  assumes "unat (lc_cmdsize l) \<le> length lc" "lc_cmdsize l = get32 (view ob) lc 4"
  shows "verdict (case_segment ob i l lc sc) = verdict (case_segment (native ob) i l lc sc)"
    "verdict (case_segment_64 ob i l lc sc) = verdict (case_segment_64 (native ob) i l lc sc)"
proof -
  have nat: "lc_cmdsize l = get32 (view (native ob)) lc 4" using assms(2) by simp
  note v = case_counted_verdict [OF assms, of i sc] case_counted_verdict [OF assms(1) nat, of i sc]
  show "verdict (case_segment ob i l lc sc) = verdict (case_segment (native ob) i l lc sc)"
    by (cases "unat (lc_cmdsize l) < sizeof_segment_command") (simp_all add: small_counted v(1,3))
  show "verdict (case_segment_64 ob i l lc sc) = verdict (case_segment_64 (native ob) i l lc sc)"
    by (cases "unat (lc_cmdsize l) < sizeof_segment_command_64") (simp_all add: small_counted v(2,4))
qed

section \<open>Thread states\<close>

definition unswappable :: "macho_error \<Rightarrow> bool" where
  "unswappable x \<longleftrightarrow>
     (case x of Cannot_Swap_Flavor _ _ _ \<Rightarrow> True | Cannot_Swap_Cputype _ _ \<Rightarrow> True | _ \<Rightarrow> False)"

text \<open>The two runs end alike, or the first one gave up on a state it cannot swap.\<close>

definition agree :: "macho_error + 'a \<Rightarrow> macho_error + 'a \<Rightarrow> ('a \<Rightarrow> 'b) \<Rightarrow> bool" where
  "agree r r' obs \<longleftrightarrow>
     (\<exists>x. r = Inl x \<and> unswappable x) \<or> map_sum (\<lambda>x. x) obs r = map_sum (\<lambda>x. x) obs r'"

lemma agree_simps [simp]:
  "agree (Inl x) (Inl x) obs"
  "agree (Inr a) (Inr b) obs \<longleftrightarrow> obs a = obs b"
  by (auto simp: agree_def)

lemma fetch_word_native:
  "state + 4 \<le> length lc \<Longrightarrow>
   fetch_word (native ob) state lc = Inr (get32 (view ob) lc state, lc)"
  by (simp add: fetch_word_def fetch_def Let_def slice_def)

lemma get32_same_behind:
  "same_behind state lc lc' \<Longrightarrow> get32 e lc' state = get32 e lc state"
  by (simp add: same_behind_def slice_def)

lemma thread_walk_native:
  assumes "bits_ok bits" "p \<le> length lc" "same_behind state lc lc'"
  shows "agree (thread_walk ob bits tab i cmd nflavor state p lc')
    (thread_walk (native ob) bits tab i cmd nflavor state p lc) (\<lambda>_. ())"
  using assms
proof (induction ob bits tab i cmd nflavor state p lc' rule: thread_walk.induct)
  case (1 ob bits tab i cmd nflavor state p lc')
  note eq = thread_walk.simps [of ob bits tab i cmd nflavor state p lc']
  note eq' = thread_walk.simps [of "native ob" bits tab i cmd nflavor state p lc]
  have len: "length lc' = length lc" using "1.prems"(3) by (simp add: same_behind_def)
  show ?case
  proof (cases "state < p \<and> state + 4 \<le> p")
    case False
    then show ?thesis by (auto simp: eq eq')
  next
    case True
    then have "state + 4 \<le> length lc'" using "1.prems" len by simp
    then obtain flavor lc1 where f: "fetch_word ob state lc' = Inr (flavor, lc1)"
      and s1: "same_behind (state + 4) lc' lc1" and fl: "flavor = get32 (view ob) lc' state"
      by (rule fetch_word_safe)
    have s1': "same_behind (state + 4) lc lc1"
      using same_behind_trans [OF same_behind_mono [OF "1.prems"(3)] s1] by simp
    have f': "fetch_word (native ob) state lc = Inr (flavor, lc)"
      using True "1.prems" fl by (simp add: fetch_word_native get32_same_behind)
    show ?thesis
    proof (cases "state + 8 \<le> p")
      case False
      with True f f' show ?thesis by (simp add: eq eq')
    next
      case p: True
      have "state + 4 + 4 \<le> length lc1" using p "1.prems" s1' by (simp add: same_behind_def)
      then obtain count lc2 where c: "fetch_word ob (state + 4) lc1 = Inr (count, lc2)"
        and s2: "same_behind (state + 4 + 4) lc1 lc2" and ct: "count = get32 (view ob) lc1 (state + 4)"
        by (rule fetch_word_safe)
      have s: "same_behind (state + 8) lc lc2"
        using same_behind_trans [OF same_behind_mono [OF s1'] same_behind_mono [OF s2]] by simp
      have c': "fetch_word (native ob) (state + 4) lc = Inr (count, lc)"
        using p "1.prems"(2) ct get32_same_behind [OF s1'] by (simp add: fetch_word_native)
      note rest = True p f f' c c'
      consider (known) fs where "map_of tab flavor = Some (Known fs)"
        | (skipped) "map_of tab flavor = Some Skipped" | (unknown) "map_of tab flavor = None"
        by (cases "map_of tab flavor") (auto elim: flavor_rule.exhaust)
      then show ?thesis
      proof cases
        case known
        show ?thesis
        proof (cases "unat count \<noteq> layout_size fs div 4 \<or> state + 8 + layout_size fs > p")
          case False
          then have "state + 8 + layout_size fs \<le> length lc2"
            using "1.prems" s by (simp add: same_behind_def)
          then obtain lc3 where w: "swap_state ob bits fs (state + 8) lc2 = Inr lc3"
            "same_behind (state + 8 + layout_size fs) lc2 lc3"
            by (rule swap_state_safe [OF "1.prems"(1)])
          have "same_behind (state + 8 + layout_size fs) lc lc3"
            using same_behind_trans [OF same_behind_mono [OF s] w(2)] by simp
          with False known rest w(1) "1.IH"(2) [OF _ _ f _ _ c _ known] "1.prems"(1,2) show ?thesis
            by (simp add: eq eq' swap_state_def)
        qed (use known rest in \<open>auto simp: eq eq'\<close>)
      next
        case skipped
        have "same_behind (state + 8 + unat count * 4) lc lc2"
          by (rule same_behind_mono [OF s]) simp
        with skipped rest "1.IH"(3) [OF _ _ f _ _ c _ skipped] "1.prems"(1,2) show ?thesis
          by (simp add: eq eq')
      next
        case unknown
        have "same_behind (state + 8 + unat count * 4) lc lc2"
          by (rule same_behind_mono [OF s]) simp
        with unknown rest "1.IH"(1) [OF _ _ f _ _ c _ unknown] "1.prems"(1,2) show ?thesis
          by (cases "ob_swapped ob") (simp_all add: eq eq' agree_def unswappable_def)
      qed
    qed
  qed
qed

lemma case_thread_native:
  assumes "bits_ok bits" "unat (lc_cmdsize l) \<le> length lc" "lc_cmdsize l = get32 (view ob) lc 4"
  shows "agree (case_thread bits ob i l lc sc) (case_thread bits (native ob) i l lc sc) fst"
proof (cases "unat (lc_cmdsize l) < sizeof_thread_command")
  case False
  then have n: "sizeof_thread_command \<le> length lc" using assms(2) by simp
  let ?ut = "dec_thread_command (view ob) (take sizeof_thread_command lc)"
  obtain lc1 where lc1: "fetch ob sizeof_thread_command dec_thread_command enc_thread_command
      swap_thread_command lc = Inr (?ut, lc1)" "same_behind sizeof_thread_command lc lc1"
    by (rule thread_command.fetch_viewE [OF n])
  have ut: "lc_cmdsize ?ut = lc_cmdsize l"
    using assms(3) by (simp add: dec_thread_command_def sizeof_thread_command_def)
  have nat: "fetch (native ob) sizeof_thread_command dec_thread_command enc_thread_command
      swap_thread_command lc = Inr (?ut, lc)"
    using n by (simp add: fetch_def)
  show ?thesis
  proof (cases "thread_rules (ob_cputype ob)")
    case None
    with False lc1(1) nat show ?thesis by (simp add: case_thread_def agree_def unswappable_def)
  next
    case (Some tab)
    have "agree (thread_walk ob bits tab i (lc_cmd ?ut) 0 sizeof_thread_command (unat (lc_cmdsize l)) lc1)
      (thread_walk (native ob) bits tab i (lc_cmd ?ut) 0 sizeof_thread_command (unat (lc_cmdsize l)) lc)
      (\<lambda>_. ())"
      by (rule thread_walk_native [OF assms(1,2) lc1(2)])
    with Some False lc1(1) nat ut show ?thesis
      by (cases "thread_walk ob bits tab i (lc_cmd ?ut) 0 sizeof_thread_command
          (unat (lc_cmdsize l)) lc1";
          cases "thread_walk (native ob) bits tab i (lc_cmd ?ut) 0 sizeof_thread_command
          (unat (lc_cmdsize l)) lc") (auto simp: case_thread_def agree_def)
  qed
qed (simp add: case_thread_def)

section \<open>The pass\<close>

lemma agree_verdict: "verdict r = verdict r' \<Longrightarrow> agree r r' fst"
  by (cases r rule: verdict.cases; cases r' rule: verdict.cases) (auto simp: agree_def)

lemma agree_if: "agree a a' f \<Longrightarrow> agree b b' f \<Longrightarrow> agree (if P then a else b) (if P then a' else b') f"
  by simp

lemma agree_option:
  "agree a a' f \<Longrightarrow> (\<And>x. agree (g x) (g' x) f) \<Longrightarrow>
   agree (case m of None \<Rightarrow> a | Some x \<Rightarrow> g x) (case m of None \<Rightarrow> a' | Some x \<Rightarrow> g' x) f"
  by (cases m) auto

lemma switch_command_native:
  assumes "bits_ok bits" "unat (lc_cmdsize l) \<le> length lc" "lc_cmdsize l = get32 (view ob) lc 4"
  shows "agree (switch_command bits ob i l lc sc) (switch_command bits (native ob) i l lc sc) fst"
  unfolding switch_command_def switch_libraries_def switch_linkedit_def
  by (intro agree_if agree_option agree_simps(1) case_thread_native [OF assms] agree_verdict
      case_counted_native [OF assms(2,3)] case_build_version_native [OF assms(2,3)]
      case_struct_native [OF assms(2)] case_string_native [OF assms(2)] case_missing_native [OF assms(2)])

lemma agreeE:
  assumes "agree r r' obs"
  obtains (gave_up) x where "r = Inl x" "unswappable x"
    | (bad) x where "r = Inl x" "r' = Inl x"
    | (good) a b where "r = Inr a" "r' = Inr b" "obs a = obs b"
  using assms by (cases r; cases r') (auto simp: agree_def)

lemma scan_commands_native:
  assumes "bits_ok bits" "left \<le> length lc"
  shows "agree (scan_commands bits ob n i lc left sc) (scan_commands bits (native ob) n i lc left sc)
    (\<lambda>(sc, lc, left). (sc, left))"
  using assms(2)
proof (induction n arbitrary: i lc left sc)
  case 0
  then show ?case by simp
next
  case (Suc n)
  show ?case
  proof (cases "left < sizeof_load_command \<or> left < unat (lc_cmdsize (head ob lc))")
    case True
    then show ?thesis
      using Suc.prems load_command_at_view [of lc ob] load_command_at_view [of lc "native ob"]
      by auto
  next
    case False
    let ?k = "unat (lc_cmdsize (head ob lc))"
    have n: "sizeof_load_command \<le> length lc" using False Suc.prems by simp
    note at = load_command_at_view [OF n, of ob] load_command_at_view [OF n, of "native ob"]
    have k: "?k \<le> length lc" using False Suc.prems by simp
    from switch_command_native [OF assms(1) k head_cmdsize, of i sc] show ?thesis
    proof (cases rule: agreeE)
      case (gave_up x)
      with False at show ?thesis by (auto simp: agree_def)
    next
      case (bad x)
      with False at show ?thesis by simp
    next
      case (good a b)
      then obtain sc1 lc1 lc2 where sw: "switch_command bits ob i (head ob lc) lc sc = Inr (sc1, lc1)"
        "switch_command bits (native ob) i (head ob lc) lc sc = Inr (sc1, lc2)"
        by (cases a; cases b) auto
      have d: "drop ?k lc1 = drop ?k lc" "drop ?k lc2 = drop ?k lc"
        using switch_command_safe [OF assms(1) k head_cmdsize, of i sc] sw
          switch_command_safe [OF assms(1), of "head ob lc" lc "native ob" i sc] k head_cmdsize [of ob lc]
        by (simp_all add: safe_step_def same_behind_def)
      have "agree (scan_commands bits ob n (i + 1) (drop ?k lc) (left - ?k) sc1)
          (scan_commands bits (native ob) n (i + 1) (drop ?k lc) (left - ?k) sc1)
          (\<lambda>(sc, lc, left). (sc, left))"
        using Suc.prems by (intro Suc.IH) simp
      then show ?thesis
        by (cases rule: agreeE) (use False at sw d in \<open>auto simp: agree_def\<close>)
    qed
  qed
qed

lemma check_load_commands_native:
  assumes "bits_ok bits" "unat sizeofcmds \<le> length lc"
  shows "agree (check_load_commands bits fc ob ncmds sizeofcmds lc)
    (check_load_commands bits fc (native ob) ncmds sizeofcmds lc) fst"
proof (cases "add_element 0 (ob_sizeofhdrs ob) ''Mach-O headers'' no_scan")
  case (Inr sc)
  from scan_commands_native [OF assms, of ob "unat ncmds" 0 sc] show ?thesis
  proof (cases rule: agreeE)
    case (good a b)
    then show ?thesis
      using Inr by (cases a; cases b; cases "check_tables (fst a)")
        (auto simp: check_load_commands_def)
  qed (use Inr in \<open>auto simp: check_load_commands_def agree_def\<close>)
qed (simp add: check_load_commands_def)

text \<open>C3. The verdict on an object does not depend on the byte order of the host: an object that has to be
  swapped is accepted with the same record of its commands, or rejected with the same message, as on a
  host of the other byte order, where it is not swapped; except that the routine may give up on a
  thread command whose flavor or processor type it does not know, as it cannot swap it.\<close>

theorem check_Mach_O_host_independent:
  assumes "bits_ok bits" "sizeof_header is64 \<le> length hdr"
    "unat sz \<le> sizeof_header is64 + length lc"
  shows "(\<exists>x. check_Mach_O e bits True is64 fc sz hdr lc = Inl x \<and> unswappable x) \<or>
    map_sum (\<lambda>x. x) fst (check_Mach_O e bits True is64 fc sz hdr lc) =
    map_sum (\<lambda>x. x) fst (check_Mach_O (opp e) bits False is64 fc sz hdr lc)"
proof -
  let ?mh = "dec_mach_header (opp e) hdr"
  let ?ob = "mach_object e True is64 sz hdr"
  have nat: "native ?ob = mach_object (opp e) False is64 sz hdr"
    by (simp add: native_def mach_object_def view_def Let_def)
  obtain h1 where h1: "check_Mach_O e bits True is64 fc sz hdr lc =
       (if unat (mh_sizeofcmds ?mh) + sizeof_header is64 > unat sz then Inl Headers_Past_End
        else andthen (check_load_commands bits fc ?ob (mh_ncmds ?mh) (mh_sizeofcmds ?mh) lc)
          (\<lambda>(sc, lc'). Inr (sc, h1, lc')))"
    by (rule check_Mach_O_eq [OF assms(2), where swapped = True and e = e
      and bits = bits and fc = fc and sz = sz and lc = lc, unfolded if_True]) (rule that)
  obtain h2 where h2: "check_Mach_O (opp e) bits False is64 fc sz hdr lc =
       (if unat (mh_sizeofcmds ?mh) + sizeof_header is64 > unat sz then Inl Headers_Past_End
        else andthen (check_load_commands bits fc (mach_object (opp e) False is64 sz hdr) (mh_ncmds ?mh)
            (mh_sizeofcmds ?mh) lc)
          (\<lambda>(sc, lc'). Inr (sc, h2, lc')))"
    by (rule check_Mach_O_eq [OF assms(2), where swapped = False and e = "opp e"
      and bits = bits and fc = fc and sz = sz and lc = lc, unfolded if_False]) (rule that)
  show ?thesis
  proof (cases "unat (mh_sizeofcmds ?mh) + sizeof_header is64 > unat sz")
    case False
    then have "unat (mh_sizeofcmds ?mh) \<le> length lc" using assms(3) by simp
    from check_load_commands_native [OF assms(1) this, of fc ?ob "mh_ncmds ?mh"] show ?thesis
      by (cases rule: agreeE) (use False h1 h2 nat in auto)
  qed (simp add: h1 h2)
qed

theorem check_Mach_O_host_independent_witness:
  "map_sum (\<lambda>x. x) fst (check_Mach_O LE keep_bits True False None 88 example_header example_commands) =
   map_sum (\<lambda>x. x) fst (check_Mach_O BE keep_bits False False None 88 example_header example_commands)"
  using check_Mach_O_host_independent [OF keep_bits_ok, of False example_header 88 example_commands LE None]
  by (auto simp: length_example sizeof_mach_header_def intro: example_accepted)

end
