(* ===== verification/CheckMachO_Correct.thy ===== *)
theory CheckMachO_Correct
  imports CheckMachO_View
begin

text \<open>
  What a tool may rely on when \<open>check_Mach_O\<close> has accepted an object: the load commands tile the bytes
  the header gives them, each part of the file that a command points to with 32 bit fields ends
  before the file does, a command of which there may be one occurs once, and the indexes of the
  dynamic symbol table lie in the symbol table. All of it is said of the bytes of the object as they
  were before the call, in the byte order of the object.
\<close>

section \<open>The commands of an object\<close>

abbreviation command_of :: "endian \<Rightarrow> bytes \<Rightarrow> u32" where
  "command_of v bs \<equiv> get32 v bs 0"

abbreviation cmdsize_of :: "endian \<Rightarrow> bytes \<Rightarrow> nat" where
  "cmdsize_of v bs \<equiv> unat (get32 v bs 4)"

text \<open>The load commands one after the other, each as the memory that starts at it.\<close>

fun object_commands :: "endian \<Rightarrow> nat \<Rightarrow> bytes \<Rightarrow> bytes list" where
  "object_commands v 0 lc = []"
| "object_commands v (Suc n) lc = lc # object_commands v n (drop (cmdsize_of v lc) lc)"

text \<open>The parts of the file that a command points to, as offset and length, by the layout of the
  structures in \<^verbatim>\<open>loader.h\<close>.\<close>

definition u32_at :: "endian \<Rightarrow> bytes \<Rightarrow> nat \<Rightarrow> nat" where
  "u32_at v bs off = unat (get32 v bs off)"

definition section_ranges :: "endian \<Rightarrow> object \<Rightarrow> bytes \<Rightarrow> nat \<Rightarrow> (nat \<times> nat) list" where
  "section_ranges v ob bs b =
     (if file_contents ob (get32 v bs (b + 56)) then [(u32_at v bs (b + 40), u32_at v bs (b + 36))] else []) @
     [(u32_at v bs (b + 48), u32_at v bs (b + 52) * 8)]"

definition dyld_ranges :: "endian \<Rightarrow> bytes \<Rightarrow> (nat \<times> nat) list" where
  "dyld_ranges v bs =
     map (\<lambda>off. (u32_at v bs off, u32_at v bs (off + 4)))
       (filter (\<lambda>off. u32_at v bs off \<noteq> 0) [8, 16, 24, 32, 40])"

definition file_ranges :: "endian \<Rightarrow> object \<Rightarrow> bytes \<Rightarrow> (nat \<times> nat) list" where
  "file_ranges v ob bs =
     (let cmd = command_of v bs; f = u32_at v bs in
      if cmd = LC_SEGMENT then
        (f 32, f 36) # concat (map (\<lambda>j. section_ranges v ob bs (56 + j * 68)) [0..<f 48])
      else if cmd = LC_SEGMENT_64 then
        map (\<lambda>j. (f (72 + j * 80 + 56), f (72 + j * 80 + 60) * 8)) [0..<f 64]
      else if cmd = LC_SYMTAB then [(f 8, f 12 * (if ob_is64 ob then 16 else 12)), (f 16, f 20)]
      else if cmd = LC_DYSYMTAB then
        [(f 32, f 36 * 8), (f 40, f 44 * (if ob_is64 ob then 56 else 52)), (f 48, f 52 * 4),
         (f 56, f 60 * 4), (f 64, f 68 * 8), (f 72, f 76 * 8)]
      else if cmd = LC_TWOLEVEL_HINTS then [(f 8, f 12 * 4)]
      else if cmd = LC_SYMSEG \<or> linkedit_name cmd \<noteq> None \<or> cmd = LC_ENCRYPTION_INFO \<or>
        cmd = LC_ENCRYPTION_INFO_64 then [(f 8, f 12)]
      else if cmd = LC_DYLD_INFO \<or> cmd = LC_DYLD_INFO_ONLY then dyld_ranges v bs
      else [])"

definition fits :: "nat \<Rightarrow> (nat \<times> nat) list \<Rightarrow> bool" where
  "fits sz rs \<longleftrightarrow> (\<forall>(off, n) \<in> set rs. off + n \<le> sz)"

lemma fits_simps [simp]:
  "fits sz []" "fits sz (r # rs) \<longleftrightarrow> fst r + snd r \<le> sz \<and> fits sz rs"
  "fits sz (rs @ rs') \<longleftrightarrow> fits sz rs \<and> fits sz rs'"
  by (auto simp: fits_def)

lemma fits_concat: "fits sz (concat rss) \<longleftrightarrow> (\<forall>rs \<in> set rss. fits sz rs)"
  by (auto simp: fits_def)

section \<open>The extents of each command\<close>

lemma u32_at_take: "off + 4 \<le> n \<Longrightarrow> u32_at v (take n bs) off = u32_at v bs off"
  by (simp add: u32_at_def get32_take)

lemma get32_slice: "off + 4 \<le> n \<Longrightarrow> get32 v (slice a n bs) off = get32 v bs (a + off)"
  by (simp add: slice_slice)

lemma check_section_fits:
  assumes "check_section ob i sg j (dec_section v (slice b sizeof_section lc)) sc = Inr sc'"
  shows "fits (unat (ob_size ob)) (section_ranges v ob lc b)"
proof -
  let ?s = "dec_section v (slice b sizeof_section lc)"
  obtain sc1 where r: "check_extent ob (Reloff_Past_End j i) (Relocs_Past_End j i) (s_reloff ?s)
      (s_nreloc ?s) sizeof_relocation_info ''section relocation entries'' sc1 = Inr sc'"
    and c: "file_contents ob (s_flags ?s) \<Longrightarrow>
      \<not> (ucast (s_offset ?s) + ucast (s_size ?s) :: u64) > ucast (ob_size ob)"
    using assms unfolding check_section_def by (auto simp: andthen_eq_Inr split: if_splits)
  have "unat (s_reloff ?s) + unat (s_nreloc ?s) * 8 \<le> unat (ob_size ob)"
    using check_extent_good [OF r] by simp
  moreover have "file_contents ob (s_flags ?s) \<Longrightarrow> unat (s_offset ?s) + unat (s_size ?s) \<le> unat (ob_size ob)"
    using c u64_extent [of 1 "s_size ?s" "s_offset ?s"] by (simp add: word_less_nat_alt add.commute)
  ultimately show ?thesis
    by (simp add: section_ranges_def u32_at_def dec_section_def sizeof_section_def get32_slice)
qed

lemma check_sections_fits:
  "check_sections ob i sg j ss sc = Inr sc' \<Longrightarrow>
   \<forall>s \<in> set ss. \<exists>j sc1 sc2. check_section ob i sg j s sc1 = Inr sc2"
  by (induction ss arbitrary: j sc) (fastforce simp: andthen_eq_Inr)+

lemma check_section_64_fits:
  assumes "check_section_64 ob i sg j (dec_section_64 v (slice b sizeof_section_64 lc)) sc = Inr sc'"
  shows "u32_at v lc (b + 56) + u32_at v lc (b + 60) * 8 \<le> unat (ob_size ob)"
proof -
  let ?s = "dec_section_64 v (slice b sizeof_section_64 lc)"
  obtain sc1 where "check_extent ob (Reloff_Past_End j i) (Relocs_Past_End j i) (s64_reloff ?s)
      (s64_nreloc ?s) sizeof_relocation_info ''section relocation entries'' sc1 = Inr sc'"
    using assms unfolding check_section_64_def by (auto simp: andthen_eq_Inr split: if_splits)
  from check_extent_good [OF this] show ?thesis
    by (simp add: u32_at_def dec_section_64_def sizeof_section_64_def get32_slice)
qed

lemma check_sections_64_fits:
  "check_sections_64 ob i sg j ss sc = Inr sc' \<Longrightarrow>
   \<forall>s \<in> set ss. \<exists>j sc1 sc2. check_section_64 ob i sg j s sc1 = Inr sc2"
  by (induction ss arbitrary: j sc) (fastforce simp: andthen_eq_Inr)+

lemma check_symtab_fits:
  assumes "check_symtab ob i st sc = Inr sc'"
  shows "unat (st_symoff st) + unat (st_nsyms st) * (if ob_is64 ob then 16 else 12) \<le> unat (ob_size ob)"
    "unat (st_stroff st) + unat (st_strsize st) \<le> unat (ob_size ob)" "elements_only sc sc'"
  using assms
  by (auto simp: check_symtab_def sizeof_nlist_def sizeof_nlist_64_def
      simp del: check_extents.simps dest!: check_extents_good split: if_splits)

lemma check_dysymtab_fits:
  assumes "check_dysymtab ob i dyst sc = Inr sc'"
  shows "unat (dyst_tocoff dyst) + unat (dyst_ntoc dyst) * 8 \<le> unat (ob_size ob)"
    "unat (dyst_modtaboff dyst) + unat (dyst_nmodtab dyst) * (if ob_is64 ob then 56 else 52) \<le> unat (ob_size ob)"
    "unat (dyst_extrefsymoff dyst) + unat (dyst_nextrefsyms dyst) * 4 \<le> unat (ob_size ob)"
    "unat (dyst_indirectsymoff dyst) + unat (dyst_nindirectsyms dyst) * 4 \<le> unat (ob_size ob)"
    "unat (dyst_extreloff dyst) + unat (dyst_nextrel dyst) * 8 \<le> unat (ob_size ob)"
    "unat (dyst_locreloff dyst) + unat (dyst_nlocrel dyst) * 8 \<le> unat (ob_size ob)"
    "elements_only sc sc'"
  using assms
  by (auto simp: check_dysymtab_def sizeof_dylib_table_of_contents_def sizeof_dylib_module_def
      sizeof_dylib_module_64_def simp del: check_extents.simps dest!: check_extents_good
      split: if_splits)

lemma check_dyld_info_fits:
  assumes "check_dyld_info ob i dc sc = Inr sc'"
  shows "dc_rebase_off dc \<noteq> 0 \<Longrightarrow> unat (dc_rebase_off dc) + unat (dc_rebase_size dc) \<le> unat (ob_size ob)"
    "dc_bind_off dc \<noteq> 0 \<Longrightarrow> unat (dc_bind_off dc) + unat (dc_bind_size dc) \<le> unat (ob_size ob)"
    "dc_weak_bind_off dc \<noteq> 0 \<Longrightarrow> unat (dc_weak_bind_off dc) + unat (dc_weak_bind_size dc) \<le> unat (ob_size ob)"
    "dc_lazy_bind_off dc \<noteq> 0 \<Longrightarrow> unat (dc_lazy_bind_off dc) + unat (dc_lazy_bind_size dc) \<le> unat (ob_size ob)"
    "dc_export_off dc \<noteq> 0 \<Longrightarrow> unat (dc_export_off dc) + unat (dc_export_size dc) \<le> unat (ob_size ob)"
    "elements_only sc sc'"
  using assms
  by (auto simp: check_dyld_info_def simp del: check_dyld_extents.simps dest!: check_dyld_extents_good
      split: if_splits)

lemma u64_fits:
  "\<not> (ucast (off :: u32) + ucast (n :: u32) :: u64) > ucast (sz :: u32) \<Longrightarrow> unat off + unat n \<le> unat sz"
  using u64_extent [of 1 n off] by (simp add: word_less_nat_alt add.commute)

section \<open>The extents of the command at the start of the memory\<close>

lemma linkedit_name_not [simp]:
  "linkedit_name LC_SEGMENT = None" "linkedit_name LC_SEGMENT_64 = None" "linkedit_name LC_SYMTAB = None"
  "linkedit_name LC_DYSYMTAB = None" "linkedit_name LC_TWOLEVEL_HINTS = None"
  "linkedit_name LC_SYMSEG = None" "linkedit_name LC_ENCRYPTION_INFO = None"
  "linkedit_name LC_ENCRYPTION_INFO_64 = None" "linkedit_name LC_DYLD_INFO = None"
  "linkedit_name LC_DYLD_INFO_ONLY = None"
  by (simp_all add: linkedit_name_def)

lemma head_cmd: "lc_cmd (head ob lc) = command_of (view ob) lc"
  by (simp add: dec_load_command_def sizeof_load_command_def get32_take)

lemma switch_command_eqs:
  "lc_cmd l = LC_SEGMENT \<Longrightarrow> switch_command bits ob i l lc sc = case_segment ob i l lc sc"
  "lc_cmd l = LC_SEGMENT_64 \<Longrightarrow> switch_command bits ob i l lc sc = case_segment_64 ob i l lc sc"
  "lc_cmd l = LC_SYMTAB \<Longrightarrow> switch_command bits ob i l lc sc = case_symtab ob i l lc sc"
  "lc_cmd l = LC_DYSYMTAB \<Longrightarrow> switch_command bits ob i l lc sc = case_dysymtab ob i l lc sc"
  "lc_cmd l = LC_TWOLEVEL_HINTS \<Longrightarrow> switch_command bits ob i l lc sc = case_twolevel_hints ob i l lc sc"
  "lc_cmd l = LC_SYMSEG \<Longrightarrow> switch_command bits ob i l lc sc = case_symseg ob i l lc sc"
  "lc_cmd l = LC_ENCRYPTION_INFO \<Longrightarrow> switch_command bits ob i l lc sc = case_encryption_info ob i l lc sc"
  "lc_cmd l = LC_ENCRYPTION_INFO_64 \<Longrightarrow>
     switch_command bits ob i l lc sc = case_encryption_info_64 ob i l lc sc"
  "lc_cmd l = LC_DYLD_INFO \<or> lc_cmd l = LC_DYLD_INFO_ONLY \<Longrightarrow>
     switch_command bits ob i l lc sc = case_dyld_info ob i l lc sc"
  by (simp_all add: switch_command_def switch_libraries_def switch_linkedit_def) (elim disjE; simp)

lemma switch_command_linkedit:
  assumes "linkedit_name (lc_cmd l) = Some name"
  shows "switch_command bits ob i l lc sc = case_linkedit_data name ob i l lc sc"
proof -
  have "lc_cmd l \<in> {LC_SEGMENT_SPLIT_INFO, LC_ATOM_INFO, LC_CODE_SIGNATURE, LC_FUNCTION_STARTS,
      LC_DATA_IN_CODE, LC_DYLIB_CODE_SIGN_DRS, LC_LINKER_OPTIMIZATION_HINT, LC_DYLD_EXPORTS_TRIE,
      LC_DYLD_CHAINED_FIXUPS}"
    using assms unfolding linkedit_name_def by (simp split: if_splits)
  then show ?thesis
    using assms
    by (elim insertE emptyE) (simp_all add: switch_command_def switch_libraries_def switch_linkedit_def)
qed

lemma segment_fits:
  assumes "verdict (case_segment ob i l lc sc) = Inr sc'" "unat (lc_cmdsize l) \<le> length lc"
    "lc_cmdsize l = get32 (view ob) lc 4" "command_of (view ob) lc = LC_SEGMENT"
  shows "fits (unat (ob_size ob)) (file_ranges (view ob) ob lc)"
proof -
  have big: "sizeof_segment_command \<le> unat (lc_cmdsize l)"
    using assms(1) by (auto simp: case_segment_def split: if_splits)
  let ?sg = "dec_segment_command (view ob) (take sizeof_segment_command lc)"
  obtain c: "check_segment ob i ?sg = Inr ()"
    and ss: "check_sections ob i ?sg 0
      (map (\<lambda>j. dec_section (view ob) (slice (sizeof_segment_command + j * sizeof_section)
        sizeof_section lc)) [0..<unat (sg_nsects ?sg)]) sc = Inr sc'"
    using assms(1) case_counted_verdict(1) [OF assms(2,3) big, of i sc]
    by (auto simp: Let_def andthen_eq_Inr)
  have "unat (sg_fileoff ?sg) + unat (sg_filesize ?sg) \<le> unat (ob_size ob)"
    using c u64_extent [of 1 "sg_filesize ?sg" "sg_fileoff ?sg"]
    by (auto simp: check_segment_def word_less_nat_alt add.commute split: if_splits)
  moreover have "fits (unat (ob_size ob)) (section_ranges (view ob) ob lc (56 + j * 68))"
    if "j < unat (sg_nsects ?sg)" for j
  proof -
    have "\<exists>j' sc1 sc2. check_section ob i ?sg j' (dec_section (view ob) (slice (sizeof_segment_command +
        j * sizeof_section) sizeof_section lc)) sc1 = Inr sc2"
      using check_sections_fits [OF ss] that by simp
    then show ?thesis
      using check_section_fits by (fastforce simp: sizeof_segment_command_def sizeof_section_def)
  qed
  ultimately show ?thesis
    using assms(4)
    by (simp add: file_ranges_def Let_def fits_concat u32_at_def dec_segment_command_def
        sizeof_segment_command_def get32_take)
qed

lemma segment_64_fits:
  assumes "verdict (case_segment_64 ob i l lc sc) = Inr sc'" "unat (lc_cmdsize l) \<le> length lc"
    "lc_cmdsize l = get32 (view ob) lc 4" "command_of (view ob) lc = LC_SEGMENT_64"
  shows "fits (unat (ob_size ob)) (file_ranges (view ob) ob lc)"
proof -
  have big: "sizeof_segment_command_64 \<le> unat (lc_cmdsize l)"
    using assms(1) by (auto simp: case_segment_64_def split: if_splits)
  let ?sg = "dec_segment_command_64 (view ob) (take sizeof_segment_command_64 lc)"
  obtain ss: "check_sections_64 ob i ?sg 0
      (map (\<lambda>j. dec_section_64 (view ob) (slice (sizeof_segment_command_64 + j * sizeof_section_64)
        sizeof_section_64 lc)) [0..<unat (sg64_nsects ?sg)]) sc = Inr sc'"
    using assms(1) case_counted_verdict(2) [OF assms(2,3) big, of i sc]
    by (auto simp: Let_def andthen_eq_Inr)
  have "u32_at (view ob) lc (72 + j * 80 + 56) + u32_at (view ob) lc (72 + j * 80 + 60) * 8 \<le>
      unat (ob_size ob)"
    if "j < unat (sg64_nsects ?sg)" for j
  proof -
    have "\<exists>j' sc1 sc2. check_section_64 ob i ?sg j' (dec_section_64 (view ob)
        (slice (sizeof_segment_command_64 + j * sizeof_section_64) sizeof_section_64 lc)) sc1 = Inr sc2"
      using check_sections_64_fits [OF ss] that by simp
    then obtain j' sc1 sc2 where "check_section_64 ob i ?sg j' (dec_section_64 (view ob)
        (slice (72 + j * 80) sizeof_section_64 lc)) sc1 = Inr sc2"
      by (auto simp: sizeof_segment_command_64_def sizeof_section_64_def)
    then show ?thesis by (rule check_section_64_fits)
  qed
  then show ?thesis
    using assms(4)
    by (simp add: file_ranges_def Let_def fits_def u32_at_def dec_segment_command_64_def
        sizeof_segment_command_64_def get32_take)
qed

lemma struct_good:
  assumes "unat (lc_cmdsize l) \<le> length lc"
  shows "verdict (case_symtab ob i l lc sc) = Inr sc' \<Longrightarrow>
      (let st = dec_symtab_command (view ob) (take sizeof_symtab_command lc) in
       check_symtab ob i st (sc\<lparr>sc_st := Some st\<rparr>) = Inr sc')"
    "verdict (case_dysymtab ob i l lc sc) = Inr sc' \<Longrightarrow>
      (let dyst = dec_dysymtab_command (view ob) (take sizeof_dysymtab_command lc) in
       check_dysymtab ob i dyst (sc\<lparr>sc_dyst := Some dyst\<rparr>) = Inr sc')"
    "verdict (case_dyld_info ob i l lc sc) = Inr sc' \<Longrightarrow>
      check_dyld_info ob i (dec_dyld_info_command (view ob) (take sizeof_dyld_info_command lc)) sc = Inr sc'"
    "verdict (case_twolevel_hints ob i l lc sc) = Inr sc' \<Longrightarrow>
      (let hints = dec_twolevel_hints_command (view ob) (take sizeof_twolevel_hints_command lc) in
       unat (hints_offset hints) + unat (hints_nhints hints) * 4 \<le> unat (ob_size ob))"
    "verdict (case_symseg ob i l lc sc) = Inr sc' \<Longrightarrow>
      (let ss = dec_symseg_command (view ob) (take sizeof_symseg_command lc) in
       unat (ss_offset ss) + unat (ss_size ss) \<le> unat (ob_size ob))"
    "verdict (case_linkedit_data name ob i l lc sc) = Inr sc' \<Longrightarrow>
      (let ld = dec_linkedit_data_command (view ob) (take sizeof_linkedit_data_command lc) in
       unat (ld_dataoff ld) + unat (ld_datasize ld) \<le> unat (ob_size ob))"
    "verdict (case_encryption_info ob i l lc sc) = Inr sc' \<Longrightarrow>
      (let ec = dec_encryption_info_command (view ob) (take sizeof_encryption_info_command lc) in
       unat (ec_cryptoff ec) + unat (ec_cryptsize ec) \<le> unat (ob_size ob))"
    "verdict (case_encryption_info_64 ob i l lc sc) = Inr sc' \<Longrightarrow>
      (let ec = dec_encryption_info_command_64 (view ob) (take sizeof_encryption_info_command_64 lc) in
       unat (ec64_cryptoff ec) + unat (ec64_cryptsize ec) \<le> unat (ob_size ob))"
proof -
  have enc64: "verdict (case_encryption_info_64 ob i l lc sc) =
      (let ec = dec_encryption_info_command_64 (view ob) (take sizeof_encryption_info_command_64 lc) in
       if unat (lc_cmdsize ec) \<noteq> sizeof_encryption_info_command_64
       then Inl (Wrong_Cmdsize LC_ENCRYPTION_INFO_64 i)
       else if ec64_cryptoff ec > ob_size ob then Inl (Field_Past_End LC_ENCRYPTION_INFO_64 ''cryptoff'' i)
       else if (ucast (ec64_cryptoff ec) + ucast (ec64_cryptsize ec) :: u64) > ucast (ob_size ob)
       then Inl (Range_Past_End LC_ENCRYPTION_INFO_64 ''cryptoff'' i)
       else Inr sc)" if "\<not> unat (lc_cmdsize l) < sizeof_encryption_info_command_64"
    using assms that unfolding case_encryption_info_64_def Let_def
    by (simp only: if_False, intro encryption_info_command_64.with_struct_verdict)
      (simp, drule encryption_64_same, simp)
  show "verdict (case_encryption_info_64 ob i l lc sc) = Inr sc' \<Longrightarrow>
      (let ec = dec_encryption_info_command_64 (view ob) (take sizeof_encryption_info_command_64 lc) in
       unat (ec64_cryptoff ec) + unat (ec64_cryptsize ec) \<le> unat (ob_size ob))"
    using enc64 by (cases "unat (lc_cmdsize l) < sizeof_encryption_info_command_64")
      (auto simp: case_encryption_info_64_def Let_def intro: u64_fits split: if_splits)
qed (use assms in \<open>auto simp: case_struct_defs struct_verdicts Let_def dest!: check_extent_good
    intro: u64_fits split: if_splits\<close>)

lemma struct_fits:
  assumes "unat (lc_cmdsize l) \<le> length lc"
  shows "verdict (case_symtab ob i l lc sc) = Inr sc' \<Longrightarrow> command_of (view ob) lc = LC_SYMTAB \<Longrightarrow>
      fits (unat (ob_size ob)) (file_ranges (view ob) ob lc)"
    "verdict (case_dysymtab ob i l lc sc) = Inr sc' \<Longrightarrow> command_of (view ob) lc = LC_DYSYMTAB \<Longrightarrow>
      fits (unat (ob_size ob)) (file_ranges (view ob) ob lc)"
    "verdict (case_dyld_info ob i l lc sc) = Inr sc' \<Longrightarrow>
      command_of (view ob) lc = LC_DYLD_INFO \<or> command_of (view ob) lc = LC_DYLD_INFO_ONLY \<Longrightarrow>
      fits (unat (ob_size ob)) (file_ranges (view ob) ob lc)"
proof -
  assume v: "verdict (case_symtab ob i l lc sc) = Inr sc'" "command_of (view ob) lc = LC_SYMTAB"
  show "fits (unat (ob_size ob)) (file_ranges (view ob) ob lc)"
    using check_symtab_fits(1,2) [OF struct_good(1) [OF assms v(1), unfolded Let_def]] v(2)
    by (simp add: file_ranges_def u32_at_def dec_symtab_command_def sizeof_symtab_command_def get32_take)
next
  assume v: "verdict (case_dysymtab ob i l lc sc) = Inr sc'" "command_of (view ob) lc = LC_DYSYMTAB"
  show "fits (unat (ob_size ob)) (file_ranges (view ob) ob lc)"
    using check_dysymtab_fits(1-6) [OF struct_good(2) [OF assms v(1), unfolded Let_def]] v(2)
    by (simp add: file_ranges_def u32_at_def dec_dysymtab_command_def sizeof_dysymtab_command_def
        get32_take)
next
  assume v: "verdict (case_dyld_info ob i l lc sc) = Inr sc'"
    "command_of (view ob) lc = LC_DYLD_INFO \<or> command_of (view ob) lc = LC_DYLD_INFO_ONLY"
  then have "file_ranges (view ob) ob lc = dyld_ranges (view ob) lc"
    by (auto simp: file_ranges_def)
  then show "fits (unat (ob_size ob)) (file_ranges (view ob) ob lc)"
    using check_dyld_info_fits(1-5) [OF struct_good(3) [OF assms v(1)]]
    by (simp add: dyld_ranges_def u32_at_def dec_dyld_info_command_def sizeof_dyld_info_command_def
        get32_take unat_eq_zero)
qed

lemma single_fits:
  assumes "unat (lc_cmdsize l) \<le> length lc"
  shows "verdict (case_twolevel_hints ob i l lc sc) = Inr sc' \<Longrightarrow>
      command_of (view ob) lc = LC_TWOLEVEL_HINTS \<Longrightarrow> fits (unat (ob_size ob)) (file_ranges (view ob) ob lc)"
    "verdict (case_symseg ob i l lc sc) = Inr sc' \<Longrightarrow>
      command_of (view ob) lc = LC_SYMSEG \<Longrightarrow> fits (unat (ob_size ob)) (file_ranges (view ob) ob lc)"
    "verdict (case_linkedit_data name ob i l lc sc) = Inr sc' \<Longrightarrow>
      linkedit_name (command_of (view ob) lc) = Some name \<Longrightarrow>
      fits (unat (ob_size ob)) (file_ranges (view ob) ob lc)"
    "verdict (case_encryption_info ob i l lc sc) = Inr sc' \<Longrightarrow>
      command_of (view ob) lc = LC_ENCRYPTION_INFO \<Longrightarrow> fits (unat (ob_size ob)) (file_ranges (view ob) ob lc)"
    "verdict (case_encryption_info_64 ob i l lc sc) = Inr sc' \<Longrightarrow>
      command_of (view ob) lc = LC_ENCRYPTION_INFO_64 \<Longrightarrow>
      fits (unat (ob_size ob)) (file_ranges (view ob) ob lc)"
proof -
  assume v: "verdict (case_twolevel_hints ob i l lc sc) = Inr sc'"
    "command_of (view ob) lc = LC_TWOLEVEL_HINTS"
  show "fits (unat (ob_size ob)) (file_ranges (view ob) ob lc)"
    using struct_good(4) [OF assms v(1)] v(2)
    by (simp add: file_ranges_def u32_at_def dec_twolevel_hints_command_def
        sizeof_twolevel_hints_command_def get32_take)
next
  assume v: "verdict (case_symseg ob i l lc sc) = Inr sc'" "command_of (view ob) lc = LC_SYMSEG"
  show "fits (unat (ob_size ob)) (file_ranges (view ob) ob lc)"
    using struct_good(5) [OF assms v(1)] v(2)
    by (simp add: file_ranges_def u32_at_def dec_symseg_command_def sizeof_symseg_command_def get32_take)
next
  assume v: "verdict (case_linkedit_data name ob i l lc sc) = Inr sc'"
    "linkedit_name (command_of (view ob) lc) = Some name"
  then have "file_ranges (view ob) ob lc = [(u32_at (view ob) lc 8, u32_at (view ob) lc 12)]"
    by (auto simp: file_ranges_def Let_def)
  then show "fits (unat (ob_size ob)) (file_ranges (view ob) ob lc)"
    using struct_good(6) [OF assms v(1)]
    by (simp add: u32_at_def dec_linkedit_data_command_def sizeof_linkedit_data_command_def get32_take)
next
  assume v: "verdict (case_encryption_info ob i l lc sc) = Inr sc'"
    "command_of (view ob) lc = LC_ENCRYPTION_INFO"
  show "fits (unat (ob_size ob)) (file_ranges (view ob) ob lc)"
    using struct_good(7) [OF assms v(1)] v(2)
    by (simp add: file_ranges_def u32_at_def dec_encryption_info_command_def
        sizeof_encryption_info_command_def get32_take)
next
  assume v: "verdict (case_encryption_info_64 ob i l lc sc) = Inr sc'"
    "command_of (view ob) lc = LC_ENCRYPTION_INFO_64"
  show "fits (unat (ob_size ob)) (file_ranges (view ob) ob lc)"
    using struct_good(8) [OF assms v(1)] v(2)
    by (simp add: file_ranges_def u32_at_def dec_encryption_info_command_64_def
        sizeof_encryption_info_command_64_def get32_take)
qed

lemma switch_command_fits:
  assumes "switch_command bits ob i (head ob lc) lc sc = Inr (sc', lc')"
    "unat (lc_cmdsize (head ob lc)) \<le> length lc"
  shows "fits (unat (ob_size ob)) (file_ranges (view ob) ob lc)"
proof -
  let ?c = "command_of (view ob) lc"
  have v: "verdict (switch_command bits ob i (head ob lc) lc sc) = Inr sc'" using assms(1) by simp
  let ?S = "{LC_SEGMENT, LC_SEGMENT_64, LC_SYMTAB, LC_DYSYMTAB, LC_TWOLEVEL_HINTS, LC_SYMSEG,
    LC_ENCRYPTION_INFO, LC_ENCRYPTION_INFO_64, LC_DYLD_INFO, LC_DYLD_INFO_ONLY}"
  have "file_ranges (view ob) ob lc = []" if "linkedit_name ?c = None" "?c \<notin> ?S"
    using that by (simp add: file_ranges_def Let_def)
  then consider (linkedit) name where "linkedit_name ?c = Some name"
    | (other) "linkedit_name ?c = None" "?c \<in> ?S"
    | (none) "file_ranges (view ob) ob lc = []"
    by (cases "linkedit_name ?c"; cases "?c \<in> ?S") blast+
  then show ?thesis
  proof cases
    case linkedit
    then show ?thesis
      using v single_fits(3) [OF assms(2)] by (simp add: switch_command_linkedit head_cmd)
  next
    case other
    then show ?thesis
      using v segment_fits [OF _ assms(2) head_cmdsize] segment_64_fits [OF _ assms(2) head_cmdsize]
        struct_fits [OF assms(2)] single_fits [OF assms(2)]
      by (auto simp: switch_command_eqs head_cmd)
  qed simp
qed

section \<open>What the pass records\<close>

text \<open>The commands of which the routine allows one, and those of them it has met.\<close>

definition once_commands :: "u32 list" where
  "once_commands = [LC_SYMTAB, LC_DYSYMTAB, LC_ROUTINES, LC_ROUTINES_64, LC_TWOLEVEL_HINTS,
     LC_SEGMENT_SPLIT_INFO, LC_ATOM_INFO, LC_CODE_SIGNATURE, LC_FUNCTION_STARTS, LC_DATA_IN_CODE,
     LC_DYLIB_CODE_SIGN_DRS, LC_LINKER_OPTIMIZATION_HINT, LC_DYLD_EXPORTS_TRIE, LC_DYLD_CHAINED_FIXUPS,
     LC_PREBIND_CKSUM, LC_UUID]"

definition met :: "scan \<Rightarrow> u32 set" where
  "met sc = {c. if c = LC_SYMTAB then sc_st sc \<noteq> None
     else if c = LC_DYSYMTAB then sc_dyst sc \<noteq> None
     else if c = LC_ROUTINES then sc_rc sc \<noteq> None
     else if c = LC_ROUTINES_64 then sc_rc64 sc \<noteq> None
     else if c = LC_TWOLEVEL_HINTS then sc_hints sc \<noteq> None
     else c \<in> set (sc_seen sc)}"

definition grows :: "scan \<Rightarrow> scan \<Rightarrow> bool" where
  "grows sc sc' \<longleftrightarrow> met sc \<subseteq> met sc' \<and> (\<forall>x. sc_st sc = Some x \<longrightarrow> sc_st sc' = Some x) \<and>
     (\<forall>x. sc_dyst sc = Some x \<longrightarrow> sc_dyst sc' = Some x)"

lemma grows_refl [simp]: "grows sc sc"
  by (simp add: grows_def)

lemma grows_trans: "grows a b \<Longrightarrow> grows b c \<Longrightarrow> grows a c"
  by (auto simp: grows_def)

lemma elements_only_met: "elements_only sc sc' \<Longrightarrow> met sc' = met sc"
  by (simp add: met_def elements_only_fields)

lemma elements_only_grows: "elements_only sc sc' \<Longrightarrow> grows sc sc'"
  by (simp add: grows_def elements_only_met elements_only_fields)

definition grows_step :: "scan \<Rightarrow> macho_error + (scan \<times> bytes) \<Rightarrow> bool" where
  "grows_step sc r \<longleftrightarrow> (\<forall>sc' lc'. r = Inr (sc', lc') \<longrightarrow> grows sc sc')"

lemma grows_step_Inl [simp]: "grows_step sc (Inl x)"
  by (simp add: grows_step_def)

lemma grows_if: "(\<not> P \<Longrightarrow> grows_step sc b) \<Longrightarrow> (P \<Longrightarrow> grows_step sc a) \<Longrightarrow> grows_step sc (if P then a else b)"
  by simp

lemma grows_option:
  "grows_step sc a \<Longrightarrow> (\<And>x. grows_step sc (f x)) \<Longrightarrow> grows_step sc (case m of None \<Rightarrow> a | Some x \<Rightarrow> f x)"
  by (cases m) auto

lemma grows_with_struct:
  "(\<And>r sc'. checks r = Inr sc' \<Longrightarrow> grows sc sc') \<Longrightarrow>
   grows_step sc (with_struct ob n dec enc swap checks lc)"
  by (auto simp: grows_step_def with_struct_def andthen_eq_Inr)

lemma check_section_keep: "check_section ob i sg j s sc = Inr sc' \<Longrightarrow> elements_only sc sc'"
  unfolding check_section_def guard_eq_Inr
  by (auto simp: andthen_eq_Inr elements_only_def dest!: check_extent_good add_element_keeps
      split: if_splits)

lemma check_sections_keep: "check_sections ob i sg j ss sc = Inr sc' \<Longrightarrow> elements_only sc sc'"
  by (induction ss arbitrary: j sc)
    (auto simp: andthen_eq_Inr dest!: check_section_keep intro: elements_only_trans)

lemma check_section_64_keep: "check_section_64 ob i sg j s sc = Inr sc' \<Longrightarrow> elements_only sc sc'"
  unfolding check_section_64_def guard_eq_Inr
  by (auto simp: andthen_eq_Inr elements_only_def dest!: check_extent_good add_element_keeps
      split: if_splits)

lemma check_sections_64_keep: "check_sections_64 ob i sg j ss sc = Inr sc' \<Longrightarrow> elements_only sc sc'"
  by (induction ss arbitrary: j sc)
    (auto simp: andthen_eq_Inr dest!: check_section_64_keep intro: elements_only_trans)

lemma grows_update:
  "sc_st sc = None \<Longrightarrow> grows sc (sc\<lparr>sc_st := x\<rparr>)" "sc_dyst sc = None \<Longrightarrow> grows sc (sc\<lparr>sc_dyst := y\<rparr>)"
  "sc_rc sc = None \<Longrightarrow> grows sc (sc\<lparr>sc_rc := z\<rparr>)" "sc_rc64 sc = None \<Longrightarrow> grows sc (sc\<lparr>sc_rc64 := w\<rparr>)"
  "sc_hints sc = None \<Longrightarrow> grows sc (sc\<lparr>sc_hints := h\<rparr>)" "grows sc (sc\<lparr>sc_seen := c # sc_seen sc\<rparr>)"
  "grows sc (sc\<lparr>sc_vers := v\<rparr>)" "grows sc (sc\<lparr>sc_bv1 := b1\<rparr>)" "grows sc (sc\<lparr>sc_bv2 := b2\<rparr>)"
  "grows sc (sc\<lparr>sc_messages := m\<rparr>)" "grows sc (sc\<lparr>sc_bv1 := b1, sc_messages := m\<rparr>)"
  "grows sc (sc\<lparr>sc_bv2 := b2, sc_messages := m\<rparr>)"
  by (simp_all add: grows_def met_def Collect_mono_iff)

lemma case_counted_grows:
  "grows_step sc (case_segment ob i l lc sc)" "grows_step sc (case_segment_64 ob i l lc sc)"
  by (auto simp: grows_step_def case_segment_def case_segment_64_def andthen_eq_Inr split: if_splits
      intro: elements_only_grows check_sections_keep check_sections_64_keep)

lemma build_version_step_grows: "build_version_step ob i bv sc = Inr sc' \<Longrightarrow> grows sc sc'"
  by (auto simp: build_version_step_def Let_def grows_update split: if_splits)

lemma case_build_version_grows: "grows_step sc (case_build_version ob i l lc sc)"
  by (auto simp: grows_step_def case_build_version_def Let_def andthen_eq_Inr split: if_splits
      dest!: build_version_step_grows intro: grows_trans [OF grows_update(10)])

lemma case_thread_grows: "grows_step sc (case_thread bits ob i l lc sc)"
  by (auto simp: grows_step_def case_thread_def andthen_eq_Inr split: if_splits option.splits)

lemma case_struct_grows:
  "grows_step sc (case_symtab ob i l lc sc)" "grows_step sc (case_dysymtab ob i l lc sc)"
  "grows_step sc (case_symseg ob i l lc sc)" "grows_step sc (case_routines ob i l lc sc)"
  "grows_step sc (case_routines_64 ob i l lc sc)" "grows_step sc (case_twolevel_hints ob i l lc sc)"
  "grows_step sc (case_linkedit_data name ob i l lc sc)" "grows_step sc (case_dyld_info ob i l lc sc)"
  "grows_step sc (case_encryption_info ob i l lc sc)"
  "grows_step sc (case_encryption_info_64 ob i l lc sc)" "grows_step sc (case_note ob i l lc sc)"
  "grows_step sc (case_version_min_macosx ob i l lc sc)" "grows_step sc (case_version_min ob i l lc sc)"
  "grows_step sc (case_prebind_cksum ob i l lc sc)" "grows_step sc (case_uuid ob i l lc sc)"
  unfolding case_struct_defs case_encryption_info_64_def case_version_min_macosx_def case_version_min_def
  by (intro grows_if grows_step_Inl grows_with_struct;
      auto split: if_splits intro: grows_update elements_only_grows
        grows_trans [OF grows_update(1) elements_only_grows] grows_trans [OF grows_update(2) elements_only_grows]
        grows_trans [OF grows_update(5) elements_only_grows] grows_trans [OF grows_update(6) elements_only_grows]
        dest!: check_extent_good check_symtab_fits(3) check_dysymtab_fits(7) check_dyld_info_fits(6))+

lemma case_string_grows:
  "grows_step sc (case_fvmlib ob i l lc sc)" "grows_step sc (case_dylib ob i l lc sc)"
  "grows_step sc (case_sub_framework ob i l lc sc)" "grows_step sc (case_sub_umbrella ob i l lc sc)"
  "grows_step sc (case_sub_library ob i l lc sc)" "grows_step sc (case_sub_client ob i l lc sc)"
  "grows_step sc (case_prebound_dylib ob i l lc sc)" "grows_step sc (case_dylinker ob i l lc sc)"
  "grows_step sc (case_rpath ob i l lc sc)" "grows_step sc (case_fileset_entry ob i l lc sc)"
  "grows_step sc (case_linker_option ob i l lc sc)" "grows_step sc (case_main ob i l lc sc)"
  "grows_step sc (case_source_version ob i l lc sc)" "grows_step sc (case_ident ob i l lc sc)"
  unfolding case_string_defs
  by (intro grows_if grows_step_Inl grows_with_struct; auto split: if_splits)+

lemma switch_command_grows: "grows_step sc (switch_command bits ob i l lc sc)"
  unfolding switch_command_def switch_libraries_def switch_linkedit_def
  by (intro grows_if grows_option grows_step_Inl case_thread_grows case_counted_grows
      case_build_version_grows case_struct_grows case_string_grows)

lemma with_struct_Inr:
  "with_struct ob n dec enc swap checks lc = Inr (sc', lc') \<Longrightarrow> \<exists>r. checks r = Inr sc'"
  by (auto simp: with_struct_def andthen_eq_Inr)

lemma linkedit_name_once:
  "linkedit_name c = Some name \<Longrightarrow>
   c \<notin> {LC_SYMTAB, LC_DYSYMTAB, LC_ROUTINES, LC_ROUTINES_64, LC_TWOLEVEL_HINTS}"
  by (auto simp: linkedit_name_def split: if_splits)

lemma switch_once_eqs:
  "lc_cmd l = LC_ROUTINES \<Longrightarrow> switch_command bits ob i l lc sc = case_routines ob i l lc sc"
  "lc_cmd l = LC_ROUTINES_64 \<Longrightarrow> switch_command bits ob i l lc sc = case_routines_64 ob i l lc sc"
  "lc_cmd l = LC_PREBIND_CKSUM \<Longrightarrow> switch_command bits ob i l lc sc = case_prebind_cksum ob i l lc sc"
  "lc_cmd l = LC_UUID \<Longrightarrow> switch_command bits ob i l lc sc = case_uuid ob i l lc sc"
  by (simp_all add: switch_command_def switch_libraries_def switch_linkedit_def linkedit_name_def)

text \<open>A command of which there may be one was not met before, and is met then.\<close>

lemma once_linkedit:
  assumes "case_linkedit_data name ob i l lc sc = Inr (sc', lc')" "linkedit_name (lc_cmd l) = Some name"
  shows "lc_cmd l \<notin> met sc \<and> lc_cmd l \<in> met sc'"
proof -
  have new: "lc_cmd l \<notin> set (sc_seen sc)"
    using assms(1) by (auto simp: case_linkedit_data_def split: if_splits)
  have "elements_only (sc\<lparr>sc_seen := lc_cmd l # sc_seen sc\<rparr>) sc'"
    using assms(1) by (auto simp: case_linkedit_data_def split: if_splits
        dest!: with_struct_Inr check_extent_good)
  then show ?thesis
    using new linkedit_name_once [OF assms(2)]
    by (simp add: elements_only_met) (simp add: met_def)
qed

lemma once_struct:
  "case_symtab ob i l lc sc = Inr (sc', lc') \<Longrightarrow> sc_st sc = None \<and> sc_st sc' \<noteq> None"
  "case_dysymtab ob i l lc sc = Inr (sc', lc') \<Longrightarrow> sc_dyst sc = None \<and> sc_dyst sc' \<noteq> None"
  "case_routines ob i l lc sc = Inr (sc', lc') \<Longrightarrow> sc_rc sc = None \<and> sc_rc sc' \<noteq> None"
  "case_routines_64 ob i l lc sc = Inr (sc', lc') \<Longrightarrow> sc_rc64 sc = None \<and> sc_rc64 sc' \<noteq> None"
  "case_twolevel_hints ob i l lc sc = Inr (sc', lc') \<Longrightarrow> sc_hints sc = None \<and> sc_hints sc' \<noteq> None"
  "case_prebind_cksum ob i l lc sc = Inr (sc', lc') \<Longrightarrow>
     LC_PREBIND_CKSUM \<notin> set (sc_seen sc) \<and> LC_PREBIND_CKSUM \<in> set (sc_seen sc')"
  "case_uuid ob i l lc sc = Inr (sc', lc') \<Longrightarrow> LC_UUID \<notin> set (sc_seen sc) \<and> LC_UUID \<in> set (sc_seen sc')"
  unfolding case_struct_defs
  by (auto split: if_splits dest!: with_struct_Inr check_extent_good check_symtab_fits(3)
      check_dysymtab_fits(7) simp: elements_only_fields)

lemma switch_command_once:
  assumes "switch_command bits ob i l lc sc = Inr (sc', lc')" "lc_cmd l \<in> set once_commands"
  shows "lc_cmd l \<notin> met sc \<and> lc_cmd l \<in> met sc'"
proof (cases "linkedit_name (lc_cmd l)")
  case (Some name)
  then show ?thesis using assms(1) once_linkedit by (simp add: switch_command_linkedit)
next
  case None
  then have "lc_cmd l \<in> {LC_SYMTAB, LC_DYSYMTAB, LC_ROUTINES, LC_ROUTINES_64, LC_TWOLEVEL_HINTS,
      LC_PREBIND_CKSUM, LC_UUID}"
    using assms(2) by (auto simp: once_commands_def linkedit_name_def)
  then show ?thesis
    using assms(1) once_struct [of ob i l lc sc sc' lc']
    by (auto simp: switch_command_eqs switch_once_eqs met_def)
qed

lemma switch_command_tables:
  assumes "switch_command bits ob i (head ob lc) lc sc = Inr (sc', lc')"
    "unat (lc_cmdsize (head ob lc)) \<le> length lc"
  shows "command_of (view ob) lc = LC_SYMTAB \<Longrightarrow>
      sc_st sc' = Some (dec_symtab_command (view ob) (take sizeof_symtab_command lc))"
    "command_of (view ob) lc = LC_DYSYMTAB \<Longrightarrow>
      sc_dyst sc' = Some (dec_dysymtab_command (view ob) (take sizeof_dysymtab_command lc))"
proof -
  have v: "verdict (switch_command bits ob i (head ob lc) lc sc) = Inr sc'" using assms(1) by simp
  show "sc_st sc' = Some (dec_symtab_command (view ob) (take sizeof_symtab_command lc))"
    if "command_of (view ob) lc = LC_SYMTAB"
  proof -
    have "verdict (case_symtab ob i (head ob lc) lc sc) = Inr sc'"
      using v that by (simp add: switch_command_eqs head_cmd)
    from check_symtab_fits(3) [OF struct_good(1) [OF assms(2) this, unfolded Let_def]] show ?thesis
      by (simp add: elements_only_fields)
  qed
  show "sc_dyst sc' = Some (dec_dysymtab_command (view ob) (take sizeof_dysymtab_command lc))"
    if "command_of (view ob) lc = LC_DYSYMTAB"
  proof -
    have "verdict (case_dysymtab ob i (head ob lc) lc sc) = Inr sc'"
      using v that by (simp add: switch_command_eqs head_cmd)
    from check_dysymtab_fits(7) [OF struct_good(2) [OF assms(2) this, unfolded Let_def]] show ?thesis
      by (simp add: elements_only_fields)
  qed
qed

section \<open>The whole pass\<close>

lemma scan_SucE:
  assumes "scan_commands bits ob (Suc n) i lc left sc = Inr (sc2, lc2, left2)"
    "bits_ok bits" "left \<le> length lc"
  obtains sc1 lc1 rest where "sizeof_load_command \<le> left" "cmdsize_of (view ob) lc \<le> left"
    "0 < cmdsize_of (view ob) lc"
    "unat (lc_cmdsize (head ob lc)) \<le> length lc"
    "switch_command bits ob i (head ob lc) lc sc = Inr (sc1, lc1)"
    "scan_commands bits ob n (i + 1) (drop (cmdsize_of (view ob) lc) lc) (left - cmdsize_of (view ob) lc)
       sc1 = Inr (sc2, rest, left2)"
proof -
  have n: "sizeof_load_command \<le> left" using assms(1) by (auto split: if_splits)
  then have at: "load_command_at ob lc = Inr (head ob lc)"
    using assms(3) by (intro load_command_at_view) simp
  let ?k = "cmdsize_of (view ob) lc"
  have k: "?k \<le> left" "0 < ?k" and sw: "\<exists>sc1 lc1 rest. switch_command bits ob i (head ob lc) lc sc = Inr (sc1, lc1) \<and>
      scan_commands bits ob n (i + 1) (drop ?k lc1) (left - ?k) sc1 = Inr (sc2, rest, left2)"
    using assms(1) n at by (auto simp: andthen_eq_Inr head_cmdsize unat_gt_0 split: if_splits)
  then obtain sc1 lc1 rest where s: "switch_command bits ob i (head ob lc) lc sc = Inr (sc1, lc1)"
    "scan_commands bits ob n (i + 1) (drop ?k lc1) (left - ?k) sc1 = Inr (sc2, rest, left2)" by blast
  have le: "unat (lc_cmdsize (head ob lc)) \<le> length lc" using k(1) assms(3) by (simp add: head_cmdsize)
  have "drop ?k lc1 = drop ?k lc"
    using switch_command_safe [OF assms(2) le head_cmdsize, of i sc] s(1)
    by (simp add: safe_step_def same_behind_def head_cmdsize)
  with s k n le show ?thesis by (intro that [of sc1 lc1 rest]) simp_all
qed

text \<open>What holds of the commands \<open>cs\<close> once the pass went from \<open>sc\<close> to \<open>sc'\<close>.\<close>

definition good_commands :: "object \<Rightarrow> bytes list \<Rightarrow> scan \<Rightarrow> scan \<Rightarrow> bool" where
  "good_commands ob cs sc sc' \<longleftrightarrow>
     (\<forall>m \<in> set cs. 0 < cmdsize_of (view ob) m \<and> fits (unat (ob_size ob)) (file_ranges (view ob) ob m)) \<and>
     distinct (filter (\<lambda>c. c \<in> set once_commands) (map (command_of (view ob)) cs)) \<and>
     (\<forall>m \<in> set cs. command_of (view ob) m \<in> set once_commands \<longrightarrow> command_of (view ob) m \<notin> met sc) \<and>
     (\<forall>m \<in> set cs. command_of (view ob) m = LC_SYMTAB \<longrightarrow>
        sc_st sc' = Some (dec_symtab_command (view ob) (take sizeof_symtab_command m))) \<and>
     (\<forall>m \<in> set cs. command_of (view ob) m = LC_DYSYMTAB \<longrightarrow>
        sc_dyst sc' = Some (dec_dysymtab_command (view ob) (take sizeof_dysymtab_command m))) \<and>
     grows sc sc'"

lemma good_commands_Cons:
  assumes "good_commands ob cs sc1 sc2" "switch_command bits ob i (head ob lc) lc sc = Inr (sc1, lc1)"
    "unat (lc_cmdsize (head ob lc)) \<le> length lc" "0 < cmdsize_of (view ob) lc"
  shows "good_commands ob (lc # cs) sc sc2"
proof -
  have g: "grows sc sc1" "grows sc1 sc2"
    using switch_command_grows [of sc bits ob i "head ob lc" lc] assms(1,2)
    by (simp_all add: grows_step_def good_commands_def)
  note once = switch_command_once [OF assms(2), unfolded head_cmd]
  have "command_of (view ob) lc \<in> set once_commands \<Longrightarrow>
      command_of (view ob) lc \<notin> command_of (view ob) ` set cs"
    using once assms(1) by (auto simp: good_commands_def)
  moreover have "command_of (view ob) m \<notin> met sc"
    if "m \<in> set (lc # cs)" "command_of (view ob) m \<in> set once_commands" for m
    using that once assms(1) g(1) by (auto simp: good_commands_def grows_def)
  moreover have "command_of (view ob) lc = LC_SYMTAB \<Longrightarrow>
      sc_st sc2 = Some (dec_symtab_command (view ob) (take sizeof_symtab_command lc))"
    "command_of (view ob) lc = LC_DYSYMTAB \<Longrightarrow>
      sc_dyst sc2 = Some (dec_dysymtab_command (view ob) (take sizeof_dysymtab_command lc))"
    using switch_command_tables [OF assms(2,3)] g(2) by (simp_all add: grows_def)
  moreover have "fits (unat (ob_size ob)) (file_ranges (view ob) ob lc)"
    by (rule switch_command_fits [OF assms(2,3)])
  ultimately show ?thesis
    using assms(1,4) grows_trans [OF g] unfolding good_commands_def by simp
qed

lemma scan_commands_good:
  assumes "scan_commands bits ob n i lc left sc = Inr (sc', lc', left')" "bits_ok bits" "left \<le> length lc"
  shows "left = left' + sum_list (map (cmdsize_of (view ob)) (object_commands (view ob) n lc)) \<and>
    good_commands ob (object_commands (view ob) n lc) sc sc'"
  using assms(1,3)
proof (induction n arbitrary: i lc left sc lc')
  case 0
  then show ?case by (simp add: good_commands_def)
next
  case (Suc n)
  let ?k = "cmdsize_of (view ob) lc"
  from scan_SucE [OF Suc.prems(1) assms(2) Suc.prems(2)] obtain sc1 lc1 rest where
    k: "?k \<le> left" "0 < ?k" "unat (lc_cmdsize (head ob lc)) \<le> length lc"
    and sw: "switch_command bits ob i (head ob lc) lc sc = Inr (sc1, lc1)"
    and rec: "scan_commands bits ob n (i + 1) (drop ?k lc) (left - ?k) sc1 = Inr (sc', rest, left')"
    by metis
  have "left - ?k \<le> length (drop ?k lc)" using Suc.prems(2) by simp
  from Suc.IH [OF rec this] show ?case
    using k(1) good_commands_Cons [OF _ sw k(3,2)] by auto
qed

section \<open>Accepted objects\<close>

lemma good_commandsD:
  assumes "good_commands ob cs sc0 sc" "view ob = v" "ob_size ob = sz"
  shows "\<forall>m \<in> set cs. 0 < cmdsize_of v m"
    "\<forall>m \<in> set cs. \<forall>(off, n) \<in> set (file_ranges v ob m). off + n \<le> unat sz"
    "distinct (filter (\<lambda>c. c \<in> set once_commands) (map (command_of v) cs))"
    "m \<in> set cs \<Longrightarrow> command_of v m = LC_SYMTAB \<Longrightarrow>
      sc_st sc = Some (dec_symtab_command v (take sizeof_symtab_command m))"
    "m \<in> set cs \<Longrightarrow> command_of v m = LC_DYSYMTAB \<Longrightarrow>
      sc_dyst sc = Some (dec_dysymtab_command v (take sizeof_dysymtab_command m))"
  using assms by (simp_all add: good_commands_def fits_def)

text \<open>The first index and the number of the local, the defined external and the undefined symbols.\<close>

definition symbol_ranges :: "dysymtab_command \<Rightarrow> (u32 \<times> u32) list" where
  "symbol_ranges dyst = [(dyst_ilocalsym dyst, dyst_nlocalsym dyst),
     (dyst_iextdefsym dyst, dyst_nextdefsym dyst), (dyst_iundefsym dyst, dyst_nundefsym dyst)]"

lemma check_symbol_range_good:
  "check_symbol_range f i n nsyms = Inr () \<Longrightarrow> n \<noteq> 0 \<longrightarrow> unat i + unat n \<le> unat nsyms"
  by (auto simp: check_symbol_range_def intro: u64_fits split: if_splits)

lemma check_tables_good:
  assumes "check_tables sc = Inr ()" "sc_dyst sc = Some dyst"
  obtains st where "sc_st sc = Some st"
    "\<forall>(i, n) \<in> set (symbol_ranges dyst). n \<noteq> 0 \<longrightarrow> unat i + unat n \<le> unat (st_nsyms st)"
  using assms that
  by (cases "sc_st sc") (auto simp: symbol_ranges_def check_tables_def andthen_eq_Inr dest!: check_symbol_range_good)

lemma check_Mach_O_good:
  fixes e :: endian and swapped is64 :: bool and hdr :: bytes
  assumes "check_Mach_O e bits swapped is64 fc sz hdr lc = Inr (sc, hdr', lc')"
    "bits_ok bits" "sizeof_header is64 \<le> length hdr" "unat sz \<le> sizeof_header is64 + length lc"
  defines "v \<equiv> (if swapped then opp e else e)"
  defines "mh \<equiv> dec_mach_header v hdr"
  defines "cs \<equiv> object_commands v (unat (mh_ncmds mh)) lc"
  defines "ob \<equiv> mach_object e swapped is64 sz hdr"
  obtains sc0 where "unat (mh_sizeofcmds mh) + sizeof_header is64 \<le> unat sz"
    "sum_list (map (cmdsize_of v) cs) = unat (mh_sizeofcmds mh)"
    "good_commands ob cs sc0 sc" "check_tables sc = Inr ()"
    "fc = None \<or> fc = Some (mh_cputype mh)" "view ob = v"
    "sc_st sc0 = None" "sc_dyst sc0 = None"
proof -
  have view: "view ob = v" by (simp add: ob_def v_def mach_object_def view_def Let_def)
  have cpu: "ob_cputype ob = mh_cputype mh" "ob_size ob = sz"
    by (simp_all add: ob_def mh_def v_def mach_object_def Let_def)
  obtain h where eq: "check_Mach_O e bits swapped is64 fc sz hdr lc =
       (if unat (mh_sizeofcmds mh) + sizeof_header is64 > unat sz then Inl Headers_Past_End
        else andthen (check_load_commands bits fc ob (mh_ncmds mh) (mh_sizeofcmds mh) lc)
          (\<lambda>(sc, lc'). Inr (sc, h, lc')))"
    unfolding ob_def mh_def v_def
    by (rule check_Mach_O_eq [OF assms(3), where e = e and swapped = swapped and bits = bits and fc = fc
        and sz = sz and lc = lc])
  have le: "unat (mh_sizeofcmds mh) + sizeof_header is64 \<le> unat sz"
    using eq assms(1) by (metis Inl_Inr_False not_le)
  then have good: "check_load_commands bits fc ob (mh_ncmds mh) (mh_sizeofcmds mh) lc = Inr (sc, lc')"
    using eq assms(1) by (cases "check_load_commands bits fc ob (mh_ncmds mh) (mh_sizeofcmds mh) lc")
      (auto split: if_splits)
  from good obtain sc0 where sc0: "add_element 0 (ob_sizeofhdrs ob) ''Mach-O headers'' no_scan = Inr sc0"
    "fc = None \<or> fc = Some (ob_cputype ob)"
    "scan_commands bits ob (unat (mh_ncmds mh)) 0 lc (unat (mh_sizeofcmds mh)) sc0 = Inr (sc, lc', 0)"
    "check_tables sc = Inr ()"
    by (rule check_load_commandsE)
  have "unat (mh_sizeofcmds mh) \<le> length lc" using le assms(4) by simp
  from scan_commands_good [OF sc0(3) assms(2) this] show ?thesis
    using that [of sc0] sc0(2,4) le cpu elements_only_fields [OF add_element_keeps [OF sc0(1)]]
    by (simp add: view cs_def no_scan_def)
qed




text \<open>An object with a symbol table and a dynamic symbol table.\<close>

definition symbols_header :: bytes where
  "symbols_header = enc_mach_header BE \<lparr>mh_magic = MH_MAGIC, mh_cputype = CPU_TYPE_POWERPC,
     mh_cpusubtype = 0, mh_filetype = 2, mh_ncmds = 2, mh_sizeofcmds = 104, mh_flags = 0\<rparr>"

definition symbols_commands :: bytes where
  "symbols_commands =
     enc_dysymtab_command BE \<lparr>lc_cmd = LC_DYSYMTAB, lc_cmdsize = 80, dyst_ilocalsym = 0, dyst_nlocalsym = 0,
       dyst_iextdefsym = 0, dyst_nextdefsym = 1, dyst_iundefsym = 1, dyst_nundefsym = 1, dyst_tocoff = 0,
       dyst_ntoc = 0, dyst_modtaboff = 0, dyst_nmodtab = 0, dyst_extrefsymoff = 0, dyst_nextrefsyms = 0,
       dyst_indirectsymoff = 0, dyst_nindirectsyms = 0, dyst_extreloff = 0, dyst_nextrel = 0,
       dyst_locreloff = 0, dyst_nlocrel = 0\<rparr> @
     enc_symtab_command BE \<lparr>lc_cmd = LC_SYMTAB, lc_cmdsize = 24, st_symoff = 132, st_nsyms = 2,
       st_stroff = 156, st_strsize = 4\<rparr> @
     replicate 28 0"


end
