(* ===== verification/CheckMachO_Limits.thy ===== *)
theory CheckMachO_Limits
  imports CheckMachO_Correct SwapHeaders
begin

text \<open>
  Where \<open>check_Mach_O\<close> of \<^verbatim>\<open>cctools/libstuff/ofile.c\<close> falls short, and \<open>swap_back_Mach_O\<close>, which
  undoes its swapping. Each theorem is a small object the routine is run on.
\<close>

section \<open>Swapping back\<close>

text \<open>The value of \<open>swap_object_headers\<close> is not looked at: when it finds a command it does not know, it has
  changed nothing.\<close>

definition swap_back_Mach_O :: "endian \<Rightarrow> bit_swap \<Rightarrow> bool \<Rightarrow> bytes \<Rightarrow> bytes \<Rightarrow> (bool \<times> bytes \<times> bytes) result" where
  "swap_back_Mach_O e bits headers_swapped hdr lc =
     (if headers_swapped then
        (case swap_object_headers e bits hdr lc of
           Inl Memory_Fault \<Rightarrow> Inl Memory_Fault
         | Inl _ \<Rightarrow> Inr (False, hdr, lc)
         | Inr (hdr', lc') \<Rightarrow> Inr (False, hdr', lc'))
      else Inr (False, hdr, lc))"

definition trie_header :: bytes where
  "trie_header = enc_mach_header BE \<lparr>mh_magic = MH_MAGIC, mh_cputype = CPU_TYPE_POWERPC,
     mh_cpusubtype = 0, mh_filetype = 2, mh_ncmds = 1, mh_sizeofcmds = 16, mh_flags = 0\<rparr>"

definition trie_commands :: bytes where
  "trie_commands = enc_linkedit_data_command BE \<lparr>lc_cmd = LC_DYLD_EXPORTS_TRIE, lc_cmdsize = 16,
     ld_dataoff = 44, ld_datasize = 4\<rparr> @ replicate 4 0"

text \<open>The same object as the check leaves it.\<close>

definition trie_header_swapped :: bytes where
  "trie_header_swapped = enc_mach_header LE \<lparr>mh_magic = MH_MAGIC, mh_cputype = CPU_TYPE_POWERPC,
     mh_cpusubtype = 0, mh_filetype = 2, mh_ncmds = 1, mh_sizeofcmds = 16, mh_flags = 0\<rparr>"

definition trie_commands_swapped :: bytes where
  "trie_commands_swapped = enc_linkedit_data_command LE \<lparr>lc_cmd = LC_DYLD_EXPORTS_TRIE, lc_cmdsize = 16,
     ld_dataoff = 44, ld_datasize = 4\<rparr> @ replicate 4 0"

lemma trie_checked:
  "case check_Mach_O LE keep_bits True False None 48 trie_header trie_commands of
     Inl _ \<Rightarrow> False | Inr (sc, hdr', lc') \<Rightarrow> hdr' = trie_header_swapped \<and> lc' = trie_commands_swapped"
  by code_simp

lemma trie_unknown:
  "swap_object_headers LE keep_bits trie_header_swapped trie_commands_swapped = Inl (Unknown_Command 0)"
  by code_simp

text \<open>The check accepts objects that cannot be swapped back: an object of the other byte order with an
  exports trie passes the check, which swaps its headers, but \<open>swap_object_headers\<close> does not know the
  command, and swapping back leaves the headers as they are, so that the file in memory stays in the
  byte order of the host.\<close>

theorem exports_trie_not_swapped_back:
  "\<exists>sc hdr' lc'. check_Mach_O LE keep_bits True False None 48 trie_header trie_commands = Inr (sc, hdr', lc') \<and>
     swap_back_Mach_O LE keep_bits True hdr' lc' = Inr (False, hdr', lc') \<and> hdr' \<noteq> trie_header"
proof -
  obtain sc where "check_Mach_O LE keep_bits True False None 48 trie_header trie_commands =
      Inr (sc, trie_header_swapped, trie_commands_swapped)"
    using trie_checked by (auto split: sum.splits)
  moreover have "swap_back_Mach_O LE keep_bits True trie_header_swapped trie_commands_swapped =
      Inr (False, trie_header_swapped, trie_commands_swapped)"
    by (simp add: swap_back_Mach_O_def trie_unknown)
  moreover have "trie_header_swapped \<noteq> trie_header" by code_simp
  ultimately show ?thesis by blast
qed

section \<open>Sums that wrap\<close>

definition wrap_header :: bytes where
  "wrap_header = enc_mach_header_64 LE \<lparr>mh64_magic = MH_MAGIC_64, mh64_cputype = CPU_TYPE_X86_64,
     mh64_cpusubtype = 3, mh64_filetype = 2, mh64_ncmds = 1, mh64_sizeofcmds = 72, mh64_flags = 0,
     mh64_reserved = 0\<rparr>"

definition wrap_segment :: segment_command_64 where
  "wrap_segment = \<lparr>lc_cmd = LC_SEGMENT_64, lc_cmdsize = 72, sg64_segname = replicate 16 0, sg64_vmaddr = 0,
     sg64_vmsize = 0, sg64_fileoff = 64, sg64_filesize = 0xfffffffffffffff0, sg64_maxprot = 0,
     sg64_initprot = 0, sg64_nsects = 0, sg64_flags = 0\<rparr>"

text \<open>A 64 bit segment may end past the end of the file: the sum of its file offset and its file size is
  computed in 64 bits, as the fields have, and wraps. The object of 104 bytes here passes the check with
  a segment of nearly \<open>2 ^ 64\<close> bytes at offset 64.\<close>

theorem segment_64_past_end_accepted:
  "\<not> isl (check_Mach_O LE keep_bits False True None 104 wrap_header (enc_segment_command_64 LE wrap_segment)) \<and>
   uint (sg64_fileoff wrap_segment) + uint (sg64_filesize wrap_segment) > 104"
  by code_simp

section \<open>The header of the other word size\<close>

definition mixed_header :: bytes where
  "mixed_header = enc_mach_header LE \<lparr>mh_magic = MH_MAGIC, mh_cputype = CPU_TYPE_I386,
     mh_cpusubtype = 3, mh_filetype = 2, mh_ncmds = 1, mh_sizeofcmds = 152, mh_flags = 0\<rparr>"

definition mixed_commands :: bytes where
  "mixed_commands = enc_segment_command_64 LE \<lparr>lc_cmd = LC_SEGMENT_64, lc_cmdsize = 152,
     sg64_segname = replicate 16 0, sg64_vmaddr = 0, sg64_vmsize = 0, sg64_fileoff = 0, sg64_filesize = 0,
     sg64_maxprot = 0, sg64_initprot = 0, sg64_nsects = 1, sg64_flags = 0\<rparr> @ replicate 80 0"

text \<open>A 64 bit segment command with a section in a 32 bit object makes the routine read the file type
  through the pointer to the 64 bit header, which is \<open>NULL\<close> for such an object: the tool stops with a
  fault instead of a message. No command is refused for being of the other word size.\<close>

theorem segment_64_in_32_bit_object:
  "check_Mach_O LE keep_bits False False None 180 mixed_header mixed_commands = Inl Null_Header"
  by code_simp

section \<open>Messages without consequence\<close>

definition versions_header :: bytes where
  "versions_header = enc_mach_header_64 LE \<lparr>mh64_magic = MH_MAGIC_64, mh64_cputype = CPU_TYPE_X86_64,
     mh64_cpusubtype = 3, mh64_filetype = 2, mh64_ncmds = 3, mh64_sizeofcmds = 72, mh64_flags = 0,
     mh64_reserved = 0\<rparr>"

definition versions_commands :: bytes where
  "versions_commands = concat (map (\<lambda>p. enc_build_version_command LE \<lparr>lc_cmd = LC_BUILD_VERSION,
     lc_cmdsize = 24, bv_platform = p, bv_minos = 0, bv_sdk = 0, bv_ntools = 0\<rparr>) [2, 3, 4])"

text \<open>The messages about the platforms of build version commands, unlike all others, do not make the
  object bad: an object with three build version commands, for three systems, is called malformed three
  times and accepted.\<close>

theorem build_versions_accepted:
  "(case check_Mach_O LE keep_bits False True None 104 versions_header versions_commands of
      Inl _ \<Rightarrow> False
    | Inr (sc, _) \<Rightarrow> sc_messages sc =
        [Not_Macos_And_Maccatalyst, More_Than_Two_Build_Versions, Not_Macos_And_Maccatalyst])"
  by code_simp

end
