(* ===== verification/SwapHeaders_Correct.thy ===== *)
theory SwapHeaders_Correct
  imports SwapHeaders
begin

text \<open>
  Correctness of \<open>swap_object_headers\<close>. The first pass accepts only load commands that tile the area
  the header gives; on commands whose structure lies inside them the second pass stays inside the
  area, does not fail, and the machine of the other byte order walks the result as this one walked
  the original and swaps it back to the original. The theory ends with the cases where the code does
  not do that.
\<close>

section \<open>Operations on memory\<close>

lemma read32_append:
  "off + 4 \<le> length a \<Longrightarrow> read32 e (a @ b) off = Inr (get32 e a off)"
  by (simp add: read32_def slice_def)

lemma apply_at_append:
  "off + n \<le> length a \<Longrightarrow>
   apply_at off n f (a @ b) = Inr ((take off a @ f (slice off n a) @ drop (off + n) a) @ b)"
  by (simp add: apply_at_def slice_def)

lemma apply_at_0_append:
  "n \<le> length a \<Longrightarrow> apply_at 0 n f (a @ b) = Inr (f (take n a) @ drop n a @ b)"
  by (simp add: apply_at_def slice_def)

fun map_elems :: "nat \<Rightarrow> (bytes \<Rightarrow> bytes) \<Rightarrow> nat \<Rightarrow> bytes \<Rightarrow> bytes" where
  "map_elems n f 0 bs = bs"
| "map_elems n f (Suc k) bs = f (take n bs) @ map_elems n f k (drop n bs)"

lemma apply_array_map_elems:
  assumes f: "\<And>bs. length bs = n \<Longrightarrow> length (f bs) = n"
  shows "length a = off \<Longrightarrow> k * n \<le> length lc \<Longrightarrow>
    apply_array off n f k (a @ lc) = Inr (a @ map_elems n f k lc)"
proof (induction k arbitrary: off a lc)
  case (Suc k)
  then have len: "length (take n lc) = n" by simp
  have "apply_at off n f (a @ lc) = Inr (a @ f (take n lc) @ drop n lc)"
    using Suc.prems by (simp add: apply_at_def slice_def)
  moreover have "apply_array (off + n) n f k ((a @ f (take n lc)) @ drop n lc) =
      Inr ((a @ f (take n lc)) @ map_elems n f k (drop n lc))"
    using Suc.prems f [OF len] by (intro Suc.IH) auto
  ultimately show ?case by simp
qed simp

lemma length_map_elems:
  assumes f: "\<And>bs. length bs = n \<Longrightarrow> length (f bs) = n"
  shows "k * n \<le> length lc \<Longrightarrow> length (map_elems n f k lc) = length lc"
proof (induction k arbitrary: lc)
  case (Suc k)
  then have "length (f (take n lc)) = n" by (intro f) simp
  with Suc show ?case by simp
qed simp

lemma map_elems_append:
  "k * n \<le> length a \<Longrightarrow> map_elems n f k (a @ b) = map_elems n f k a @ b"
  by (induction k arbitrary: a) simp_all

context memory_codec
begin

lemma map_elems_twice:
  "k * sz \<le> length bs \<Longrightarrow>
   map_elems sz (conv (opp e)) k (map_elems sz (conv e) k bs) = bs"
proof (induction k arbitrary: bs)
  case (Suc k)
  then have len: "length (take sz bs) = sz" by simp
  from Suc.prems have "k * sz \<le> length (drop sz bs)" by simp
  from Suc.IH [OF this] len show ?case
    by (simp add: length_conv conv_conv)
qed simp

end

section \<open>One load command\<close>

text \<open>What a command turns into: the image of its bytes does not depend on what follows, has the same
  size and the same first two words for the other machine, and that machine turns it back.\<close>

definition swaps_to ::
  "(endian \<Rightarrow> bytes \<Rightarrow> bytes result) \<Rightarrow> endian \<Rightarrow> bytes \<Rightarrow> bytes \<Rightarrow> bool" where
  "swaps_to f e c img \<longleftrightarrow>
     length img = length c \<and> 8 \<le> length c \<and>
     get32 (opp e) img 0 = get32 e c 0 \<and> get32 (opp e) img 4 = get32 e c 4 \<and>
     (\<forall>rest. f e (c @ rest) = Inr (img @ rest)) \<and>
     (\<forall>rest. f (opp e) (img @ rest) = Inr (c @ rest))"

context command_codec
begin

lemma get32_conv_append:
  assumes "sz \<le> length c" "off + 4 \<le> sz"
    "get32 (opp e) (conv e (take sz c)) off = get32 e (take sz c) off"
  shows "get32 (opp e) (conv e (take sz c) @ d) off = get32 e c off"
proof -
  have len: "length (conv e (take sz c)) = sz" using assms(1) by (simp add: length_conv)
  with assms(2) have "get32 (opp e) (conv e (take sz c) @ d) off =
      get32 (opp e) (conv e (take sz c)) off"
    by (simp add: slice_def)
  also have "\<dots> = get32 e (take sz c) off" by (rule assms(3))
  also have "\<dots> = get32 e c off"
    using assms(2) by (simp add: slice_def drop_take min_def)
  finally show ?thesis .
qed

lemma plain_swaps_to:
  assumes "sz \<le> length c"
  shows "swaps_to (\<lambda>e. apply_at 0 sz (conv e)) e c (conv e (take sz c) @ drop sz c)"
proof -
  have len: "length (conv e (take sz c)) = sz" using assms by (simp add: length_conv)
  with assms sz_ge_8 show ?thesis
    by (simp add: swaps_to_def apply_at_0_append get32_conv_append conv_cmd conv_cmdsize)
      (simp add: apply_at_def slice_def conv_conv)
qed

text \<open>The same for a command followed by a table whose count it holds.\<close>

lemma counted_swaps_to:
  assumes g: "memory_codec n g"
    and count: "off + 4 \<le> sz"
      "\<And>bs e. length bs = sz \<Longrightarrow> get32 (opp e) (conv e bs) off = get32 e bs off"
    and c: "length c = sz + unat (get32 e c off) * n"
  shows "swaps_to (\<lambda>e. swap_counted e sz conv n g off) e c
     (conv e (take sz c) @ map_elems n (g e) (unat (get32 e c off)) (drop sz c))"
  (is "swaps_to _ e c (?a @ ?b)")
proof -
  let ?k = "unat (get32 e c off)"
  have len: "length ?a = sz" using c by (simp add: length_conv)
  have lenb: "length ?b = length c - sz"
    using c memory_codec.length_conv [OF g] by (simp add: length_map_elems)
  have count': "get32 (opp e) (?a @ ?b) off = get32 e c off"
    using c count by (intro get32_conv_append) simp_all
  have fwd: "swap_counted e sz conv n g off (c @ rest) = Inr ((?a @ ?b) @ rest)" for rest
  proof -
    have "apply_array sz n (g e) ?k (take sz c @ drop sz c @ rest) =
        Inr (take sz c @ map_elems n (g e) ?k (drop sz c @ rest))"
      using c memory_codec.length_conv [OF g] by (intro apply_array_map_elems) simp_all
    moreover have "apply_at 0 sz (conv e) (take sz c @ ?b @ rest) = Inr (?a @ ?b @ rest)"
      using c by (simp add: apply_at_0_append)
    ultimately show ?thesis
      using c count by (simp add: swap_counted_def read32_append map_elems_append
          flip: append_assoc)
  qed
  have bwd: "swap_counted (opp e) sz conv n g off ((?a @ ?b) @ rest) = Inr (c @ rest)" for rest
  proof -
    have "apply_array sz n (g (opp e)) ?k (?a @ ?b @ rest) =
        Inr (?a @ map_elems n (g (opp e)) ?k (?b @ rest))"
      using c len lenb memory_codec.length_conv [OF g] by (intro apply_array_map_elems) simp_all
    moreover have "map_elems n (g (opp e)) ?k ?b = drop sz c"
      using c by (simp add: memory_codec.map_elems_twice [OF g])
    moreover have "apply_at 0 sz (conv (opp e)) (?a @ drop sz c @ rest) = Inr (c @ rest)"
      using c len by (simp add: apply_at_0_append conv_conv flip: append_assoc)
    ultimately show ?thesis
      using c count(1) len lenb
      by (simp add: swap_counted_def read32_append count' map_elems_append del: append_assoc) simp
  qed
  show ?thesis
    using c len lenb fwd bwd sz_ge_8
    by (simp add: swaps_to_def get32_conv_append conv_cmd conv_cmdsize)
qed

end

section \<open>The commands of the two switches\<close>

definition whole_command :: "u32 \<times> u32 \<Rightarrow> bool" where
  "whole_command = (\<lambda>(cmd, cmdsize).
     cmd \<notin> {LC_THREAD, LC_UNIXTHREAD, LC_ENCRYPTION_INFO_64} \<and>
     (cmd = LC_MAIN \<longrightarrow> sizeof_entry_point_command \<le> unat cmdsize) \<and>
     (cmd = LC_SOURCE_VERSION \<longrightarrow> sizeof_source_version_command \<le> unat cmdsize) \<and>
     (cmd = LC_NOTE \<longrightarrow> sizeof_note_command \<le> unat cmdsize) \<and>
     (cmd = LC_IDENT \<longrightarrow> sizeof_ident_command \<le> unat cmdsize))"

abbreviation counted_commands :: "u32 list" where
  "counted_commands \<equiv> [LC_SEGMENT, LC_SEGMENT_64, LC_BUILD_VERSION]"

text \<open>The rule of the first pass for a command that the second pass swaps as one structure.\<close>

definition rule_fits :: "size_rule \<Rightarrow> nat \<Rightarrow> (endian \<Rightarrow> bytes \<Rightarrow> bytes) \<Rightarrow> nat \<Rightarrow> bool" where
  "rule_fits r n f cmdsize \<longleftrightarrow>
     (case r of
        Exact m \<Rightarrow> m = n
      | At_Least m offs \<Rightarrow> m = n \<and> string_command n f offs
      | Within \<Rightarrow> n \<le> cmdsize
      | _ \<Rightarrow> False)"

lemmas command_codecs = symtab_command_conv.command_codec_axioms
  dysymtab_command_conv.command_codec_axioms
  symseg_command_conv.command_codec_axioms
  fvmlib_command_conv.command_codec_axioms
  dylib_command_conv.command_codec_axioms
  sub_framework_command_conv.command_codec_axioms
  sub_umbrella_command_conv.command_codec_axioms
  sub_library_command_conv.command_codec_axioms
  sub_client_command_conv.command_codec_axioms
  prebound_dylib_command_conv.command_codec_axioms
  dylinker_command_conv.command_codec_axioms
  entry_point_command_conv.command_codec_axioms
  source_version_command_conv.command_codec_axioms
  note_command_conv.command_codec_axioms
  ident_command_conv.command_codec_axioms
  routines_command_conv.command_codec_axioms
  routines_command_64_conv.command_codec_axioms
  twolevel_hints_command_conv.command_codec_axioms
  prebind_cksum_command_conv.command_codec_axioms
  uuid_command_conv.command_codec_axioms
  linkedit_data_command_conv.command_codec_axioms
  rpath_command_conv.command_codec_axioms
  encryption_info_command_conv.command_codec_axioms
  linker_option_command_conv.command_codec_axioms
  dyld_info_command_conv.command_codec_axioms
  version_min_command_conv.command_codec_axioms

lemmas string_commands = fvmlib_command_strings.string_command_axioms
  dylib_command_strings.string_command_axioms
  sub_framework_command_strings.string_command_axioms
  sub_umbrella_command_strings.string_command_axioms
  sub_library_command_strings.string_command_axioms
  sub_client_command_strings.string_command_axioms
  prebound_dylib_command_strings.string_command_axioms
  dylinker_command_strings.string_command_axioms
  rpath_command_strings.string_command_axioms
  linker_option_command_strings.string_command_axioms

definition plain_commands :: "u32 list" where
  "plain_commands = [
    LC_SYMTAB, LC_DYSYMTAB, LC_SYMSEG, LC_IDFVMLIB, LC_LOADFVMLIB, LC_ID_DYLIB, LC_LOAD_DYLIB,
    LC_LOAD_WEAK_DYLIB, LC_REEXPORT_DYLIB, LC_LOAD_UPWARD_DYLIB, LC_LAZY_LOAD_DYLIB,
    LC_SUB_FRAMEWORK, LC_SUB_UMBRELLA, LC_SUB_LIBRARY, LC_SUB_CLIENT, LC_PREBOUND_DYLIB,
    LC_ID_DYLINKER, LC_LOAD_DYLINKER, LC_DYLD_ENVIRONMENT, LC_MAIN, LC_SOURCE_VERSION, LC_NOTE,
    LC_IDENT, LC_ROUTINES, LC_ROUTINES_64, LC_TWOLEVEL_HINTS, LC_PREBIND_CKSUM, LC_UUID,
    LC_CODE_SIGNATURE, LC_SEGMENT_SPLIT_INFO, LC_FUNCTION_STARTS, LC_DATA_IN_CODE,
    LC_ATOM_INFO, LC_DYLIB_CODE_SIGN_DRS, LC_LINKER_OPTIMIZATION_HINT, LC_VERSION_MIN_MACOSX,
    LC_VERSION_MIN_IPHONEOS, LC_VERSION_MIN_TVOS, LC_VERSION_MIN_WATCHOS, LC_RPATH,
    LC_ENCRYPTION_INFO, LC_LINKER_OPTION, LC_DYLD_INFO, LC_DYLD_INFO_ONLY]"

lemma size_rule_known:
  "size_rule cmd = Some r \<Longrightarrow>
   cmd \<in> set (plain_commands @ counted_commands @ [LC_THREAD, LC_UNIXTHREAD, LC_ENCRYPTION_INFO_64])"
  unfolding size_rule_defs plain_commands_def orelse_eq_Some_iff
  by (simp split: if_split_asm; (elim disjE; simp)?)

lemma size_rule_eval:
  "size_rule LC_SYMTAB = Some (Exact sizeof_symtab_command)"
  "size_rule LC_DYSYMTAB = Some (Exact sizeof_dysymtab_command)"
  "size_rule LC_SYMSEG = Some (Exact sizeof_symseg_command)"
  "size_rule LC_IDFVMLIB = Some (At_Least sizeof_fvmlib_command [8])"
  "size_rule LC_LOADFVMLIB = Some (At_Least sizeof_fvmlib_command [8])"
  "size_rule LC_ID_DYLIB = Some (At_Least sizeof_dylib_command [8])"
  "size_rule LC_LOAD_DYLIB = Some (At_Least sizeof_dylib_command [8])"
  "size_rule LC_LOAD_WEAK_DYLIB = Some (At_Least sizeof_dylib_command [8])"
  "size_rule LC_REEXPORT_DYLIB = Some (At_Least sizeof_dylib_command [8])"
  "size_rule LC_LOAD_UPWARD_DYLIB = Some (At_Least sizeof_dylib_command [8])"
  "size_rule LC_LAZY_LOAD_DYLIB = Some (At_Least sizeof_dylib_command [8])"
  "size_rule LC_SUB_FRAMEWORK = Some (At_Least sizeof_sub_framework_command [8])"
  "size_rule LC_SUB_UMBRELLA = Some (At_Least sizeof_sub_umbrella_command [8])"
  "size_rule LC_SUB_LIBRARY = Some (At_Least sizeof_sub_library_command [8])"
  "size_rule LC_SUB_CLIENT = Some (At_Least sizeof_sub_client_command [8])"
  "size_rule LC_PREBOUND_DYLIB = Some (At_Least sizeof_prebound_dylib_command [8, 16])"
  "size_rule LC_ID_DYLINKER = Some (At_Least sizeof_dylinker_command [8])"
  "size_rule LC_LOAD_DYLINKER = Some (At_Least sizeof_dylinker_command [8])"
  "size_rule LC_DYLD_ENVIRONMENT = Some (At_Least sizeof_dylinker_command [8])"
  "size_rule LC_MAIN = Some (Within)"
  "size_rule LC_SOURCE_VERSION = Some (Within)"
  "size_rule LC_NOTE = Some (Within)"
  "size_rule LC_IDENT = Some (Within)"
  "size_rule LC_ROUTINES = Some (Exact sizeof_routines_command)"
  "size_rule LC_ROUTINES_64 = Some (Exact sizeof_routines_command_64)"
  "size_rule LC_TWOLEVEL_HINTS = Some (Exact sizeof_twolevel_hints_command)"
  "size_rule LC_PREBIND_CKSUM = Some (Exact sizeof_prebind_cksum_command)"
  "size_rule LC_UUID = Some (Exact sizeof_uuid_command)"
  "size_rule LC_CODE_SIGNATURE = Some (Exact sizeof_linkedit_data_command)"
  "size_rule LC_SEGMENT_SPLIT_INFO = Some (Exact sizeof_linkedit_data_command)"
  "size_rule LC_FUNCTION_STARTS = Some (Exact sizeof_linkedit_data_command)"
  "size_rule LC_DATA_IN_CODE = Some (Exact sizeof_linkedit_data_command)"
  "size_rule LC_ATOM_INFO = Some (Exact sizeof_linkedit_data_command)"
  "size_rule LC_DYLIB_CODE_SIGN_DRS = Some (Exact sizeof_linkedit_data_command)"
  "size_rule LC_LINKER_OPTIMIZATION_HINT = Some (Exact sizeof_linkedit_data_command)"
  "size_rule LC_VERSION_MIN_MACOSX = Some (Exact sizeof_version_min_command)"
  "size_rule LC_VERSION_MIN_IPHONEOS = Some (Exact sizeof_version_min_command)"
  "size_rule LC_VERSION_MIN_TVOS = Some (Exact sizeof_version_min_command)"
  "size_rule LC_VERSION_MIN_WATCHOS = Some (Exact sizeof_version_min_command)"
  "size_rule LC_RPATH = Some (At_Least sizeof_rpath_command [8])"
  "size_rule LC_ENCRYPTION_INFO = Some (Exact sizeof_encryption_info_command)"
  "size_rule LC_LINKER_OPTION = Some (At_Least sizeof_linker_option_command [])"
  "size_rule LC_DYLD_INFO = Some (Exact sizeof_dyld_info_command)"
  "size_rule LC_DYLD_INFO_ONLY = Some (Exact sizeof_dyld_info_command)"
  by (simp_all add: size_rule_defs)

lemma swap_struct_eval:
  "swap_struct LC_SYMTAB = Some (sizeof_symtab_command,
     in_place dec_symtab_command enc_symtab_command swap_symtab_command)"
  "swap_struct LC_DYSYMTAB = Some (sizeof_dysymtab_command,
     in_place dec_dysymtab_command enc_dysymtab_command swap_dysymtab_command)"
  "swap_struct LC_SYMSEG = Some (sizeof_symseg_command,
     in_place dec_symseg_command enc_symseg_command swap_symseg_command)"
  "swap_struct LC_IDFVMLIB = Some (sizeof_fvmlib_command,
     in_place dec_fvmlib_command enc_fvmlib_command swap_fvmlib_command)"
  "swap_struct LC_LOADFVMLIB = Some (sizeof_fvmlib_command,
     in_place dec_fvmlib_command enc_fvmlib_command swap_fvmlib_command)"
  "swap_struct LC_ID_DYLIB = Some (sizeof_dylib_command,
     in_place dec_dylib_command enc_dylib_command swap_dylib_command)"
  "swap_struct LC_LOAD_DYLIB = Some (sizeof_dylib_command,
     in_place dec_dylib_command enc_dylib_command swap_dylib_command)"
  "swap_struct LC_LOAD_WEAK_DYLIB = Some (sizeof_dylib_command,
     in_place dec_dylib_command enc_dylib_command swap_dylib_command)"
  "swap_struct LC_REEXPORT_DYLIB = Some (sizeof_dylib_command,
     in_place dec_dylib_command enc_dylib_command swap_dylib_command)"
  "swap_struct LC_LOAD_UPWARD_DYLIB = Some (sizeof_dylib_command,
     in_place dec_dylib_command enc_dylib_command swap_dylib_command)"
  "swap_struct LC_LAZY_LOAD_DYLIB = Some (sizeof_dylib_command,
     in_place dec_dylib_command enc_dylib_command swap_dylib_command)"
  "swap_struct LC_SUB_FRAMEWORK = Some (sizeof_sub_framework_command,
     in_place dec_sub_framework_command enc_sub_framework_command swap_sub_framework_command)"
  "swap_struct LC_SUB_UMBRELLA = Some (sizeof_sub_umbrella_command,
     in_place dec_sub_umbrella_command enc_sub_umbrella_command swap_sub_umbrella_command)"
  "swap_struct LC_SUB_LIBRARY = Some (sizeof_sub_library_command,
     in_place dec_sub_library_command enc_sub_library_command swap_sub_library_command)"
  "swap_struct LC_SUB_CLIENT = Some (sizeof_sub_client_command,
     in_place dec_sub_client_command enc_sub_client_command swap_sub_client_command)"
  "swap_struct LC_PREBOUND_DYLIB = Some (sizeof_prebound_dylib_command,
     in_place dec_prebound_dylib_command enc_prebound_dylib_command swap_prebound_dylib_command)"
  "swap_struct LC_ID_DYLINKER = Some (sizeof_dylinker_command,
     in_place dec_dylinker_command enc_dylinker_command swap_dylinker_command)"
  "swap_struct LC_LOAD_DYLINKER = Some (sizeof_dylinker_command,
     in_place dec_dylinker_command enc_dylinker_command swap_dylinker_command)"
  "swap_struct LC_DYLD_ENVIRONMENT = Some (sizeof_dylinker_command,
     in_place dec_dylinker_command enc_dylinker_command swap_dylinker_command)"
  "swap_struct LC_MAIN = Some (sizeof_entry_point_command,
     in_place dec_entry_point_command enc_entry_point_command swap_entry_point_command)"
  "swap_struct LC_SOURCE_VERSION = Some (sizeof_source_version_command,
     in_place dec_source_version_command enc_source_version_command swap_source_version_command)"
  "swap_struct LC_NOTE = Some (sizeof_note_command,
     in_place dec_note_command enc_note_command swap_note_command)"
  "swap_struct LC_IDENT = Some (sizeof_ident_command,
     in_place dec_ident_command enc_ident_command swap_ident_command)"
  "swap_struct LC_ROUTINES = Some (sizeof_routines_command,
     in_place dec_routines_command enc_routines_command swap_routines_command)"
  "swap_struct LC_ROUTINES_64 = Some (sizeof_routines_command_64,
     in_place dec_routines_command_64 enc_routines_command_64 swap_routines_command_64)"
  "swap_struct LC_TWOLEVEL_HINTS = Some (sizeof_twolevel_hints_command,
     in_place dec_twolevel_hints_command enc_twolevel_hints_command swap_twolevel_hints_command)"
  "swap_struct LC_PREBIND_CKSUM = Some (sizeof_prebind_cksum_command,
     in_place dec_prebind_cksum_command enc_prebind_cksum_command swap_prebind_cksum_command)"
  "swap_struct LC_UUID = Some (sizeof_uuid_command,
     in_place dec_uuid_command enc_uuid_command swap_uuid_command)"
  "swap_struct LC_CODE_SIGNATURE = Some (sizeof_linkedit_data_command,
     in_place dec_linkedit_data_command enc_linkedit_data_command swap_linkedit_data_command)"
  "swap_struct LC_SEGMENT_SPLIT_INFO = Some (sizeof_linkedit_data_command,
     in_place dec_linkedit_data_command enc_linkedit_data_command swap_linkedit_data_command)"
  "swap_struct LC_FUNCTION_STARTS = Some (sizeof_linkedit_data_command,
     in_place dec_linkedit_data_command enc_linkedit_data_command swap_linkedit_data_command)"
  "swap_struct LC_DATA_IN_CODE = Some (sizeof_linkedit_data_command,
     in_place dec_linkedit_data_command enc_linkedit_data_command swap_linkedit_data_command)"
  "swap_struct LC_ATOM_INFO = Some (sizeof_linkedit_data_command,
     in_place dec_linkedit_data_command enc_linkedit_data_command swap_linkedit_data_command)"
  "swap_struct LC_DYLIB_CODE_SIGN_DRS = Some (sizeof_linkedit_data_command,
     in_place dec_linkedit_data_command enc_linkedit_data_command swap_linkedit_data_command)"
  "swap_struct LC_LINKER_OPTIMIZATION_HINT = Some (sizeof_linkedit_data_command,
     in_place dec_linkedit_data_command enc_linkedit_data_command swap_linkedit_data_command)"
  "swap_struct LC_VERSION_MIN_MACOSX = Some (sizeof_version_min_command,
     in_place dec_version_min_command enc_version_min_command swap_version_min_command)"
  "swap_struct LC_VERSION_MIN_IPHONEOS = Some (sizeof_version_min_command,
     in_place dec_version_min_command enc_version_min_command swap_version_min_command)"
  "swap_struct LC_VERSION_MIN_TVOS = Some (sizeof_version_min_command,
     in_place dec_version_min_command enc_version_min_command swap_version_min_command)"
  "swap_struct LC_VERSION_MIN_WATCHOS = Some (sizeof_version_min_command,
     in_place dec_version_min_command enc_version_min_command swap_version_min_command)"
  "swap_struct LC_RPATH = Some (sizeof_rpath_command,
     in_place dec_rpath_command enc_rpath_command swap_rpath_command)"
  "swap_struct LC_ENCRYPTION_INFO = Some (sizeof_encryption_info_command,
     in_place dec_encryption_info_command enc_encryption_info_command swap_encryption_command)"
  "swap_struct LC_LINKER_OPTION = Some (sizeof_linker_option_command,
     in_place dec_linker_option_command enc_linker_option_command swap_linker_option_command)"
  "swap_struct LC_DYLD_INFO = Some (sizeof_dyld_info_command,
     in_place dec_dyld_info_command enc_dyld_info_command swap_dyld_info_command)"
  "swap_struct LC_DYLD_INFO_ONLY = Some (sizeof_dyld_info_command,
     in_place dec_dyld_info_command enc_dyld_info_command swap_dyld_info_command)"
  by (simp_all add: swap_struct_defs)

text \<open>Each plain command is swapped by a routine that meets the contract, on a size the first pass has
  checked.\<close>

definition plain_ok :: "u32 \<Rightarrow> bool" where
  "plain_ok cmd \<longleftrightarrow> (\<exists>n f r. swap_struct cmd = Some (n, f) \<and> size_rule cmd = Some r \<and>
     command_codec n f \<and> (\<forall>cmdsize. whole_command (cmd, cmdsize) \<longrightarrow> rule_fits r n f (unat cmdsize)))"

lemma plain_commands_ok: "list_all plain_ok plain_commands"
  unfolding plain_commands_def list.pred_inject plain_ok_def size_rule_eval swap_struct_eval
  by (intro conjI TrueI)
    (simp_all add: rule_fits_def whole_command_def command_codecs string_commands)

lemma plain_command:
  assumes "size_rule cmd = Some r" "cmd \<notin> set counted_commands" "whole_command (cmd, cmdsize)"
  shows "\<exists>n f. swap_struct cmd = Some (n, f) \<and> command_codec n f \<and>
    rule_fits r n f (unat cmdsize)"
proof -
  from assms(2,3) size_rule_known [OF assms(1)] have "cmd \<in> set plain_commands"
    by (auto simp: whole_command_def)
  with plain_commands_ok have "plain_ok cmd" by (auto simp: list_all_iff)
  with assms(1,3) show ?thesis by (auto simp: plain_ok_def)
qed

section \<open>A checked command is swapped\<close>

lemma check_offsets_iff:
  "check_offsets e lc cmd i cmdsize offs = Inr () \<longleftrightarrow>
     (\<forall>off \<in> set offs. off + 4 \<le> length lc \<and> get32 e lc off < cmdsize)"
  by (induction offs) (auto simp: read32_def not_le)

lemma get32_append: "off + 4 \<le> length a \<Longrightarrow> get32 e (a @ b) off = get32 e a off"
  by (simp add: slice_def)

text \<open>\<open>command_done\<close> is what both passes give for one command: its image, which passes the check on the
  other machine.\<close>

definition command_done ::
  "endian \<Rightarrow> cpu_type_t \<Rightarrow> bit_swap \<Rightarrow> nat \<Rightarrow> u32 \<Rightarrow> u32 \<Rightarrow> bytes \<Rightarrow> bytes \<Rightarrow> bool" where
  "command_done e cputype bits left cmd cmdsize c img \<longleftrightarrow>
     swaps_to (\<lambda>e. swap_command e cputype bits cmd cmdsize) e c img \<and>
     (\<forall>rest j. check_command (opp e) cputype j (img @ rest) left cmd cmdsize = Inr ())"

lemma counted_done:
  assumes f: "command_codec base f" and g: "memory_codec n g"
    and count: "off + 4 \<le> base"
      "\<And>bs e. length bs = base \<Longrightarrow> get32 (opp e) (f e bs) off = get32 e bs off"
    and rule: "size_rule cmd = Some (Counted base n off)"
    and swap: "\<And>e. swap_command e cputype bits cmd cmdsize = swap_counted e base f n g off"
    and size: "unat cmdsize \<le> length lc"
    and check: "check_command e cputype i lc left cmd cmdsize = Inr ()"
  shows "\<exists>img. command_done e cputype bits left cmd cmdsize (take (unat cmdsize) lc) img"
proof -
  let ?c = "take (unat cmdsize) lc"
  from check rule have cmdsize: "unat cmdsize = base + unat (get32 e lc off) * n"
    by (auto simp: check_command_def andthen_eq_Inr read32_def split: if_splits)
  then have k: "get32 e ?c off = get32 e lc off" using count(1) by (intro get32_take) simp
  with cmdsize size have len: "length ?c = base + unat (get32 e ?c off) * n" by simp
  define img where
    "img = f e (take base ?c) @ map_elems n (g e) (unat (get32 e ?c off)) (drop base ?c)"
  have sw: "swaps_to (\<lambda>e. swap_command e cputype bits cmd cmdsize) e ?c img"
    unfolding swap img_def by (rule command_codec.counted_swaps_to [OF f g count len])
  then have img: "length img = unat cmdsize" using size by (simp add: swaps_to_def)
  have "get32 (opp e) img off = get32 e ?c off"
    unfolding img_def using len count by (intro command_codec.get32_conv_append [OF f]) simp_all
  moreover from img cmdsize count(1) have "off + 4 \<le> length img" by simp
  ultimately have "check_command (opp e) cputype j (img @ rest) left cmd cmdsize = Inr ()" for rest j
    using rule cmdsize k by (simp add: check_command_def read32_append)
  with sw show ?thesis unfolding command_done_def by blast
qed

lemma plain_done:
  assumes rule: "size_rule cmd = Some r" and cmd: "cmd \<notin> set counted_commands"
    and whole: "whole_command (cmd, cmdsize)"
    and size: "unat cmdsize \<le> length lc" "unat cmdsize \<le> left"
    and check: "check_command e cputype i lc left cmd cmdsize = Inr ()"
  shows "\<exists>img. command_done e cputype bits left cmd cmdsize (take (unat cmdsize) lc) img"
proof -
  let ?c = "take (unat cmdsize) lc"
  from plain_command [OF rule cmd whole] obtain n f where
    f: "swap_struct cmd = Some (n, f)" "command_codec n f" "rule_fits r n f (unat cmdsize)" by blast
  let ?img = "f e (take n ?c) @ drop n ?c"
  have swap: "swap_command e cputype bits cmd cmdsize = apply_at 0 n (f e)" for e
    using f(1) cmd whole by (auto simp: fun_eq_iff swap_command_def whole_command_def)
  have n: "n \<le> unat cmdsize"
    using f(3) rule check by (auto simp: rule_fits_def check_command_def split: size_rule.splits if_splits)
  then have sw: "swaps_to (\<lambda>e. swap_command e cputype bits cmd cmdsize) e ?c ?img"
    unfolding swap using size by (intro command_codec.plain_swaps_to [OF f(2)]) simp
  then have img: "length ?img = unat cmdsize" using size by (simp add: swaps_to_def)
  have offs: "get32 (opp e) (?img @ rest) off < cmdsize \<and> off + 4 \<le> length (?img @ rest)"
    if "r = At_Least n offs" "off \<in> set offs" for off offs rest
  proof -
    from that(1) f(3) have str: "string_command n f offs" by (simp add: rule_fits_def)
    from string_command.offs_inside [OF str that(2)] have off: "off + 4 \<le> n" .
    have "get32 (opp e) ?img off = get32 e ?c off"
      using n size off string_command.conv_offs [OF str that(2)]
      by (intro command_codec.get32_conv_append [OF f(2)]) simp_all
    also have "\<dots> = get32 e lc off" using off n by (intro get32_take) simp
    also have "\<dots> < cmdsize"
      using check rule that by (auto simp: check_command_def check_offsets_iff split: if_splits)
    finally show ?thesis using img off n by (simp add: get32_append del: append_assoc)
  qed
  have "check_command (opp e) cputype j (?img @ rest) left cmd cmdsize = Inr ()" for rest j
    using f(3) rule check size offs [of _ _ rest]
    by (auto simp: check_command_def rule_fits_def check_offsets_iff simp del: append_assoc
        split: size_rule.splits if_splits)
  with sw show ?thesis unfolding command_done_def by blast
qed

lemma check_command_rule:
  "check_command e cputype i lc left cmd cmdsize = Inr () \<Longrightarrow> \<exists>r. size_rule cmd = Some r"
  by (cases "size_rule cmd") (simp_all add: check_command_def)

lemma command_step:
  assumes "whole_command (cmd, cmdsize)" "unat cmdsize \<le> length lc" "unat cmdsize \<le> left"
    and check: "check_command e cputype i lc left cmd cmdsize = Inr ()"
  shows "\<exists>img. command_done e cputype bits left cmd cmdsize (take (unat cmdsize) lc) img"
proof -
  from check_command_rule [OF check] obtain r where r: "size_rule cmd = Some r" ..
  consider "cmd = LC_SEGMENT" | "cmd = LC_SEGMENT_64" | "cmd = LC_BUILD_VERSION"
    | "cmd \<notin> set counted_commands" by auto
  then show ?thesis
  proof cases
    case 1
    show ?thesis
      by (rule counted_done [OF segment_command_conv.command_codec_axioms
            section_conv.memory_codec_axioms _ nsects_conv])
        (use 1 assms in \<open>simp_all add: size_rule_defs swap_command_def fun_eq_iff
          sizeof_segment_command_def\<close>)
  next
    case 2
    show ?thesis
      by (rule counted_done [OF segment_command_64_conv.command_codec_axioms
            section_64_conv.memory_codec_axioms _ nsects_64_conv])
        (use 2 assms in \<open>simp_all add: size_rule_defs swap_command_def fun_eq_iff
          sizeof_segment_command_64_def\<close>)
  next
    case 3
    show ?thesis
      by (rule counted_done [OF build_version_command_conv.command_codec_axioms
            build_tool_version_conv.memory_codec_axioms _ ntools_conv])
        (use 3 assms in \<open>simp_all add: size_rule_defs swap_command_def fun_eq_iff
          sizeof_build_version_command_def\<close>)
  next
    case 4
    from plain_done [OF r this assms] show ?thesis .
  qed
qed

section \<open>All load commands\<close>

text \<open>The commands a machine sees when it walks the memory.\<close>

fun commands :: "endian \<Rightarrow> nat \<Rightarrow> bytes \<Rightarrow> (u32 \<times> u32) list" where
  "commands e 0 lc = []"
| "commands e (Suc n) lc =
     (get32 e lc 0, get32 e lc 4) # commands e n (drop (unat (get32 e lc 4)) lc)"

definition passes_done ::
  "endian \<Rightarrow> cpu_type_t \<Rightarrow> nat \<Rightarrow> bit_swap \<Rightarrow> nat \<Rightarrow> bytes \<Rightarrow> nat \<Rightarrow> bytes \<Rightarrow> bool" where
  "passes_done e cputype m bits n lc left lc' \<longleftrightarrow>
     swap_commands e cputype bits n lc = Inr lc' \<and>
     length lc' = length lc \<and> drop left lc' = drop left lc \<and>
     commands (opp e) n lc' = commands e n lc \<and>
     swap_commands (opp e) cputype bits n lc' = Inr lc \<and>
     (\<forall>j. check_commands (opp e) cputype m n j lc' left = Inr ())"

lemma check_commands_SucD:
  assumes "check_commands e cputype m (Suc n) i lc left = Inr ()"
  defines "cmd \<equiv> get32 e lc 0" and "cmdsize \<equiv> get32 e lc 4"
  shows "8 \<le> length lc" "m dvd unat cmdsize" "unat cmdsize \<le> left" "cmdsize \<noteq> 0"
    "check_command e cputype i lc left cmd cmdsize = Inr ()"
    "check_commands e cputype m n (i + 1) (drop (unat cmdsize) lc) (left - unat cmdsize) = Inr ()"
  using assms by (auto simp: andthen_eq_Inr read32_def mod_eq_0_iff_dvd split: if_splits)

lemma passes:
  "check_commands e cputype m n i lc left = Inr () \<Longrightarrow> left \<le> length lc \<Longrightarrow>
   \<forall>c \<in> set (commands e n lc). whole_command c \<Longrightarrow>
   \<exists>lc'. passes_done e cputype m bits n lc left lc'"
proof (induction n arbitrary: i lc left)
  case 0
  then show ?case by (simp add: passes_done_def split: if_splits)
next
  case (Suc n)
  let ?cmd = "get32 e lc 0" and ?cmdsize = "get32 e lc 4"
  let ?k = "unat ?cmdsize"
  note D = check_commands_SucD [OF Suc.prems(1)]
  from Suc.prems(3) have whole: "whole_command (?cmd, ?cmdsize)"
    "\<forall>c \<in> set (commands e n (drop ?k lc)). whole_command c" by auto
  from D(3) Suc.prems(2) have "?k \<le> length lc" by simp
  from command_step [OF whole(1) this D(3) D(5)] obtain img where
    img: "command_done e cputype bits left ?cmd ?cmdsize (take ?k lc) img" by blast
  from D(3) Suc.prems(2) have "left - ?k \<le> length (drop ?k lc)" by simp
  from Suc.IH [OF D(6) this whole(2)] obtain rest' where
    rest': "passes_done e cputype m bits n (drop ?k lc) (left - ?k) rest'" by blast
  from img \<open>?k \<le> length lc\<close> have len: "length img = ?k" "8 \<le> ?k"
    by (simp_all add: command_done_def swaps_to_def)
  then have head: "get32 (opp e) (img @ r) 0 = ?cmd" "get32 (opp e) (img @ r) 4 = ?cmdsize" for r
    using img by (simp_all add: command_done_def swaps_to_def get32_append get32_take)
  have fwd: "swap_command e cputype bits ?cmd ?cmdsize lc = Inr (img @ drop ?k lc)"
    using img by (simp add: command_done_def swaps_to_def) (metis append_take_drop_id)
  have bwd: "swap_command (opp e) cputype bits ?cmd ?cmdsize (img @ rest') =
      Inr (take ?k lc @ rest')"
    using img by (simp add: command_done_def swaps_to_def)
  have check: "check_command (opp e) cputype j (img @ rest') left ?cmd ?cmdsize = Inr ()" for j
    using img by (simp add: command_done_def)
  have "passes_done e cputype m bits (Suc n) lc left (img @ rest')"
    using D Suc.prems(2) rest' len head fwd bwd check
    by (simp add: passes_done_def read32_def)
  then show ?case by blast
qed

section \<open>An example\<close>

text \<open>An i386 object with a segment of one section and a symbol table.\<close>

definition sample_commands :: bytes where
  "sample_commands =
     enc_segment_command LE
       \<lparr>lc_cmd = LC_SEGMENT, lc_cmdsize = 124, sg_segname = replicate 16 0, sg_vmaddr = 0,
        sg_vmsize = 16, sg_fileoff = 176, sg_filesize = 16, sg_maxprot = 7, sg_initprot = 7,
        sg_nsects = 1, sg_flags = 0\<rparr> @
     replicate 32 95 @ concat (map (put32 LE) [0, 16, 176, 4, 0, 0, 0x80000400, 0, 0 :: u32]) @
     enc_symtab_command LE
       \<lparr>lc_cmd = LC_SYMTAB, lc_cmdsize = 24, st_symoff = 192, st_nsyms = 1, st_stroff = 204,
        st_strsize = 4\<rparr>"

definition sample_header :: bytes where
  "sample_header = enc_mach_header LE
     \<lparr>mh_magic = MH_MAGIC, mh_cputype = CPU_TYPE_I386, mh_cpusubtype = CPU_SUBTYPE_I386_ALL,
      mh_filetype = 1, mh_ncmds = 2, mh_sizeofcmds = 148, mh_flags = 0\<rparr>"

lemma sample_ok:
  "check_commands LE CPU_TYPE_I386 4 2 0 sample_commands 148 = Inr ()"
  "length sample_commands = 148" "\<forall>c \<in> set (commands LE 2 sample_commands). whole_command c"
  by code_simp+

section \<open>Properties\<close>

text \<open>C22. What the first pass accepts tiles the area of the load commands: the sizes of the commands add
  up to \<open>sizeofcmds\<close>, each is a positive multiple of the alignment, and each command is known.\<close>

theorem check_commands_tile:
  assumes "check_commands e cputype m n i lc left = Inr ()"
  shows "sum_list (map (unat \<circ> snd) (commands e n lc)) = left \<and>
    (\<forall>(cmd, cmdsize) \<in> set (commands e n lc).
       0 < unat cmdsize \<and> m dvd unat cmdsize \<and> size_rule cmd \<noteq> None)"
  using assms
proof (induction n arbitrary: i lc left)
  case 0
  then show ?case by (simp split: if_splits)
next
  case (Suc n)
  note D = check_commands_SucD [OF Suc.prems]
  from check_command_rule [OF D(5)] D(2-4) Suc.IH [OF D(6)] show ?case by (auto simp: unat_gt_0)
qed

theorem check_commands_tile_witness:
  "sum_list (map (unat \<circ> snd) (commands LE 2 sample_commands)) = 148 \<and>
   commands LE 2 sample_commands = [(LC_SEGMENT, 124), (LC_SYMTAB, 24)]"
proof
  show "sum_list (map (unat \<circ> snd) (commands LE 2 sample_commands)) = 148"
    using check_commands_tile [OF sample_ok(1)] by (rule conjunct1)
qed code_simp



section \<open>The whole routine\<close>

lemma dec_header_append:
  "length a = 28 \<Longrightarrow> dec_mach_header e (a @ b) = dec_mach_header e a"
  "length a = 32 \<Longrightarrow> dec_mach_header_64 e (a @ b) = dec_mach_header_64 e a"
  by (simp_all add: dec_mach_header_def dec_mach_header_64_def slice_def)

text \<open>The part of the routine behind the test of the magic number, for either header.\<close>

definition swap_with_header ::
  "(endian \<Rightarrow> bytes \<Rightarrow> bytes) \<Rightarrow> nat \<Rightarrow> endian \<Rightarrow> cpu_type_t \<Rightarrow> nat \<Rightarrow> bit_swap \<Rightarrow> nat \<Rightarrow> nat \<Rightarrow>
   bytes \<Rightarrow> bytes \<Rightarrow> (bytes \<times> bytes) result" where
  "swap_with_header conv sz e cputype m bits ncmds sizeofcmds hdr lc =
     andthen (check_commands e cputype m ncmds 0 lc sizeofcmds) (\<lambda>_.
     andthen (swap_commands e cputype bits ncmds lc) (\<lambda>lc.
     andthen (apply_at 0 sz (conv e) hdr) (\<lambda>hdr. Inr (hdr, lc))))"

context memory_codec
begin

lemma swap_with_header_twice:
  assumes a: "length a = sz" and lc: "sizeofcmds \<le> length lc"
    "\<forall>c \<in> set (commands e ncmds lc). whole_command c"
    and swap: "swap_with_header conv sz e cputype m bits ncmds sizeofcmds (a @ b) lc = Inr (hdr', lc')"
  shows "hdr' = conv e a @ b"
    "swap_with_header conv sz (opp e) cputype m bits ncmds sizeofcmds hdr' lc' = Inr (a @ b, lc)"
proof -
  have at: "apply_at 0 sz (conv e') (a' @ b) = Inr (conv e' a' @ b)" if "length a' = sz" for a' e'
    using that by (simp add: apply_at_0_append)
  from swap have check: "check_commands e cputype m ncmds 0 lc sizeofcmds = Inr ()"
    and run: "swap_commands e cputype bits ncmds lc = Inr lc'"
    and hdr': "hdr' = conv e a @ b"
    by (auto simp: swap_with_header_def andthen_eq_Inr at a)
  from passes [OF check lc, of bits] run have done': "passes_done e cputype m bits ncmds lc sizeofcmds lc'"
    by (auto simp: passes_done_def)
  show "hdr' = conv e a @ b" by (rule hdr')
  show "swap_with_header conv sz (opp e) cputype m bits ncmds sizeofcmds hdr' lc' = Inr (a @ b, lc)"
    using done' a by (simp add: swap_with_header_def passes_done_def hdr' at length_conv conv_conv)
qed

end

context endian_struct
begin

lemma dec_in_place: "length bs = sz \<Longrightarrow> dec (opp e) (in_place dec enc swap e bs) = dec e bs"
  by (simp add: in_place_enc dec_enc wf_dec)

lemma header_twice:
  fixes cputype :: "'a \<Rightarrow> cpu_type_t" and ncmds sizeofcmds :: "'a \<Rightarrow> nat"
  assumes dec_append: "\<And>a b e. length a = sz \<Longrightarrow> dec e (a @ b) = dec e a"
    and hdr: "sz \<le> length hdr"
    and lc: "sizeofcmds (dec e hdr) \<le> length lc"
      "\<forall>c \<in> set (commands e (ncmds (dec e hdr)) lc). whole_command c"
    and sw: "swap_with_header (in_place dec enc swap) sz e (cputype (dec e hdr)) m bits
      (ncmds (dec e hdr)) (sizeofcmds (dec e hdr)) hdr lc = Inr (hdr', lc')"
  shows "length hdr' = length hdr" "dec (opp e) hdr' = dec e hdr"
    "swap_with_header (in_place dec enc swap) sz (opp e) (cputype (dec (opp e) hdr')) m bits
      (ncmds (dec (opp e) hdr')) (sizeofcmds (dec (opp e) hdr')) hdr' lc' = Inr (hdr, lc)"
proof -
  let ?a = "take sz hdr" and ?b = "drop sz hdr"
  have a: "length ?a = sz" using hdr by simp
  have dec: "dec e hdr = dec e ?a" using dec_append [OF a, of e ?b] by simp
  note tw = memory_codec.swap_with_header_twice [OF in_place_codec a lc, of "cputype (dec e hdr)" m bits
      ?b hdr' lc', unfolded append_take_drop_id, OF sw]
  have len: "length (in_place dec enc swap e ?a) = sz"
    using a by (simp add: memory_codec.length_conv [OF in_place_codec])
  then show "length hdr' = length hdr" using tw(1) hdr by simp
  show dec': "dec (opp e) hdr' = dec e hdr"
    using tw(1) dec dec_append [OF len] dec_in_place [OF a] by simp
  show "swap_with_header (in_place dec enc swap) sz (opp e) (cputype (dec (opp e) hdr')) m bits
      (ncmds (dec (opp e) hdr')) (sizeofcmds (dec (opp e) hdr')) hdr' lc' = Inr (hdr, lc)"
    unfolding dec' by (rule tw(2))
qed

end

lemma swap_object_headers_cases:
  "read32 e hdr 0 = Inr MH_MAGIC \<Longrightarrow> length hdr \<ge> 28 \<Longrightarrow>
   swap_object_headers e bits hdr lc =
     (let mh = dec_mach_header e hdr in
      swap_with_header (in_place dec_mach_header enc_mach_header swap_mach_header) sizeof_mach_header
        e (mh_cputype mh) 4 bits (unat (mh_ncmds mh)) (unat (mh_sizeofcmds mh)) hdr lc)"
  "read32 e hdr 0 = Inr magic \<Longrightarrow> magic \<noteq> MH_MAGIC \<Longrightarrow> length hdr \<ge> 32 \<Longrightarrow>
   swap_object_headers e bits hdr lc =
     (let mh = dec_mach_header_64 e hdr in
      swap_with_header (in_place dec_mach_header_64 enc_mach_header_64 swap_mach_header_64)
        sizeof_mach_header_64
        e (mh64_cputype mh) 8 bits (unat (mh64_ncmds mh)) (unat (mh64_sizeofcmds mh)) hdr lc)"
  by (simp_all add: swap_object_headers_def swap_with_header_def Let_def sizeof_mach_header_def
      sizeof_mach_header_64_def)

lemma roundtrip_32:
  assumes swap: "swap_object_headers e bits hdr lc = Inr (hdr', lc')"
    and lc: "unat (get32 e hdr 20) \<le> length lc"
      "\<forall>c \<in> set (commands e (unat (get32 e hdr 16)) lc). whole_command c"
    and magic: "read32 e hdr 0 = Inr magic" "magic = MH_MAGIC"
  shows "swap_object_headers (opp e) bits hdr' lc' = Inr (hdr, lc)"
proof -
  let ?conv = "in_place dec_mach_header enc_mach_header swap_mach_header"
    and ?mh = "dec_mach_header e hdr" and ?mh' = "dec_mach_header (opp e) hdr'"
  from swap magic have len: "28 \<le> length hdr"
    by (auto simp: swap_object_headers_def sizeof_mach_header_def split: if_splits)
  note eq = swap_object_headers_cases(1) [OF magic(1) [unfolded magic(2)] len]
  note tw = mach_header.header_twice [of hdr "\<lambda>mh. unat (mh_sizeofcmds mh)" e lc
      "\<lambda>mh. unat (mh_ncmds mh)" mh_cputype 4 bits hdr' lc', simplified sizeof_mach_header_def]
  have *: "length hdr' = length hdr" "?mh' = ?mh"
    "swap_with_header ?conv 28 (opp e) (mh_cputype ?mh') 4 bits (unat (mh_ncmds ?mh'))
       (unat (mh_sizeofcmds ?mh')) hdr' lc' = Inr (hdr, lc)"
    using tw len lc swap eq
    by (simp_all add: dec_header_append sizeof_mach_header_def Let_def,
        simp_all add: dec_mach_header_def)
  from *(2) have "mh_magic ?mh' = mh_magic ?mh" by simp
  then have "read32 (opp e) hdr' 0 = Inr magic"
    using magic *(1) len by (simp add: read32_def dec_mach_header_def)
  from swap_object_headers_cases(1) [OF this [unfolded magic(2)], of bits lc'] *(1,3) len show ?thesis
    by (simp add: Let_def sizeof_mach_header_def)
qed

lemma roundtrip_64:
  assumes swap: "swap_object_headers e bits hdr lc = Inr (hdr', lc')"
    and lc: "unat (get32 e hdr 20) \<le> length lc"
      "\<forall>c \<in> set (commands e (unat (get32 e hdr 16)) lc). whole_command c"
    and magic: "read32 e hdr 0 = Inr magic" "magic \<noteq> MH_MAGIC"
  shows "swap_object_headers (opp e) bits hdr' lc' = Inr (hdr, lc)"
proof -
  let ?conv = "in_place dec_mach_header_64 enc_mach_header_64 swap_mach_header_64"
    and ?mh = "dec_mach_header_64 e hdr" and ?mh' = "dec_mach_header_64 (opp e) hdr'"
  from swap magic have len: "32 \<le> length hdr"
    by (auto simp: swap_object_headers_def sizeof_mach_header_64_def split: if_splits)
  note eq = swap_object_headers_cases(2) [OF magic len]
  note tw = mach_header_64.header_twice [of hdr "\<lambda>mh. unat (mh64_sizeofcmds mh)" e lc
      "\<lambda>mh. unat (mh64_ncmds mh)" mh64_cputype 8 bits hdr' lc', simplified sizeof_mach_header_64_def]
  have *: "length hdr' = length hdr" "?mh' = ?mh"
    "swap_with_header ?conv 32 (opp e) (mh64_cputype ?mh') 8 bits (unat (mh64_ncmds ?mh'))
       (unat (mh64_sizeofcmds ?mh')) hdr' lc' = Inr (hdr, lc)"
    using tw len lc swap eq
    by (simp_all add: dec_header_append sizeof_mach_header_64_def Let_def,
        simp_all add: dec_mach_header_64_def)
  from *(2) have "mh64_magic ?mh' = mh64_magic ?mh" by simp
  then have "read32 (opp e) hdr' 0 = Inr magic"
    using magic *(1) len by (simp add: read32_def dec_mach_header_64_def)
  from swap_object_headers_cases(2) [OF this magic(2), of bits lc'] *(1,3) len show ?thesis
    by (simp add: Let_def sizeof_mach_header_64_def)
qed



section \<open>Where the routine does not do what it means to\<close>

lemma to_bytes_opp: "length bs = n \<Longrightarrow> 8 * n \<le> LENGTH('a) \<Longrightarrow>
    to_bytes (opp e) n (of_bytes e bs :: 'a::len word) = rev bs"
  using to_bytes_of_bytes [of bs n e, where 'a = 'a]
  by (cases e) (auto simp: to_bytes_def rev_swap)

text \<open>The second pass swaps the commands for the exports trie and the chained fixups of current
  executables, but the first pass does not know them, so the routine rejects every file that has
  them.\<close>

theorem chained_fixups_rejected:
  assumes "cmd = LC_DYLD_EXPORTS_TRIE \<or> cmd = LC_DYLD_CHAINED_FIXUPS"
  shows "check_command e cputype i lc left cmd cmdsize = Inl (Unknown_Command i) \<and>
    swap_struct cmd = swap_struct LC_FUNCTION_STARTS"
  using assms by (elim disjE) (simp_all add: check_command_def size_rule_defs swap_struct_defs)

theorem chained_fixups_rejected_witness:
  "check_command LE CPU_TYPE_ARM64 7 [] 0 LC_DYLD_CHAINED_FIXUPS 16 = Inl (Unknown_Command 7)"
  using chained_fixups_rejected [of LC_DYLD_CHAINED_FIXUPS LE CPU_TYPE_ARM64 7 "[]" 0 16] by simp

text \<open>A thread command of an ARM64 file that holds the 64 bit thread state is rejected as having an
  unknown flavor, although the second pass would swap it.\<close>

theorem arm64_thread_rejected:
  assumes "16 \<le> length lc" "get32 e lc 8 = 6" "8 < unat cmdsize"
  shows "check_command e CPU_TYPE_ARM64 i lc left LC_UNIXTHREAD cmdsize =
      Inl (Unknown_Flavor LC_UNIXTHREAD 6 0 i) \<and>
    map_option (\<lambda>tab. map_of tab 6) (swap_table CPU_TYPE_ARM64) = Some (Some [arm_thread_state64])"
proof -
  from assms have "read32 e lc 8 = Inr 6" "read32 e lc 12 = Inr (get32 e lc 12)"
    by (simp_all add: read32_def)
  with assms(3) show ?thesis
    by (simp add: check_command_def size_rule_defs check_table_def ppc_flavors_def arm64_flavors_def check_flavors.simps
        sizeof_thread_command_def swap_table_def ppc_swaps_def arm64_swaps_def)
qed

theorem arm64_thread_rejected_witness:
  "check_command LE CPU_TYPE_ARM64 0 (concat (map (put32 LE) [5, 288, 6, 68 :: u32]) @ replicate 272 0)
     288 LC_UNIXTHREAD 288 = Inl (Unknown_Flavor LC_UNIXTHREAD 6 0 0)"
proof -
  have "16 \<le> length (concat (map (put32 LE) [5, 288, 6, 68 :: u32]) @ replicate 272 0)"
    and "get32 LE (concat (map (put32 LE) [5, 288, 6, 68 :: u32]) @ replicate 272 0) 8 = 6"
    and "8 < unat (288 :: u32)" by code_simp+
  from arm64_thread_rejected [OF this] show ?thesis by blast
qed

text \<open>The first pass accepts an entry point command of 8 bytes, and the second pass then swaps the 24
  bytes of the structure, 16 of them behind the load commands.\<close>

theorem entry_point_overrun:
  assumes "length a = 8" "length b = 8"
  shows "check_commands e cputype 8 1 0 (put32 e LC_MAIN @ put32 e 8 @ a @ b) 8 = Inr () \<and>
   swap_commands e cputype bits 1 (put32 e LC_MAIN @ put32 e 8 @ a @ b) =
     Inr (put32 (opp e) LC_MAIN @ put32 (opp e) 8 @ rev a @ rev b)"
proof -
  let ?lc = "put32 e LC_MAIN @ put32 e 8 @ a @ b"
  have read: "read32 e ?lc 0 = Inr LC_MAIN" "read32 e ?lc 4 = Inr 8"
    by (simp_all add: read32_def slice_simps byte_simps)
  have "apply_at 0 sizeof_entry_point_command
      (in_place dec_entry_point_command enc_entry_point_command swap_entry_point_command e) ?lc =
    Inr (put32 (opp e) LC_MAIN @ put32 (opp e) 8 @ rev a @ rev b)"
    using assms entry_point_command.in_place_enc [of ?lc e]
    by (simp add: apply_at_def entry_point_command_codec to_bytes_opp)
  with assms read show ?thesis
    by (simp add: check_command_def size_rule_defs swap_command_def swap_struct_defs)
qed

theorem entry_point_overrun_witness:
  "check_commands LE CPU_TYPE_ARM64 8 1 0
     (put32 LE LC_MAIN @ put32 LE 8 @ [1, 0, 0, 0, 0, 0, 0, 0] @ [2, 0, 0, 0, 0, 0, 0, 0]) 8 = Inr () \<and>
   swap_commands LE CPU_TYPE_ARM64 (\<lambda>r bs. bs) 1
     (put32 LE LC_MAIN @ put32 LE 8 @ [1, 0, 0, 0, 0, 0, 0, 0] @ [2, 0, 0, 0, 0, 0, 0, 0]) =
   Inr (put32 BE LC_MAIN @ put32 BE 8 @ [0, 0, 0, 0, 0, 0, 0, 1] @ [0, 0, 0, 0, 0, 0, 0, 2])"
  using entry_point_overrun [of "[1, 0, 0, 0, 0, 0, 0, 0]" "[2, 0, 0, 0, 0, 0, 0, 0]" LE
      CPU_TYPE_ARM64 "\<lambda>r bs. bs"]
  by simp

text \<open>The PowerPC floating point state runs into the exception state: swapping a thread command that
  holds just the floating point registers also swaps the 32 bytes behind the command.\<close>

theorem ppc_float_state_overrun:
  assumes "length regs = layout_size ppc_float_state" "length behind = layout_size ppc_exception_state"
  shows "check_commands e CPU_TYPE_POWERPC 4 1 0
      (put32 e LC_THREAD @ put32 e 280 @ put32 e 2 @ put32 e 66 @ regs @ behind) 280 = Inr () \<and>
    swap_commands e CPU_TYPE_POWERPC bits 1
      (put32 e LC_THREAD @ put32 e 280 @ put32 e 2 @ put32 e 66 @ regs @ behind) =
    Inr (put32 (opp e) LC_THREAD @ put32 (opp e) 280 @ put32 (opp e) 2 @ put32 (opp e) 66 @
      swap_layout e bits ppc_float_state regs @ swap_layout e bits ppc_exception_state behind)"
proof -
  let ?hd = "put32 e LC_THREAD @ put32 e 280" and ?st = "put32 e 2 @ put32 e 66"
  let ?lc = "?hd @ ?st @ regs @ behind"
  let ?hd' = "put32 (opp e) LC_THREAD @ put32 (opp e) 280" and ?st' = "put32 (opp e) 2 @ put32 (opp e) 66"
  have sizes: "layout_size ppc_float_state = 264" "layout_size ppc_exception_state = 32"
    by (simp_all add: ppc_float_state_def ppc_exception_state_def)
  have plain: "length (swap_layout e bits ppc_float_state regs) = 264"
    "length (swap_layout e bits ppc_exception_state behind) = 32"
    using assms sizes length_swap_plain_layout [OF plain_states_plain]
    by (simp_all add: plain_states_def)
  have read: "read32 e ?lc 0 = Inr LC_THREAD" "read32 e ?lc 4 = Inr 280" "read32 e ?lc 8 = Inr 2"
    "read32 e ?lc 12 = Inr 66" "read32 e (?hd' @ ?st @ regs @ behind) 8 = Inr 2"
    by (simp_all add: read32_def slice_simps byte_simps)
  have hd: "apply_at 0 8 (in_place dec_thread_command enc_thread_command swap_thread_command e) ?lc =
      Inr (?hd' @ ?st @ regs @ behind)"
    using thread_command.in_place_enc [of ?hd e] apply_at_0_append [of 8 ?hd
        "in_place dec_thread_command enc_thread_command swap_thread_command e" "?st @ regs @ behind"]
    by (simp add: thread_command_codec)
  have st: "apply_array 8 4 (swap_field e bits Swap_Int) 2 (?hd' @ ?st @ regs @ behind) =
      Inr (?hd' @ ?st' @ regs @ behind)"
    by (simp add: numeral_2_eq_2 apply_at_def slice_simps byte_simps swap32.to_bytes_SWAP)
  have states: "apply_layouts e bits 16 [ppc_float_state, ppc_exception_state] (?hd' @ ?st' @ regs @ behind) =
      Inr (?hd' @ ?st' @ swap_layout e bits ppc_float_state regs @
        swap_layout e bits ppc_exception_state behind)"
    using assms sizes plain by (simp add: apply_at_def slice_simps slice_all)
  show ?thesis
    using assms sizes plain read hd st states
    by (simp add: check_command_def size_rule_defs check_table_def ppc_flavors_def arm64_flavors_def swap_command_def swap_table_def ppc_swaps_def arm64_swaps_def
        sizeof_thread_command_def check_flavors.simps swap_flavors.simps)
qed

theorem ppc_float_state_overrun_witness:
  "swap_commands LE CPU_TYPE_POWERPC (\<lambda>r bs. bs) 1
     (put32 LE LC_THREAD @ put32 LE 280 @ put32 LE 2 @ put32 LE 66 @ replicate 264 0 @
      concat (replicate 8 [1, 2, 3, 4])) =
   Inr (put32 BE LC_THREAD @ put32 BE 280 @ put32 BE 2 @ put32 BE 66 @ replicate 264 0 @
      concat (replicate 8 [4, 3, 2, 1]))"
proof -
  have "length (replicate 264 0 :: bytes) = layout_size ppc_float_state"
    "length (concat (replicate 8 [1, 2, 3, 4]) :: bytes) = layout_size ppc_exception_state"
    by code_simp+
  note ppc_float_state_overrun [OF this, of LE "\<lambda>r bs. bs"]
  moreover have "swap_layout LE (\<lambda>r bs. bs) ppc_float_state (replicate 264 0) = replicate 264 0"
    "swap_layout LE (\<lambda>r bs. bs) ppc_exception_state (concat (replicate 8 [1, 2, 3, 4])) =
      concat (replicate 8 [4, 3, 2, 1])"
    by code_simp+
  ultimately show ?thesis by simp
qed

end
