(* ===== verification/CLib.thy ===== *)
theory CLib
  imports Prelude
begin

text \<open>
  What the program uses of the C library: character classes, \<open>strtoul\<close> and \<open>strncmp\<close>.
  \<open>strtoul\<close> is modelled for base 10 in the C locale with a 64 bit \<open>unsigned long\<close>: white space and a sign
  are skipped, the longest run of digits is read, too large a number is \<open>ULONG_MAX\<close>, and without digits the
  end pointer is the start of the string.

  A pointer to characters in mapped memory is the memory from there on. A routine that runs over the end
  of the memory has the result \<open>None\<close>.
\<close>

section \<open>Numbers\<close>

definition isdigit :: "char \<Rightarrow> bool" where
  "isdigit c \<longleftrightarrow> 48 \<le> (of_char c :: int) \<and> (of_char c :: int) \<le> 57"

definition isspace :: "char \<Rightarrow> bool" where
  "isspace c \<longleftrightarrow> (of_char c :: int) = 32 \<or> 9 \<le> (of_char c :: int) \<and> (of_char c :: int) \<le> 13"

definition digits_value :: "string \<Rightarrow> int" where
  "digits_value ds = foldl (\<lambda>n c. 10 * n + (of_char c - 48)) 0 ds"

definition strtoul :: "string \<Rightarrow> u64 \<times> string" where
  "strtoul s =
     (let t = dropWhile isspace s;
          neg = (t \<noteq> [] \<and> hd t = CHR ''-'');
          u = (if t \<noteq> [] \<and> (hd t = CHR ''-'' \<or> hd t = CHR ''+'') then tl t else t);
          ds = takeWhile isdigit u;
          v = digits_value ds
      in if ds = [] then (0, s)
         else (if v \<ge> 2 ^ 64 then - 1 else if neg then - of_int v else of_int v, dropWhile isdigit u))"

section \<open>Strings in memory\<close>

definition ascii :: "string \<Rightarrow> bytes" where
  "ascii s = map of_char s"

definition chars :: "bytes \<Rightarrow> string" where
  "chars bs = map (\<lambda>b. char_of (unat b)) bs"

text \<open>\<open>strtoul\<close> reads up to and including the first character that does not belong to the number.\<close>

definition strtoul_ends :: "string \<Rightarrow> bool" where
  "strtoul_ends s \<longleftrightarrow>
     (let t = dropWhile isspace s;
          u = (if t \<noteq> [] \<and> (hd t = CHR ''-'' \<or> hd t = CHR ''+'') then tl t else t)
      in dropWhile isdigit u \<noteq> [])"

definition strtoul_mem :: "bytes \<Rightarrow> u64 option" where
  "strtoul_mem bs = (if strtoul_ends (chars bs) then Some (fst (strtoul (chars bs))) else None)"

text \<open>Whether \<open>strncmp\<close> of memory and a literal of the program gives 0.\<close>

fun strncmp_eq :: "bytes \<Rightarrow> bytes \<Rightarrow> nat \<Rightarrow> bool option" where
  "strncmp_eq bs lit 0 = Some True"
| "strncmp_eq [] lit (Suc n) = None"
| "strncmp_eq (b # bs) lit (Suc n) =
     (case lit of
        [] \<Rightarrow> Some (b = 0)
      | c # cs \<Rightarrow> if b \<noteq> c then Some False else strncmp_eq bs cs n)"

section \<open>Decimal numbers\<close>

text \<open>The decimal digits of a number, as \<open>printf\<close> prints them.\<close>

fun decimal :: "nat \<Rightarrow> string" where
  "decimal n = (if n < 10 then [] else decimal (n div 10)) @ [char_of (48 + n mod 10)]"

declare decimal.simps [simp del]

lemma of_char_char_of: "n < 256 \<Longrightarrow> of_char (char_of (n :: nat)) = (of_nat n :: 'a :: comm_semiring_1)"
  by (metis of_nat_of_char of_char_of mod_less)

lemma decimal_digits: "decimal n \<noteq> []" "list_all isdigit (decimal n)"
proof (induction n rule: decimal.induct)
  case (1 n)
  have "isdigit (char_of (48 + n mod 10 :: nat))"
    by (simp add: isdigit_def of_char_char_of)
  with 1 show "decimal n \<noteq> []" "list_all isdigit (decimal n)"
    by (subst decimal.simps, simp)+
qed

lemma digits_value_snoc: "digits_value (s @ [c]) = 10 * digits_value s + (of_char c - 48)"
  by (simp add: digits_value_def)

lemma digits_value_decimal: "digits_value (decimal n) = int n"
proof (induction n rule: decimal.induct)
  case (1 n)
  have "of_char (char_of (48 + n mod 10 :: nat)) = (48 + int n mod 10 :: int)"
    by (simp add: of_char_char_of zmod_int)
  with 1 show ?case
    by (subst decimal.simps) (simp add: digits_value_snoc zdiv_int digits_value_def)
qed

lemma chars_append [simp]: "chars (xs @ ys) = chars xs @ chars ys"
  by (simp add: chars_def)

lemma chars_Cons [simp]: "chars (b # bs) = char_of (unat b) # chars bs"
  by (simp add: chars_def)

lemma length_ascii [simp]: "length (ascii s) = length s"
  by (simp add: ascii_def)

lemma of_char_less: "(of_char c :: nat) < 256"
proof -
  have "(of_char c :: nat) = of_char c mod 256" by simp
  then show ?thesis using mod_less_divisor [of 256 "of_char c :: nat"] by linarith
qed

lemma unat_of_char: "unat (of_char c :: u8) = of_char c"
proof -
  have "unat (of_nat k :: u8) = k" if "k < 256" for k
    using that by (simp add: unsigned_of_nat take_bit_nat_eq_self)
  from this [OF of_char_less] show ?thesis by (simp only: of_nat_of_char)
qed

lemma chars_ascii [simp]: "chars (ascii s) = s"
  by (induction s) (simp_all add: ascii_def chars_def unat_of_char)

lemma digit_not_space: "isdigit c \<Longrightarrow> \<not> isspace c \<and> c \<noteq> CHR ''-'' \<and> c \<noteq> CHR ''+''"
  by (auto simp: isdigit_def isspace_def)

text \<open>\<open>strtoul\<close> reads back what was printed.\<close>

lemma strtoul_decimal:
  assumes "n < 2 ^ 64" "rest = [] \<or> \<not> isdigit (hd rest)"
  shows "strtoul (decimal n @ rest) = (of_nat n, rest)"
proof -
  have d: "takeWhile isdigit (decimal n @ rest) = decimal n" "dropWhile isdigit (decimal n @ rest) = rest"
    using decimal_digits(2) [of n] assms(2)
    by (auto simp: list_all_iff takeWhile_append dropWhile_append takeWhile_eq_Nil_iff dropWhile_eq_self_iff
        neq_Nil_conv)
  have h: "isdigit (hd (decimal n @ rest))" using decimal_digits [of n] by (cases "decimal n") auto
  then have "dropWhile isspace (decimal n @ rest) = decimal n @ rest" "hd (decimal n @ rest) \<noteq> CHR ''-''"
    "hd (decimal n @ rest) \<noteq> CHR ''+''"
    using digit_not_space [OF h] by (auto simp: dropWhile_eq_self_iff)
  then show ?thesis
    using assms(1) decimal_digits(1) [of n] by (simp add: strtoul_def Let_def d digits_value_decimal)
qed

lemma strtoul_mem_decimal:
  assumes "n < 2 ^ 64" "\<not> isdigit (char_of (unat b))"
  shows "strtoul_mem (ascii (decimal n) @ b # rest) = Some (of_nat n)"
proof -
  let ?s = "decimal n @ char_of (unat b) # chars rest"
  have h: "isdigit (hd ?s)" using decimal_digits [of n] by (cases "decimal n") auto
  have "dropWhile isdigit ?s \<noteq> []"
    using assms(2) by (auto simp: dropWhile_eq_Nil_conv)
  moreover have "dropWhile isspace ?s = ?s" using digit_not_space [OF h] by (auto simp: dropWhile_eq_self_iff)
  moreover have "hd ?s \<noteq> CHR ''-''" "hd ?s \<noteq> CHR ''+''" using digit_not_space [OF h] by simp_all
  ultimately have "strtoul_ends ?s" by (simp add: strtoul_ends_def Let_def)
  moreover have "strtoul ?s = (of_nat n, char_of (unat b) # chars rest)"
    using assms by (intro strtoul_decimal) simp_all
  ultimately show ?thesis by (simp add: strtoul_mem_def)
qed

section \<open>Evaluation\<close>

text \<open>The routines on bytes, which do not convert the memory to characters first.\<close>

definition digit_byte :: "u8 \<Rightarrow> bool" where
  "digit_byte b \<longleftrightarrow> 48 \<le> b \<and> b \<le> 57"

definition space_byte :: "u8 \<Rightarrow> bool" where
  "space_byte b \<longleftrightarrow> b = 32 \<or> 9 \<le> b \<and> b \<le> 13"

definition sign_byte :: "u8 \<Rightarrow> bool" where
  "sign_byte b \<longleftrightarrow> b = 43 \<or> b = 45"

lemma of_char_byte: "of_char (char_of (unat (b :: u8))) = uint b"
proof -
  have "unat b < 256" using unsigned_less [of b, where 'a = nat] by simp
  then show ?thesis by (simp add: of_char_char_of)
qed

lemma isdigit_byte: "isdigit (char_of (unat b)) = digit_byte b"
  by (simp add: isdigit_def digit_byte_def of_char_byte word_le_def)

lemma isspace_byte: "isspace (char_of (unat b)) = space_byte b"
  by (simp add: isspace_def space_byte_def of_char_byte word_le_def word_uint_eq_iff)

lemma char_of_byte_eq: "char_of (unat (b :: u8)) = c \<longleftrightarrow> b = of_char c"
proof
  assume "char_of (unat b) = c"
  moreover have "unat b < 256" using unsigned_less [of b, where 'a = nat] by simp
  then have "of_char (char_of (unat b)) = (of_nat (unat b) :: u8)" by (rule of_char_char_of)
  ultimately show "b = of_char c" by (simp only: of_nat_unat ucast_id)
next
  assume "b = of_char c"
  then show "char_of (unat b) = c" by (simp only: unat_of_char char_of_char)
qed

lemma strtoul_mem_code [code]:
  "strtoul_mem bs =
     (let t = dropWhile space_byte bs;
          u = (if t \<noteq> [] \<and> sign_byte (hd t) then tl t else t);
          ds = takeWhile digit_byte u;
          v = foldl (\<lambda>n b. 10 * n + (uint b - 48)) 0 ds
      in if dropWhile digit_byte u = [] then None
         else Some (if ds = [] then 0 else if v \<ge> 2 ^ 64 then - 1
           else if t \<noteq> [] \<and> hd t = 45 then - of_int v else of_int v))"
proof -
  have drop: "dropWhile isspace (chars bs) = chars (dropWhile space_byte bs)"
    "dropWhile isdigit (chars bs) = chars (dropWhile digit_byte bs)"
    "takeWhile isdigit (chars bs) = chars (takeWhile digit_byte bs)" for bs
    by (simp_all add: chars_def dropWhile_map takeWhile_map comp_def isdigit_byte isspace_byte)
  have hd: "hd (chars t) = CHR ''-'' \<longleftrightarrow> hd t = 45" "hd (chars t) = CHR ''+'' \<longleftrightarrow> hd t = 43" if "t \<noteq> []" for t
    using that by (cases t; simp add: char_of_byte_eq)+
  have nil: "chars t = [] \<longleftrightarrow> t = []" "tl (chars t) = chars (tl t)" for t by (cases t; simp add: chars_def)+
  have digits: "digits_value (chars ds) = foldl (\<lambda>n b. 10 * n + (uint b - 48)) 0 ds" for ds
    by (simp add: digits_value_def chars_def foldl_map of_char_byte)
  show ?thesis
    by (auto simp: strtoul_mem_def strtoul_ends_def strtoul_def Let_def drop nil digits hd sign_byte_def
        simp flip: if_distrib [of chars] simp del: dropWhile_eq_Nil_conv)
qed

end
