(* ===== verification/Align.thy ===== *)
theory Align
  imports MachO_Commands MachO_Tables Loader
begin

text \<open>
  Rounding and segment alignment, from \<^verbatim>\<open>cctools/libstuff/rnd.c\<close> and
  \<^verbatim>\<open>cctools/libstuff/align.c\<close>. Alignments are exponents of two. \<open>guess_align\<close> counts the
  trailing zeros of an address with a loop whose end depends on the address not being zero, so the
  loop is a partial function here and is shown to return.

  \<open>get_seg_align\<close> walks the load commands of a file. The memory is the byte string that starts at
  the load commands; a read outside it, or through a null header pointer, is \<open>Align_Fault\<close>, a loop
  that does not end \<open>Align_Diverges\<close>, and the calls of \<open>fatal\<close> are the other errors. The calls of
  \<open>error\<close>, which go on, are collected as the list of the commands they complain about.
\<close>

section \<open>Rounding\<close>

definition rnd64 :: "u64 \<Rightarrow> u64 \<Rightarrow> u64" where
  "rnd64 v r = (let r = r - 1; v = v + r in v AND NOT r)"

definition rnd :: "u64 \<Rightarrow> u64 \<Rightarrow> u64" where
  "rnd v r = rnd64 v r"

definition rnd32 :: "u32 \<Rightarrow> u32 \<Rightarrow> u32" where
  "rnd32 v r = (let r = r - 1; v = v + r in v AND NOT r)"

section \<open>The alignment of an address\<close>

abbreviation MAXSEGALIGN :: u32 where
  "MAXSEGALIGN \<equiv> 15"

abbreviation MINSEGALIGN32 :: u32 where
  "MINSEGALIGN32 \<equiv> 2"

abbreviation MINSEGALIGN64 :: u32 where
  "MINSEGALIGN64 \<equiv> 3"

partial_function (option) guess_loop :: "u64 \<Rightarrow> u64 \<Rightarrow> u32 \<Rightarrow> u32 option" where
  [code]: "guess_loop vmaddr segalign align =
     (if segalign AND vmaddr = 0 then guess_loop vmaddr (push_bit 1 segalign) (align + 1)
      else Some align)"

definition guess_align :: "u64 \<Rightarrow> u32 \<Rightarrow> u32 \<Rightarrow> u32 option" where
  "guess_align vmaddr least most =
     (if vmaddr \<noteq> 0
      then map_option (\<lambda>align. let align = (if align < least then least else align)
                               in if align > most then most else align)
             (guess_loop vmaddr 1 0)
      else Some most)"

section \<open>The alignment of a file\<close>

datatype align_error =
    Align_Fault
  | Align_Diverges
  | Commands_Past_End_Of_File
  | Both_Headers
  | Command_Size_Zero nat
  | Command_Past_End nat

text \<open>A copy of the structure at an offset, swapped when the file has the other byte order.\<close>

definition load_struct ::
  "nat \<Rightarrow> (endian \<Rightarrow> bytes \<Rightarrow> 'a) \<Rightarrow> ('a \<Rightarrow> 'a) \<Rightarrow> endian \<Rightarrow> bool \<Rightarrow> bytes \<Rightarrow> nat \<Rightarrow> align_error + 'a" where
  "load_struct sz dec swap e swap_load_commands mem off =
     (if off + sz \<le> length mem
      then let s = dec e (slice off sz mem) in Inr (if swap_load_commands then swap s else s)
      else Inl Align_Fault)"

definition load_lc :: "endian \<Rightarrow> bool \<Rightarrow> bytes \<Rightarrow> nat \<Rightarrow> align_error + load_command" where
  "load_lc = load_struct sizeof_load_command dec_load_command swap_load_command"

definition load_segment :: "endian \<Rightarrow> bool \<Rightarrow> bytes \<Rightarrow> nat \<Rightarrow> align_error + segment_command" where
  "load_segment = load_struct sizeof_segment_command dec_segment_command swap_segment_command"

definition load_segment_64 :: "endian \<Rightarrow> bool \<Rightarrow> bytes \<Rightarrow> nat \<Rightarrow> align_error + segment_command_64" where
  "load_segment_64 =
     load_struct sizeof_segment_command_64 dec_segment_command_64 swap_segment_command_64"

definition load_section :: "endian \<Rightarrow> bool \<Rightarrow> bytes \<Rightarrow> nat \<Rightarrow> align_error + section32" where
  "load_section = load_struct sizeof_section dec_section (\<lambda>s. hd (swap_section [s] 1))"

definition load_section_64 :: "endian \<Rightarrow> bool \<Rightarrow> bytes \<Rightarrow> nat \<Rightarrow> align_error + section_64" where
  "load_section_64 = load_struct sizeof_section_64 dec_section_64 (\<lambda>s. hd (swap_section_64 [s] 1))"

fun largest_align ::
  "(nat \<Rightarrow> align_error + u32) \<Rightarrow> nat \<Rightarrow> nat \<Rightarrow> nat \<Rightarrow> u32 \<Rightarrow> align_error + u32" where
  "largest_align section_align sz 0 sp align = Inr align"
| "largest_align section_align sz (Suc j) sp align =
     andthen (section_align sp)
       (\<lambda>a. largest_align section_align sz j (sp + sz) (if a > align then a else align))"

fun returned :: "u32 option \<Rightarrow> align_error + u32" where
  "returned None = Inl Align_Diverges"
| "returned (Some a) = Inr a"

definition segment_align :: "endian \<Rightarrow> bool \<Rightarrow> u32 \<Rightarrow> bytes \<Rightarrow> nat \<Rightarrow> align_error + u32" where
  "segment_align e swap_load_commands filetype mem sgp =
     andthen (load_segment e swap_load_commands mem sgp)
       (\<lambda>sg. if filetype = MH_OBJECT
             then largest_align
                    (\<lambda>sp. andthen (load_section e swap_load_commands mem sp) (\<lambda>s. Inr (s_align s)))
                    sizeof_section (unat (sg_nsects sg)) (sgp + sizeof_segment_command) MINSEGALIGN32
             else returned (guess_align (ucast (sg_vmaddr sg)) MINSEGALIGN32 MAXSEGALIGN))"

definition segment_align_64 ::
  "endian \<Rightarrow> bool \<Rightarrow> mach_header_64 option \<Rightarrow> bytes \<Rightarrow> nat \<Rightarrow> align_error + u32" where
  "segment_align_64 e swap_load_commands mhp64 mem sgp =
     andthen (load_segment_64 e swap_load_commands mem sgp)
       (\<lambda>sg. case mhp64 of None \<Rightarrow> Inl Align_Fault
        | Some mh64 \<Rightarrow>
            if mh64_filetype mh64 = MH_OBJECT
            then largest_align
                   (\<lambda>sp. andthen (load_section_64 e swap_load_commands mem sp) (\<lambda>s. Inr (s64_align s)))
                   sizeof_section_64 (unat (sg64_nsects sg)) (sgp + sizeof_segment_command_64)
                   MINSEGALIGN64
            else returned (guess_align (sg64_vmaddr sg) MINSEGALIGN64 MAXSEGALIGN))"

definition command_align ::
  "endian \<Rightarrow> bool \<Rightarrow> u32 \<Rightarrow> mach_header_64 option \<Rightarrow> bytes \<Rightarrow> load_command \<Rightarrow> nat \<Rightarrow> align_error + u32" where
  "command_align e swap_load_commands filetype mhp64 mem l lcp =
     (if lc_cmd l = LC_SEGMENT then segment_align e swap_load_commands filetype mem lcp
      else if lc_cmd l = LC_SEGMENT_64 then segment_align_64 e swap_load_commands mhp64 mem lcp
      else Inr MAXSEGALIGN)"

text \<open>The walk over the commands: \<open>n\<close> are left, \<open>i\<close> were seen, \<open>lcp\<close> is the offset of the next one.\<close>

fun align_commands ::
  "endian \<Rightarrow> bool \<Rightarrow> u32 \<Rightarrow> mach_header_64 option \<Rightarrow> u32 \<Rightarrow> bytes \<Rightarrow> nat \<Rightarrow> nat \<Rightarrow> nat \<Rightarrow> u32 \<Rightarrow> nat list \<Rightarrow>
   align_error + u32 \<times> nat list" where
  "align_commands e sw filetype mhp64 sizeofcmds mem 0 i lcp cur_align errs = Inr (cur_align, errs)"
| "align_commands e sw filetype mhp64 sizeofcmds mem (Suc n) i lcp cur_align errs =
     andthen (load_lc e sw mem lcp)
       (\<lambda>l. let errs = (if lc_cmdsize l mod 4 \<noteq> 0 then errs @ [i] else errs) in
          if lc_cmdsize l = 0 then Inl (Command_Size_Zero i)
          else if lcp + unat (lc_cmdsize l) > unat sizeofcmds then Inl (Command_Past_End i)
          else andthen (command_align e sw filetype mhp64 mem l lcp)
            (\<lambda>align. align_commands e sw filetype mhp64 sizeofcmds mem n (Suc i)
                       (lcp + unat (lc_cmdsize l)) (if align < cur_align then align else cur_align) errs))"

definition get_seg_align ::
  "endian \<Rightarrow> mach_header option \<Rightarrow> mach_header_64 option \<Rightarrow> bytes \<Rightarrow> bool \<Rightarrow> u64 \<Rightarrow>
   align_error + u32 \<times> nat list" where
  "get_seg_align e mhp mhp64 load_commands swap_load_commands file_size =
     andthen
       (case (mhp, mhp64) of
          (Some mh, _) \<Rightarrow> Inr (mh_ncmds mh, mh_sizeofcmds mh, sizeof_mach_header, mh_filetype mh)
        | (None, Some mh64) \<Rightarrow>
            Inr (mh64_ncmds mh64, mh64_sizeofcmds mh64, sizeof_mach_header_64, mh64_filetype mh64)
        | (None, None) \<Rightarrow> Inl Align_Fault)
       (\<lambda>(ncmds, sizeofcmds, sizeofhdr, filetype).
          if unat sizeofcmds + sizeofhdr > unat file_size then Inl Commands_Past_End_Of_File
          else if mhp \<noteq> None \<and> mhp64 \<noteq> None then Inl Both_Headers
          else align_commands e swap_load_commands filetype mhp64 sizeofcmds load_commands
                 (unat ncmds) 0 0 MAXSEGALIGN [])"

section \<open>Rounding up\<close>

lemma and_not_mask_unat:
  fixes v :: "'a::len word"
  shows "unat (v AND NOT (mask k)) = unat v div 2 ^ k * 2 ^ k"
proof -
  have "v AND NOT (mask k) = push_bit k (drop_bit k v)"
    by (rule bit_word_eqI) (auto simp: bit_simps)
  also have "unat \<dots> = take_bit LENGTH('a) (push_bit k (drop_bit k (take_bit LENGTH('a) (unat v))))"
    by (simp only: unsigned_push_bit_eq unsigned_drop_bit_eq)
  also have "\<dots> = take_bit LENGTH('a) (unat v div 2 ^ k * 2 ^ k)"
    by (simp add: push_bit_eq_mult drop_bit_eq_div take_bit_nat_eq_self)
  also have "\<dots> = unat v div 2 ^ k * 2 ^ k"
    by (meson div_times_less_eq_dividend le_less_trans take_bit_nat_eq_self unsigned_less)
  finally show ?thesis .
qed

lemma unat_exp_minus_1:
  assumes "k < LENGTH('a)"
  shows "unat (2 ^ k - 1 :: 'a::len word) = 2 ^ k - 1"
proof -
  have "(2 ^ k - 1 :: 'a word) = of_nat (2 ^ k - 1)" by (simp add: of_nat_diff)
  moreover have "2 ^ k - (1 :: nat) < 2 ^ LENGTH('a)" using assms by (simp add: less_imp_diff_less)
  ultimately show ?thesis by (simp only: unat_of_nat mod_less)
qed

text \<open>Rounding up to a power of two that does not leave the word.\<close>

lemma round_up_unat:
  fixes v :: "'a::len word"
  assumes "k < LENGTH('a)" "unat v + (2 ^ k - 1) < 2 ^ LENGTH('a)"
  shows "unat ((v + (2 ^ k - 1)) AND NOT (2 ^ k - 1)) = (unat v + (2 ^ k - 1)) div 2 ^ k * 2 ^ k"
proof -
  have "unat (v + (2 ^ k - 1)) = unat v + (2 ^ k - 1)"
    unfolding unat_word_ariths unat_exp_minus_1 [OF assms(1)] using assms(2) by (rule mod_less)
  then show ?thesis
    using and_not_mask_unat [of "v + (2 ^ k - 1)" k] by (simp only: mask_eq_exp_minus_1)
qed

lemma least_multiple:
  fixes v d :: nat
  assumes "0 < d"
  shows "d dvd (v + (d - 1)) div d * d" "v \<le> (v + (d - 1)) div d * d"
    "d dvd w \<Longrightarrow> v \<le> w \<Longrightarrow> (v + (d - 1)) div d * d \<le> w"
proof -
  show "d dvd (v + (d - 1)) div d * d" by simp
  have "v + (d - 1) < Suc ((v + (d - 1)) div d) * d"
    using dividend_less_div_times [OF assms, of "v + (d - 1)"] by simp
  then show "v \<le> (v + (d - 1)) div d * d" using assms by simp
  assume "d dvd w" "v \<le> w"
  then obtain c where c: "w = d * c" by blast
  have "(v + (d - 1)) div d \<le> c"
  proof (rule ccontr)
    assume "\<not> (v + (d - 1)) div d \<le> c"
    then have "Suc c * d \<le> (v + (d - 1)) div d * d" by (simp only: mult_le_mono1 not_le Suc_le_eq)
    also have "\<dots> \<le> v + (d - 1)" by (rule div_times_less_eq_dividend)
    finally show False using \<open>v \<le> w\<close> c assms by (simp add: mult.commute)
  qed
  then show "(v + (d - 1)) div d * d \<le> w" unfolding c mult.commute [of d] by (rule mult_le_mono1)
qed

lemma rounded_least:
  fixes v w :: "'a::len word"
  assumes "unat w = (unat v + (2 ^ k - 1)) div 2 ^ k * 2 ^ k"
  shows "2 ^ k dvd unat w \<and> v \<le> w \<and> (\<forall>u. 2 ^ k dvd unat u \<longrightarrow> v \<le> u \<longrightarrow> w \<le> u)"
  unfolding word_le_nat_alt assms using least_multiple [of "2 ^ k"] by simp

text \<open>C34. \<open>rnd64\<close> and \<open>rnd32\<close> round up to the least multiple of a power of two, when that does not
  wrap around, and \<open>rnd\<close> is \<open>rnd64\<close>.\<close>

theorem rnd_least_multiple:
  assumes "k < 64" "unat v + (2 ^ k - 1) < 2 ^ 64" "j < 32" "unat x + (2 ^ j - 1) < 2 ^ 32"
  shows "(2 ^ k dvd unat (rnd v (2 ^ k)) \<and> v \<le> rnd v (2 ^ k) \<and>
          (\<forall>w. 2 ^ k dvd unat w \<longrightarrow> v \<le> w \<longrightarrow> rnd v (2 ^ k) \<le> w)) \<and>
         (2 ^ j dvd unat (rnd32 x (2 ^ j)) \<and> x \<le> rnd32 x (2 ^ j) \<and>
          (\<forall>w. 2 ^ j dvd unat w \<longrightarrow> x \<le> w \<longrightarrow> rnd32 x (2 ^ j) \<le> w))"
proof (intro conjI [OF rounded_least rounded_least])
  show "unat (rnd v (2 ^ k)) = (unat v + (2 ^ k - 1)) div 2 ^ k * 2 ^ k"
    using round_up_unat [of k v] assms by (simp add: rnd_def rnd64_def Let_def)
  show "unat (rnd32 x (2 ^ j)) = (unat x + (2 ^ j - 1)) div 2 ^ j * 2 ^ j"
    using round_up_unat [of j x] assms by (simp add: rnd32_def Let_def)
qed

theorem rnd_least_multiple_witness: "rnd 0x1001 (2 ^ 12) \<le> 0x2000 \<and> rnd32 5 (2 ^ 2) \<le> 8"
  using rnd_least_multiple [of 12 "0x1001" 2 5] by simp

section \<open>Guessing the alignment\<close>

lemma and_exp_eq_0: "(2 ^ i AND v = 0) \<longleftrightarrow> \<not> bit v i" for v :: "'a::len word"
  by (metis and.commute bit_iff_and_push_bit_not_eq_0 push_bit_of_1)

lemma guess_loop_returns:
  "bit vmaddr n \<Longrightarrow> \<forall>j < n. \<not> bit vmaddr j \<Longrightarrow> i \<le> n \<Longrightarrow>
   guess_loop vmaddr (2 ^ i) (of_nat i) = Some (of_nat n)"
proof (induction "n - i" arbitrary: i)
  case 0
  then show ?case by (subst guess_loop.simps) (simp add: and_exp_eq_0)
next
  case (Suc d)
  from Suc.hyps(2) have "\<not> bit vmaddr i" using Suc.prems(2) by simp
  then have "guess_loop vmaddr (2 ^ i) (of_nat i) = guess_loop vmaddr (2 ^ Suc i) (of_nat (Suc i))"
    by (subst guess_loop.simps) (simp add: and_exp_eq_0 push_bit_eq_mult mult.commute add.commute)
  also have "\<dots> = Some (of_nat n)" using Suc by (intro Suc.hyps(1)) simp_all
  finally show ?case .
qed

lemma bit_least:
  fixes v :: "'a::len word"
  assumes "v \<noteq> 0"
  obtains n where "bit v n" "\<forall>j < n. \<not> bit v j" "n < LENGTH('a)"
proof -
  from assms obtain m where "bit v m" by (auto simp: bit_eq_iff)
  then show ?thesis
    using that [of "LEAST n. bit v n"] not_less_Least [of _ "bit v"] LeastI [of "bit v" m]
    by (metis bit_imp_le_length)
qed

lemma low_bits_dvd:
  fixes v :: "'a::len word"
  shows "2 ^ k dvd unat v \<longleftrightarrow> (\<forall>j < k. \<not> bit v j)"
proof -
  have "2 ^ k dvd unat v \<longleftrightarrow> take_bit k (unat v) = 0" by (simp add: take_bit_eq_0_iff)
  also have "\<dots> \<longleftrightarrow> (\<forall>j < k. \<not> bit v j)"
    by (auto simp: bit_eq_iff bit_take_bit_iff bit_unsigned_iff)
  finally show ?thesis .
qed

lemma guess_align_clamps:
  assumes "vmaddr \<noteq> 0"
  obtains n where "bit vmaddr n" "\<forall>j < n. \<not> bit vmaddr j" "n < 64"
    "guess_align vmaddr least most =
       Some (let a = (if of_nat n < least then least else of_nat n) in if a > most then most else a)"
proof -
  from assms obtain n where n: "bit vmaddr n" "\<forall>j < n. \<not> bit vmaddr j" "n < 64"
    by (rule bit_least) simp
  with guess_loop_returns [of vmaddr n 0] have "guess_loop vmaddr 1 0 = Some (of_nat n)" by simp
  with assms n that show ?thesis by (simp add: guess_align_def)
qed

lemma guess_align_spec:
  assumes "least \<le> most"
  shows "\<exists>a. guess_align vmaddr least most = Some a \<and> least \<le> a \<and> a \<le> most \<and>
    (2 ^ unat least dvd unat vmaddr \<longrightarrow> 2 ^ unat a dvd unat vmaddr) \<and>
    (a < most \<longrightarrow> \<not> 2 ^ Suc (unat a) dvd unat vmaddr)"
proof (cases "vmaddr = 0")
  case True
  then show ?thesis using assms by (simp add: guess_align_def)
next
  case False
  then obtain n where n: "bit vmaddr n" "\<forall>j < n. \<not> bit vmaddr j" "n < 64"
    and g: "guess_align vmaddr least most =
       Some (let a = (if of_nat n < least then least else of_nat n) in if a > most then most else a)"
    by (rule guess_align_clamps)
  define a where "a = (let a = (if of_nat n < least then least else of_nat n) in if a > most then most else a)"
  have u: "unat (of_nat n :: u32) = n" using n(3) by (simp add: unat_of_nat)
  have "least \<le> a" "a \<le> most" using assms by (auto simp: a_def Let_def)
  moreover have "a = least \<or> unat a \<le> n"
    using u assms by (auto simp: a_def Let_def word_less_nat_alt word_le_nat_alt)
  then have "2 ^ unat least dvd unat vmaddr \<longrightarrow> 2 ^ unat a dvd unat vmaddr"
    using n(2) by (auto simp: low_bits_dvd)
  moreover have "a < most \<longrightarrow> n \<le> unat a"
    using u by (auto simp: a_def Let_def word_less_nat_alt)
  then have "a < most \<longrightarrow> \<not> 2 ^ Suc (unat a) dvd unat vmaddr"
    using n(1) by (meson le_imp_less_Suc low_bits_dvd)
  ultimately show ?thesis using g by (auto simp: a_def [symmetric])
qed

text \<open>C33. For the bounds the program uses, \<open>guess_align\<close> always returns; the result lies between the
  bounds, an address that is a multiple of the least alignment is a multiple of the guess, and unless
  the guess is the greatest allowed one no greater alignment would do.\<close>

theorem guess_align_correct:
  assumes "least = MINSEGALIGN32 \<or> least = MINSEGALIGN64"
  shows "\<exists>a. guess_align vmaddr least MAXSEGALIGN = Some a \<and> least \<le> a \<and> a \<le> MAXSEGALIGN \<and>
    (2 ^ unat least dvd unat vmaddr \<longrightarrow> 2 ^ unat a dvd unat vmaddr) \<and>
    (a < MAXSEGALIGN \<longrightarrow> \<not> 2 ^ Suc (unat a) dvd unat vmaddr)"
  using assms by (intro guess_align_spec) auto

theorem guess_align_correct_witness:
  "\<exists>a. guess_align 0x100004000 MINSEGALIGN64 MAXSEGALIGN = Some a \<and> 3 \<le> a \<and> a \<le> 15"
  using guess_align_correct [of 3 "0x100004000"] by auto

section \<open>The alignment of a file\<close>

lemma load_struct_swap:
  assumes "\<And>bs. length bs = sz \<Longrightarrow> swap (dec e bs) = dec (opp e) bs"
  shows "load_struct sz dec swap e True mem off = load_struct sz dec swap (opp e) False mem off"
  using assms by (simp add: load_struct_def length_slice)

lemma load_swap:
  "load_lc e True mem off = load_lc (opp e) False mem off"
  "load_segment e True mem off = load_segment (opp e) False mem off"
  "load_segment_64 e True mem off = load_segment_64 (opp e) False mem off"
  "load_section e True mem off = load_section (opp e) False mem off"
  unfolding load_lc_def load_segment_def load_segment_64_def load_section_def
  by (rule load_struct_swap; simp add: load_command.swap_dec segment_command.swap_dec
      segment_command_64.swap_dec section32.swap_dec swap_section_def)+

lemma load_section_64_swap:
  "andthen (load_section_64 e True mem sp) (\<lambda>s. Inr (s64_align s)) =
   andthen (load_section_64 (opp e) False mem sp) (\<lambda>s. Inr (s64_align s))"
  by (simp add: load_section_64_def load_struct_def swap_section_64_def length_slice
      swap_section_64_elem_dec)

lemma command_align_swap:
  "command_align e True filetype mhp64 mem l lcp = command_align (opp e) False filetype mhp64 mem l lcp"
  unfolding command_align_def segment_align_def segment_align_64_def load_swap load_section_64_swap ..

lemma align_commands_swap:
  "align_commands e True filetype mhp64 sizeofcmds mem n i lcp cur errs =
   align_commands (opp e) False filetype mhp64 sizeofcmds mem n i lcp cur errs"
  by (induction n arbitrary: i lcp cur errs) (simp_all add: load_swap command_align_swap Let_def cong: if_cong)

text \<open>The alignment found for a file of the other byte order is the one a machine of that byte order
  finds: the swap routines the walk uses are right in every field it looks at.\<close>

theorem get_seg_align_swap:
  "get_seg_align e mhp mhp64 mem True file_size = get_seg_align (opp e) mhp mhp64 mem False file_size"
  by (simp add: get_seg_align_def align_commands_swap cong: if_cong)

text \<open>The offsets of the commands the walk visits, and the addresses of the segments among them.\<close>

fun command_offsets :: "endian \<Rightarrow> bool \<Rightarrow> bytes \<Rightarrow> nat \<Rightarrow> nat \<Rightarrow> nat list" where
  "command_offsets e sw mem 0 lcp = []"
| "command_offsets e sw mem (Suc n) lcp = lcp #
     (case load_lc e sw mem lcp of Inl _ \<Rightarrow> []
      | Inr l \<Rightarrow> command_offsets e sw mem n (lcp + unat (lc_cmdsize l)))"

definition segment_at :: "endian \<Rightarrow> bool \<Rightarrow> bytes \<Rightarrow> nat \<Rightarrow> u64 \<Rightarrow> bool" where
  "segment_at e sw mem lcp vmaddr \<longleftrightarrow>
     (\<exists>l sg. load_lc e sw mem lcp = Inr l \<and> lc_cmd l = LC_SEGMENT \<and>
        load_segment e sw mem lcp = Inr sg \<and> vmaddr = ucast (sg_vmaddr sg)) \<or>
     (\<exists>l sg. load_lc e sw mem lcp = Inr l \<and> lc_cmd l = LC_SEGMENT_64 \<and>
        load_segment_64 e sw mem lcp = Inr sg \<and> vmaddr = sg64_vmaddr sg)"

lemma largest_align_ge:
  "largest_align section_align sz n sp align = Inr a \<Longrightarrow> align \<le> a"
proof (induction n arbitrary: sp align)
  case (Suc n)
  from Suc.prems obtain x where "largest_align section_align sz n (sp + sz) (if x > align then x else align) = Inr a"
    by (auto simp: andthen_eq_Inr)
  from Suc.IH [OF this] show ?case by (auto split: if_splits)
qed simp

lemma returned_guess:
  assumes "least \<le> most"
  obtains a where "returned (guess_align vmaddr least most) = Inr a" "least \<le> a" "a \<le> most"
    "2 ^ unat least dvd unat vmaddr \<longrightarrow> 2 ^ unat a dvd unat vmaddr"
  using guess_align_spec [OF assms, of vmaddr] by auto

lemma command_align_ge:
  "command_align e sw filetype mhp64 mem l lcp = Inr a \<Longrightarrow> MINSEGALIGN32 \<le> a"
proof -
  assume a: "command_align e sw filetype mhp64 mem l lcp = Inr a"
  have g: "returned (guess_align v least MAXSEGALIGN) = Inr a \<Longrightarrow> least \<le> MAXSEGALIGN \<Longrightarrow> least \<le> a" for v least
    by (auto elim: returned_guess [of least MAXSEGALIGN v])
  have "MINSEGALIGN64 \<le> a \<Longrightarrow> MINSEGALIGN32 \<le> a" by (simp add: word_le_nat_alt)
  with a show ?thesis
    by (auto simp: command_align_def segment_align_def segment_align_64_def andthen_eq_Inr
        dest!: largest_align_ge g split: if_splits option.splits)
qed

lemma command_align_dvd:
  assumes a: "command_align e sw filetype mhp64 mem l lcp = Inr a" and l: "load_lc e sw mem lcp = Inr l"
    and seg: "segment_at e sw mem lcp vmaddr" "8 dvd unat vmaddr"
    and ft: "filetype \<noteq> MH_OBJECT" "\<forall>mh64. mhp64 = Some mh64 \<longrightarrow> mh64_filetype mh64 \<noteq> MH_OBJECT"
  shows "2 ^ unat a dvd unat vmaddr"
proof -
  have g32: "returned (guess_align v MINSEGALIGN32 MAXSEGALIGN) = Inr a \<Longrightarrow> 8 dvd unat v \<Longrightarrow> 2 ^ unat a dvd unat v" for v
    using returned_guess [of MINSEGALIGN32 MAXSEGALIGN v] dvd_trans [of 4 8 "unat v"] by force
  have g64: "returned (guess_align v MINSEGALIGN64 MAXSEGALIGN) = Inr a \<Longrightarrow> 8 dvd unat v \<Longrightarrow> 2 ^ unat a dvd unat v" for v
    using returned_guess [of MINSEGALIGN64 MAXSEGALIGN v] by force
  from seg a l ft show ?thesis
    by (auto simp: segment_at_def command_align_def segment_align_def segment_align_64_def
        split: option.splits dest: g32 g64)
qed

lemma align_commands_Suc:
  "align_commands e sw filetype mhp64 sizeofcmds mem (Suc n) i lcp cur errs = Inr r \<longleftrightarrow>
   (\<exists>l b. load_lc e sw mem lcp = Inr l \<and> lc_cmdsize l \<noteq> 0 \<and>
      lcp + unat (lc_cmdsize l) \<le> unat sizeofcmds \<and>
      command_align e sw filetype mhp64 mem l lcp = Inr b \<and>
      align_commands e sw filetype mhp64 sizeofcmds mem n (Suc i) (lcp + unat (lc_cmdsize l))
        (if b < cur then b else cur) (if lc_cmdsize l mod 4 \<noteq> 0 then errs @ [i] else errs) = Inr r)"
  by (cases "load_lc e sw mem lcp") (simp_all add: andthen_eq_Inr Let_def guard_eq_Inr not_less)

lemma align_commands_result:
  assumes "align_commands e sw filetype mhp64 sizeofcmds mem n i lcp cur errs = Inr (a, errs')"
  shows "a \<le> cur \<and> (MINSEGALIGN32 \<le> cur \<longrightarrow> MINSEGALIGN32 \<le> a) \<and>
    (filetype \<noteq> MH_OBJECT \<longrightarrow> (\<forall>mh64. mhp64 = Some mh64 \<longrightarrow> mh64_filetype mh64 \<noteq> MH_OBJECT) \<longrightarrow>
       (\<forall>off \<in> set (command_offsets e sw mem n lcp). \<forall>vmaddr. segment_at e sw mem off vmaddr \<longrightarrow>
          8 dvd unat vmaddr \<longrightarrow> 2 ^ unat a dvd unat vmaddr))"
  using assms
proof (induction n arbitrary: i lcp cur errs)
  case 0
  then show ?case by simp
next
  case (Suc n)
  from Suc.prems obtain l b es where l: "load_lc e sw mem lcp = Inr l"
    and b: "command_align e sw filetype mhp64 mem l lcp = Inr b"
    and rest: "align_commands e sw filetype mhp64 sizeofcmds mem n (Suc i) (lcp + unat (lc_cmdsize l))
      (if b < cur then b else cur) es = Inr (a, errs')"
    unfolding align_commands_Suc by blast
  note IH = Suc.IH [OF rest]
  from IH have "a \<le> (if b < cur then b else cur)" by blast
  then have ab: "a \<le> b" "a \<le> cur" by (auto split: if_splits)
  then have "2 ^ unat b dvd unat vmaddr \<Longrightarrow> 2 ^ unat a dvd unat vmaddr" for vmaddr :: u64
    by (metis dvd_trans le_imp_power_dvd word_le_nat_alt)
  with IH ab command_align_dvd [OF b l] command_align_ge [OF b] l show ?case by simp
qed

text \<open>The loop of \<open>guess_align\<close> is the only one that could go on for ever.\<close>

lemma largest_align_returns:
  "(\<And>sp. section_align sp \<noteq> Inl Align_Diverges) \<Longrightarrow>
   largest_align section_align sz n sp align \<noteq> Inl Align_Diverges"
  by (induction n arbitrary: sp align) (simp_all add: andthen_eq_Inl)

lemma load_returns:
  "load_struct sz dec swap e sw mem off \<noteq> Inl Align_Diverges"
  by (simp add: load_struct_def Let_def)

lemma guess_returns: "least \<le> most \<Longrightarrow> returned (guess_align vmaddr least most) \<noteq> Inl Align_Diverges"
  by (rule returned_guess [of least most vmaddr]) simp_all

lemma command_align_returns: "command_align e sw filetype mhp64 mem l lcp \<noteq> Inl Align_Diverges"
  by (auto simp: command_align_def segment_align_def segment_align_64_def load_returns andthen_eq_Inl
      load_segment_def load_segment_64_def load_section_def load_section_64_def guess_returns
      largest_align_returns split: option.splits)

lemma align_commands_returns:
  "align_commands e sw filetype mhp64 sizeofcmds mem n i lcp cur errs \<noteq> Inl Align_Diverges"
  by (induction n arbitrary: i lcp cur errs)
    (simp_all add: andthen_eq_Inl load_lc_def load_returns command_align_returns Let_def)

text \<open>An executable with one segment, at \<open>0x100004000\<close>.\<close>

definition sample_segment :: bytes where
  "sample_segment = put32 LE 0x19 @ put32 LE 72 @ replicate 16 0 @ put64 LE 0x100004000 @ replicate 40 0"

definition sample_header :: mach_header_64 where
  "sample_header = \<lparr>mh64_magic = MH_MAGIC_64, mh64_cputype = 0, mh64_cpusubtype = 0, mh64_filetype = 2,
     mh64_ncmds = 1, mh64_sizeofcmds = 72, mh64_flags = 0, mh64_reserved = 0\<rparr>"

lemma sample_evaluates:
  "get_seg_align LE None (Some sample_header) sample_segment False 4096 = Inr (14, [])"
  "command_offsets LE False sample_segment 1 0 = [0]"
  by code_simp+

lemma sample_segment_at: "segment_at LE False sample_segment 0 0x100004000"
proof -
  have "load_lc LE False sample_segment 0 = Inr \<lparr>lc_cmd = LC_SEGMENT_64, lc_cmdsize = 72\<rparr>"
    "map_sum id sg64_vmaddr (load_segment_64 LE False sample_segment 0) = Inr 0x100004000"
    by code_simp+
  then show ?thesis
    by (cases "load_segment_64 LE False sample_segment 0") (auto simp: segment_at_def)
qed

text \<open>C32. \<open>get_seg_align\<close> never loops for ever. When it returns an alignment it is at least 2 and at most
  15, and in a file that is not an object file the address of every segment that is a multiple of 8
  (the least alignment of a 64 bit file) is a multiple of the alignment found.\<close>

theorem get_seg_align_legal:
  assumes "mhp = Some mh \<and> mhp64 = None \<and> ncmds = mh_ncmds mh \<and> filetype = mh_filetype mh \<or>
           mhp = None \<and> mhp64 = Some mh64 \<and> ncmds = mh64_ncmds mh64 \<and> filetype = mh64_filetype mh64"
  shows "get_seg_align e mhp mhp64 mem sw file_size \<noteq> Inl Align_Diverges \<and>
    (\<forall>a errs. get_seg_align e mhp mhp64 mem sw file_size = Inr (a, errs) \<longrightarrow> 2 \<le> a \<and> a \<le> 15 \<and>
      (filetype \<noteq> MH_OBJECT \<longrightarrow>
        (\<forall>off \<in> set (command_offsets e sw mem (unat ncmds) 0). \<forall>vmaddr.
           segment_at e sw mem off vmaddr \<longrightarrow> 8 dvd unat vmaddr \<longrightarrow> 2 ^ unat a dvd unat vmaddr)))"
proof -
  obtain sizeofcmds hdr where g: "get_seg_align e mhp mhp64 mem sw file_size =
      (if unat sizeofcmds + hdr > unat file_size then Inl Commands_Past_End_Of_File
       else align_commands e sw filetype mhp64 sizeofcmds mem (unat ncmds) 0 0 MAXSEGALIGN [])"
    using assms that [of "mh_sizeofcmds mh" sizeof_mach_header]
      that [of "mh64_sizeofcmds mh64" sizeof_mach_header_64]
    unfolding get_seg_align_def by (elim disjE) (simp_all cong: if_cong)
  have 64: "filetype \<noteq> MH_OBJECT \<Longrightarrow> \<forall>mh64. mhp64 = Some mh64 \<longrightarrow> mh64_filetype mh64 \<noteq> MH_OBJECT"
    using assms by auto
  show ?thesis
    unfolding g
    using align_commands_returns [of e sw filetype mhp64 sizeofcmds mem "unat ncmds" 0 0 MAXSEGALIGN "[]"]
      align_commands_result [of e sw filetype mhp64 sizeofcmds mem "unat ncmds" 0 0 MAXSEGALIGN "[]"] 64
    by (simp add: word_le_nat_alt) blast
qed

theorem get_seg_align_legal_witness:
  "get_seg_align LE None (Some sample_header) sample_segment False 4096 = Inr (14, []) \<and>
   segment_at LE False sample_segment 0 0x100004000 \<and> 2 ^ unat (14 :: u32) dvd unat (0x100004000 :: u64)"
  using get_seg_align_legal [of None undefined "Some sample_header" 1 2 sample_header LE sample_segment
      False 4096] sample_evaluates sample_segment_at
  by (simp add: sample_header_def)

end
