(* ===== verification/Archive.thy ===== *)
theory Archive
  imports Ofile CLib Align
begin

text \<open>
  The check of archives in \<^verbatim>\<open>cctools/libstuff/ofile.c\<close>: \<open>check_archive\<close>, \<open>check_extend_format_1\<close> and
  \<open>size_ar_name\<close>. An archive is the string \<open>!<arch>\<close>, a newline, and members that start on even offsets.
  A member is a header of 60 characters, the name when it is in the extended format, and the contents.

  The archive is given as the memory from its first byte to the end of the mapped file. A read outside of
  the memory is \<open>Archive_Fault\<close>; the use of a local variable that was not set is \<open>Uninitialised_Header\<close>.
  Offsets are natural numbers: they are sums of sizes of mapped memory and of 32 bit numbers.
\<close>

section \<open>The format\<close>

abbreviation SARMAG :: nat where
  "SARMAG \<equiv> 8"

definition ARMAG :: bytes where
  "ARMAG = ascii ''!<arch>'' @ [10]"

definition AR_EFMT1 :: bytes where
  "AR_EFMT1 = ascii ''#1/''"

text \<open>The offsets of \<open>ar_size\<close> and the end in \<open>struct ar_hdr\<close>; \<open>ar_name\<close> are the first 16 characters.\<close>

abbreviation ar_size_offset :: nat where
  "ar_size_offset \<equiv> 48"

abbreviation sizeof_ar_hdr :: nat where
  "sizeof_ar_hdr \<equiv> 60"

datatype archive_error =
    Archive_Fault
  | Pointer_Overflow
  | Uninitialised_Header
  | Unknown_File_Type
  | No_Archive_Magic
  | First_Header_Past_End
  | Member_Header_Past_End nat
  | Name_Non_Digit
  | Name_Size_Overflows
  | Name_Not_A_Number
  | Name_Past_End
  | Member_Too_Large nat
  | Fat_Member nat
  | Cputype_Mismatch cpu_type_t cpu_type_t

section \<open>Names\<close>

text \<open>The loop that goes back over the spaces at the end of a name.\<close>

fun name_end :: "bytes \<Rightarrow> nat \<Rightarrow> nat" where
  "name_end ar_name 0 = 0"
| "name_end ar_name (Suc i) = (if ar_name ! Suc i \<noteq> 32 then Suc i else name_end ar_name i)"

definition size_ar_name :: "bytes \<Rightarrow> u32" where
  "size_ar_name ar_name =
     (let i = name_end ar_name 15;
          i = (if i > 1 \<and> ar_name ! i = 47 then i - 1 else i)
      in of_nat (i + 1))"

text \<open>\<open>erange\<close> is whether \<open>errno\<close> is \<open>ERANGE\<close>. The 13 digits that fit never set it, so that it is left from an
  earlier call.\<close>

definition check_extend_format_1 :: "bool \<Rightarrow> bytes \<Rightarrow> u32 \<Rightarrow> archive_error + u32" where
  "check_extend_format_1 erange ar_name size_left =
     (let buf = chars (takeWhile (\<lambda>b. b \<noteq> 0) ar_name);
          p = drop 3 buf;
          (v, endp) = strtoul p;
          ar_name_size = ucast v
      in if p = [] \<or> \<not> isdigit (hd p) then Inl Name_Non_Digit
         else if ar_name_size = 0xffffffff \<and> erange then Inl Name_Size_Overflows
         else if dropWhile (\<lambda>c. c = CHR '' '') endp \<noteq> [] then Inl Name_Not_A_Number
         else if ar_name_size > size_left then Inl Name_Past_End
         else Inr ar_name_size)"

section \<open>Members\<close>

text \<open>The header of the member at \<open>offset\<close>: the size of the contents, and their offset.\<close>

definition member_header :: "bool \<Rightarrow> bytes \<Rightarrow> nat \<Rightarrow> nat \<Rightarrow> archive_error + (u32 \<times> nat)" where
  "member_header erange mem sz offset =
     (case strtoul_mem (drop (offset + ar_size_offset) mem) of
        None \<Rightarrow> Inl Archive_Fault
      | Some v \<Rightarrow>
          (case strncmp_eq (drop offset mem) AR_EFMT1 3 of
             None \<Rightarrow> Inl Archive_Fault
           | Some False \<Rightarrow> Inr (ucast v, offset + sizeof_ar_hdr)
           | Some True \<Rightarrow>
               andthen (check_extend_format_1 erange (slice offset 16 mem)
                 (of_int (int sz - int (offset + sizeof_ar_hdr)))) (\<lambda>ar_name_size.
                 Inr (ucast v - ar_name_size, offset + sizeof_ar_hdr + unat ar_name_size))))"

text \<open>A fat header is stored most significant byte first.\<close>

definition is_fat_magic :: "endian \<Rightarrow> u32 \<Rightarrow> bool" where
  "is_fat_magic e magic \<longleftrightarrow>
     (case e of
        BE \<Rightarrow> magic = FAT_MAGIC \<or> magic = FAT_MAGIC_64
      | LE \<Rightarrow> magic = SWAP_INT FAT_MAGIC \<or> magic = SWAP_INT FAT_MAGIC_64)"

text \<open>The variables of the loop: the copies of the last mach headers, which are not set at first, the
  processor type of the archive, and the messages that do not end the check.\<close>

record archive_state =
  as_mh :: "mach_header option"
  as_mh64 :: "mach_header_64 option"
  as_cputype :: cpu_type_t
  as_cpusubtype :: cpu_subtype_t
  as_messages :: "archive_error list"

definition note_cputype :: "cpu_type_t \<Rightarrow> cpu_subtype_t \<Rightarrow> archive_state \<Rightarrow> archive_state" where
  "note_cputype cputype cpusubtype st =
     (if as_cputype st = 0 then st\<lparr>as_cputype := cputype, as_cpusubtype := cpusubtype\<rparr>
      else if as_cputype st \<noteq> cputype
      then st\<lparr>as_messages := as_messages st @ [Cputype_Mismatch cputype (as_cputype st)]\<rparr>
      else st)"

text \<open>The copy of a mach header and the magic number after it was swapped.\<close>

definition copy_header ::
  "endian \<Rightarrow> bytes \<Rightarrow> nat \<Rightarrow> nat \<Rightarrow> u32 \<Rightarrow> archive_state \<Rightarrow> archive_error + (u32 \<times> archive_state)" where
  "copy_header e mem sz offset magic st =
     (if sz - offset \<ge> sizeof_mach_header \<and> (magic = MH_MAGIC \<or> magic = SWAP_INT MH_MAGIC) then
        if length mem < offset + sizeof_mach_header then Inl Archive_Fault
        else
          let mh = dec_mach_header e (slice offset sizeof_mach_header mem) in
          Inr (MH_MAGIC, st\<lparr>as_mh := Some (if magic = SWAP_INT MH_MAGIC then swap_mach_header mh else mh)\<rparr>)
      else if sz - offset \<ge> sizeof_mach_header_64 \<and> (magic = MH_MAGIC_64 \<or> magic = SWAP_INT MH_MAGIC_64) then
        if length mem < offset + sizeof_mach_header_64 then Inl Archive_Fault
        else
          let mh = dec_mach_header_64 e (slice offset sizeof_mach_header_64 mem) in
          Inr (MH_MAGIC_64,
            st\<lparr>as_mh64 := Some (if magic = SWAP_INT MH_MAGIC_64 then swap_mach_header_64 mh else mh)\<rparr>)
      else Inr (magic, st))"

text \<open>\<open>fat_allowed\<close> is whether fat members are allowed, which they are only in an archive that is not itself
  in a fat file.\<close>

definition member_contents ::
  "endian \<Rightarrow> bool \<Rightarrow> bytes \<Rightarrow> nat \<Rightarrow> nat \<Rightarrow> archive_state \<Rightarrow> archive_error + archive_state" where
  "member_contents e fat_allowed mem sz offset st =
     (if \<not> sz - offset > 4 then Inr st
      else if length mem < offset + 4 then Inl Archive_Fault
      else
        let magic = get32 e mem offset in
        if is_fat_magic e magic then if fat_allowed then Inr st else Inl (Fat_Member offset)
        else
          andthen (copy_header e mem sz offset magic st) (\<lambda>(magic, st).
            if magic = MH_MAGIC then
              (case as_mh st of
                 None \<Rightarrow> Inl Uninitialised_Header
               | Some mh \<Rightarrow> Inr (note_cputype (mh_cputype mh) (mh_cpusubtype mh) st))
            else if magic = MH_MAGIC_64 then
              (case as_mh64 st of
                 None \<Rightarrow> Inl Uninitialised_Header
               | Some mh \<Rightarrow> Inr (note_cputype (mh64_cputype mh) (mh64_cpusubtype mh) st))
            else Inr st))"

lemma member_header_start: "member_header erange mem sz offset = Inr (n, start) \<Longrightarrow> offset + sizeof_ar_hdr \<le> start"
  by (auto simp: member_header_def andthen_eq_Inr split: option.splits bool.splits)

definition rounded :: "u32 \<Rightarrow> nat" where
  "rounded n = unat (rnd (ucast n) 2)"

text \<open>\<open>base\<close> is the offset of the archive in the file. The offset grows by the size of a header at least, so
  that the loop ends.\<close>

function check_members ::
  "endian \<Rightarrow> (nat \<Rightarrow> bool) \<Rightarrow> bool \<Rightarrow> bytes \<Rightarrow> nat \<Rightarrow> nat \<Rightarrow> nat \<Rightarrow> nat \<Rightarrow> archive_state \<Rightarrow>
   archive_error + archive_state" where
  "check_members e erange fat_allowed mem base file_size sz offset st =
     (if offset < sz then
        if base + offset > file_size then Inl (Member_Header_Past_End offset)
        else (case member_header (erange offset) mem sz offset of
          Inl x \<Rightarrow> Inl x
        | Inr (member_size, start) \<Rightarrow>
            if rounded member_size + start > sz then Inl (Member_Too_Large offset)
            else (case member_contents e fat_allowed mem sz start st of
              Inl x \<Rightarrow> Inl x
            | Inr st1 \<Rightarrow>
                check_members e erange fat_allowed mem base file_size sz (start + rounded member_size) st1))
      else Inr st)"
  by pat_completeness auto
termination
  by (relation "measure (\<lambda>(e, er, f, mem, base, fs, sz, offset, st). sz - offset)")
    (auto dest: member_header_start)

declare check_members.simps [simp del]

section \<open>The check\<close>

text \<open>The archive in the file: its offset and size, and the processor type the fat header gives.\<close>

definition archive_area :: "ofile \<Rightarrow> archive_error + (nat \<times> nat \<times> cpu_type_t \<times> cpu_subtype_t)" where
  "archive_area ofl =
     (if o_file_type ofl = OFILE_FAT then
        (case o_fat_header ofl of
           None \<Rightarrow> Inl Archive_Fault
         | Some fh \<Rightarrow>
             if fh_magic fh = FAT_MAGIC_64 then
               if unat (o_narch ofl) < length (o_fat_archs64 ofl) then
                 let fa = o_fat_archs64 ofl ! unat (o_narch ofl) in
                 Inr (unat (fa64_offset fa), unat (fa64_size fa), fa64_cputype fa, fa64_cpusubtype fa)
               else Inl Archive_Fault
             else if unat (o_narch ofl) < length (o_fat_archs ofl) then
               let fa = o_fat_archs ofl ! unat (o_narch ofl) in
               Inr (unat (fa_offset fa), unat (fa_size fa), fa_cputype fa, fa_cpusubtype fa)
             else Inl Archive_Fault)
      else if o_file_type ofl = OFILE_ARCHIVE then Inr (0, unat (o_file_size ofl), 0, 0)
      else Inl Unknown_File_Type)"

definition check_archive ::
  "endian \<Rightarrow> (nat \<Rightarrow> bool) \<Rightarrow> bool \<Rightarrow> ofile \<Rightarrow> archive_error + (ofile \<times> archive_error list)" where
  "check_archive e erange archives_with_fat_objects ofl =
     andthen (archive_area ofl) (\<lambda>(base, sz, cputype, cpusubtype).
       let mem = drop base (o_file_addr ofl);
           ofl = ofl\<lparr>o_archive_cputype := cputype, o_archive_cpusubtype := cpusubtype\<rparr>
       in if sz < SARMAG then Inl No_Archive_Magic
          else (case strncmp_eq mem ARMAG SARMAG of
            None \<Rightarrow> Inl Archive_Fault
          | Some False \<Rightarrow> Inl No_Archive_Magic
          | Some True \<Rightarrow>
              if sz = SARMAG then Inr (ofl, [])
              else if SARMAG + sizeof_ar_hdr > sz then Inl First_Header_Past_End
              else andthen (check_members e erange
                  (archives_with_fat_objects \<and> o_file_type ofl = OFILE_ARCHIVE) mem base
                  (unat (o_file_size ofl)) sz SARMAG
                  \<lparr>as_mh = None, as_mh64 = None, as_cputype = cputype, as_cpusubtype = cpusubtype,
                   as_messages = []\<rparr>) (\<lambda>st.
                Inr (ofl\<lparr>o_archive_cputype := as_cputype st, o_archive_cpusubtype := as_cpusubtype st,
                  o_member_offset := 0, o_member_addr := Null, o_member_size := 0, o_member_ar_hdr := Null,
                  o_member_name := Null, o_member_name_size := 0\<rparr>, as_messages st))))"

end
