(* ===== verification/Archive_Correct.thy ===== *)
theory Archive_Correct
  imports Archive
begin

text \<open>
  What the check of archives guarantees: an accepted archive is tiled by its members
  (\<open>check_archive_tiled\<close>), and the check stays in the mapped memory when that is a little longer than the
  archive (\<open>check_archive_safe\<close>).
\<close>

section \<open>Accepted archives\<close>

lemma rounded_eq: "rounded n = unat n + unat n mod 2"
proof -
  have n: "unat (ucast n :: u64) = unat n" "unat n < 2 ^ 32"
    using unsigned_less [of n, where 'a = nat] by (simp_all add: unsigned_ucast_eq take_bit_nat_eq_self)
  then have "unat ((ucast n + (2 ^ 1 - 1)) AND NOT (2 ^ 1 - 1) :: u64) = (unat n + 1) div 2 * 2"
    using round_up_unat [of 1 "ucast n :: u64"] by simp
  then have "rounded n = (unat n + 1) div 2 * 2" by (simp add: rounded_def rnd_def rnd64_def)
  then show ?thesis by presburger
qed

text \<open>A member is described by the offset of its header, the offset of its contents and their size.
  \<open>tiles\<close> says that members follow each other from \<open>offset\<close> to the end of the archive, each padded to an
  even size.\<close>

fun tiles :: "nat \<Rightarrow> nat \<Rightarrow> (nat \<times> nat \<times> nat) list \<Rightarrow> bool" where
  "tiles offset sz [] \<longleftrightarrow> offset = sz"
| "tiles offset sz ((h, c, n) # ms) \<longleftrightarrow>
     h = offset \<and> h + sizeof_ar_hdr \<le> c \<and> tiles (c + n + n mod 2) sz ms"

text \<open>The sizes are those of the header: \<open>ar_size\<close> counts the name behind the header and the contents.\<close>

definition described :: "bytes \<Rightarrow> nat \<times> nat \<times> nat \<Rightarrow> bool" where
  "described mem m \<longleftrightarrow>
     (case m of (h, c, n) \<Rightarrow>
        (case strtoul_mem (drop (h + ar_size_offset) mem) of
           None \<Rightarrow> False
         | Some v \<Rightarrow> of_nat (c - (h + sizeof_ar_hdr) + n) = (ucast v :: u32)))"

lemma tiles_bound: "tiles offset sz ms \<Longrightarrow> (h, c, n) \<in> set ms \<Longrightarrow> offset \<le> h \<and> c + n \<le> sz"
proof (induction offset sz ms rule: tiles.induct)
  case (2 offset sz h' c' n' ms)
  have "tiles o1 sz ms \<Longrightarrow> o1 \<le> sz" for o1 ms
    by (induction o1 sz ms rule: tiles.induct) auto
  with 2 show ?case by fastforce
qed simp

lemma member_header_described:
  assumes "member_header erange mem sz offset = Inr (n, start)"
  shows "described mem (offset, start, unat n)"
  using assms
  by (auto simp: member_header_def described_def andthen_eq_Inr split: option.splits bool.splits)

lemma check_members_tiled:
  assumes "check_members e erange fat_allowed mem base file_size sz offset st = Inr st'" "offset \<le> sz"
  shows "\<exists>ms. tiles offset sz ms \<and> list_all (described mem) ms"
  using assms
proof (induction e erange fat_allowed mem base file_size sz offset st rule: check_members.induct)
  case (1 e erange fat_allowed mem base file_size sz offset st)
  show ?case
  proof (cases "offset < sz")
    case False
    with 1(3) show ?thesis by (intro exI [of _ "[]"]) simp
  next
    case True
    with 1(2) obtain n start st1 where m: "\<not> base + offset > file_size"
      "member_header (erange offset) mem sz offset = Inr (n, start)" "\<not> rounded n + start > sz"
      "member_contents e fat_allowed mem sz start st = Inr st1"
      "check_members e erange fat_allowed mem base file_size sz (start + rounded n) st1 = Inr st'"
      by (subst (asm) check_members.simps) (auto split: if_splits sum.splits)
    from 1(1) [OF True m(1,2) refl m(3,4,5)] m(3)
    obtain ms where "tiles (start + rounded n) sz ms" "list_all (described mem) ms" by auto
    with member_header_start [OF m(2)] member_header_described [OF m(2)]
    have "tiles offset sz ((offset, start, unat n) # ms)" "list_all (described mem) ((offset, start, unat n) # ms)"
      by (simp_all add: rounded_eq add.assoc)
    then show ?thesis by blast
  qed
qed

lemma strncmp_eq_take:
  "strncmp_eq bs lit n = Some True \<Longrightarrow> n \<le> length lit \<Longrightarrow> take n bs = take n lit \<and> n \<le> length bs"
  by (induction bs lit n rule: strncmp_eq.induct) (auto split: list.splits if_splits)

lemma length_ARMAG: "length ARMAG = SARMAG"
  by (simp add: ARMAG_def)

text \<open>C8. An archive the check accepts begins with the magic string, and its members follow each other from
  there to the end of the archive: the sizes of their headers, names and contents, which are those the headers
  give, leave no gap and nothing extends past the end.\<close>

theorem check_archive_tiled:
  assumes "check_archive e erange fat_objects ofl = Inr (ofl', msgs)"
    and "archive_area ofl = Inr (base, sz, cputype, cpusubtype)"
  shows "take SARMAG (drop base (o_file_addr ofl)) = ARMAG \<and>
    (\<exists>ms. tiles SARMAG sz ms \<and> list_all (described (drop base (o_file_addr ofl))) ms \<and>
       (\<forall>(h, c, n) \<in> set ms. c + n \<le> sz))"
proof -
  let ?mem = "drop base (o_file_addr ofl)"
  from assms have sz: "SARMAG \<le> sz" and magic: "strncmp_eq ?mem ARMAG SARMAG = Some True"
    by (auto simp: check_archive_def Let_def split: if_splits option.splits bool.splits)
  have "\<exists>ms. tiles SARMAG sz ms \<and> list_all (described ?mem) ms"
  proof (cases "sz = SARMAG")
    case True
    then show ?thesis by (intro exI [of _ "[]"]) simp
  next
    case False
    with assms magic sz obtain fat_allowed st st' where
      "check_members e erange fat_allowed ?mem base (unat (o_file_size ofl)) sz SARMAG st = Inr st'"
      by (auto simp: check_archive_def Let_def andthen_eq_Inr split: if_splits)
    then show ?thesis using sz by (rule check_members_tiled)
  qed
  then show ?thesis
    using strncmp_eq_take [OF magic] tiles_bound by (fastforce simp: length_ARMAG)
qed

section \<open>Memory\<close>

lemma dropWhile_keeps: "c \<in> set s \<Longrightarrow> \<not> P c \<Longrightarrow> c \<in> set (dropWhile P s)"
  by (induction s) auto

lemma strtoul_ends_at:
  assumes "c \<in> set s" "\<not> isspace c" "\<not> isdigit c" "c \<noteq> CHR ''-''" "c \<noteq> CHR ''+''"
  shows "strtoul_ends s"
proof -
  define t where "t = dropWhile isspace s"
  define sign where "sign \<longleftrightarrow> t \<noteq> [] \<and> (hd t = CHR ''-'' \<or> hd t = CHR ''+'')"
  have "c \<in> set t" unfolding t_def using assms(1,2) by (rule dropWhile_keeps)
  then have "c \<in> set (if sign then tl t else t)"
    using assms(4,5) by (cases t) (auto simp: sign_def)
  then have "dropWhile isdigit (if sign then tl t else t) \<noteq> []"
    using assms(3) by (auto simp del: if_split simp: dropWhile_eq_Nil_conv)
  then show ?thesis unfolding strtoul_ends_def Let_def t_def sign_def .
qed

lemma strtoul_mem_zero: "0 \<in> set bs \<Longrightarrow> \<exists>v. strtoul_mem bs = Some v"
proof -
  assume "0 \<in> set bs"
  then have "char_of (0 :: nat) \<in> set (chars bs)" by (force simp: chars_def)
  moreover have "\<not> isspace (char_of (0 :: nat))" "\<not> isdigit (char_of (0 :: nat))"
    "char_of (0 :: nat) \<noteq> CHR ''-''" "char_of (0 :: nat) \<noteq> CHR ''+''" by code_simp+
  ultimately have "strtoul_ends (chars bs)" by (rule strtoul_ends_at)
  then show ?thesis by (simp add: strtoul_mem_def)
qed

lemma strncmp_eq_defined: "n \<le> length bs \<Longrightarrow> \<exists>b. strncmp_eq bs lit n = Some b"
  by (induction bs lit n rule: strncmp_eq.induct) (auto split: list.splits)

text \<open>The memory behind the archive is zero up to one byte more than a header, as it is at the end of a mapped
  file unless the file ends close to the end of a page.\<close>

definition zero_behind :: "bytes \<Rightarrow> nat \<Rightarrow> bool" where
  "zero_behind mem sz \<longleftrightarrow> slice sz (sizeof_ar_hdr + 1) mem = replicate (sizeof_ar_hdr + 1) 0"

lemma slice_replicate:
  assumes "slice off (Suc k) xs = replicate (Suc k) x"
  shows "off + k < length xs \<and> xs ! (off + k) = x"
proof -
  have "length (slice off (Suc k) xs) = Suc k" by (simp only: assms length_replicate)
  then have len: "off + k < length xs" by (simp add: slice_def)
  have "slice off (Suc k) xs ! k = x" by (simp only: assms nth_replicate lessI)
  with len show ?thesis by (simp add: slice_def)
qed

lemma zero_behindD:
  assumes "zero_behind mem sz"
  shows "sz + sizeof_ar_hdr < length mem" "off \<le> sz + sizeof_ar_hdr \<Longrightarrow> 0 \<in> set (drop off mem)"
proof -
  have *: "sz + sizeof_ar_hdr < length mem \<and> mem ! (sz + sizeof_ar_hdr) = 0"
    using assms by (intro slice_replicate) (simp only: zero_behind_def Suc_eq_plus1)
  then show "sz + sizeof_ar_hdr < length mem" by simp
  assume off: "off \<le> sz + sizeof_ar_hdr"
  define k where "k = sz + sizeof_ar_hdr - off"
  have "drop off mem ! k = 0" "k < length (drop off mem)" using * off unfolding k_def length_drop
    by (simp, linarith)
  then show "0 \<in> set (drop off mem)" by (metis nth_mem)
qed

lemma member_header_safe:
  assumes "zero_behind mem sz" "offset < sz"
  shows "member_header erange mem sz offset \<noteq> Inl Archive_Fault"
proof -
  have "0 \<in> set (drop (offset + ar_size_offset) mem)" using assms by (intro zero_behindD(2)) auto
  then obtain v where "strtoul_mem (drop (offset + ar_size_offset) mem) = Some v"
    using strtoul_mem_zero by blast
  moreover have "3 \<le> length (drop offset mem)" using zero_behindD(1) [OF assms(1)] assms(2) by simp
  then obtain b where "strncmp_eq (drop offset mem) AR_EFMT1 3 = Some b" using strncmp_eq_defined by blast
  ultimately show ?thesis
    by (cases b) (auto simp: member_header_def check_extend_format_1_def Let_def andthen_eq_Inl split: prod.splits)
qed

lemma member_contents_safe:
  "sz \<le> length mem \<Longrightarrow> member_contents e fat_allowed mem sz offset st \<noteq> Inl Archive_Fault"
  by (auto simp: member_contents_def copy_header_def sizeof_mach_header_def sizeof_mach_header_64_def Let_def
      andthen_eq_Inl split: option.splits)

lemma check_members_safe:
  assumes "zero_behind mem sz"
  shows "check_members e erange fat_allowed mem base file_size sz offset st \<noteq> Inl Archive_Fault"
  using assms
proof (induction e erange fat_allowed mem base file_size sz offset st rule: check_members.induct)
  case (1 e erange fat_allowed mem base file_size sz offset st)
  have "sz \<le> length mem" using zero_behindD(1) [OF 1(2)] by simp
  then have "member_contents e fat_allowed mem sz start st \<noteq> Inl Archive_Fault" for start
    by (rule member_contents_safe)
  then show ?case
    using 1 member_header_safe [OF 1(2), of offset "erange offset"]
    by (subst check_members.simps) (auto split: sum.split)
qed

lemma check_archive_safe:
  assumes "archive_area ofl = Inr (base, sz, cputype, cpusubtype)" "zero_behind (drop base (o_file_addr ofl)) sz"
  shows "check_archive e erange fat_objects ofl \<noteq> Inl Archive_Fault"
proof (cases "SARMAG \<le> sz")
  case True
  with zero_behindD(1) [OF assms(2)] have "SARMAG \<le> length (drop base (o_file_addr ofl))" by linarith
  then obtain b where "strncmp_eq (drop base (o_file_addr ofl)) ARMAG SARMAG = Some b"
    using strncmp_eq_defined by blast
  then show ?thesis
    using assms(1) check_members_safe [OF assms(2)]
    by (cases b) (simp_all add: check_archive_def Let_def andthen_eq_Inl)
qed (use assms(1) in \<open>simp add: check_archive_def Let_def\<close>)

end
