(* ===== verification/Archive_Format.thy ===== *)
theory Archive_Format
  imports Archive_Correct
begin

text \<open>
  The format of archives as a function that writes them, and the theorem that the check accepts what is
  written and finds the processor type of the objects (\<open>check_archive_complete\<close>). Concrete archives show what
  the check does wrong.
\<close>

section \<open>Archives in the format\<close>

text \<open>A member as the archiver writes it: the name is in the header, or in the extended format behind it; \<open>am_info\<close>
  are the date, the owner and the mode.\<close>

record ar_member =
  am_extended :: bool
  am_name :: bytes
  am_info :: bytes
  am_data :: bytes

definition pad :: "nat \<Rightarrow> bytes \<Rightarrow> bytes" where
  "pad n bs = bs @ replicate (n - length bs) 32"

definition behind_header :: "ar_member \<Rightarrow> nat" where
  "behind_header m = (if am_extended m then length (am_name m) else 0)"

definition enc_name :: "ar_member \<Rightarrow> bytes" where
  "enc_name m = pad 16 (if am_extended m then AR_EFMT1 @ ascii (decimal (length (am_name m))) else am_name m)"

definition enc_header :: "ar_member \<Rightarrow> bytes" where
  "enc_header m =
     enc_name m @ am_info m @
     pad 10 (ascii (decimal (behind_header m + length (am_data m)))) @ [96, 10]"

definition enc_member :: "ar_member \<Rightarrow> bytes" where
  "enc_member m =
     enc_header m @ (if am_extended m then am_name m else []) @ am_data m @ replicate (length (am_data m) mod 2) 10"

definition enc_archive :: "ar_member list \<Rightarrow> bytes" where
  "enc_archive ms = ARMAG @ concat (map enc_member ms)"

definition wf_member :: "ar_member \<Rightarrow> bool" where
  "wf_member m \<longleftrightarrow>
     length (am_info m) = 32 \<and> behind_header m + length (am_data m) < 2 ^ 32 \<and>
     (\<not> am_extended m \<longrightarrow> length (am_name m) \<le> 16 \<and> am_name m \<noteq> [] \<and> hd (am_name m) < 128 \<and>
        take 3 (am_name m) \<noteq> AR_EFMT1)"

lemma length_decimal: "n < 10 ^ k \<Longrightarrow> 0 < k \<Longrightarrow> length (decimal n) \<le> k"
proof (induction n arbitrary: k rule: decimal.induct)
  case (1 n)
  show ?case
  proof (cases "n < 10")
    case False
    with 1(2) obtain j where "k = Suc j" "0 < j" by (cases k; cases "k - 1") auto
    with 1 False show ?thesis by (subst decimal.simps) (auto simp: less_mult_imp_div_less mult.commute)
  qed (use 1(3) in \<open>subst decimal.simps, simp\<close>)
qed

lemma length_pad: "length bs \<le> n \<Longrightarrow> length (pad n bs) = n"
  by (simp add: pad_def)

lemma length_enc_name:
  assumes "wf_member m"
  shows "length (enc_name m) = 16"
proof -
  have "length (am_name m) < 10 ^ 13" if "am_extended m"
    using assms that by (simp add: wf_member_def behind_header_def)
  then have "length (decimal (length (am_name m))) \<le> 13" if "am_extended m"
    using that length_decimal [of "length (am_name m)" 13] by simp
  then show ?thesis
    using assms unfolding enc_name_def by (intro length_pad) (auto simp: wf_member_def AR_EFMT1_def)
qed

lemma length_enc_size: "wf_member m \<Longrightarrow> length (pad 10 (ascii (decimal (behind_header m + length (am_data m))))) = 10"
  using length_decimal [of "behind_header m + length (am_data m)" 10]
  by (intro length_pad) (simp add: wf_member_def)

lemma length_enc_header: "wf_member m \<Longrightarrow> length (enc_header m) = sizeof_ar_hdr"
  by (simp add: enc_header_def length_enc_name length_enc_size wf_member_def)

lemma strtoul_pad:
  assumes "n < 2 ^ 64"
  shows "strtoul_mem (pad k (ascii (decimal n)) @ 96 # rest) = Some (of_nat n)"
proof -
  have "\<not> isdigit (char_of (unat (32 :: u8)))" "\<not> isdigit (char_of (unat (96 :: u8)))" by code_simp+
  then show ?thesis
    using assms by (cases "k - length (ascii (decimal n))") (simp_all add: pad_def strtoul_mem_decimal)
qed

lemma strncmp_eq_iff:
  "n \<le> length bs \<Longrightarrow> n \<le> length lit \<Longrightarrow> strncmp_eq bs lit n = Some (take n bs = take n lit)"
  by (induction bs lit n rule: strncmp_eq.induct) (auto split: list.splits)

lemma ascii_digits_nonzero: "list_all isdigit s \<Longrightarrow> 0 \<notin> set (ascii s)"
proof (induction s)
  case (Cons c s)
  have "c = char_of (0 :: nat)" if "(of_char c :: u8) = 0"
    using chars_ascii [of "[c]"] that by (simp add: ascii_def chars_def)
  moreover have "\<not> isdigit (char_of (0 :: nat))" by code_simp
  ultimately show ?case using Cons by (auto simp: ascii_def)
qed (simp add: ascii_def)

lemma check_extend_format_1_enc:
  assumes "n < 2 ^ 32 - 1" "n \<le> unat size_left"
  shows "check_extend_format_1 erange (pad k (AR_EFMT1 @ ascii (decimal n))) size_left = Inr (of_nat n)"
proof -
  define j where "j = k - length (AR_EFMT1 @ ascii (decimal n))"
  have "0 \<notin> set (pad k (AR_EFMT1 @ ascii (decimal n)))"
    using ascii_digits_nonzero [OF decimal_digits(2)] by (auto simp: pad_def AR_EFMT1_def ascii_def)
  then have "takeWhile (\<lambda>b. b \<noteq> 0) (pad k (AR_EFMT1 @ ascii (decimal n))) = pad k (AR_EFMT1 @ ascii (decimal n))"
    by (auto simp only: takeWhile_eq_all_conv)
  moreover have "chars (replicate j 32) = replicate j CHR '' ''"
  proof -
    have "char_of (unat (32 :: u8)) = CHR '' ''" by code_simp
    then show ?thesis by (simp only: chars_def map_replicate)
  qed
  ultimately have buf: "drop 3 (chars (takeWhile (\<lambda>b. b \<noteq> 0) (pad k (AR_EFMT1 @ ascii (decimal n))))) =
      decimal n @ replicate j CHR '' ''"
    by (simp add: pad_def AR_EFMT1_def j_def)
  have "strtoul (decimal n @ replicate j CHR '' '') = (of_nat n, replicate j CHR '' '')"
    using assms(1) by (intro strtoul_decimal) (cases j; simp add: isdigit_def)+
  moreover have "isdigit (hd (decimal n @ replicate j CHR '' ''))" "decimal n \<noteq> []"
    using decimal_digits [of n] by (cases "decimal n"; simp)+
  moreover have "ucast (of_nat n :: u64) = (of_nat n :: u32)"
    using assms(1) by (simp add: unsigned_of_nat take_bit_nat_eq_self)
  moreover have n: "unat (of_nat n :: u32) = n" using assms(1) by (simp add: unsigned_of_nat take_bit_nat_eq_self)
  moreover have "(of_nat n :: u32) \<noteq> 0xffffffff"
  proof
    assume "(of_nat n :: u32) = 0xffffffff"
    then have "n = unat (0xffffffff :: u32)" using n by simp
    with assms(1) show False by simp
  qed
  ultimately show ?thesis
    using assms(2) unfolding check_extend_format_1_def buf Let_def
    by (simp add: word_less_nat_alt dropWhile_eq_Nil_conv)
qed

lemma pad_not_extended: "name \<noteq> [] \<Longrightarrow> take 3 (pad 16 name) = AR_EFMT1 \<Longrightarrow> take 3 name = AR_EFMT1"
  by (cases name; cases "tl name"; cases "tl (tl name)")
    (auto simp: pad_def AR_EFMT1_def ascii_def numeral_3_eq_3)

lemma ucast_of_nat_u32: "ucast (of_nat n :: u64) = (of_nat n :: u32)"
  by (rule bit_word_eqI) (simp add: bit_simps)

lemma member_header_enc:
  assumes wf: "wf_member m" and mem: "mem = pre @ enc_member m @ rest"
    and sz: "length pre + length (enc_member m) \<le> sz" "sz < 2 ^ 32"
  shows "member_header erange mem sz (length pre) =
    Inr (of_nat (length (am_data m)), length pre + sizeof_ar_hdr + behind_header m)"
proof -
  let ?n = "behind_header m + length (am_data m)"
  obtain tail where t: "drop (length pre) mem = enc_name m @ am_info m @
      pad 10 (ascii (decimal ?n)) @ 96 # tail"
    by (simp add: mem enc_member_def enc_header_def)
  have info: "length (am_info m) = 32" and n: "?n < 2 ^ 32" using wf by (simp_all add: wf_member_def)
  have "drop (length pre + ar_size_offset) mem = drop ar_size_offset (drop (length pre) mem)"
    by (simp add: add.commute)
  also have "\<dots> = pad 10 (ascii (decimal ?n)) @ 96 # tail"
    unfolding t using length_enc_name [OF wf] info by simp
  finally have v: "strtoul_mem (drop (length pre + ar_size_offset) mem) = Some (of_nat ?n)"
    using n strtoul_pad [of ?n 10 tail] by simp
  have take: "slice (length pre) 16 mem = enc_name m" "take 3 (drop (length pre) mem) = take 3 (enc_name m)"
    unfolding slice_def t using length_enc_name [OF wf] by simp_all
  have "3 \<le> length (drop (length pre) mem)" unfolding t using length_enc_name [OF wf] by simp
  then have cmp: "strncmp_eq (drop (length pre) mem) AR_EFMT1 3 = Some (take 3 (enc_name m) = AR_EFMT1)"
    using strncmp_eq_iff [of 3 "drop (length pre) mem" AR_EFMT1] take(2) by (simp add: AR_EFMT1_def)
  show ?thesis
  proof (cases "am_extended m")
    case True
    define k where "k = length (am_name m)"
    have k: "behind_header m = k" using True by (simp add: behind_header_def k_def)
    have name: "enc_name m = pad 16 (AR_EFMT1 @ ascii (decimal k))" using True by (simp add: enc_name_def k_def)
    then have "take 3 (enc_name m) = AR_EFMT1" by (simp add: pad_def AR_EFMT1_def)
    have left: "length pre + sizeof_ar_hdr + k \<le> sz"
      using sz(1) length_enc_header [OF wf] True by (simp add: enc_member_def k_def)
    define left where "left = sz - (length pre + sizeof_ar_hdr)"
    have "int sz - int (length pre + sizeof_ar_hdr) = int left" using left by (simp add: left_def)
    then have l: "k \<le> left" "left < 2 ^ 32 - 1"
      "(of_int (int sz - int (length pre + sizeof_ar_hdr)) :: u32) = of_nat left"
      using left sz(2) by (simp_all add: left_def del: of_nat_add)
    then have "unat (of_nat left :: u32) = left" by (simp add: unsigned_of_nat take_bit_nat_eq_self)
    then have "check_extend_format_1 erange (enc_name m) (of_nat left) = Inr (of_nat k)"
      unfolding name using l by (intro check_extend_format_1_enc) simp_all
    moreover have "unat (of_nat k :: u32) = k" using l by (simp add: unsigned_of_nat take_bit_nat_eq_self)
    ultimately show ?thesis
      using \<open>take 3 (enc_name m) = AR_EFMT1\<close>
      by (simp only: member_header_def v cmp take(1) l(3) ucast_of_nat_u32 k option.case bool.case
          andthen.simps) simp
  next
    case False
    then have "take 3 (enc_name m) \<noteq> AR_EFMT1" "behind_header m = 0"
      using wf pad_not_extended [of "am_name m"] by (auto simp: enc_name_def wf_member_def behind_header_def)
    then show ?thesis by (simp add: member_header_def v cmp ucast_of_nat_u32)
  qed
qed

section \<open>Objects in archives\<close>

text \<open>The processor type of an object, read in the byte order of the object.\<close>

definition object_of :: "bytes \<Rightarrow> (cpu_type_t \<times> cpu_subtype_t) option" where
  "object_of data =
     (if length data < 4 then None
      else case find (\<lambda>e. get32 e data 0 = MH_MAGIC \<or> get32 e data 0 = MH_MAGIC_64) [BE, LE] of
        None \<Rightarrow> None
      | Some e \<Rightarrow> Some (get32 e data 4, get32 e data 8))"

text \<open>A member that is not a fat file, unless these are allowed, and has a complete header when it is an object.\<close>

definition wf_data :: "bool \<Rightarrow> bytes \<Rightarrow> bool" where
  "wf_data fat_allowed data \<longleftrightarrow>
     (4 \<le> length data \<longrightarrow>
        (get32 BE data 0 = FAT_MAGIC \<or> get32 BE data 0 = FAT_MAGIC_64 \<longrightarrow> fat_allowed)) \<and>
     (object_of data \<noteq> None \<longrightarrow> sizeof_mach_header_64 \<le> length data)"

text \<open>What the check records of the objects: the first processor type, and a message for each other one.\<close>

fun recorded ::
  "cpu_type_t \<times> cpu_subtype_t \<times> archive_error list \<Rightarrow> (cpu_type_t \<times> cpu_subtype_t) option \<Rightarrow>
   cpu_type_t \<times> cpu_subtype_t \<times> archive_error list" where
  "recorded r None = r"
| "recorded (t, s, msgs) (Some (t', s')) =
     (if t = 0 then (t', s', msgs)
      else if t \<noteq> t' then (t, s, msgs @ [Cputype_Mismatch t' t])
      else (t, s, msgs))"

definition record_of :: "archive_state \<Rightarrow> cpu_type_t \<times> cpu_subtype_t \<times> archive_error list" where
  "record_of st = (as_cputype st, as_cpusubtype st, as_messages st)"

lemma record_of_note:
  "record_of (note_cputype t s (st\<lparr>as_mh := m\<rparr>)) = recorded (record_of st) (Some (t, s))"
  "record_of (note_cputype t s (st\<lparr>as_mh64 := m64\<rparr>)) = recorded (record_of st) (Some (t, s))"
  by (simp_all add: record_of_def note_cputype_def)

lemma SWAP_magic:
  "length bs \<ge> off + 4 \<Longrightarrow> get32 e bs off = SWAP_INT w \<longleftrightarrow> get32 (opp e) bs off = w"
  by (metis SWAP_get(2) SWAP_twice(2))

lemma is_fat_magic_BE:
  "length bs \<ge> off + 4 \<Longrightarrow>
   is_fat_magic e (get32 e bs off) \<longleftrightarrow> get32 BE bs off = FAT_MAGIC \<or> get32 BE bs off = FAT_MAGIC_64"
  by (cases e) (simp_all add: is_fat_magic_def SWAP_magic)

text \<open>All bytes of the magic numbers have the high bit set, unlike those of headers.\<close>

definition magics :: "u32 list" where
  "magics = [MH_MAGIC, MH_MAGIC_64, FAT_MAGIC, FAT_MAGIC_64]"

lemma no_magic:
  assumes "b \<in> set (slice off 4 bs)" "b < 128" "off + 4 \<le> length bs"
  shows "get32 e bs off \<notin> set magics"
proof
  assume m: "get32 e bs off \<in> set magics"
  have "list_all (\<lambda>w. list_all (\<lambda>b. 128 \<le> b) (put32 BE w)) magics"
    "list_all (\<lambda>w. list_all (\<lambda>b. 128 \<le> b) (put32 LE w)) magics" by code_simp+
  then have "list_all (\<lambda>w. list_all (\<lambda>b. 128 \<le> b) (put32 e w)) magics" by (cases e) simp_all
  with m have "list_all (\<lambda>b. 128 \<le> b) (put32 e (get32 e bs off))" by (simp add: list_all_iff)
  with assms show False by (auto simp: put_get list_all_iff)
qed

lemma object_of_host:
  assumes "4 \<le> length data"
  shows "object_of data =
    (if get32 e data 0 = MH_MAGIC \<or> get32 e data 0 = MH_MAGIC_64 then Some (get32 e data 4, get32 e data 8)
     else if get32 (opp e) data 0 = MH_MAGIC \<or> get32 (opp e) data 0 = MH_MAGIC_64
     then Some (get32 (opp e) data 4, get32 (opp e) data 8) else None)"
proof -
  have "get32 LE data 0 = SWAP_INT (get32 BE data 0)" using assms by (simp add: SWAP_get)
  moreover have "SWAP_INT MH_MAGIC \<noteq> MH_MAGIC" "SWAP_INT MH_MAGIC \<noteq> MH_MAGIC_64" "SWAP_INT MH_MAGIC_64 \<noteq> MH_MAGIC"
    "SWAP_INT MH_MAGIC_64 \<noteq> MH_MAGIC_64" by code_simp+
  ultimately show ?thesis using assms by (cases e) (auto simp: object_of_def)
qed

lemma header_fields:
  assumes "drop offset mem = data @ rest" "32 \<le> length data"
  shows "dec_mach_header e (slice offset sizeof_mach_header mem) = dec_mach_header e (take sizeof_mach_header data)"
    "dec_mach_header_64 e (slice offset sizeof_mach_header_64 mem) =
     dec_mach_header_64 e (take sizeof_mach_header_64 data)"
    "mh_cputype (dec_mach_header e (take sizeof_mach_header data)) = get32 e data 4"
    "mh_cpusubtype (dec_mach_header e (take sizeof_mach_header data)) = get32 e data 8"
    "mh64_cputype (dec_mach_header_64 e (take sizeof_mach_header_64 data)) = get32 e data 4"
    "mh64_cpusubtype (dec_mach_header_64 e (take sizeof_mach_header_64 data)) = get32 e data 8"
  using assms by (simp_all add: slice_def [of offset] dec_mach_header_def dec_mach_header_64_def
      sizeof_mach_header_def sizeof_mach_header_64_def get32_take)

text \<open>The four kinds of contents: no magic number, a fat file, and objects of either byte order.\<close>

lemma member_contents_plain:
  assumes "4 < sz - offset" "offset + 4 \<le> length mem" "\<not> is_fat_magic e (get32 e mem offset)"
    "get32 e mem offset \<noteq> MH_MAGIC" "get32 e mem offset \<noteq> MH_MAGIC_64"
    "get32 (opp e) mem offset \<noteq> MH_MAGIC" "get32 (opp e) mem offset \<noteq> MH_MAGIC_64"
  shows "member_contents e fat_allowed mem sz offset st = Inr st"
  using assms SWAP_magic [OF assms(2), of e]
  by (simp add: member_contents_def copy_header_def Let_def)

lemma object_not_fat:
  assumes "4 \<le> length data" "object_of data = Some x"
  shows "\<not> (get32 BE data 0 = FAT_MAGIC \<or> get32 BE data 0 = FAT_MAGIC_64)"
proof
  assume m: "get32 BE data 0 = FAT_MAGIC \<or> get32 BE data 0 = FAT_MAGIC_64"
  have "get32 LE data 0 = SWAP_INT (get32 BE data 0)" using assms(1) by (simp add: SWAP_get)
  moreover have "SWAP_INT FAT_MAGIC \<noteq> MH_MAGIC" "SWAP_INT FAT_MAGIC \<noteq> MH_MAGIC_64"
    "SWAP_INT FAT_MAGIC_64 \<noteq> MH_MAGIC" "SWAP_INT FAT_MAGIC_64 \<noteq> MH_MAGIC_64" by code_simp+
  ultimately show False using assms(2) m by (auto simp: object_of_def split: if_splits)
qed

lemma SWAP_MH: "SWAP_INT MH_MAGIC \<noteq> MH_MAGIC" "SWAP_INT MH_MAGIC \<noteq> MH_MAGIC_64"
  "SWAP_INT MH_MAGIC_64 \<noteq> MH_MAGIC" "SWAP_INT MH_MAGIC_64 \<noteq> MH_MAGIC_64" "SWAP_INT MH_MAGIC \<noteq> SWAP_INT MH_MAGIC_64"
  by code_simp+

lemma member_contents_object:
  assumes mem: "drop offset mem = data @ rest" and sz: "offset + length data \<le> sz" "sz \<le> length mem"
    and obj: "object_of data = Some (t, s)" "32 \<le> length data"
  shows "\<exists>st'. member_contents e fat_allowed mem sz offset st = Inr st' \<and>
    record_of st' = recorded (record_of st) (Some (t, s))"
proof -
  have get: "get32 e' mem offset = get32 e' data 0" for e' using obj(2) by (simp add: slice_def mem)
  have 4: "4 \<le> length data" "offset + 4 \<le> length mem" using obj(2) sz by linarith+
  have fat: "\<not> is_fat_magic e (get32 e mem offset)"
    using object_not_fat [OF 4(1) obj(1)] is_fat_magic_BE [OF 4(2), of e] get [of BE] by simp
  note hdr = header_fields [OF mem obj(2)]
  have swap: "swap_mach_header (dec_mach_header e (take sizeof_mach_header data)) =
      dec_mach_header (opp e) (take sizeof_mach_header data)"
    "swap_mach_header_64 (dec_mach_header_64 e (take sizeof_mach_header_64 data)) =
      dec_mach_header_64 (opp e) (take sizeof_mach_header_64 data)"
    using obj(2) by (simp_all add: mach_header.swap_dec mach_header_64.swap_dec sizeof_mach_header_def
        sizeof_mach_header_64_def)
  have big: "4 < sz - offset" "sizeof_mach_header \<le> sz - offset" "sizeof_mach_header_64 \<le> sz - offset"
    "\<not> length mem < offset + sizeof_mach_header" "\<not> length mem < offset + sizeof_mach_header_64"
    "\<not> length mem < offset + 4"
    using obj(2) sz by (simp_all add: sizeof_mach_header_def sizeof_mach_header_64_def)
  note step = member_contents_def copy_header_def Let_def big hdr swap record_of_note SWAP_MH SWAP_MH [symmetric]
  consider "get32 e mem offset = MH_MAGIC" "t = get32 e data 4" "s = get32 e data 8"
    | "get32 e mem offset = MH_MAGIC_64" "t = get32 e data 4" "s = get32 e data 8"
    | "get32 e mem offset = SWAP_INT MH_MAGIC" "t = get32 (opp e) data 4" "s = get32 (opp e) data 8"
    | "get32 e mem offset = SWAP_INT MH_MAGIC_64" "t = get32 (opp e) data 4" "s = get32 (opp e) data 8"
    using obj(1) object_of_host [OF 4(1), of e] 4(1) unfolding get
    by (auto simp: SWAP_magic split: if_splits)
  then show ?thesis
    using fat by cases (simp_all add: step del: One_nat_def)
qed

lemma member_contents_enc:
  assumes mem: "drop offset mem = data @ rest" and sz: "offset + length data \<le> sz" "sz \<le> length mem"
    and wf: "wf_data fat_allowed data"
    and short: "length data < 4 \<Longrightarrow> 4 < sz - offset \<Longrightarrow> \<exists>b \<in> set (take 4 (data @ rest)). b < 128"
  shows "\<exists>st'. member_contents e fat_allowed mem sz offset st = Inr st' \<and>
    record_of st' = recorded (record_of st) (object_of data)"
proof (cases "object_of data")
  case (Some x)
  with wf have "32 \<le> length data" by (simp add: wf_data_def sizeof_mach_header_64_def)
  with Some show ?thesis using member_contents_object [OF mem sz] by (cases x) simp
next
  case None
  have "member_contents e fat_allowed mem sz offset st = Inr st"
  proof (cases "4 < sz - offset")
    case True
    then have len: "offset + 4 \<le> length mem" using sz by linarith
    show ?thesis
    proof (cases "length data < 4")
      case data: True
      have "slice offset 4 mem = take 4 (data @ rest)" by (simp add: slice_def mem)
      with short [OF data True] obtain b where "b \<in> set (slice offset 4 mem)" "b < 128" by auto
      from no_magic [OF this len] have "get32 e' mem offset \<notin> set magics" for e' .
      then show ?thesis
        using True len by (intro member_contents_plain) (simp_all add: is_fat_magic_BE magics_def)
    next
      case False
      then have get: "get32 e' mem offset = get32 e' data 0" for e' by (simp add: slice_def mem)
      from False None object_of_host [of data e]
      have "get32 e mem offset \<noteq> MH_MAGIC" "get32 e mem offset \<noteq> MH_MAGIC_64"
        "get32 (opp e) mem offset \<noteq> MH_MAGIC" "get32 (opp e) mem offset \<noteq> MH_MAGIC_64"
        by (simp_all add: get split: if_splits)
      moreover have "fat_allowed" if "is_fat_magic e (get32 e mem offset)"
        using that wf False get [of BE] by (simp add: is_fat_magic_BE [OF len] wf_data_def)
      moreover have "member_contents e fat_allowed mem sz offset st = Inr st"
        if "is_fat_magic e (get32 e mem offset)" "fat_allowed"
        using that True len by (simp add: member_contents_def)
      ultimately show ?thesis using member_contents_plain [OF True len] by blast
    qed
  qed (simp add: member_contents_def)
  with None show ?thesis by simp
qed

lemma first_byte: "wf_member m \<Longrightarrow> \<exists>b bs. enc_member m = b # bs \<and> b < 128"
  by (cases "am_name m")
    (auto simp: enc_member_def enc_header_def enc_name_def pad_def AR_EFMT1_def ascii_def wf_member_def)

lemma length_enc_member:
  "wf_member m \<Longrightarrow> length (enc_member m) =
     sizeof_ar_hdr + behind_header m + (length (am_data m) + length (am_data m) mod 2)"
  by (simp add: enc_member_def length_enc_header behind_header_def)

text \<open>The bytes where contents of less than four bytes end: the padding or the next header.\<close>

lemma short_window:
  assumes "length data < 4" "\<forall>m \<in> set ms. wf_member m"
    and "4 < length data + length data mod 2 + length (concat (map enc_member ms))"
  shows "\<exists>b \<in> set (take 4 (data @ replicate (length data mod 2) 10 @ concat (map enc_member ms) @ rest)). b < 128"
proof (cases "length data mod 2 = 0")
  case False
  then have "10 \<in> set (take 4 (data @ replicate (length data mod 2) (10 :: u8) @ concat (map enc_member ms) @ rest))"
    using assms(1) by (auto simp: mod2_eq_if split: if_splits)
  moreover have "(10 :: u8) < 128" by simp
  ultimately show ?thesis by blast
next
  case True
  with assms obtain m ms' where ms: "ms = m # ms'" by (cases ms) auto
  with assms(2) first_byte [of m] obtain b bs where "enc_member m = b # bs" "b < 128" by auto
  moreover obtain k where "4 - length data = Suc k" using assms(1) by (cases "4 - length data") auto
  ultimately show ?thesis using ms True by (intro bexI [of _ b]) auto
qed

lemma check_members_enc:
  assumes "\<forall>m \<in> set ms. wf_member m \<and> wf_data fat_allowed (am_data m)"
    and "mem = pre @ concat (map enc_member ms) @ rest" "sz = length pre + length (concat (map enc_member ms))"
    and "sz < 2 ^ 32" "base + sz \<le> file_size"
  shows "\<exists>st'. check_members e erange fat_allowed mem base file_size sz (length pre) st = Inr st' \<and>
    record_of st' = foldl recorded (record_of st) (map (object_of \<circ> am_data) ms)"
  using assms
proof (induction ms arbitrary: pre st)
  case Nil
  then show ?case by (subst check_members.simps) simp
next
  case (Cons m ms)
  let ?data = "am_data m" and ?start = "length pre + sizeof_ar_hdr + behind_header m"
  let ?pad = "replicate (length ?data mod 2) (10 :: u8)"
  from Cons.prems have wf: "wf_member m" "wf_data fat_allowed ?data" by simp_all
  note len = length_enc_member [OF wf(1)]
  have mem: "mem = pre @ enc_member m @ concat (map enc_member ms) @ rest" using Cons.prems(2) by simp
  have sz: "length pre + length (enc_member m) \<le> sz" "sz \<le> length mem" "length pre < sz"
    using Cons.prems(2,3) len by simp_all
  have hdr: "member_header (erange (length pre)) mem sz (length pre) = Inr (of_nat (length ?data), ?start)"
    using wf(1) mem sz(1) Cons.prems(4) by (rule member_header_enc)
  have "length ?data < 2 ^ 32" using wf(1) by (simp add: wf_member_def)
  then have r: "rounded (of_nat (length ?data)) = length ?data + length ?data mod 2"
    by (simp add: rounded_eq unsigned_of_nat take_bit_nat_eq_self)
  have "drop ?start mem = ?data @ ?pad @ concat (map enc_member ms) @ rest"
    using length_enc_header [OF wf(1)] by (simp add: mem enc_member_def behind_header_def)
  moreover have "?start + length ?data \<le> sz" using sz(1) len by simp
  moreover have "sz - ?start = length ?data + length ?data mod 2 + length (concat (map enc_member ms))"
    using Cons.prems(3) len by simp
  ultimately obtain st1 where st1: "member_contents e fat_allowed mem sz ?start st = Inr st1"
    "record_of st1 = recorded (record_of st) (object_of ?data)"
    using member_contents_enc [of ?start mem ?data _ sz fat_allowed e st] sz(2) wf(2) short_window Cons.prems(1)
    by (metis list.set_intros(2))
  have "length (pre @ enc_member m) = ?start + rounded (of_nat (length ?data))" using len r by simp
  moreover have "\<exists>st'. check_members e erange fat_allowed mem base file_size sz (length (pre @ enc_member m)) st1 = Inr st' \<and>
      record_of st' = foldl recorded (record_of st1) (map (object_of \<circ> am_data) ms)"
    using Cons.prems by (intro Cons.IH) simp_all
  ultimately show ?case
    using hdr st1 sz len r Cons.prems(5) by (subst check_members.simps) (simp add: add.assoc)
qed

text \<open>C9. An archive of less than \<open>2 ^ 32\<close> bytes that is written in the format, of members that are complete
  objects or other files, is accepted. The processor type the check finds is that of the first object, in the
  byte order of that object, and there is a message for each object of another processor type.\<close>

theorem check_archive_complete:
  assumes "\<forall>m \<in> set ms. wf_member m \<and> wf_data fat_objects (am_data m)"
    and "o_file_type ofl = OFILE_ARCHIVE" "o_file_addr ofl = enc_archive ms @ rest"
    and "unat (o_file_size ofl) = length (enc_archive ms)" "length (enc_archive ms) < 2 ^ 32"
  shows "\<exists>ofl' msgs. check_archive e erange fat_objects ofl = Inr (ofl', msgs) \<and>
    (o_archive_cputype ofl', o_archive_cpusubtype ofl', msgs) =
      foldl recorded (0, 0, []) (map (object_of \<circ> am_data) ms)"
proof -
  have magic: "strncmp_eq (o_file_addr ofl) ARMAG SARMAG = Some True"
    using strncmp_eq_iff [of SARMAG "o_file_addr ofl" ARMAG] by (simp add: assms(3) enc_archive_def length_ARMAG)
  have sz: "unat (o_file_size ofl) = SARMAG + length (concat (map enc_member ms))"
    by (simp add: assms(4) enc_archive_def length_ARMAG)
  show ?thesis
  proof (cases ms)
    case Nil
    with sz magic assms(2) show ?thesis by (simp add: check_archive_def archive_area_def Let_def)
  next
    case (Cons m ms')
    with assms(1) sz have "SARMAG + sizeof_ar_hdr \<le> unat (o_file_size ofl)"
      using length_enc_member [of m] by simp
    moreover from check_members_enc [OF assms(1), of "o_file_addr ofl" ARMAG rest "unat (o_file_size ofl)" 0
        "unat (o_file_size ofl)" e erange
        "\<lparr>as_mh = None, as_mh64 = None, as_cputype = 0, as_cpusubtype = 0, as_messages = []\<rparr>"]
    obtain st' where "check_members e erange fat_objects (o_file_addr ofl) 0 (unat (o_file_size ofl))
        (unat (o_file_size ofl)) SARMAG
        \<lparr>as_mh = None, as_mh64 = None, as_cputype = 0, as_cpusubtype = 0, as_messages = []\<rparr> = Inr st'"
      "record_of st' = foldl recorded (0, 0, []) (map (object_of \<circ> am_data) ms)"
      using assms sz by (auto simp: enc_archive_def length_ARMAG record_of_def)
    ultimately show ?thesis
      using magic assms(2) by (simp add: check_archive_def archive_area_def Let_def record_of_def)
  qed
qed

text \<open>An archive with a text of three bytes and an object for the 68030 that is stored most significant byte
  first.\<close>

definition sample_members :: "ar_member list" where
  "sample_members =
     [\<lparr>am_extended = True, am_name = ascii ''notes'', am_info = replicate 32 48, am_data = [7, 8, 9]\<rparr>,
      \<lparr>am_extended = False, am_name = ascii ''a.o'', am_info = replicate 32 48,
       am_data = put32 BE MH_MAGIC @ put32 BE CPU_TYPE_MC680x0 @ put32 BE 1 @ replicate 20 0\<rparr>]"

definition archive_file :: "bytes \<Rightarrow> ofile" where
  "archive_file bs = zero_ofile\<lparr>o_file_addr := bs, o_file_size := of_nat (length bs), o_file_type := OFILE_ARCHIVE\<rparr>"

theorem check_archive_complete_witness:
  "\<exists>ofl' msgs. check_archive LE (\<lambda>_. False) False (archive_file (enc_archive sample_members)) = Inr (ofl', msgs) \<and>
    o_archive_cputype ofl' = CPU_TYPE_MC680x0 \<and> msgs = []"
proof -
  have wf: "\<forall>m \<in> set sample_members. wf_member m \<and> wf_data False (am_data m)"
  proof -
    have "list_all (\<lambda>m. length (am_info m) = 32 \<and> behind_header m + length (am_data m) < 64 \<and>
        (am_extended m \<or> length (am_name m) \<le> 16 \<and> am_name m \<noteq> [] \<and> hd (am_name m) < 128 \<and>
          take 3 (am_name m) \<noteq> AR_EFMT1) \<and> wf_data False (am_data m)) sample_members"
      by code_simp
    then show ?thesis by (auto simp: list_all_iff wf_member_def)
  qed
  have len: "length (enc_archive sample_members) = 169" by code_simp
  have "foldl recorded (0, 0, []) (map (object_of \<circ> am_data) sample_members) = (CPU_TYPE_MC680x0, 1, [])" by code_simp
  with check_archive_complete [OF wf, of "archive_file (enc_archive sample_members)" "[]" LE "\<lambda>_. False"] len
  show ?thesis by (auto simp: archive_file_def)
qed

theorem check_archive_tiled_witness:
  "\<exists>ms. tiles SARMAG 169 ms \<and> list_all (described (enc_archive sample_members)) ms \<and> ms \<noteq> []"
proof -
  let ?ofl = "archive_file (enc_archive sample_members)"
  have "\<not> isl (check_archive LE (\<lambda>_. False) False ?ofl)" by code_simp
  then obtain ofl' msgs where c: "check_archive LE (\<lambda>_. False) False ?ofl = Inr (ofl', msgs)"
    by (cases "check_archive LE (\<lambda>_. False) False ?ofl") auto
  have "length (enc_archive sample_members) = 169" by code_simp
  then have "archive_area ?ofl = Inr (0, 169, 0, 0)" by (simp add: archive_area_def archive_file_def)
  from check_archive_tiled [OF c this] obtain ms where
    "tiles SARMAG 169 ms" "list_all (described (drop 0 (o_file_addr ?ofl))) ms" by blast
  then show ?thesis by (intro exI [of _ ms]) (auto simp: archive_file_def)
qed

text \<open>Two inputs the check does not guard against. When the members end less than a header before the end of
  the archive, the rest is read as a header beyond the end of the mapped file. When a member begins with the
  magic number of an object and the archive ends before its header does, the check compares the processor type
  of a header that it has not read.\<close>

theorem check_archive_limits:
  "check_archive LE (\<lambda>_. False) False (archive_file (enc_archive [hd sample_members] @ replicate 30 32)) =
     Inl Archive_Fault \<and>
   check_archive LE (\<lambda>_. False) False (archive_file (enc_archive [(hd sample_members)\<lparr>am_data :=
     put32 LE MH_MAGIC @ [0, 0]\<rparr>])) = Inl Uninitialised_Header"
  by code_simp

end
