(* ===== verification/ArchiveToc.thy ===== *)
theory ArchiveToc
  imports Archive MachO_Tables
begin

text \<open>
  The table of contents of an archive: \<open>get_toc_byte_sex\<close> of
  \<^verbatim>\<open>cctools/libstuff/get_toc_byte_sex.c\<close>, which takes the byte order of the first object as that of the
  table, and \<open>check_archive_toc\<close> of \<^verbatim>\<open>cctools/libstuff/ofile.c\<close>, which checks the table and swaps it in
  place. A table that is not accepted sets \<open>o_toc_bad\<close>, and the fields for the table are left cleared.
\<close>

section \<open>The byte order\<close>

text \<open>\<open>addr\<close> is the memory of the archive, \<open>p\<close> an offset into it. An offset that could
  leave the lower half of the address space is an overflow of the pointer.\<close>

definition rnd_short :: "u64 \<Rightarrow> nat" where
  "rnd_short v = unat (rnd v 2)"

definition toc_member_name_size :: "bytes \<Rightarrow> archive_error + nat" where
  "toc_member_name_size hdr =
     (case strncmp_eq hdr AR_EFMT1 3 of
        None \<Rightarrow> Inl Archive_Fault
      | Some False \<Rightarrow> Inr 0
      | Some True \<Rightarrow>
          (case strtoul_mem (drop 3 hdr) of
             None \<Rightarrow> Inl Archive_Fault
           | Some v \<Rightarrow> Inr (unat (ucast v :: u32))))"

function toc_walk :: "endian \<Rightarrow> bytes \<Rightarrow> nat \<Rightarrow> nat \<Rightarrow> archive_error + byte_sex" where
  "toc_walk e addr sz p =
     (if p + sizeof_ar_hdr + 4 < sz then
        (case toc_member_name_size (drop p addr) of
           Inl x \<Rightarrow> Inl x
         | Inr ar_name_size \<Rightarrow>
             if length addr < p + sizeof_ar_hdr + ar_name_size + 4 then Inl Archive_Fault
             else
               let magic = get32 e addr (p + sizeof_ar_hdr + ar_name_size) in
               if magic = MH_MAGIC \<or> magic = MH_MAGIC_64 then Inr (sex_of e)
               else if magic = SWAP_INT MH_MAGIC \<or> magic = SWAP_INT MH_MAGIC_64 then Inr (sex_of (opp e))
               else
                 (case strtoul_mem (drop (p + ar_size_offset) addr) of
                    None \<Rightarrow> Inl Archive_Fault
                  | Some ar_size \<Rightarrow>
                      if unat ar_size > sz then Inr UNKNOWN_BYTE_SEX
                      else toc_walk e addr sz (p + sizeof_ar_hdr + rnd_short ar_size)))
      else Inr UNKNOWN_BYTE_SEX)"
  by pat_completeness auto
termination
  by (relation "measure (\<lambda>(e, addr, sz, p). sz - p)") auto

declare toc_walk.simps [simp del]

definition get_toc_byte_sex :: "endian \<Rightarrow> bytes \<Rightarrow> nat \<Rightarrow> archive_error + byte_sex" where
  "get_toc_byte_sex e addr sz =
     (case strtoul_mem (drop (SARMAG + ar_size_offset) addr) of
        None \<Rightarrow> Inl Archive_Fault
      | Some ar_size \<Rightarrow>
          if rnd ar_size 2 \<ge> 0x7fffffffffffff00 then Inl Pointer_Overflow
          else toc_walk e addr sz (SARMAG + sizeof_ar_hdr + rnd_short ar_size))"

section \<open>The table\<close>

definition SYMDEF :: bytes where
  "SYMDEF = ascii ''__.SYMDEF''"

definition SYMDEF_SORTED :: bytes where
  "SYMDEF_SORTED = ascii ''__.SYMDEF SORTED''"

definition SYMDEF_64 :: bytes where
  "SYMDEF_64 = ascii ''__.SYMDEF_64''"

definition SYMDEF_64_SORTED :: bytes where
  "SYMDEF_64_SORTED = ascii ''__.SYMDEF_64 SORTED''"

text \<open>The name of the member is compared up to its own size.\<close>

definition toc_is_64bit :: "ofile \<Rightarrow> archive_error + bool" where
  "toc_is_64bit ofl =
     (case memory ofl (o_member_name ofl) of
        None \<Rightarrow> Inl Archive_Fault
      | Some name \<Rightarrow>
          (case strncmp_eq name SYMDEF_64_SORTED (unat (o_member_name_size ofl)) of
             None \<Rightarrow> Inl Archive_Fault
           | Some True \<Rightarrow> Inr True
           | Some False \<Rightarrow>
               (case strncmp_eq name SYMDEF_64 (unat (o_member_name_size ofl)) of
                  None \<Rightarrow> Inl Archive_Fault
                | Some b \<Rightarrow> Inr b)))"

definition clear_toc :: "ofile \<Rightarrow> ofile" where
  "clear_toc ofl = ofl\<lparr>o_toc_is_32bit := True, o_toc_ranlibs := Null, o_toc_ranlibs64 := Null, o_toc_nranlibs := 0,
     o_toc_strings := Null, o_toc_strsize := 0\<rparr>"

text \<open>A word of the table, which is of 32 or 64 bits.\<close>

definition toc_word :: "endian \<Rightarrow> bool \<Rightarrow> bool \<Rightarrow> bytes \<Rightarrow> nat \<Rightarrow> archive_error + u64" where
  "toc_word e is64 swapped toc off =
     (if is64 then
        if length toc < off + 8 then Inl Archive_Fault
        else let w = get64 e toc off in Inr (if swapped then SWAP_LONG_LONG w else w)
      else
        if length toc < off + 4 then Inl Archive_Fault
        else let w = get32 e toc off in Inr (ucast (if swapped then SWAP_INT w else w)))"

text \<open>The entries as pairs of string index and member offset, and the table after they were swapped.\<close>

definition toc_entries :: "endian \<Rightarrow> bool \<Rightarrow> bool \<Rightarrow> bytes \<Rightarrow> nat \<Rightarrow> archive_error + ((u64 \<times> u64) list \<times> bytes)" where
  "toc_entries e is64 swapped toc n =
     (if is64 then
        if length toc < 8 + sizeof_ranlib_64 * n then Inl Archive_Fault
        else
          let rs = map (\<lambda>i. dec_ranlib_64 e (slice (8 + sizeof_ranlib_64 * i) sizeof_ranlib_64 toc)) [0..<n];
              rs = (if swapped then swap_ranlib_64 rs n else rs)
          in Inr (map (\<lambda>r. (r64_ran_un_ran_strx r, r64_ran_off r)) rs,
               take 8 toc @ concat (map (enc_ranlib_64 e) rs) @ drop (8 + sizeof_ranlib_64 * n) toc)
      else
        if length toc < 4 + sizeof_ranlib * n then Inl Archive_Fault
        else
          let rs = map (\<lambda>i. dec_ranlib e (slice (4 + sizeof_ranlib * i) sizeof_ranlib toc)) [0..<n];
              rs = (if swapped then swap_ranlib rs n else rs)
          in Inr (map (\<lambda>r. (ucast (ran_un_ran_strx r), ucast (ran_off r))) rs,
               take 4 toc @ concat (map (enc_ranlib e) rs) @ drop (4 + sizeof_ranlib * n) toc))"

text \<open>The checks of an entry: the string, the member, and the alignment of the member.\<close>

definition toc_entry_ok :: "u64 \<Rightarrow> u64 \<Rightarrow> u64 \<Rightarrow> u64 \<times> u64 \<Rightarrow> bool" where
  "toc_entry_ok wsize strsize file_size r \<longleftrightarrow>
     (case r of (strx, off) \<Rightarrow> strx < strsize \<and> off < file_size \<and> off mod wsize = 0)"

definition set_toc :: "bool \<Rightarrow> u64 \<Rightarrow> u64 \<Rightarrow> u64 \<Rightarrow> ofile \<Rightarrow> ofile" where
  "set_toc is64 n strings strsize ofl = ofl\<lparr>o_toc_is_32bit := \<not> is64,
     o_toc_ranlibs := (if is64 then Null else advance (o_toc_addr ofl) 4),
     o_toc_ranlibs64 := (if is64 then advance (o_toc_addr ofl) 8 else Null),
     o_toc_strings := advance (o_toc_addr ofl) (unat strings), o_toc_nranlibs := n, o_toc_strsize := strsize\<rparr>"

text \<open>The part behind the choice of the byte order. \<open>ofl\<close> has its fields for the table cleared; sums are of
  64 bits.\<close>

definition check_toc_contents ::
  "endian \<Rightarrow> bool \<Rightarrow> bool \<Rightarrow> bytes \<Rightarrow> ofile \<Rightarrow> archive_error + ofile" where
  "check_toc_contents e is64 swapped toc ofl =
     (let wsize = (if is64 then 8 else 4 :: u64); rsize = 2 * wsize; symdef_length = ucast (o_toc_size ofl) :: u64 in
      andthen (toc_word e is64 swapped toc 0) (\<lambda>nbytes.
        let n = nbytes div rsize; offset = wsize + rsize * n in
        if n = 0 then Inr ofl
        else if offset - 2 * wsize > symdef_length then Inr (ofl\<lparr>o_toc_bad := True\<rparr>)
        else
          andthen (toc_word e is64 swapped toc (unat offset)) (\<lambda>strsize.
            let strings = offset + wsize; offset = strings + strsize in
            if offset - 2 * wsize > symdef_length then Inr (ofl\<lparr>o_toc_bad := True\<rparr>)
            else if symdef_length = 2 * wsize then Inr ofl
            else
              andthen (toc_entries e is64 swapped toc (unat n)) (\<lambda>(rs, toc1).
                let ofl = (if swapped then store ofl (o_toc_addr ofl) toc1 else ofl) in
                if \<not> list_all (toc_entry_ok wsize strsize (o_file_size ofl)) rs
                then Inr (ofl\<lparr>o_toc_bad := True\<rparr>)
                else
                  Inr (set_toc is64 n strings strsize ofl)))))"

definition check_archive_toc :: "endian \<Rightarrow> ofile \<Rightarrow> archive_error + ofile" where
  "check_archive_toc e ofl =
     (let ofl = clear_toc ofl in
      if o_file_type ofl \<noteq> OFILE_ARCHIVE then Inr ofl
      else
        andthen (toc_is_64bit ofl) (\<lambda>is64.
          if unat (o_toc_size ofl) < 2 * (if is64 then 8 else 4) then Inr (ofl\<lparr>o_toc_bad := True\<rparr>)
          else
            andthen (get_toc_byte_sex e (o_file_addr ofl) (unat (ucast (o_file_size ofl) :: u32))) (\<lambda>toc_byte_sex.
              if toc_byte_sex = UNKNOWN_BYTE_SEX then Inr (ofl\<lparr>o_toc_bad := True\<rparr>)
              else
                (case memory ofl (o_toc_addr ofl) of
                   None \<Rightarrow> Inl Archive_Fault
                 | Some toc \<Rightarrow> check_toc_contents e is64 (toc_byte_sex \<noteq> sex_of e) toc ofl))))"

end
