(* ===== verification/ArchiveToc_Correct.thy ===== *)
theory ArchiveToc_Correct
  imports ArchiveToc Archive_Format
begin

text \<open>
  What the check of a table of contents guarantees: the entries of an accepted table, as the program reads
  them afterwards, index the strings and the archive (\<open>check_archive_toc_entries\<close>). The tables that are
  accepted although they are malformed, and the table that is misread, are shown by concrete archives.
\<close>

section \<open>Arrays of structures\<close>

context struct_codec
begin

lemma slice_concat_enc:
  assumes "\<forall>x \<in> set xs. wf x" "i < length xs"
  shows "slice (sz * i) sz (concat (map (enc e) xs) @ rest) = enc e (xs ! i)"
  using assms
proof (induction xs arbitrary: i)
  case (Cons x xs)
  then have len: "length (enc e x) = sz" by (simp add: length_enc)
  show ?case
  proof (cases i)
    case 0
    with len show ?thesis by (simp add: slice_def)
  next
    case (Suc j)
    with Cons len have "slice (sz * i) sz (enc e x @ concat (map (enc e) xs) @ rest) =
        slice (sz * j) sz (concat (map (enc e) xs) @ rest)"
      by (simp add: slice_append_later)
    with Suc Cons show ?thesis by simp
  qed
qed simp

lemma read_table:
  assumes "\<forall>x \<in> set xs. wf x" "w + sz * length xs \<le> length bs" "i < length xs"
  shows "dec e (slice (w + sz * i) sz (take w bs @ concat (map (enc e) xs) @ drop (w + sz * length xs) bs)) = xs ! i"
proof -
  have "slice (w + sz * i) sz (take w bs @ concat (map (enc e) xs) @ drop (w + sz * length xs) bs) = enc e (xs ! i)"
    using assms slice_concat_enc [OF assms(1,3)] by (simp add: slice_append_later)
  then show ?thesis using assms(1,3) dec_enc by simp
qed

lemma length_table:
  assumes "\<forall>x \<in> set xs. wf x" "w + sz * length xs \<le> length bs"
  shows "length (take w bs @ concat (map (enc e) xs) @ drop (w + sz * length xs) bs) = length bs"
proof -
  have "length (concat (map (enc e) xs)) = sz * length xs" using assms(1)
    by (induction xs) (simp_all add: length_enc)
  then show ?thesis using assms(2) by simp
qed

end

section \<open>Accepted tables\<close>

text \<open>The entries the program reads through the pointers of the structure.\<close>

definition toc_table :: "endian \<Rightarrow> ofile \<Rightarrow> (u64 \<times> u64) list option" where
  "toc_table e ofl =
     (let n = unat (o_toc_nranlibs ofl) in
      if o_toc_is_32bit ofl then
        map_option (\<lambda>mem. map (\<lambda>i. let r = dec_ranlib e (slice (sizeof_ranlib * i) sizeof_ranlib mem) in
          (ucast (ran_un_ran_strx r), ucast (ran_off r))) [0..<n]) (memory ofl (o_toc_ranlibs ofl))
      else
        map_option (\<lambda>mem. map (\<lambda>i. let r = dec_ranlib_64 e (slice (sizeof_ranlib_64 * i) sizeof_ranlib_64 mem) in
          (r64_ran_un_ran_strx r, r64_ran_off r)) [0..<n]) (memory ofl (o_toc_ranlibs64 ofl)))"

text \<open>The entries of a table in memory, \<open>w\<close> bytes behind its start.\<close>

definition entries_at :: "endian \<Rightarrow> bool \<Rightarrow> bytes \<Rightarrow> nat \<Rightarrow> (u64 \<times> u64) list" where
  "entries_at e is64 toc n =
     (if is64 then
        map (\<lambda>i. let r = dec_ranlib_64 e (slice (8 + sizeof_ranlib_64 * i) sizeof_ranlib_64 toc) in
          (r64_ran_un_ran_strx r, r64_ran_off r)) [0..<n]
      else
        map (\<lambda>i. let r = dec_ranlib e (slice (4 + sizeof_ranlib * i) sizeof_ranlib toc) in
          (ucast (ran_un_ran_strx r), ucast (ran_off r))) [0..<n])"

lemma toc_entries_memory:
  assumes "toc_entries e is64 swapped toc n = Inr (rs, toc1)"
  shows "length toc1 = length toc \<and> (if is64 then 8 + sizeof_ranlib_64 * n else 4 + sizeof_ranlib * n) \<le> length toc \<and>
    rs = entries_at e is64 toc1 n"
proof (cases is64)
  case True
  define xs where "xs = (let rs = map (\<lambda>i. dec_ranlib_64 e (slice (8 + sizeof_ranlib_64 * i) sizeof_ranlib_64 toc)) [0..<n]
    in if swapped then swap_ranlib_64 rs n else rs)"
  have n: "length xs = n" by (simp add: xs_def swap_ranlib_64_def Let_def)
  from True assms have len: "8 + sizeof_ranlib_64 * length xs \<le> length toc"
    and rs: "rs = map (\<lambda>r. (r64_ran_un_ran_strx r, r64_ran_off r)) xs"
    and toc1: "toc1 = take 8 toc @ concat (map (enc_ranlib_64 e) xs) @ drop (8 + sizeof_ranlib_64 * length xs) toc"
    by (auto simp: toc_entries_def xs_def Let_def swap_ranlib_64_def split: if_splits)
  have "rs = entries_at e True toc1 n"
    unfolding rs entries_at_def toc1 using ranlib_64.read_table [OF _ len] n
    by (intro nth_equalityI) (simp_all add: Let_def)
  then show ?thesis using True len n ranlib_64.length_table [OF _ len] toc1 by simp
next
  case False
  define xs where "xs = (let rs = map (\<lambda>i. dec_ranlib e (slice (4 + sizeof_ranlib * i) sizeof_ranlib toc)) [0..<n]
    in if swapped then swap_ranlib rs n else rs)"
  have n: "length xs = n" by (simp add: xs_def swap_ranlib_def Let_def)
  from False assms have len: "4 + sizeof_ranlib * length xs \<le> length toc"
    and rs: "rs = map (\<lambda>r. (ucast (ran_un_ran_strx r), ucast (ran_off r))) xs"
    and toc1: "toc1 = take 4 toc @ concat (map (enc_ranlib e) xs) @ drop (4 + sizeof_ranlib * length xs) toc"
    by (auto simp: toc_entries_def xs_def Let_def swap_ranlib_def split: if_splits)
  have "rs = entries_at e False toc1 n"
    unfolding rs entries_at_def toc1 using ranlib.read_table [OF _ len] n
    by (intro nth_equalityI) (simp_all add: Let_def)
  then show ?thesis using False len n ranlib.length_table [OF _ len] toc1 by simp
qed

text \<open>The entries are those of the table in its own byte order.\<close>

lemma toc_entries_view:
  assumes "toc_entries e is64 swapped toc n = Inr (rs, toc1)"
  shows "rs = entries_at (if swapped then opp e else e) is64 toc n"
proof (cases is64)
  case True
  with assms have "8 + sizeof_ranlib_64 * n \<le> length toc" by (auto simp: toc_entries_def split: if_splits)
  then have "length (slice (8 + sizeof_ranlib_64 * i) sizeof_ranlib_64 toc) = sizeof_ranlib_64" if "i < n" for i
    using that by (intro length_slice) (simp add: sizeof_ranlib_64_def)
  with True assms show ?thesis
    by (auto simp: toc_entries_def entries_at_def swap_ranlib_64_def Let_def ranlib_64.swap_dec split: if_splits)
next
  case False
  with assms have "4 + sizeof_ranlib * n \<le> length toc" by (auto simp: toc_entries_def split: if_splits)
  then have "length (slice (4 + sizeof_ranlib * i) sizeof_ranlib toc) = sizeof_ranlib" if "i < n" for i
    using that by (intro length_slice) (simp add: sizeof_ranlib_def)
  with False assms show ?thesis
    by (auto simp: toc_entries_def entries_at_def swap_ranlib_def Let_def ranlib.swap_dec split: if_splits)
qed

lemma toc_table_entries:
  assumes "memory ofl p = Some toc" "(if is64 then 8 else 4) \<le> length toc" "o_toc_is_32bit ofl = (\<not> is64)"
    and "if is64 then o_toc_ranlibs64 ofl = advance p 8 else o_toc_ranlibs ofl = advance p 4"
  shows "toc_table e ofl = Some (entries_at e is64 toc (unat (o_toc_nranlibs ofl)))"
  using assms memory_advance [OF assms(1)]
  by (cases is64) (simp_all add: toc_table_def entries_at_def Let_def slice_def add.commute)

lemma if_good: "(if P then Inr x else m) = Inr y \<Longrightarrow> x \<noteq> y \<Longrightarrow> \<not> P \<and> m = Inr y"
  by (simp split: if_splits)

lemma check_toc_contents_entries:
  assumes "check_toc_contents e is64 swapped toc ofl = Inr ofl'" "memory ofl (o_toc_addr ofl) = Some toc"
    and "o_toc_nranlibs ofl = 0" "o_toc_nranlibs ofl' \<noteq> 0"
  shows "\<exists>rs. toc_table e ofl' = Some rs \<and>
      rs = entries_at (if swapped then opp e else e) is64 toc (unat (o_toc_nranlibs ofl')) \<and>
      list_all (toc_entry_ok (if is64 then 8 else 4) (o_toc_strsize ofl') (o_file_size ofl)) rs"
proof -
  define ofl1 where "ofl1 toc1 = (if swapped then store ofl (o_toc_addr ofl) toc1 else ofl)" for toc1
  have file_size: "o_file_size (ofl1 toc1) = o_file_size ofl" "o_toc_addr (ofl1 toc1) = o_toc_addr ofl" for toc1
    by (auto simp: ofl1_def store_def split: pointer.split option.split)
  have store: "o_toc_nranlibs (ofl1 toc1) = 0" for toc1
    using assms(3) by (auto simp: ofl1_def store_def split: pointer.split option.split)
  have ne: "ofl \<noteq> ofl'" "ofl\<lparr>o_toc_bad := True\<rparr> \<noteq> ofl'" "(ofl1 toc1)\<lparr>o_toc_bad := True\<rparr> \<noteq> ofl'" for toc1
    using assms(3,4) store [of toc1] by auto
  obtain n strings strsize rs toc1 where
    ents: "toc_entries e is64 swapped toc (unat n) = Inr (rs, toc1)"
    and ok: "list_all (toc_entry_ok (if is64 then 8 else 4) strsize (o_file_size (ofl1 toc1))) rs"
    and ofl': "ofl' = set_toc is64 n strings strsize (ofl1 toc1)"
    using assms(1) unfolding check_toc_contents_def Let_def andthen_eq_Inr ofl1_def [symmetric]
    by (elim exE conjE) (auto dest!: if_good [OF _ ne(1)] if_good [OF _ ne(2)] if_good [OF _ ne(3)]
        simp: andthen_eq_Inr simp del: if_split, blast)
  note m = toc_entries_memory [OF ents] and v = toc_entries_view [OF ents]
  define toc2 where "toc2 = (if swapped then toc1 else toc)"
  have "memory ofl' (o_toc_addr ofl) = memory (ofl1 toc1) (o_toc_addr ofl)"
    unfolding ofl' by (intro memory_cong) (simp_all add: set_toc_def)
  also have "\<dots> = Some toc2"
    using assms(2) m by (simp add: ofl1_def toc2_def memory_store)
  finally have "toc_table e ofl' = Some (entries_at e is64 toc2 (unat (o_toc_nranlibs ofl')))"
    using m file_size by (intro toc_table_entries) (auto simp: ofl' set_toc_def toc2_def split: if_splits)
  moreover have "entries_at e is64 toc2 (unat n) = rs" using m v by (cases swapped) (simp_all add: toc2_def)
  ultimately show ?thesis using ok v file_size by (simp add: ofl' set_toc_def)
qed

text \<open>C10. When the check sets up a table of contents, the entries the program then reads through it are those
  of the table in the byte order of the table, and each has a string index below the size of the strings and the
  offset, on a multiple of the word size, of a member inside of the archive.\<close>

theorem check_archive_toc_entries:
  assumes "check_archive_toc e ofl = Inr ofl'" "o_toc_nranlibs ofl' \<noteq> 0"
  shows "\<exists>v is64 toc rs. get_toc_byte_sex e (o_file_addr ofl) (unat (ucast (o_file_size ofl) :: u32)) = Inr (sex_of v) \<and>
    memory ofl (o_toc_addr ofl) = Some toc \<and> toc_table e ofl' = Some rs \<and>
    rs = entries_at v is64 toc (unat (o_toc_nranlibs ofl')) \<and>
    list_all (toc_entry_ok (if is64 then 8 else 4) (o_toc_strsize ofl') (o_file_size ofl)) rs"
proof -
  have clear: "o_file_addr (clear_toc ofl) = o_file_addr ofl" "o_file_size (clear_toc ofl) = o_file_size ofl"
    "o_toc_addr (clear_toc ofl) = o_toc_addr ofl" "o_toc_nranlibs (clear_toc ofl) = 0"
    by (simp_all add: clear_toc_def)
  have mem: "memory (clear_toc ofl) p = memory ofl p" for p
    by (intro memory_cong) (simp_all add: clear_toc_def)
  have ne: "clear_toc ofl \<noteq> ofl'" "(clear_toc ofl)\<lparr>o_toc_bad := True\<rparr> \<noteq> ofl'"
    using assms(2) by (auto simp: clear_toc_def)
  from assms(1) obtain is64 sex toc where
    sex: "get_toc_byte_sex e (o_file_addr ofl) (unat (ucast (o_file_size ofl) :: u32)) = Inr sex" "sex \<noteq> UNKNOWN_BYTE_SEX"
    and toc: "memory ofl (o_toc_addr ofl) = Some toc"
      "check_toc_contents e is64 (sex \<noteq> sex_of e) toc (clear_toc ofl) = Inr ofl'"
    unfolding check_archive_toc_def Let_def
    by (auto dest!: if_good [OF _ ne(1)] if_good [OF _ ne(2)] simp: andthen_eq_Inr clear mem
        simp del: if_split split: option.splits, blast)
  define v where "v = (if sex \<noteq> sex_of e then opp e else e)"
  have "sex = sex_of v" using sex(2) by (cases sex; cases e) (simp_all add: v_def)
  moreover have "memory (clear_toc ofl) (o_toc_addr (clear_toc ofl)) = Some toc"
    using toc(1) by (simp add: clear mem)
  from check_toc_contents_entries [OF toc(2) this clear(4) assms(2)] obtain rs where "toc_table e ofl' = Some rs"
    "rs = entries_at v is64 toc (unat (o_toc_nranlibs ofl'))"
    "list_all (toc_entry_ok (if is64 then 8 else 4) (o_toc_strsize ofl') (o_file_size ofl)) rs"
    unfolding v_def clear by blast
  ultimately show ?thesis using sex(1) toc(1) by blast
qed

text \<open>An archive of a table of contents and an object for the 68030: the table has one entry for the object, and
  \<open>strsize\<close> bytes of strings are announced, of which there are 4.\<close>

definition toc_members :: "u32 \<Rightarrow> ar_member list" where
  "toc_members strsize =
     [\<lparr>am_extended = True, am_name = SYMDEF_SORTED @ [0, 0, 0, 0], am_info = replicate 32 48,
       am_data = put32 BE 8 @ put32 BE 0 @ put32 BE 108 @ put32 BE strsize @ [95, 97, 0, 0]\<rparr>,
      sample_members ! 1]"

text \<open>The state when the check of the table is called for the first member.\<close>

definition toc_file :: "u32 \<Rightarrow> ofile" where
  "toc_file strsize = (archive_file (enc_archive (toc_members strsize)))\<lparr>o_member_name := Mapped 68,
     o_member_name_size := 20, o_toc_addr := Mapped 88, o_toc_size := 20\<rparr>"

theorem check_archive_toc_entries_witness:
  "\<exists>ofl'. check_archive_toc LE (toc_file 4) = Inr ofl' \<and> toc_table LE ofl' = Some [(0, 108)]"
proof -
  have "case check_archive_toc LE (toc_file 4) of Inl _ \<Rightarrow> False
      | Inr ofl' \<Rightarrow> o_toc_nranlibs ofl' = 1 \<and> toc_table LE ofl' = Some [(0, 108)]" by code_simp
  then obtain ofl' where c: "check_archive_toc LE (toc_file 4) = Inr ofl'" "o_toc_nranlibs ofl' \<noteq> 0"
    and t: "toc_table LE ofl' = Some [(0, 108)]"
    by (auto split: sum.splits)
  from check_archive_toc_entries [OF c] c(1) t show ?thesis by blast
qed

text \<open>Two tables the check does not treat right. The strings of a table may extend 8 bytes past its end,
  because the sum is reduced by the size of two words. And a table with the classic name \<open>__.SYMDEF\<close> in the
  header is taken for one of 64 bits, because its name is compared with \<open>__.SYMDEF_64\<close> up to the nine characters
  of the former only.\<close>

theorem check_archive_toc_limits:
  "(case check_archive_toc LE (toc_file 12) of
      Inl _ \<Rightarrow> False
    | Inr ofl' \<Rightarrow> \<not> o_toc_bad ofl' \<and> o_toc_strings ofl' = advance (o_toc_addr ofl') 16 \<and> o_toc_strsize ofl' = 12 \<and>
        o_toc_size ofl' = 20) \<and>
   size_ar_name (pad 16 SYMDEF) = 9 \<and>
   toc_is_64bit ((archive_file (pad 16 SYMDEF))\<lparr>o_member_name := Mapped 0, o_member_name_size := 9\<rparr>) = Inr True"
  by code_simp

end
