(* ===== verification/OfileObject.thy ===== *)
theory OfileObject
  imports CheckMachO FatCheck ArchiveToc
begin

text \<open>
  What the routines of \<^verbatim>\<open>cctools/libstuff/ofile.c\<close> that move the cursor have in common: the structure is
  pointed at an object, and the object is checked and swapped in the memory it lies in (\<open>check_object\<close>); or a
  member of an archive is looked at, and set up as an object or as a fat file (\<open>select_contents\<close>).

  A routine returns whether it succeeded, the structure and the messages it printed; the result \<open>None\<close> is that
  it does not return: an access outside of the memory or through a null pointer, or an endless loop. After an object was found bad, its memory
  and what is noted of its header are taken to be unchanged: the routines clear their pointers to it.
\<close>

section \<open>Environment and results\<close>

text \<open>The byte order of the host, how its compiler lays out bit fields, what the library for LLVM bit code says
  of some bytes, and whether \<open>errno\<close> is \<open>ERANGE\<close> when a name is read.\<close>

record environment =
  env_host :: endian
  env_bits :: bit_swap
  env_bitcode :: "bytes \<Rightarrow> (cpu_type_t \<times> cpu_subtype_t) option"
  env_erange :: "nat \<Rightarrow> bool"

text \<open>What is wrong with an entry of the module table of a library.\<close>

datatype module_error =
    Module_Name_Past_End
  | Module_Name_Extends
  | Field_Past_End string
  | Field_Extends string

datatype ofile_error =
    Archive_Message archive_error
  | Fat_Message fat_error
  | Object_Message macho_error
  | Not_A_Fat_File
  | Not_An_Archive
  | Not_An_Archive_Type
  | Archive_Magic_Missing
  | First_Member_Past_End
  | Next_Member_Past_End
  | Member_Size_Past_End
  | Member_Name_Past_End
  | Member_Address_Past_End
  | Fat_Archs_Past_End
  | No_Member_Selected
  | No_Such_Member
  | No_Such_Architecture
  | Host_Architecture_Unknown
  | Name_Needs_Archive
  | Arch_Flag_Mismatch
  | Unknown_File
  | Not_A_Library
  | No_Dylib_Tables
  | Module_Message module_error u32
  | No_Such_Module
  | Cannot_Open
  | No_Members
  | No_Object_Members
  | Member_Needs_Archive
  | Not_An_Object_File
  | Missing_Architecture

type_synonym outcome = "(bool \<times> ofile \<times> ofile_error list) option"

fun archive_crash :: "archive_error \<Rightarrow> bool" where
  "archive_crash x \<longleftrightarrow> x = Archive_Fault \<or> x = Pointer_Overflow \<or> x = Uninitialised_Header"

fun macho_crash :: "macho_error \<Rightarrow> bool" where
  "macho_crash x \<longleftrightarrow> x = Memory_Access \<or> x = Null_Header"

section \<open>Clearing\<close>

definition clear_object :: "ofile \<Rightarrow> ofile" where
  "clear_object ofl = ofl\<lparr>o_object_addr := Null, o_object_size := 0, o_object_byte_sex := UNKNOWN_BYTE_SEX,
     o_mh := Null, o_mh64 := Null, o_load_commands := Null\<rparr>"

text \<open>The buffer of the member is freed; pointers into it dangle.\<close>

definition dangle :: "pointer \<Rightarrow> pointer" where
  "dangle p = (case p of Buffered n \<Rightarrow> Dangling | _ \<Rightarrow> p)"

definition free_member_buffer :: "ofile \<Rightarrow> ofile" where
  "free_member_buffer ofl = ofl\<lparr>o_member_buffer := None,
     o_toc_addr := dangle (o_toc_addr ofl), o_toc_ranlibs := dangle (o_toc_ranlibs ofl),
     o_toc_ranlibs64 := dangle (o_toc_ranlibs64 ofl), o_toc_strings := dangle (o_toc_strings ofl),
     o_sysv_ar_strtab := dangle (o_sysv_ar_strtab ofl), o_member_addr := dangle (o_member_addr ofl),
     o_member_name := dangle (o_member_name ofl), o_modtab := dangle (o_modtab ofl),
     o_modtab64 := dangle (o_modtab64 ofl), o_dylib_module := dangle (o_dylib_module ofl),
     o_dylib_module64 := dangle (o_dylib_module64 ofl), o_dylib_module_name := dangle (o_dylib_module_name ofl),
     o_object_addr := dangle (o_object_addr ofl), o_mh := dangle (o_mh ofl), o_mh64 := dangle (o_mh64 ofl),
     o_load_commands := dangle (o_load_commands ofl)\<rparr>"

definition clear_member :: "ofile \<Rightarrow> ofile" where
  "clear_member ofl = clear_object ((free_member_buffer ofl)\<lparr>o_member_offset := 0, o_member_addr := Null,
     o_member_size := 0, o_member_ar_hdr := Null, o_member_name := Null, o_member_name_size := 0,
     o_member_type := OFILE_UNKNOWN\<rparr>)"

definition clear_lto :: "ofile \<Rightarrow> ofile" where
  "clear_lto ofl = ofl\<lparr>o_lto_cputype := 0, o_lto_cpusubtype := 0\<rparr>"

definition clear_fat :: "ofile \<Rightarrow> ofile" where
  "clear_fat ofl = ofl\<lparr>o_fat_header := None, o_fat_archs := [], o_fat_archs64 := []\<rparr>"

section \<open>Objects\<close>

text \<open>The processor type that the fat header gives for the current architecture.\<close>

definition fat_arch_cputype :: "ofile \<Rightarrow> cpu_type_t option" where
  "fat_arch_cputype ofl =
     (case o_fat_header ofl of
        None \<Rightarrow> None
      | Some fh \<Rightarrow>
          let i = unat (o_narch ofl) in
          if fh_magic fh = FAT_MAGIC_64 then
            if i < length (o_fat_archs64 ofl) then Some (fa64_cputype (o_fat_archs64 ofl ! i)) else None
          else if i < length (o_fat_archs ofl) then Some (fa_cputype (o_fat_archs ofl ! i)) else None)"

text \<open>What \<open>check_Mach_O\<close> notes of the header.\<close>

definition note_header :: "endian \<Rightarrow> bool \<Rightarrow> bytes \<Rightarrow> ofile \<Rightarrow> ofile" where
  "note_header e swapped hdr ofl =
     (let mh = dec_mach_header e (take sizeof_mach_header hdr)
      in ofl\<lparr>o_mh_cputype := mh_cputype mh, o_mh_cpusubtype := mh_cpusubtype mh, o_mh_filetype := mh_filetype mh,
        o_headers_swapped := (if swapped then True else o_headers_swapped ofl)\<rparr>)"

text \<open>The call of \<open>check_Mach_O\<close> for the object the structure points at.\<close>

definition check_object :: "environment \<Rightarrow> ofile \<Rightarrow> (macho_error + (ofile \<times> ofile_error list)) option" where
  "check_object env ofl =
     (let e = env_host env;
          is64 = (o_mh ofl = Null);
          p = (if is64 then o_mh64 ofl else o_mh ofl);
          hsize = (if is64 then sizeof_mach_header_64 else sizeof_mach_header);
          swapped = (o_object_byte_sex ofl \<noteq> sex_of e)
      in if o_file_type ofl = OFILE_FAT \<and> fat_arch_cputype ofl = None then None
         else (case memory ofl p of
           None \<Rightarrow> None
         | Some mem \<Rightarrow>
             (case check_Mach_O e (env_bits env) swapped is64
                (if o_file_type ofl = OFILE_FAT then fat_arch_cputype ofl else None)
                (o_object_size ofl) (take hsize mem) (drop hsize mem) of
                Inl x \<Rightarrow> if macho_crash x then None else Some (Inl x)
              | Inr (sc, hdr, lc) \<Rightarrow>
                  Some (Inr (note_header e swapped hdr (store ofl p (hdr @ lc)),
                    map Object_Message (sc_messages sc))))))"

definition set_object :: "endian \<Rightarrow> bool \<Rightarrow> bool \<Rightarrow> pointer \<Rightarrow> u32 \<Rightarrow> ofile \<Rightarrow> ofile" where
  "set_object e is64 native p n ofl =
     (let ofl = ofl\<lparr>o_object_addr := p, o_object_size := n,
        o_object_byte_sex := sex_of (if native then e else opp e)\<rparr>
      in if is64 then ofl\<lparr>o_mh64 := p, o_load_commands := advance p sizeof_mach_header_64\<rparr>
         else ofl\<lparr>o_mh := p, o_load_commands := advance p sizeof_mach_header\<rparr>)"


section \<open>Contents of a member\<close>

text \<open>How the part of the routines that looks at the contents of a member ends: with the member set up, or with
  a jump to one of the two clean up labels.\<close>

datatype selection = Selected | Fat_Bad | Object_Bad

type_synonym selecting = "(selection \<times> ofile \<times> ofile_error list) option"

definition select_object :: "environment \<Rightarrow> bool \<Rightarrow> bool \<Rightarrow> ofile \<Rightarrow> selecting" where
  "select_object env is64 native ofl =
     (let ofl = set_object (env_host env) is64 native (o_member_addr ofl) (o_member_size ofl)
        (ofl\<lparr>o_member_type := OFILE_Mach_O\<rparr>)
      in case check_object env ofl of
           None \<Rightarrow> None
         | Some (Inl x) \<Rightarrow> Some (Object_Bad, ofl, [Object_Message x])
         | Some (Inr (ofl, msgs)) \<Rightarrow> Some (Selected, ofl, msgs))"

text \<open>The fat header and the array behind it, as the program sees them after it has swapped them in place on a
  little endian host.\<close>

definition host_fat_header :: "endian \<Rightarrow> bytes \<Rightarrow> fat_header" where
  "host_fat_header e mem =
     (let fh = dec_fat_header e (take sizeof_fat_header mem) in if e = LE then swap_fat_header fh else fh)"

definition host_fat_archs :: "endian \<Rightarrow> nat \<Rightarrow> bytes \<Rightarrow> fat_arch list" where
  "host_fat_archs e n mem =
     (let fas = map (\<lambda>i. dec_fat_arch e (slice (sizeof_fat_header + sizeof_fat_arch * i) sizeof_fat_arch mem)) [0..<n]
      in if e = LE then swap_fat_arch fas n else fas)"

definition host_fat_archs64 :: "endian \<Rightarrow> nat \<Rightarrow> bytes \<Rightarrow> fat_arch_64 list" where
  "host_fat_archs64 e n mem =
     (let fas = map (\<lambda>i. dec_fat_arch_64 e (slice (sizeof_fat_header + sizeof_fat_arch_64 * i) sizeof_fat_arch_64 mem))
        [0..<n]
      in if e = LE then swap_fat_arch_64 fas n else fas)"

text \<open>\<open>p\<close> points to the header. The size of the array is cut to 32 bits.\<close>

definition select_fat :: "environment \<Rightarrow> pointer \<Rightarrow> ofile \<Rightarrow> selecting" where
  "select_fat env p ofl =
     (case memory ofl p of
        None \<Rightarrow> None
      | Some mem \<Rightarrow>
          let e = env_host env; fh = host_fat_header e mem; n = unat (fh_nfat_arch fh);
              is64 = (fh_magic fh = FAT_MAGIC_64);
              archsize = (if is64 then sizeof_fat_arch_64 else sizeof_fat_arch);
              sizeof_fat_archs = fh_nfat_arch fh * of_nat archsize;
              ofl = store (ofl\<lparr>o_member_type := OFILE_FAT, o_fat_header := Some fh\<rparr>) p
                (enc_fat_header e fh @ drop sizeof_fat_header mem)
          in if length mem < sizeof_fat_header then None
             else if sizeof_fat_header + unat sizeof_fat_archs > unat (o_member_size ofl)
             then Some (Fat_Bad, ofl, [Fat_Archs_Past_End])
             else if length mem < sizeof_fat_header + archsize * n then None
             else
               let ofl = (if is64 then ofl\<lparr>o_fat_archs64 := host_fat_archs64 e n mem\<rparr>
                          else ofl\<lparr>o_fat_archs := host_fat_archs e n mem\<rparr>);
                   ofl = store ofl p (enc_fat_header e fh @
                     (if is64 then concat (map (enc_fat_arch_64 e) (host_fat_archs64 e n mem))
                      else concat (map (enc_fat_arch e) (host_fat_archs e n mem))) @
                     drop (sizeof_fat_header + archsize * n) mem)
               in (case check_fat_object_in_archive e (\<lambda>bs. env_bitcode env bs \<noteq> None) ofl of
                     Inl x \<Rightarrow> if x = Archs_Fault then None else Some (Fat_Bad, ofl, [Fat_Message x])
                   | Inr _ \<Rightarrow> Some (Selected, ofl, [])))"

text \<open>The choice by the magic number at \<open>p\<close> for a member of an archive of \<open>sz\<close> bytes. The space left in the
  archive is an unsigned difference.\<close>

definition room :: "nat \<Rightarrow> ofile \<Rightarrow> nat \<Rightarrow> bool" where
  "room sz ofl n \<longleftrightarrow> (of_nat sz - o_member_offset ofl :: u64) \<ge> of_nat n"

definition select_contents :: "environment \<Rightarrow> nat \<Rightarrow> pointer \<Rightarrow> ofile \<Rightarrow> selecting" where
  "select_contents env sz p ofl =
     (if unat (o_member_size ofl) \<le> 4 then Some (Selected, ofl, [])
      else (case memory ofl p of
        None \<Rightarrow> None
      | Some mem \<Rightarrow>
          let e = env_host env; magic = get32 e mem 0 in
          if length mem < 4 then None
          else if is_fat_magic e magic then select_fat env p ofl
          else if room sz ofl sizeof_mach_header \<and> (magic = MH_MAGIC \<or> magic = SWAP_INT MH_MAGIC)
          then select_object env False (magic = MH_MAGIC) ofl
          else if room sz ofl sizeof_mach_header_64 \<and> (magic = MH_MAGIC_64 \<or> magic = SWAP_INT MH_MAGIC_64)
          then select_object env True (magic = MH_MAGIC_64) ofl
          else Some (Selected, ofl, [])))"

text \<open>The call of \<open>is_llvm_bitcode\<close> for a member that is not known to be anything else.\<close>

definition is_llvm_bitcode :: "environment \<Rightarrow> pointer \<Rightarrow> nat \<Rightarrow> ofile \<Rightarrow> (bool \<times> ofile) option" where
  "is_llvm_bitcode env p n ofl =
     (case memory ofl p of
        None \<Rightarrow> None
      | Some mem \<Rightarrow>
          (case env_bitcode env (take n mem) of
             None \<Rightarrow> Some (False, clear_lto ofl)
           | Some (cputype, cpusubtype) \<Rightarrow>
               Some (True, ofl\<lparr>o_lto_cputype := cputype, o_lto_cpusubtype := cpusubtype\<rparr>)))"

definition select_bitcode :: "environment \<Rightarrow> ofile \<Rightarrow> ofile option" where
  "select_bitcode env ofl =
     (if o_member_type ofl \<noteq> OFILE_UNKNOWN then Some ofl
      else (case is_llvm_bitcode env (o_member_addr ofl) (unat (o_member_size ofl)) ofl of
        None \<Rightarrow> None
      | Some (False, ofl) \<Rightarrow> Some ofl
      | Some (True, ofl) \<Rightarrow> Some (ofl\<lparr>o_member_type := OFILE_LLVM_BITCODE, o_object_addr := o_member_addr ofl,
          o_object_size := o_member_size ofl\<rparr>)))"

end
