(* ===== verification/Cursor.thy ===== *)
theory Cursor
  imports Prelude
begin

text \<open>
  The loop over a cursor: the architectures of a fat file, the members of an archive and the modules of a library
  are visited by a routine for the first one and a routine for the next one. A routine does not return
  (\<open>None\<close>), or returns whether there is an item, the new state and its messages.

  The locale \<open>cursor\<close> is the contract of such a pair of routines over the list of the items; what the loop then
  does is proved once (\<open>visits\<close>, \<open>ends\<close>).
\<close>

section \<open>The loop\<close>

type_synonym ('s, 'e) routine = "'s \<Rightarrow> (bool \<times> 's \<times> 'e list) option"

text \<open>The states in which the items are processed, and the messages of the call that ended the loop.\<close>

partial_function (option) rest_of :: "('s, 'e) routine \<Rightarrow> 's \<Rightarrow> ('s list \<times> 'e list) option" where
  "rest_of step s =
     (case step s of
        None \<Rightarrow> None
      | Some (b, s1, msgs) \<Rightarrow>
          if b then Option.bind (rest_of step s1) (\<lambda>(ss, ms). Some (s1 # ss, ms)) else Some ([], msgs))"

declare rest_of.simps [code]

definition all_of :: "('s, 'e) routine \<Rightarrow> ('s, 'e) routine \<Rightarrow> 's \<Rightarrow> ('s list \<times> 'e list) option" where
  "all_of first step s =
     (case first s of
        None \<Rightarrow> None
      | Some (b, s1, msgs) \<Rightarrow>
          if b then Option.bind (rest_of step s1) (\<lambda>(ss, ms). Some (s1 # ss, ms)) else Some ([], msgs))"

text \<open>A state in which an item is processed.\<close>

inductive processed :: "('s, 'e) routine \<Rightarrow> ('s, 'e) routine \<Rightarrow> 's \<Rightarrow> 's \<Rightarrow> bool" for first step s where
  processed_first: "first s = Some (True, s1, msgs) \<Longrightarrow> processed first step s s1"
| processed_next: "processed first step s s1 \<Longrightarrow> step s1 = Some (True, s2, msgs) \<Longrightarrow> processed first step s s2"

lemma processed_returns:
  assumes "all_of first step s = Some r" "processed first step s x"
  shows "rest_of step x \<noteq> None"
  using assms(2,1)
proof induction
  case (processed_first s1 msgs)
  then show ?case by (auto simp: all_of_def bind_eq_Some_conv)
next
  case (processed_next s1 s2 msgs)
  then have "rest_of step s1 \<noteq> None" "step s1 = Some (True, s2, msgs)" by simp_all
  then show ?case by (subst (asm) rest_of.simps) (auto simp: bind_eq_Some_conv)
qed

lemma loop_returns:
  assumes "all_of first step s = Some r"
  shows "first s \<noteq> None" "processed first step s x \<Longrightarrow> step x \<noteq> None"
proof -
  show "first s \<noteq> None" using assms by (auto simp: all_of_def split: option.split_asm)
  show "step x \<noteq> None" if "processed first step s x"
    using processed_returns [OF assms that] by (subst (asm) rest_of.simps) (auto split: option.split_asm)
qed

text \<open>The items that were visited: all of them when there was no message, otherwise some at the front.\<close>

definition visited :: "('m \<Rightarrow> 's \<Rightarrow> bool) \<Rightarrow> 'm list \<Rightarrow> 's list \<Rightarrow> 'e list \<Rightarrow> bool" where
  "visited at ms ss msgs \<longleftrightarrow>
     list_all2 at (take (length ss) ms) ss \<and>
     (if msgs = [] then length ss = length ms else length ss < length ms)"

section \<open>The contract\<close>

text \<open>\<open>start\<close> says that the items are those of the state, \<open>on\<close> that the cursor is on an item and the others
  follow, and \<open>at\<close> that it is on this one.\<close>

locale cursor =
  fixes first step :: "('s, 'e) routine"
    and start on :: "'s \<Rightarrow> 'm list \<Rightarrow> bool"
    and at :: "'m \<Rightarrow> 's \<Rightarrow> bool"
  assumes first_none: "start s [] \<Longrightarrow> \<exists>s'. first s = Some (False, s', [])"
    and first_item: "start s (m # ms) \<Longrightarrow> first s = Some (b, s', msgs) \<Longrightarrow>
      if b then at m s' \<and> on s' ms else msgs \<noteq> []"
    and step_none: "on s [] \<Longrightarrow> \<exists>s'. step s = Some (False, s', [])"
    and step_item: "on s (m # ms) \<Longrightarrow> step s = Some (b, s', msgs) \<Longrightarrow>
      if b then at m s' \<and> on s' ms else msgs \<noteq> []"
begin

lemma rest_visits:
  assumes "on s ms" "rest_of step s = Some (ss, msgs)"
  shows "visited at ms ss msgs"
  using assms
proof (induction ms arbitrary: s ss)
  case Nil
  obtain s' where "step s = Some (False, s', [])" using step_none [OF Nil(1)] by blast
  with Nil(2) show ?case by (subst (asm) rest_of.simps) (auto simp: visited_def)
next
  case (Cons m ms)
  obtain b s1 ms1 where n: "step s = Some (b, s1, ms1)"
    using Cons.prems(2) by (subst (asm) rest_of.simps) (auto split: option.split_asm)
  note t = step_item [OF Cons.prems(1) n]
  show ?case
  proof (cases b)
    case True
    then obtain ss1 where "rest_of step s1 = Some (ss1, msgs)" "ss = s1 # ss1"
      using Cons.prems(2) n by (subst (asm) rest_of.simps) (auto simp: bind_eq_Some_conv)
    with Cons.IH [of s1] t True show ?thesis by (auto simp: visited_def split: if_split_asm)
  next
    case False
    then have "ss = []" "msgs = ms1" using Cons.prems(2) n by (subst (asm) rest_of.simps; simp)+
    with t False show ?thesis by (simp add: visited_def)
  qed
qed

lemma visits:
  assumes "start s ms" "all_of first step s = Some (ss, msgs)"
  shows "visited at ms ss msgs"
proof (cases ms)
  case Nil
  obtain s' where "first s = Some (False, s', [])" using first_none assms(1) Nil by blast
  with assms(2) Nil show ?thesis by (simp add: all_of_def visited_def)
next
  case (Cons m ms')
  obtain b s1 ms1 where n: "first s = Some (b, s1, ms1)"
    using assms(2) by (auto simp: all_of_def split: option.split_asm)
  note t = first_item [OF assms(1) [unfolded Cons] n]
  show ?thesis
  proof (cases b)
    case True
    then obtain ss1 where "rest_of step s1 = Some (ss1, msgs)" "ss = s1 # ss1"
      using assms(2) n by (auto simp: all_of_def bind_eq_Some_conv)
    with rest_visits [of s1 ms'] t True Cons show ?thesis by (auto simp: visited_def split: if_split_asm)
  next
    case False
    with t assms(2) n Cons show ?thesis by (auto simp: all_of_def visited_def)
  qed
qed

lemma rest_ends:
  assumes "on s1 ms" "processed first step s s1" "\<And>x. processed first step s x \<Longrightarrow> step x \<noteq> None"
  shows "\<exists>r. rest_of step s1 = Some r"
  using assms(1,2)
proof (induction ms arbitrary: s1)
  case Nil
  obtain s' where "step s1 = Some (False, s', [])" using step_none [OF Nil(1)] by blast
  then show ?case by (subst rest_of.simps) simp
next
  case (Cons m ms)
  obtain b s2 ms2 where n: "step s1 = Some (b, s2, ms2)"
    using assms(3) [OF Cons.prems(2)] by (cases "step s1") auto
  show ?case
  proof (cases b)
    case True
    then have "processed first step s s2" using Cons.prems(2) n by (auto intro: processed_next)
    moreover have "on s2 ms" using step_item [OF Cons.prems(1) n] True by simp
    ultimately obtain r where "rest_of step s2 = Some r" using Cons.IH by blast
    with n True show ?thesis by (subst rest_of.simps) (auto split: prod.split)
  next
    case False
    with n show ?thesis by (subst rest_of.simps) simp
  qed
qed

lemma ends:
  assumes "start s ms" "first s \<noteq> None" "\<And>x. processed first step s x \<Longrightarrow> step x \<noteq> None"
  shows "\<exists>ss msgs. all_of first step s = Some (ss, msgs) \<and> length ss \<le> length ms"
proof -
  obtain b s1 ms1 where n: "first s = Some (b, s1, ms1)" using assms(2) by auto
  have "\<exists>r. all_of first step s = Some r"
  proof (cases b)
    case True
    then obtain m ms' where ms: "ms = m # ms'" using first_none [of s] assms(1) n by (cases ms) auto
    have "on s1 ms'" using first_item assms(1) n True unfolding ms by metis
    moreover have "processed first step s s1" using n True by (auto intro: processed_first)
    ultimately obtain r where "rest_of step s1 = Some r" using rest_ends assms(3) by blast
    with n True show ?thesis by (auto simp: all_of_def split: prod.split)
  next
    case False
    with n show ?thesis by (simp add: all_of_def)
  qed
  then obtain ss msgs where "all_of first step s = Some (ss, msgs)" by auto
  with visits [OF assms(1) this] show ?thesis by (auto simp: visited_def split: if_split_asm)
qed

lemma processed_on:
  assumes "processed first step s x" "start s ms"
  shows "\<exists>ms'. on x ms'"
  using assms(1)
proof induction
  case (processed_first s1 msgs)
  then obtain m ms' where ms: "ms = m # ms'" using first_none [of s] assms(2) by (cases ms) auto
  with first_item [of s m ms'] assms(2) processed_first show ?case by fastforce
next
  case (processed_next s1 s2 msgs)
  then obtain ms1 where on: "on s1 ms1" by blast
  with step_none [of s1] processed_next obtain m ms' where "ms1 = m # ms'" by (cases ms1) auto
  with step_item [of s1 m ms'] on processed_next show ?case by fastforce
qed

text \<open>When the routine for the next item returns on every item, the loop visits all of them or stops with a message.\<close>

lemma total:
  assumes "start s ms" "first s \<noteq> None" "\<And>x ms. on x ms \<Longrightarrow> step x \<noteq> None"
  shows "\<exists>ss msgs. all_of first step s = Some (ss, msgs) \<and> visited at ms ss msgs"
proof -
  have "step x \<noteq> None" if "processed first step s x" for x
    using processed_on [OF that assms(1)] assms(3) by blast
  from ends [OF assms(1,2) this] obtain ss msgs where "all_of first step s = Some (ss, msgs)" by blast
  with visits [OF assms(1)] show ?thesis by blast
qed

end

end
