(* ===== verification/Members.thy ===== *)
theory Members
  imports OfileObject
begin

text \<open>
  The iteration over the members of an archive in \<^verbatim>\<open>cctools/libstuff/ofile.c\<close>: \<open>member_addr_set\<close>,
  \<open>ofile_first_member\<close>, \<open>ofile_next_member\<close> and \<open>ofile_specific_member\<close>.

  \<open>base\<close> is the offset of the archive in the file and \<open>sz\<close> its size; \<open>h\<close> is the offset of the header of a
  member in the file.
\<close>

section \<open>The archive\<close>

text \<open>The address and the size of the archive, with the tests that there is one.\<close>

definition member_area :: "ofile \<Rightarrow> (ofile_error + nat \<times> nat) option" where
  "member_area ofl =
     (if o_file_type ofl = OFILE_FAT \<and> o_arch_type ofl \<noteq> OFILE_ARCHIVE then Some (Inl Not_An_Archive_Type)
      else (case archive_area ofl of
        Inl x \<Rightarrow> if x = Unknown_File_Type then Some (Inl Not_An_Archive) else None
      | Inr (base, sz, _) \<Rightarrow>
          if sz < SARMAG then Some (Inl Archive_Magic_Missing)
          else (case strncmp_eq (drop base (o_file_addr ofl)) ARMAG SARMAG of
            None \<Rightarrow> None
          | Some False \<Rightarrow> Some (Inl Archive_Magic_Missing)
          | Some True \<Rightarrow> Some (Inr (base, sz)))))"

definition member_addr_set :: "nat \<Rightarrow> ofile \<Rightarrow> outcome" where
  "member_addr_set base ofl =
     (let offset = unat (o_member_offset ofl); sz = unat (o_member_size ofl) in
      if base + offset + sz > unat (o_file_size ofl) then Some (False, ofl, [Member_Address_Past_End])
      else
        let ofl = free_member_buffer ofl in
        if offset mod 8 \<noteq> 0 then
          if length (o_file_addr ofl) < base + offset + sz then None
          else Some (True, ofl\<lparr>o_member_buffer := Some (slice (base + offset) sz (o_file_addr ofl)),
            o_member_addr := Buffered 0\<rparr>, [])
        else Some (True, ofl\<lparr>o_member_addr := Mapped (base + offset)\<rparr>, []))"

section \<open>Headers\<close>

text \<open>The header: the offset and the size of what follows it. A size that is larger than the archive is reported
  and cut.\<close>

definition set_header :: "nat \<Rightarrow> nat \<Rightarrow> nat \<Rightarrow> ofile \<Rightarrow> (ofile \<times> ofile_error list) option" where
  "set_header base sz offset ofl =
     (case strtoul_mem (drop (base + offset + ar_size_offset) (o_file_addr ofl)) of
        None \<Rightarrow> None
      | Some v \<Rightarrow>
          let left = of_nat sz - of_nat sizeof_ar_hdr :: u64; n = ucast v :: u32;
              ofl = ofl\<lparr>o_member_offset := of_nat (offset + sizeof_ar_hdr), o_member_ar_hdr := Mapped (base + offset)\<rparr>
          in if ucast n > left then Some (ofl\<lparr>o_member_size := ucast left\<rparr>, [Member_Size_Past_End])
             else Some (ofl\<lparr>o_member_size := n\<rparr>, []))"

definition plain_name :: "nat \<Rightarrow> ofile \<Rightarrow> ofile" where
  "plain_name h ofl =
     ofl\<lparr>o_member_name := Mapped h, o_member_name_size := size_ar_name (slice h 16 (o_file_addr ofl))\<rparr>"

text \<open>A name in the extended format, which follows the header.\<close>

definition extended_name :: "nat \<Rightarrow> ofile \<Rightarrow> (ofile \<times> ofile_error list) option" where
  "extended_name h ofl =
     (case strtoul_mem (drop (h + 3) (o_file_addr ofl)) of
        None \<Rightarrow> None
      | Some v \<Rightarrow>
          let (n, msgs) = (if ucast v > o_member_size ofl then (o_member_size ofl, [Member_Name_Past_End])
                           else (ucast v, []))
          in Some (ofl\<lparr>o_member_name := Mapped (h + sizeof_ar_hdr), o_member_name_size := n,
            o_member_offset := o_member_offset ofl + ucast n, o_member_size := o_member_size ofl - n\<rparr>, msgs))"

definition extended_or_plain :: "nat \<Rightarrow> ofile \<Rightarrow> (ofile \<times> ofile_error list) option" where
  "extended_or_plain h ofl =
     (case strncmp_eq (drop h (o_file_addr ofl)) AR_EFMT1 3 of
        None \<Rightarrow> None
      | Some True \<Rightarrow> extended_name h ofl
      | Some False \<Rightarrow> Some (plain_name h ofl, []))"

text \<open>Whether a name begins with one of some literals.\<close>

fun name_begins :: "bytes \<Rightarrow> bytes list \<Rightarrow> bool option" where
  "name_begins name [] = Some False"
| "name_begins name (lit # lits) =
     (case strncmp_eq name lit (length lit) of
        None \<Rightarrow> None
      | Some True \<Rightarrow> Some True
      | Some False \<Rightarrow> name_begins name lits)"

section \<open>First member\<close>

definition clear_toc_fields :: "ofile \<Rightarrow> ofile" where
  "clear_toc_fields ofl = ofl\<lparr>o_toc_addr := Null, o_toc_size := 0, o_toc_ar_hdr := Null, o_toc_name := Null,
     o_toc_name_size := 0, o_toc_ranlibs := Null, o_toc_ranlibs64 := Null, o_toc_nranlibs := 0,
     o_toc_strings := Null, o_toc_strsize := 0, o_toc_bad := False, o_sysv_ar_strtab := Null,
     o_sysv_ar_strtab_size := 0\<rparr>"

text \<open>The table of contents, or the string table of a System V archive, as the first member.\<close>

definition SYSV_STRTAB :: bytes where
  "SYSV_STRTAB = ascii ''// ''"

definition first_tables :: "environment \<Rightarrow> ofile \<Rightarrow> ofile option" where
  "first_tables env ofl =
     (if o_member_type ofl \<noteq> OFILE_UNKNOWN then Some ofl
      else (case memory ofl (o_member_name ofl) of
        None \<Rightarrow> None
      | Some name \<Rightarrow>
          (case name_begins name [SYMDEF_SORTED, SYMDEF, SYMDEF_64_SORTED, SYMDEF_64] of
             None \<Rightarrow> None
           | Some True \<Rightarrow>
               (case check_archive_toc (env_host env) (ofl\<lparr>o_toc_addr := o_member_addr ofl,
                  o_toc_size := o_member_size ofl, o_toc_ar_hdr := o_member_ar_hdr ofl,
                  o_toc_name := o_member_name ofl, o_toc_name_size := o_member_name_size ofl\<rparr>) of
                  Inl x \<Rightarrow> None
                | Inr ofl \<Rightarrow> Some ofl)
           | Some False \<Rightarrow>
               (case strncmp_eq name SYSV_STRTAB (length SYSV_STRTAB + 1) of
                  None \<Rightarrow> None
                | Some True \<Rightarrow> Some (ofl\<lparr>o_sysv_ar_strtab := o_member_addr ofl,
                    o_sysv_ar_strtab_size := o_member_size ofl\<rparr>)
                | Some False \<Rightarrow> Some ofl))))"

definition first_bitcode :: "environment \<Rightarrow> ofile \<Rightarrow> ofile option" where
  "first_bitcode env ofl =
     (if o_member_type ofl \<noteq> OFILE_UNKNOWN then Some ofl
      else (case memory ofl (o_member_name ofl) of
        None \<Rightarrow> None
      | Some name \<Rightarrow>
          (case name_begins name [SYMDEF_SORTED, SYMDEF] of
             None \<Rightarrow> None
           | Some True \<Rightarrow> Some ofl
           | Some False \<Rightarrow> select_bitcode env ofl)))"

text \<open>The two clean up labels at the end of the routines.\<close>

definition cleanup :: "ofile \<Rightarrow> ofile_error list \<Rightarrow> outcome" where
  "cleanup ofl msgs = Some (False, clear_lto (clear_member ofl), msgs)"

definition fatcleanup :: "ofile \<Rightarrow> ofile_error list \<Rightarrow> outcome" where
  "fatcleanup ofl msgs = cleanup (clear_fat ofl) msgs"

definition first_contents :: "environment \<Rightarrow> nat \<Rightarrow> ofile \<Rightarrow> ofile_error list \<Rightarrow> outcome" where
  "first_contents env sz ofl msgs =
     (if unat (o_member_size ofl) \<le> 4 then Some (True, ofl, msgs)
      else (case select_contents env sz (o_member_addr ofl) ofl of
        None \<Rightarrow> None
      | Some (Fat_Bad, ofl, ms) \<Rightarrow> fatcleanup ofl (msgs @ ms)
      | Some (Object_Bad, ofl, ms) \<Rightarrow> cleanup ofl (msgs @ ms)
      | Some (Selected, ofl, ms) \<Rightarrow>
          (case first_tables env ofl of
             None \<Rightarrow> None
           | Some ofl \<Rightarrow>
               (case first_bitcode env ofl of
                  None \<Rightarrow> None
                | Some ofl \<Rightarrow> Some (True, ofl, msgs @ ms)))))"

definition first_member :: "environment \<Rightarrow> nat \<Rightarrow> nat \<Rightarrow> ofile \<Rightarrow> outcome" where
  "first_member env base sz ofl =
     (if base + SARMAG > unat (o_file_size ofl)
      then Some (False, ofl, [Archive_Message (Member_Header_Past_End SARMAG)])
      else (case set_header base sz SARMAG ofl of
        None \<Rightarrow> None
      | Some (ofl, ms1) \<Rightarrow>
          (case extended_or_plain (base + SARMAG) ofl of
             None \<Rightarrow> None
           | Some (ofl, ms2) \<Rightarrow>
               (case member_addr_set base ofl of
                  None \<Rightarrow> None
                | Some (False, ofl, ms3) \<Rightarrow> fatcleanup ofl (ms1 @ ms2 @ ms3)
                | Some (True, ofl, ms3) \<Rightarrow>
                    first_contents env sz (clear_toc_fields ofl) (ms1 @ ms2 @ ms3)))))"

definition ofile_first_member :: "environment \<Rightarrow> ofile \<Rightarrow> outcome" where
  "ofile_first_member env ofl =
     (let ofl = clear_member ofl in
      case member_area ofl of
        None \<Rightarrow> None
      | Some (Inl x) \<Rightarrow> Some (False, ofl, [x])
      | Some (Inr (base, sz)) \<Rightarrow>
          if sz \<noteq> SARMAG \<and> SARMAG + sizeof_ar_hdr > sz
          then Some (False, ofl, [Archive_Message First_Header_Past_End])
          else if sz = SARMAG then Some (False, ofl, [])
          else first_member env base sz ofl)"

section \<open>Next member\<close>

text \<open>A header named \<open>//\<close> is that of the string table; the code then takes the table to be at the address of the
  member that is still selected, the one before.\<close>

definition note_strtab :: "nat \<Rightarrow> ofile \<Rightarrow> ofile option" where
  "note_strtab h ofl =
     (if o_sysv_ar_strtab ofl = Null \<and> o_sysv_ar_strtab_size ofl = 0 then
        (case strncmp_eq (drop h (o_file_addr ofl)) SYSV_STRTAB 3 of
           None \<Rightarrow> None
         | Some True \<Rightarrow> Some (ofl\<lparr>o_sysv_ar_strtab := o_member_addr ofl, o_sysv_ar_strtab_size := o_member_size ofl\<rparr>)
         | Some False \<Rightarrow> Some ofl)
      else Some ofl)"

text \<open>A name that is an offset into the string table, where it ends at a slash.\<close>

definition is_sysv_name :: "bytes \<Rightarrow> bool" where
  "is_sysv_name hdr \<longleftrightarrow> hdr ! 0 = 47 \<and> hdr ! 1 \<noteq> 32 \<and> hdr ! 1 \<noteq> 47"

definition sysv_name_size :: "ofile \<Rightarrow> u32 \<Rightarrow> nat option" where
  "sysv_name_size ofl name_offset =
     (case memory ofl (o_sysv_ar_strtab ofl) of
        None \<Rightarrow> None
      | Some strtab \<Rightarrow>
          let names = slice (unat name_offset) (unat (o_sysv_ar_strtab_size ofl) - unat name_offset) strtab;
              name = takeWhile (\<lambda>b. b \<noteq> 47) names
          in if length name = length names \<and> length strtab < unat (o_sysv_ar_strtab_size ofl) then None
             else Some (length name))"

definition sysv_name :: "nat \<Rightarrow> ofile \<Rightarrow> (ofile \<times> ofile_error list) option" where
  "sysv_name h ofl =
     (case strtoul_mem (drop (h + 1) (o_file_addr ofl)) of
        None \<Rightarrow> None
      | Some v \<Rightarrow>
          if ucast v < o_sysv_ar_strtab_size ofl then
            (case sysv_name_size ofl (ucast v) of
               None \<Rightarrow> None
             | Some n \<Rightarrow> Some (ofl\<lparr>o_member_name := advance (o_sysv_ar_strtab ofl) (unat (ucast v :: u32)),
                 o_member_name_size := of_nat n\<rparr>, []))
          else Some (plain_name h ofl, []))"

definition next_name :: "nat \<Rightarrow> ofile \<Rightarrow> (ofile \<times> ofile_error list) option" where
  "next_name h ofl =
     (case note_strtab h ofl of
        None \<Rightarrow> None
      | Some ofl \<Rightarrow>
          if is_sysv_name (drop h (o_file_addr ofl)) then sysv_name h ofl else extended_or_plain h ofl)"

text \<open>The clean up forgets a fat header only when the member was a fat file.\<close>

definition next_cleanup :: "ofile \<Rightarrow> ofile_error list \<Rightarrow> outcome" where
  "next_cleanup ofl msgs = (if o_member_type ofl = OFILE_FAT then fatcleanup ofl msgs else cleanup ofl msgs)"

definition next_contents :: "environment \<Rightarrow> nat \<Rightarrow> ofile \<Rightarrow> ofile_error list \<Rightarrow> outcome" where
  "next_contents env sz ofl msgs =
     (if unat (o_member_size ofl) \<le> 4 then Some (True, ofl, msgs)
      else (case select_contents env sz (o_member_addr ofl) ofl of
        None \<Rightarrow> None
      | Some (Selected, ofl, ms) \<Rightarrow> map_option (\<lambda>ofl. (True, ofl, msgs @ ms)) (select_bitcode env ofl)
      | Some (_, ofl, ms) \<Rightarrow> next_cleanup ofl (msgs @ ms)))"

definition next_member :: "environment \<Rightarrow> nat \<Rightarrow> nat \<Rightarrow> nat \<Rightarrow> ofile \<Rightarrow> outcome" where
  "next_member env base sz offset ofl =
     (if base + offset > unat (o_file_size ofl)
      then Some (False, ofl, [Archive_Message (Member_Header_Past_End offset)])
      else (case set_header base sz offset ofl of
        None \<Rightarrow> None
      | Some (ofl, ms1) \<Rightarrow>
          (case next_name (base + offset) (ofl\<lparr>o_member_name := Mapped (base + offset)\<rparr>) of
             None \<Rightarrow> None
           | Some (ofl, ms2) \<Rightarrow>
               (case member_addr_set base ofl of
                  None \<Rightarrow> None
                | Some (False, ofl, ms3) \<Rightarrow> next_cleanup ofl (ms1 @ ms2 @ ms3)
                | Some (True, ofl, ms3) \<Rightarrow>
                    next_contents env sz (clear_lto (clear_object (ofl\<lparr>o_member_type := OFILE_UNKNOWN\<rparr>)))
                      (ms1 @ ms2 @ ms3)))))"

definition ofile_next_member :: "environment \<Rightarrow> ofile \<Rightarrow> outcome" where
  "ofile_next_member env ofl =
     (case member_area ofl of
        None \<Rightarrow> None
      | Some (Inl x) \<Rightarrow> Some (False, ofl, [x])
      | Some (Inr (base, sz)) \<Rightarrow>
          if o_member_ar_hdr ofl = Null then Some (False, ofl, [No_Member_Selected])
          else
            let offset = unat (o_member_offset ofl + rnd (ucast (o_member_size ofl)) 2) in
            if offset = sz then next_cleanup ofl []
            else if offset > sz then Some (False, ofl, [Next_Member_Past_End])
            else next_member env base sz offset ofl)"

section \<open>A member by name\<close>

text \<open>The name in the header at \<open>h\<close>: the memory it is in, a pointer to it, its size, and how much of it is behind
  the header. The size is a signed number of 32 bits.\<close>

definition specific_name :: "nat \<Rightarrow> ofile \<Rightarrow> (pointer \<times> u32 \<times> u32) option" where
  "specific_name h ofl =
     (let hdr = drop h (o_file_addr ofl) in
      if length hdr < 16 then None
      else if is_sysv_name hdr then
        (case strtoul_mem (drop 1 hdr) of
           None \<Rightarrow> None
         | Some v \<Rightarrow>
             if ucast v < o_sysv_ar_strtab_size ofl then
               map_option (\<lambda>n. (advance (o_sysv_ar_strtab ofl) (unat (ucast v :: u32)), of_nat n, 0))
                 (sysv_name_size ofl (ucast v))
             else Some (Mapped h, size_ar_name (take 16 hdr), 0))
      else (case strncmp_eq hdr AR_EFMT1 3 of
        None \<Rightarrow> None
      | Some False \<Rightarrow> Some (Mapped h, size_ar_name (take 16 hdr), 0)
      | Some True \<Rightarrow>
          map_option (\<lambda>v. (Mapped (h + sizeof_ar_hdr), ucast v, ucast v)) (strtoul_mem (drop 3 hdr))))"

definition specific_strtab :: "nat \<Rightarrow> ofile \<Rightarrow> ofile option" where
  "specific_strtab h ofl =
     (if o_sysv_ar_strtab ofl = Null \<and> o_sysv_ar_strtab_size ofl = 0 then
        (case strncmp_eq (drop h (o_file_addr ofl)) SYSV_STRTAB 3 of
           None \<Rightarrow> None
         | Some True \<Rightarrow>
             map_option (\<lambda>v. ofl\<lparr>o_sysv_ar_strtab := Mapped (h + sizeof_ar_hdr), o_sysv_ar_strtab_size := ucast v\<rparr>)
               (strtoul_mem (drop (h + ar_size_offset) (o_file_addr ofl)))
         | Some False \<Rightarrow> Some ofl)
      else Some ofl)"

text \<open>The member was found. Its contents are looked at in the mapped file, also when they were copied.\<close>

definition specific_contents :: "environment \<Rightarrow> nat \<Rightarrow> nat \<Rightarrow> ofile \<Rightarrow> outcome" where
  "specific_contents env base sz ofl =
     (case member_addr_set base ofl of
        None \<Rightarrow> None
      | Some (False, ofl, ms) \<Rightarrow> fatcleanup ofl ms
      | Some (True, ofl, _) \<Rightarrow>
          (case select_contents env sz (Mapped (base + unat (o_member_offset ofl))) ofl of
             None \<Rightarrow> None
           | Some (Fat_Bad, ofl, ms) \<Rightarrow> fatcleanup ofl ms
           | Some (Object_Bad, ofl, ms) \<Rightarrow> cleanup ofl ms
           | Some (Selected, ofl, ms) \<Rightarrow> map_option (\<lambda>ofl. (True, ofl, ms)) (select_bitcode env ofl)))"

text \<open>One round of the loop: the routine returns, or goes on behind the member.\<close>

definition name_matches :: "bytes \<Rightarrow> pointer \<Rightarrow> u32 \<Rightarrow> ofile \<Rightarrow> bool option" where
  "name_matches member_name name i ofl =
     (if 0 <s i then Option.bind (memory ofl name) (\<lambda>mem. strncmp_eq mem member_name (unat i)) else Some False)"

definition specific_step :: "environment \<Rightarrow> bytes \<Rightarrow> nat \<Rightarrow> u64 \<Rightarrow> u64 \<Rightarrow> ofile \<Rightarrow> outcome + (u64 \<times> ofile)" where
  "specific_step env member_name base sz offset ofl =
     (let h = base + unat offset; offset = offset + of_nat sizeof_ar_hdr in
      case specific_strtab h ofl of
        None \<Rightarrow> Inl None
      | Some ofl \<Rightarrow>
          (case specific_name h ofl of
             None \<Rightarrow> Inl None
           | Some (name, i, ar_name_size) \<Rightarrow>
               (case name_matches member_name name i ofl of
                  None \<Rightarrow> Inl None
                | Some found \<Rightarrow>
                    (case strtoul_mem (drop (h + ar_size_offset) (o_file_addr ofl)) of
                       None \<Rightarrow> Inl None
                     | Some v \<Rightarrow>
                         if found then
                           Inl (specific_contents env base (unat sz)
                             (ofl\<lparr>o_member_name := name, o_member_name_size := i,
                               o_member_offset := offset + ucast ar_name_size,
                               o_member_size := ucast v - ar_name_size, o_member_ar_hdr := Mapped h,
                               o_member_type := OFILE_UNKNOWN\<rparr>))
                         else Inr (offset + rnd v 2, ofl)))))"

text \<open>The offset is of 64 bits and wraps around, so that the loop may not end.\<close>

partial_function (option) specific_walk :: "environment \<Rightarrow> bytes \<Rightarrow> nat \<Rightarrow> u64 \<Rightarrow> u64 \<Rightarrow> ofile \<Rightarrow> outcome" where
  "specific_walk env member_name base sz offset ofl =
     (if offset < sz then
        (case specific_step env member_name base sz offset ofl of
           Inl r \<Rightarrow> r
         | Inr (offset, ofl) \<Rightarrow> specific_walk env member_name base sz offset ofl)
      else fatcleanup ofl [No_Such_Member])"

declare specific_walk.simps [code]

definition ofile_specific_member :: "environment \<Rightarrow> bytes \<Rightarrow> ofile \<Rightarrow> outcome" where
  "ofile_specific_member env member_name ofl =
     (let ofl = clear_lto (clear_member ofl) in
      case member_area ofl of
        None \<Rightarrow> None
      | Some (Inl x) \<Rightarrow> Some (False, ofl, [x])
      | Some (Inr (base, sz)) \<Rightarrow>
          let ofl = ofl\<lparr>o_sysv_ar_strtab := Null, o_sysv_ar_strtab_size := 0\<rparr> in
          if sz \<noteq> SARMAG \<and> SARMAG + sizeof_ar_hdr > sz
          then Some (False, ofl, [Archive_Message First_Header_Past_End])
          else specific_walk env member_name base (of_nat sz) (of_nat SARMAG) ofl)"

end
