(* ===== verification/OfileFrame.thy ===== *)
theory OfileFrame
  imports Members CheckMachO_Safe
begin

text \<open>
  What the routines that select an object or a member leave alone. They swap headers in place, but only inside
  of the member they select: the file outside of it, and with it the headers of the other members, is unchanged
  (\<open>select_contents_outside\<close>).
\<close>

section \<open>The object\<close>

lemma check_Mach_O_same_behind:
  assumes good: "check_Mach_O e bits swapped is64 fc sz hdr lc = Inr (sc, hdr', lc')"
    and "bits_ok bits" "length hdr = sizeof_header is64" "unat sz \<le> sizeof_header is64 + length lc"
  shows "same_behind (unat sz) (hdr @ lc) (hdr' @ lc')"
proof -
  let ?mh = "dec_mach_header (if swapped then opp e else e) hdr"
  let ?ob = "mach_object e swapped is64 sz hdr"
  from assms(3) have n: "sizeof_header is64 \<le> length hdr" by simp
  obtain h where h: "length h = length hdr"
    "check_Mach_O e bits swapped is64 fc sz hdr lc =
       (if unat (mh_sizeofcmds ?mh) + sizeof_header is64 > unat sz then Inl Headers_Past_End
        else andthen (check_load_commands bits fc ?ob (mh_ncmds ?mh) (mh_sizeofcmds ?mh) lc)
          (\<lambda>(sc, lc'). Inr (sc, h, lc')))"
    by (rule check_Mach_O_eq [OF n])
  with good have le: "unat (mh_sizeofcmds ?mh) + sizeof_header is64 \<le> unat sz" "hdr' = h"
    "check_load_commands bits fc ?ob (mh_ncmds ?mh) (mh_sizeofcmds ?mh) lc = Inr (sc, lc')"
    by (auto simp: andthen_eq_Inr split: if_split_asm)
  have "unat (mh_sizeofcmds ?mh) \<le> length lc" using le(1) assms(4) by simp
  with le(3) have "same_behind (unat (mh_sizeofcmds ?mh)) lc lc'"
    using scan_commands_safe [OF assms(2)] by (blast elim: check_load_commandsE)
  then have "same_behind (unat sz - length hdr) lc lc'" using le(1) assms(3) by (auto elim!: same_behind_mono)
  moreover have "length hdr \<le> unat sz" using le(1) assms(3) by linarith
  ultimately show ?thesis using h(1) le(2) by (simp add: same_behind_def)
qed

section \<open>Frames\<close>

text \<open>The file outside of the bytes from \<open>j\<close> to \<open>k\<close>, and what says where the archive is.\<close>

definition outside :: "nat \<Rightarrow> nat \<Rightarrow> ofile \<Rightarrow> ofile \<Rightarrow> bool" where
  "outside j k a b \<longleftrightarrow>
     length (o_file_addr b) = length (o_file_addr a) \<and> take j (o_file_addr b) = take j (o_file_addr a) \<and>
     drop k (o_file_addr b) = drop k (o_file_addr a) \<and> o_file_size b = o_file_size a \<and>
     o_file_type b = o_file_type a \<and> o_arch_type b = o_arch_type a \<and> o_narch b = o_narch a \<and>
     (o_file_type a = OFILE_FAT \<longrightarrow>
        o_fat_header b = o_fat_header a \<and> o_fat_archs b = o_fat_archs a \<and> o_fat_archs64 b = o_fat_archs64 a)"

lemma outside_refl [simp]: "outside j k a a"
  by (simp add: outside_def)

lemma outside_trans: "outside j k a b \<Longrightarrow> outside j k b c \<Longrightarrow> outside j k a c"
  by (auto simp: outside_def)

lemma outside_same:
  "o_file_addr b = o_file_addr a \<Longrightarrow> o_file_size b = o_file_size a \<Longrightarrow> o_file_type b = o_file_type a \<Longrightarrow>
   o_arch_type b = o_arch_type a \<Longrightarrow> o_narch b = o_narch a \<Longrightarrow> o_fat_header b = o_fat_header a \<Longrightarrow>
   o_fat_archs b = o_fat_archs a \<Longrightarrow> o_fat_archs64 b = o_fat_archs64 a \<Longrightarrow> outside j k a b"
  by (simp add: outside_def)

text \<open>The member that is selected.\<close>

definition same_member :: "ofile \<Rightarrow> ofile \<Rightarrow> bool" where
  "same_member a b \<longleftrightarrow>
     o_member_offset b = o_member_offset a \<and> o_member_size b = o_member_size a \<and>
     o_member_ar_hdr b = o_member_ar_hdr a \<and> o_member_name b = o_member_name a \<and>
     o_member_name_size b = o_member_name_size a \<and> o_member_addr b = o_member_addr a"

lemma same_member_refl [simp]: "same_member a a"
  by (simp add: same_member_def)

lemma same_member_trans: "same_member a b \<Longrightarrow> same_member b c \<Longrightarrow> same_member a c"
  by (simp add: same_member_def)

text \<open>Where the member that is selected lies: in the file at \<open>j\<close>, or in the buffer.\<close>

definition placed :: "nat \<Rightarrow> ofile \<Rightarrow> bool" where
  "placed j ofl \<longleftrightarrow>
     (\<exists>mem. memory ofl (o_member_addr ofl) = Some mem \<and> unat (o_member_size ofl) \<le> length mem \<and> length mem < 2 ^ 32) \<and>
     (o_member_addr ofl = Mapped j \<or> o_member_addr ofl = Buffered 0)"

lemma store_outside:
  assumes "memory ofl p = Some mem" "same_behind n mem bs" "p = Mapped j \<or> p = Buffered 0"
  shows "outside j (j + n) ofl (store ofl p bs)" "same_member ofl (store ofl p bs)"
proof -
  have "drop n bs = drop n mem" "length bs = length mem" using assms(2) by (simp_all add: same_behind_def)
  moreover have "drop (j + n) (take j xs @ bs) = drop n bs" if "j \<le> length xs" for xs :: bytes
    using that by simp
  ultimately show "outside j (j + n) ofl (store ofl p bs)"
    using assms(1,3) by (auto simp: outside_def store_def memory_def add.commute split: if_splits option.splits)
  show "same_member ofl (store ofl p bs)"
    by (simp add: same_member_def store_def split: pointer.splits option.splits)
qed

section \<open>Selecting\<close>

lemma note_header_frame: "outside j k ofl (note_header e swapped hdr ofl)" "same_member ofl (note_header e swapped hdr ofl)"
  by (simp_all add: note_header_def outside_def same_member_def Let_def)

lemma check_object_outside:
  assumes check: "check_object env ofl = Some (Inr (ofl', msgs))" and "bits_ok (env_bits env)"
    and p: "o_mh ofl = p \<and> p \<noteq> Null \<or> o_mh ofl = Null \<and> o_mh64 ofl = p" "p = Mapped j \<or> p = Buffered 0"
    and mem: "memory ofl p = Some mem" "unat (o_object_size ofl) \<le> length mem"
  shows "outside j (j + unat (o_object_size ofl)) ofl ofl' \<and> same_member ofl ofl'"
proof -
  define is64 where "is64 \<longleftrightarrow> o_mh ofl = Null"
  let ?h = "sizeof_header is64"
  have q: "(if o_mh ofl = Null then o_mh64 ofl else o_mh ofl) = p" using p(1) by auto
  obtain fc swapped sc hdr lc where c: "check_Mach_O (env_host env) (env_bits env) swapped is64 fc
      (o_object_size ofl) (take ?h mem) (drop ?h mem) = Inr (sc, hdr, lc)"
    and ofl': "ofl' = note_header (env_host env) swapped hdr (store ofl p (hdr @ lc))"
    using check unfolding check_object_def Let_def q mem(1) is64_def option.case
    by (auto split: if_split_asm sum.split_asm prod.split_asm)
  show ?thesis
  proof (cases "?h \<le> length mem")
    case True
    have "same_behind (unat (o_object_size ofl)) (take ?h mem @ drop ?h mem) (hdr @ lc)"
      using check_Mach_O_same_behind [OF c assms(2)] True mem(2) by simp
    then have "same_behind (unat (o_object_size ofl)) mem (hdr @ lc)" by simp
    from store_outside [OF mem(1) this p(2)] show ?thesis
      unfolding ofl' by (auto intro!: note_header_frame elim: outside_trans same_member_trans)
  next
    case False
    then show ?thesis using c by (auto simp: check_Mach_O_def fetch_def Let_def split: if_splits)
  qed
qed

lemma select_object_outside:
  assumes "select_object env is64 native ofl = Some (Selected, ofl', msgs)" "bits_ok (env_bits env)" "placed j ofl"
    and "o_mh ofl = Null" "o_mh64 ofl = Null"
  shows "outside j (j + unat (o_member_size ofl)) ofl ofl' \<and> same_member ofl ofl'"
proof -
  let ?p = "o_member_addr ofl"
  let ?o = "set_object (env_host env) is64 native ?p (o_member_size ofl) (ofl\<lparr>o_member_type := OFILE_Mach_O\<rparr>)"
  have c: "check_object env ?o = Some (Inr (ofl', msgs))"
    using assms(1) by (auto simp: select_object_def Let_def split: option.splits sum.splits)
  have frame: "outside j (j + unat (o_member_size ofl)) ofl ?o" "same_member ofl ?o"
    by (simp_all add: set_object_def outside_def same_member_def Let_def)
  obtain mem where mem: "memory ofl ?p = Some mem" "unat (o_member_size ofl) \<le> length mem"
    and p: "?p = Mapped j \<or> ?p = Buffered 0" using assms(3) by (auto simp: placed_def)
  have "memory ?o ?p = Some mem" using mem(1) by (subst memory_cong [of ?o ofl]) (simp_all add: set_object_def Let_def)
  moreover have "o_mh ?o = ?p \<and> ?p \<noteq> Null \<or> o_mh ?o = Null \<and> o_mh64 ?o = ?p" "o_object_size ?o = o_member_size ofl"
    using assms(4,5) p by (auto simp: set_object_def Let_def)
  ultimately have "outside j (j + unat (o_member_size ofl)) ?o ofl' \<and> same_member ?o ofl'"
    using check_object_outside [OF c assms(2)] p mem(2) by metis
  with frame show ?thesis by (blast intro: outside_trans same_member_trans)
qed

lemma length_concat_fixed: "(\<And>x. length (f x) = n) \<Longrightarrow> length (concat (map f xs)) = n * length xs"
  by (induction xs) simp_all

lemma length_host_fat_archs:
  "length (host_fat_archs e n mem) = n" "length (host_fat_archs64 e n mem) = n"
  by (simp_all add: host_fat_archs_def host_fat_archs64_def swap_fat_arch_def swap_fat_arch_64_def Let_def)

text \<open>A structure that differs in what a fat header gives only, in an archive.\<close>

lemma outside_fat:
  "outside j k a b \<Longrightarrow> o_file_type a \<noteq> OFILE_FAT \<Longrightarrow>
   outside j k a (b\<lparr>o_fat_archs := x\<rparr>) \<and> outside j k a (b\<lparr>o_fat_archs64 := y\<rparr>) \<and>
   outside j k a (b\<lparr>o_member_type := t, o_fat_header := z\<rparr>)"
  by (simp add: outside_def)

lemma select_fat_outside:
  assumes sel: "select_fat env p ofl = Some (Selected, ofl', msgs)"
    and mem: "memory ofl p = Some mem" "unat (o_member_size ofl) \<le> length mem" "length mem < 2 ^ 32"
    and p: "p = Mapped j \<or> p = Buffered 0"
  shows "outside j (j + unat (o_member_size ofl)) ofl ofl' \<and> same_member ofl ofl'"
proof -
  define e fh where "e = env_host env" and "fh = host_fat_header e mem"
  define n is64 where "n = unat (fh_nfat_arch fh)" and "is64 \<longleftrightarrow> fh_magic fh = FAT_MAGIC_64"
  define w where "w = (if is64 then sizeof_fat_arch_64 else sizeof_fat_arch)"
  define archs where "archs = (if is64 then concat (map (enc_fat_arch_64 e) (host_fat_archs64 e n mem))
      else concat (map (enc_fat_arch e) (host_fat_archs e n mem)))"
  define b1 b2 where "b1 = enc_fat_header e fh @ drop sizeof_fat_header mem"
    and "b2 = enc_fat_header e fh @ archs @ drop (sizeof_fat_header + w * n) mem"
  define o1 where "o1 = store (ofl\<lparr>o_member_type := OFILE_FAT, o_fat_header := Some fh\<rparr>) p b1"
  define o2 where "o2 = (if is64 then o1\<lparr>o_fat_archs64 := host_fat_archs64 e n mem\<rparr>
      else o1\<lparr>o_fat_archs := host_fat_archs e n mem\<rparr>)"
  note defs = b1_def b2_def o1_def o2_def archs_def w_def n_def is64_def fh_def e_def
  have sel': "\<not> length mem < sizeof_fat_header"
    "\<not> sizeof_fat_header + unat (fh_nfat_arch fh * of_nat w) > unat (o_member_size o1)"
    "\<not> length mem < sizeof_fat_header + w * n" "ofl' = store o2 p b2"
    "check_fat_object_in_archive e (\<lambda>bs. env_bitcode env bs \<noteq> None) ofl' = Inr ()"
    using sel unfolding select_fat_def mem(1) option.case Let_def defs
    by (auto split: if_split_asm sum.split_asm)
  have "length archs = w * n"
    by (simp add: archs_def w_def length_host_fat_archs length_concat_fixed [of _ sizeof_fat_arch]
        length_concat_fixed [of _ sizeof_fat_arch_64] fat_arch.length_enc fat_arch_64.length_enc)
  then have len: "length b1 = length mem" "length b2 = length mem"
    using sel'(1,3) by (simp_all add: b1_def b2_def fat_header.length_enc)
  have m: "o_member_size o1 = o_member_size ofl" "o_file_type o1 = o_file_type ofl"
    by (simp_all add: o1_def store_def split: pointer.splits option.splits)
  have "w * n < 2 ^ 32" using sel'(3) mem(3) by simp
  moreover have "fh_nfat_arch fh * of_nat w = (of_nat (w * n) :: u32)" by (simp add: n_def mult.commute)
  ultimately have "unat (fh_nfat_arch fh * of_nat w) = w * n"
    by (simp add: unsigned_of_nat take_bit_nat_eq_self del: of_nat_mult)
  then have fits: "sizeof_fat_header + w * n \<le> unat (o_member_size ofl)" using sel'(2) m(1) by simp
  have arch: "o_file_type ofl = OFILE_ARCHIVE"
  proof -
    have "o_file_type ofl' = OFILE_ARCHIVE"
      using sel'(5) by (auto simp: check_fat_object_in_archive_def split: if_split_asm)
    moreover have "o_file_type ofl' = o_file_type ofl"
      unfolding sel'(4) o2_def m(2) [symmetric] by (simp add: store_def split: pointer.splits option.splits)
    ultimately show ?thesis by simp
  qed
  have behind: "same_behind (unat (o_member_size ofl)) mem b1" "same_behind (unat (o_member_size ofl)) b1 b2"
  proof -
    have "same_behind (sizeof_fat_header + w * n) mem b1" "same_behind (sizeof_fat_header + w * n) mem b2"
      using len \<open>length archs = w * n\<close> by (simp_all add: same_behind_def b1_def b2_def fat_header.length_enc add.commute)
    then show "same_behind (unat (o_member_size ofl)) mem b1" "same_behind (unat (o_member_size ofl)) b1 b2"
      using fits by (auto simp: same_behind_def dest!: same_behind_mono [OF _ fits, unfolded same_behind_def])
  qed
  let ?o0 = "ofl\<lparr>o_member_type := OFILE_FAT, o_fat_header := Some fh\<rparr>"
  have m0: "memory ?o0 p = Some mem" using mem(1) by (simp cong: memory_cong add: memory_cong [of ?o0 ofl])
  have m1: "memory o1 p = Some b1" unfolding o1_def using m0 len(1) by (rule memory_store)
  have m2: "memory o2 p = Some b1" using m1 memory_cong [of o2 o1 p] by (simp add: o2_def)
  let ?k = "j + unat (o_member_size ofl)"
  have "outside j ?k ?o0 o1" "same_member ?o0 o1" unfolding o1_def by (rule store_outside [OF m0 behind(1) p])+
  moreover have "outside j ?k o2 ofl'" "same_member o2 ofl'"
    unfolding sel'(4) by (rule store_outside [OF m2 behind(2) p])+
  moreover have "outside j ?k ofl ?o0" "same_member ofl ?o0" "outside j ?k o1 o2" "same_member o1 o2"
    using arch m(2) by (simp_all add: outside_def same_member_def o2_def)
  ultimately show ?thesis by (blast intro: outside_trans same_member_trans)
qed

lemma select_contents_outside:
  assumes sel: "select_contents env sz (o_member_addr ofl) ofl = Some (Selected, ofl', msgs)"
    and "bits_ok (env_bits env)" "placed j ofl" "o_mh ofl = Null" "o_mh64 ofl = Null"
  shows "outside j (j + unat (o_member_size ofl)) ofl ofl' \<and> same_member ofl ofl'"
proof -
  obtain mem where mem: "memory ofl (o_member_addr ofl) = Some mem" "unat (o_member_size ofl) \<le> length mem"
    "length mem < 2 ^ 32" and p: "o_member_addr ofl = Mapped j \<or> o_member_addr ofl = Buffered 0"
    using assms(3) by (auto simp: placed_def)
  show ?thesis
    using sel unfolding select_contents_def mem(1) option.case Let_def
    by (auto split: if_split_asm elim!: select_fat_outside [OF _ mem p]
        select_object_outside [OF _ assms(2-5)])
qed

lemma select_bitcode_outside:
  assumes "select_bitcode env ofl = Some ofl'"
  shows "outside j k ofl ofl' \<and> same_member ofl ofl'"
  using assms
  by (auto simp: select_bitcode_def is_llvm_bitcode_def clear_lto_def outside_def same_member_def
      split: if_splits option.splits prod.splits bool.splits)

end
