(* ===== verification/Members_Correct.thy ===== *)
theory Members_Correct
  imports OfileFrame Archive_Format Cursor
begin

text \<open>
  The iteration over the members of an archive visits the members that tile it, one after the other, and stops
  without a message behind the last one only (\<open>members_visited\<close>).
\<close>

section \<open>Members as the iteration reads them\<close>

text \<open>The header at \<open>h\<close> gives contents at \<open>c\<close> of the size \<open>n\<close>. The iteration reads the size of a name with
  \<open>strtoul\<close> in the file, where \<open>check_archive\<close> reads it in a copy of the 16 characters.\<close>

definition readable :: "bytes \<Rightarrow> nat \<times> nat \<times> nat \<Rightarrow> bool" where
  "readable mem m \<longleftrightarrow>
     (case m of (h, c, n) \<Rightarrow>
        (case (strtoul_mem (drop (h + ar_size_offset) mem), strncmp_eq (drop h mem) AR_EFMT1 3) of
           (Some v, Some False) \<Rightarrow> c = h + sizeof_ar_hdr \<and> n = unat (ucast v :: u32)
         | (Some v, Some True) \<Rightarrow>
             (case strtoul_mem (drop (h + 3) mem) of
                None \<Rightarrow> False
              | Some w \<Rightarrow>
                  (ucast w :: u32) \<le> ucast v \<and> c = h + sizeof_ar_hdr + unat (ucast w :: u32) \<and>
                  n = unat (ucast v - ucast w :: u32))
         | _ \<Rightarrow> False))"

definition at_tile :: "nat \<Rightarrow> nat \<times> nat \<times> nat \<Rightarrow> ofile \<Rightarrow> bool" where
  "at_tile base m ofl \<longleftrightarrow>
     (case m of (h, c, n) \<Rightarrow>
        o_member_ar_hdr ofl = Mapped (base + h) \<and> o_member_offset ofl = of_nat c \<and> o_member_size ofl = of_nat n)"

text \<open>A tile of an archive that lies in a file of less than 4 GB.\<close>

definition tile_in :: "ofile \<Rightarrow> nat \<Rightarrow> nat \<Rightarrow> nat \<times> nat \<times> nat \<Rightarrow> bool" where
  "tile_in ofl base sz m \<longleftrightarrow>
     (case m of (h, c, n) \<Rightarrow> h + sizeof_ar_hdr \<le> c \<and> c + n \<le> sz) \<and> base + sz \<le> unat (o_file_size ofl) \<and>
     unat (o_file_size ofl) \<le> length (o_file_addr ofl) \<and> length (o_file_addr ofl) < 2 ^ 32 \<and>
     readable (drop base (o_file_addr ofl)) m"

lemma set_header_tile:
  assumes "tile_in ofl base sz (h, c, n)"
  obtains v where "set_header base sz h ofl = Some (ofl\<lparr>o_member_offset := of_nat (h + sizeof_ar_hdr),
      o_member_ar_hdr := Mapped (base + h), o_member_size := ucast v\<rparr>, [])"
    "strtoul_mem (drop (base + h + ar_size_offset) (o_file_addr ofl)) = Some v"
proof -
  let ?f = "o_file_addr ofl"
  obtain v where v: "strtoul_mem (drop (base + h + ar_size_offset) ?f) = Some v"
    and n: "unat (ucast v :: u32) + (h + sizeof_ar_hdr) = c + n" and le: "c + n \<le> sz" and sz: "sz < 2 ^ 32"
  proof -
    have eq: "base + h + ar_size_offset = h + ar_size_offset + base" by simp
    from assms show thesis
      by (auto simp: tile_in_def readable_def drop_drop eq word_le_nat_alt unat_sub intro!: that
          split: option.splits bool.splits)
  qed
  have "(of_nat sz - of_nat sizeof_ar_hdr :: u64) = of_nat (sz - sizeof_ar_hdr)"
    using n le by (simp add: of_nat_diff)
  then have "unat (of_nat sz - of_nat sizeof_ar_hdr :: u64) = sz - sizeof_ar_hdr"
    using sz by (simp only: unsigned_of_nat) (simp add: take_bit_nat_eq_self)
  then have "\<not> (ucast (ucast v :: u32) :: u64) > of_nat sz - of_nat sizeof_ar_hdr"
    unfolding word_less_nat_alt unat_ucast_u64 using n le by linarith
  with v show thesis by (intro that [of v]) (simp_all add: set_header_def Let_def)
qed

text \<open>The name. Its size is taken from what follows the header; a name of the System V kind is elsewhere.\<close>

definition only_member :: "ofile \<Rightarrow> ofile \<Rightarrow> bool" where
  "only_member a b \<longleftrightarrow>
     o_file_addr b = o_file_addr a \<and> o_file_size b = o_file_size a \<and> o_file_type b = o_file_type a \<and>
     o_arch_type b = o_arch_type a \<and> o_narch b = o_narch a \<and> o_fat_header b = o_fat_header a \<and>
     o_fat_archs b = o_fat_archs a \<and> o_fat_archs64 b = o_fat_archs64 a \<and> o_member_ar_hdr b = o_member_ar_hdr a"

lemma only_member_outside: "only_member a b \<Longrightarrow> outside j k a b"
  by (simp add: only_member_def outside_def)

lemma extended_or_plain_tile:
  assumes "readable (drop base (o_file_addr ofl)) (h, c, n)" "c + n < 2 ^ 32"
    and "o_member_offset ofl = of_nat (h + sizeof_ar_hdr)" "o_member_size ofl = ucast v"
    and v: "strtoul_mem (drop (base + h + ar_size_offset) (o_file_addr ofl)) = Some v"
  obtains ofl' where "extended_or_plain (base + h) ofl = Some (ofl', [])" "only_member ofl ofl'"
    "o_member_offset ofl' = of_nat c" "o_member_size ofl' = of_nat n"
proof -
  have eq: "base + h + k = h + k + base" for k by simp
  have "drop (base + h) (o_file_addr ofl) = drop h (drop base (o_file_addr ofl))" by (simp add: add.commute)
  then consider
      "strncmp_eq (drop (base + h) (o_file_addr ofl)) AR_EFMT1 3 = Some False" "c = h + sizeof_ar_hdr"
      "n = unat (ucast v :: u32)"
    | w where "strncmp_eq (drop (base + h) (o_file_addr ofl)) AR_EFMT1 3 = Some True"
      "strtoul_mem (drop (base + h + 3) (o_file_addr ofl)) = Some w" "(ucast w :: u32) \<le> ucast v"
      "c = h + sizeof_ar_hdr + unat (ucast w :: u32)" "n = unat (ucast v - ucast w :: u32)"
    using assms(1) v by (auto simp: readable_def drop_drop eq split: option.splits bool.splits)
  then show thesis
  proof cases
    case 1
    with that show thesis using assms(3,4)
      by (auto simp: extended_or_plain_def plain_name_def only_member_def intro!: that)
  next
    case 2
    have "(ucast (ucast w :: u32) :: u64) = of_nat (unat (ucast w :: u32))" by simp
    with 2 show thesis using assms(3,4)
      by (auto simp: extended_or_plain_def extended_name_def only_member_def intro!: that)
  qed
qed

lemma sysv_not_extended: "strncmp_eq hdr AR_EFMT1 3 = Some True \<Longrightarrow> \<not> is_sysv_name hdr"
  by (cases hdr) (auto simp: AR_EFMT1_def ascii_def numeral_3_eq_3 is_sysv_name_def split: if_splits)

lemma next_name_tile:
  assumes "next_name (base + h) ofl = Some (ofl', msgs)"
    and "readable (drop base (o_file_addr ofl)) (h, c, n)" "c + n < 2 ^ 32"
    and "o_member_offset ofl = of_nat (h + sizeof_ar_hdr)" "o_member_size ofl = ucast v"
    and v: "strtoul_mem (drop (base + h + ar_size_offset) (o_file_addr ofl)) = Some v"
  shows "msgs = [] \<and> only_member ofl ofl' \<and> o_member_offset ofl' = of_nat c \<and> o_member_size ofl' = of_nat n"
proof -
  obtain o1 where o1: "note_strtab (base + h) ofl = Some o1"
    "(if is_sysv_name (drop (base + h) (o_file_addr o1)) then sysv_name (base + h) o1
      else extended_or_plain (base + h) o1) = Some (ofl', msgs)"
    using assms(1) by (auto simp: next_name_def split: option.splits)
  have same: "only_member ofl o1" "o_member_offset o1 = o_member_offset ofl" "o_member_size o1 = o_member_size ofl"
    using o1(1) by (auto simp: note_strtab_def only_member_def split: if_splits option.splits bool.splits)
  have f: "o_file_addr o1 = o_file_addr ofl" using same(1) by (simp add: only_member_def)
  show ?thesis
  proof (cases "is_sysv_name (drop (base + h) (o_file_addr o1))")
    case True
    then have "strncmp_eq (drop (base + h) (o_file_addr ofl)) AR_EFMT1 3 \<noteq> Some True"
      using sysv_not_extended f by metis
    moreover have "drop h (drop base (o_file_addr ofl)) = drop (base + h) (o_file_addr ofl)"
      "drop (h + ar_size_offset) (drop base (o_file_addr ofl)) = drop (base + h + ar_size_offset) (o_file_addr ofl)"
      by (simp_all add: ac_simps)
    ultimately have "c = h + sizeof_ar_hdr" "n = unat (ucast v :: u32)"
      using assms(2) v by (auto simp only: readable_def prod.case option.case bool.case split: option.splits bool.splits)
    then show ?thesis using True o1(2) same assms(4,5)
      by (auto simp: sysv_name_def plain_name_def only_member_def split: if_splits option.splits)
  next
    case False
    obtain o2 where "extended_or_plain (base + h) o1 = Some (o2, [])" "only_member o1 o2"
      "o_member_offset o2 = of_nat c" "o_member_size o2 = of_nat n"
      using extended_or_plain_tile [of base o1 h c n v] assms(2-5) v same(2,3) f by metis
    with False o1(2) same(1) show ?thesis by (auto simp: only_member_def)
  qed
qed

lemma free_member_buffer_frame: "outside j k ofl (free_member_buffer ofl)"
  by (simp add: free_member_buffer_def outside_def)

lemma member_addr_set_tile:
  assumes "member_addr_set base ofl = Some (b, ofl', msgs)" "o_member_offset ofl = of_nat c" "o_member_size ofl = of_nat n"
    and "base + c + n \<le> unat (o_file_size ofl)" "unat (o_file_size ofl) \<le> length (o_file_addr ofl)"
    "length (o_file_addr ofl) < 2 ^ 32"
  shows "b \<and> msgs = [] \<and> placed (base + c) ofl' \<and> outside j k ofl ofl' \<and>
    o_member_offset ofl' = of_nat c \<and> o_member_size ofl' = of_nat n \<and> o_member_ar_hdr ofl' = o_member_ar_hdr ofl"
proof -
  have c: "unat (o_member_offset ofl) = c" "unat (o_member_size ofl) = n"
    using assms(2-6) by (simp_all add: unsigned_of_nat take_bit_nat_eq_self)
  show ?thesis
    using assms(1,4-6) c
    by (auto simp: member_addr_set_def Let_def free_member_buffer_def placed_def memory_def outside_def slice_def
        assms(2,3) split: if_split_asm)
qed

text \<open>Fields other than the files and the member do not matter.\<close>

lemma placed_cong:
  "o_file_addr b = o_file_addr a \<Longrightarrow> o_member_buffer b = o_member_buffer a \<Longrightarrow> o_member_addr b = o_member_addr a \<Longrightarrow>
   o_member_size b = o_member_size a \<Longrightarrow> placed j b = placed j a"
  using memory_cong [of b a] by (simp add: placed_def)

lemma at_tile_same: "same_member a b \<Longrightarrow> at_tile base m b = at_tile base m a"
  by (cases m) (simp add: same_member_def at_tile_def)

lemma next_cleanup_fails: "next_cleanup ofl msgs = Some (b, ofl', ms) \<Longrightarrow> \<not> b \<and> ms = msgs"
  by (auto simp: next_cleanup_def fatcleanup_def cleanup_def split: if_splits)

text \<open>A member is refused with a message only.\<close>

lemma select_contents_refused:
  "select_contents env sz p ofl = Some (r, ofl', msgs) \<Longrightarrow> r \<noteq> Selected \<Longrightarrow> msgs \<noteq> []"
  by (auto simp: select_contents_def select_fat_def select_object_def Let_def
      split: if_split_asm option.split_asm sum.split_asm)

lemma next_contents_tile:
  assumes "next_contents env sz ofl [] = Some (b, ofl', msgs)" "bits_ok (env_bits env)" "placed j ofl"
    and "o_mh ofl = Null" "o_mh64 ofl = Null"
  shows "if b then same_member ofl ofl' \<and> outside j (j + unat (o_member_size ofl)) ofl ofl' else msgs \<noteq> []"
proof (cases "unat (o_member_size ofl) \<le> 4")
  case False
  then obtain r o1 ms where sel: "select_contents env sz (o_member_addr ofl) ofl = Some (r, o1, ms)"
    using assms(1) by (auto simp: next_contents_def split: option.splits)
  show ?thesis
  proof (cases "r = Selected")
    case True
    with sel False assms(1) have "select_bitcode env o1 = Some ofl'" b by (auto simp: next_contents_def)
    with select_contents_outside [OF _ assms(2-5)] sel True show ?thesis
      by (metis select_bitcode_outside outside_trans same_member_trans)
  next
    case False
    then have "next_cleanup o1 ms = Some (b, ofl', msgs)"
      using sel \<open>\<not> unat (o_member_size ofl) \<le> 4\<close> assms(1) by (cases r) (auto simp: next_contents_def)
    with select_contents_refused [OF sel False] show ?thesis by (auto dest: next_cleanup_fails)
  qed
qed (use assms(1) in \<open>auto simp: next_contents_def\<close>)

lemma next_member_tile:
  assumes "next_member env base sz h ofl = Some (b, ofl', msgs)" "bits_ok (env_bits env)" "tile_in ofl base sz (h, c, n)"
  shows "if b then at_tile base (h, c, n) ofl' \<and> outside (base + c) (base + c + n) ofl ofl' else msgs \<noteq> []"
proof -
  let ?at = "\<lambda>x. o_member_offset x = of_nat c \<and> o_member_size x = of_nat n \<and> o_member_ar_hdr x = Mapped (base + h)"
  let ?out = "outside (base + c) (base + c + n)"
  have le: "base + h \<le> unat (o_file_size ofl)" "base + c + n \<le> unat (o_file_size ofl)" "c + n < 2 ^ 32"
    "unat (o_file_size ofl) \<le> length (o_file_addr ofl)" "length (o_file_addr ofl) < 2 ^ 32"
    "readable (drop base (o_file_addr ofl)) (h, c, n)" using assms(3) by (auto simp: tile_in_def)
  obtain v where v: "set_header base sz h ofl = Some (ofl\<lparr>o_member_offset := of_nat (h + sizeof_ar_hdr),
      o_member_ar_hdr := Mapped (base + h), o_member_size := ucast v\<rparr>, [])"
    "strtoul_mem (drop (base + h + ar_size_offset) (o_file_addr ofl)) = Some v"
    by (rule set_header_tile [OF assms(3)])
  define o1 where "o1 = ofl\<lparr>o_member_offset := of_nat (h + sizeof_ar_hdr), o_member_ar_hdr := Mapped (base + h),
      o_member_size := ucast v, o_member_name := Mapped (base + h)\<rparr>"
  obtain o2 ms2 b3 o3 ms3 where nm: "next_name (base + h) o1 = Some (o2, ms2)" "member_addr_set base o2 = Some (b3, o3, ms3)"
    and rest: "(if b3 then next_contents env sz (clear_lto (clear_object (o3\<lparr>o_member_type := OFILE_UNKNOWN\<rparr>))) (ms2 @ ms3)
      else next_cleanup o3 (ms2 @ ms3)) = Some (b, ofl', msgs)"
    using assms(1) le(1) v(1)
    by (auto simp: next_member_def o1_def split: option.splits bool.splits)
  have n2: "ms2 = []" "only_member o1 o2" "?at o2"
    using next_name_tile [OF nm(1), of c n v] le v(2) by (simp_all add: o1_def only_member_def)
  have f2: "o_file_addr o2 = o_file_addr ofl" "o_file_size o2 = o_file_size ofl"
    using n2(2) by (simp_all add: only_member_def o1_def)
  have n3: "b3" "ms3 = []" "placed (base + c) o3" "?out o2 o3" "?at o3"
    using member_addr_set_tile [OF nm(2), of c n] n2(3) le f2 by (simp_all)
  define o4 where "o4 = clear_lto (clear_object (o3\<lparr>o_member_type := OFILE_UNKNOWN\<rparr>))"
  have n4: "?at o4" "placed (base + c) o4" "?out o3 o4" "o_mh o4 = Null" "o_mh64 o4 = Null"
    using n3 placed_cong [of o4 o3] by (simp_all add: o4_def clear_lto_def clear_object_def outside_def)
  have sz: "unat (o_member_size o4) = n"
    using n4(1) le by (simp add: unsigned_of_nat take_bit_nat_eq_self)
  have "next_contents env sz o4 [] = Some (b, ofl', msgs)" using rest n3(1,2) n2(1) by (simp add: o4_def)
  then have fin: "if b then same_member o4 ofl' \<and> ?out o4 ofl' else msgs \<noteq> []"
    using next_contents_tile [OF _ assms(2) n4(2,4,5)] sz by metis
  have "?out ofl o2" using n2(2) by (simp add: only_member_def o1_def outside_def)
  with fin n3(4) n4 show ?thesis
    by (auto split: if_split_asm simp: at_tile_def same_member_def intro: outside_trans)
qed

section \<open>The first member\<close>

text \<open>A table of contents of the other byte order is swapped in place, and when it is malformed the swap may reach
  beyond it.\<close>

definition foreign_table :: "environment \<Rightarrow> ofile \<Rightarrow> bool" where
  "foreign_table env ofl \<longleftrightarrow>
     get_toc_byte_sex (env_host env) (o_file_addr ofl) (unat (ucast (o_file_size ofl) :: u32)) =
       Inr (sex_of (opp (env_host env)))"

lemma byte_sex_cases: "x = UNKNOWN_BYTE_SEX \<or> x = sex_of e \<or> x = sex_of (opp e)"
  by (cases x; cases e) simp_all

lemma if_InrE: "(if P then m else m') = Inr y \<Longrightarrow> (m = Inr y \<Longrightarrow> Q) \<Longrightarrow> (m' = Inr y \<Longrightarrow> Q) \<Longrightarrow> Q"
  by (cases P) simp_all

lemma andthen_InrE: "andthen m f = Inr y \<Longrightarrow> (\<And>x. m = Inr x \<Longrightarrow> f x = Inr y \<Longrightarrow> Q) \<Longrightarrow> Q"
  by (auto simp: andthen_eq_Inr)

lemma check_toc_contents_frame:
  assumes "check_toc_contents e is64 False toc ofl = Inr ofl'"
  shows "outside j k ofl ofl' \<and> same_member ofl ofl'"
  using assms unfolding check_toc_contents_def Let_def if_False case_prod_beta
  by (elim andthen_InrE if_InrE) (simp_all add: set_toc_def outside_def same_member_def, auto)

lemma check_archive_toc_frame:
  assumes "check_archive_toc (env_host env) ofl = Inr ofl'" "\<not> foreign_table env ofl"
  shows "outside j k ofl ofl' \<and> same_member ofl ofl'"
proof -
  let ?o = "clear_toc ofl"
  have f: "outside j k ofl ?o" "same_member ofl ?o" by (simp_all add: clear_toc_def outside_def same_member_def)
  have "outside j k ?o ofl' \<and> same_member ?o ofl'"
    if "get_toc_byte_sex (env_host env) (o_file_addr ?o) (unat (ucast (o_file_size ?o) :: u32)) = Inr s"
      "s \<noteq> UNKNOWN_BYTE_SEX" "check_toc_contents (env_host env) is64 (s \<noteq> sex_of (env_host env)) toc ?o = Inr ofl'"
    for s is64 toc
  proof -
    have "s = sex_of (env_host env)"
      using that(1,2) assms(2) byte_sex_cases [of s] by (auto simp: foreign_table_def clear_toc_def)
    with that(3) show ?thesis by (simp add: check_toc_contents_frame)
  qed
  moreover have "outside j k ?o (?o\<lparr>o_toc_bad := True\<rparr>)" "same_member ?o (?o\<lparr>o_toc_bad := True\<rparr>)"
    by (simp_all add: outside_def same_member_def)
  ultimately have "outside j k ?o ofl' \<and> same_member ?o ofl'"
    using assms(1) unfolding check_archive_toc_def Let_def
    by (auto simp: andthen_eq_Inr split: if_split_asm option.split_asm)
  with f show ?thesis by (blast intro: outside_trans same_member_trans)
qed

lemma select_contents_unknown:
  assumes "select_contents env sz p ofl = Some (Selected, ofl', msgs)" "o_member_type ofl' = OFILE_UNKNOWN"
  shows "ofl' = ofl"
proof -
  have store: "o_member_type (store a q bs) = o_member_type a" for a q bs
    by (simp add: store_def split: pointer.splits option.splits)
  have "o_member_type ofl' = OFILE_FAT" if "select_fat env p ofl = Some (Selected, ofl', msgs)"
    using that unfolding select_fat_def Let_def
    by (auto simp: store split: if_split_asm option.split_asm sum.split_asm)
  moreover have "o_member_type ofl' = OFILE_Mach_O" if "select_object env is64 native ofl = Some (Selected, ofl', msgs)"
    for is64 native
    using that unfolding select_object_def check_object_def Let_def
    by (auto simp: store note_header_def set_object_def Let_def split: if_split_asm option.split_asm sum.split_asm)
  ultimately show ?thesis
    using assms unfolding select_contents_def Let_def
    by (auto split: if_split_asm option.split_asm)
qed

lemma first_tables_frame:
  assumes "first_tables env ofl = Some ofl'" "o_member_type ofl = OFILE_UNKNOWN \<Longrightarrow> \<not> foreign_table env ofl"
  shows "outside j k ofl ofl' \<and> same_member ofl ofl'"
proof (cases "o_member_type ofl = OFILE_UNKNOWN")
  case True
  let ?o = "ofl\<lparr>o_toc_addr := o_member_addr ofl, o_toc_size := o_member_size ofl, o_toc_ar_hdr := o_member_ar_hdr ofl,
      o_toc_name := o_member_name ofl, o_toc_name_size := o_member_name_size ofl\<rparr>"
  let ?s = "ofl\<lparr>o_sysv_ar_strtab := o_member_addr ofl, o_sysv_ar_strtab_size := o_member_size ofl\<rparr>"
  have "check_archive_toc (env_host env) ?o = Inr ofl' \<or> ofl' = ?s \<or> ofl' = ofl"
    using assms(1) True unfolding first_tables_def
    by (auto split: option.split_asm bool.split_asm sum.split_asm)
  moreover have "outside j k ?o ofl' \<and> same_member ?o ofl'" if "check_archive_toc (env_host env) ?o = Inr ofl'"
    using check_archive_toc_frame [OF that] assms(2) True by (simp add: foreign_table_def)
  moreover have "outside j k ofl ?o" "same_member ofl ?o" "outside j k ofl ?s" "same_member ofl ?s"
    by (simp_all add: outside_def same_member_def)
  ultimately show ?thesis by (elim disjE) (blast intro: outside_trans same_member_trans, simp_all)
qed (use assms(1) in \<open>auto simp: first_tables_def\<close>)

lemma first_bitcode_frame:
  assumes "first_bitcode env ofl = Some ofl'"
  shows "outside j k ofl ofl' \<and> same_member ofl ofl'"
  using assms select_bitcode_outside [of env ofl ofl' j k]
  by (auto simp: first_bitcode_def split: if_split_asm option.split_asm bool.split_asm)

lemma first_contents_tile:
  assumes "first_contents env sz ofl [] = Some (b, ofl', msgs)" "bits_ok (env_bits env)" "placed j ofl"
    and "o_mh ofl = Null" "o_mh64 ofl = Null" and foreign: "\<not> foreign_table env ofl"
  shows "if b then same_member ofl ofl' \<and> outside j (j + unat (o_member_size ofl)) ofl ofl' else msgs \<noteq> []"
proof (cases "unat (o_member_size ofl) \<le> 4")
  case False
  then obtain r o1 ms where sel: "select_contents env sz (o_member_addr ofl) ofl = Some (r, o1, ms)"
    using assms(1) by (auto simp: first_contents_def split: option.splits)
  show ?thesis
  proof (cases "r = Selected")
    case True
    with sel False assms(1) obtain o2 where o2: "first_tables env o1 = Some o2" "first_bitcode env o2 = Some ofl'" b
      by (auto simp: first_contents_def split: option.splits)
    have "\<not> foreign_table env o1" if "o_member_type o1 = OFILE_UNKNOWN"
      using select_contents_unknown [of env sz _ ofl o1] sel True that foreign by metis
    note f = select_contents_outside [OF sel [unfolded True] assms(2-5)] first_tables_frame [OF o2(1) this]
      first_bitcode_frame [OF o2(2)]
    have "outside j (j + unat (o_member_size ofl)) ofl ofl'" using f by (blast intro: outside_trans)
    moreover have "same_member ofl ofl'" using f by (blast intro: same_member_trans)
    ultimately show ?thesis using o2(3) by simp
  next
    case False
    then have "\<not> b \<and> msgs = ms"
      using sel \<open>\<not> unat (o_member_size ofl) \<le> 4\<close> assms(1)
      by (cases r) (auto simp: first_contents_def fatcleanup_def cleanup_def)
    with select_contents_refused [OF sel False] show ?thesis by simp
  qed
qed (use assms(1) in \<open>auto simp: first_contents_def\<close>)

lemma first_member_tile:
  assumes "first_member env base sz ofl = Some (b, ofl', msgs)" "bits_ok (env_bits env)"
    and "tile_in ofl base sz (SARMAG, c, n)" "o_mh ofl = Null" "o_mh64 ofl = Null" "\<not> foreign_table env ofl"
  shows "if b then at_tile base (SARMAG, c, n) ofl' \<and> outside (base + c) (base + c + n) ofl ofl' else msgs \<noteq> []"
proof -
  let ?at = "\<lambda>x. o_member_offset x = of_nat c \<and> o_member_size x = of_nat n \<and> o_member_ar_hdr x = Mapped (base + SARMAG)"
  let ?out = "outside (base + c) (base + c + n)"
  have le: "base + SARMAG \<le> unat (o_file_size ofl)" "base + c + n \<le> unat (o_file_size ofl)" "c + n < 2 ^ 32"
    "unat (o_file_size ofl) \<le> length (o_file_addr ofl)" "length (o_file_addr ofl) < 2 ^ 32"
    "readable (drop base (o_file_addr ofl)) (SARMAG, c, n)" using assms(3) by (auto simp: tile_in_def)
  obtain v where v: "set_header base sz SARMAG ofl = Some (ofl\<lparr>o_member_offset := of_nat (SARMAG + sizeof_ar_hdr),
      o_member_ar_hdr := Mapped (base + SARMAG), o_member_size := ucast v\<rparr>, [])"
    "strtoul_mem (drop (base + SARMAG + ar_size_offset) (o_file_addr ofl)) = Some v"
    by (rule set_header_tile [OF assms(3)])
  define o1 where "o1 = ofl\<lparr>o_member_offset := of_nat (SARMAG + sizeof_ar_hdr),
      o_member_ar_hdr := Mapped (base + SARMAG), o_member_size := ucast v\<rparr>"
  obtain o2 where o2: "extended_or_plain (base + SARMAG) o1 = Some (o2, [])" "only_member o1 o2" "o_mh o2 = Null"
    "o_mh64 o2 = Null" "o_member_offset o2 = of_nat c" "o_member_size o2 = of_nat n"
  proof (rule extended_or_plain_tile [of base o1 SARMAG c n v])
    fix x
    assume x: "extended_or_plain (base + SARMAG) o1 = Some (x, [])" "only_member o1 x"
      "o_member_offset x = of_nat c" "o_member_size x = of_nat n"
    then have "o_mh x = o_mh o1" "o_mh64 x = o_mh64 o1"
      by (auto simp: extended_or_plain_def extended_name_def plain_name_def Let_def
          split: option.split_asm bool.split_asm if_split_asm)
    with x that assms(4,5) show thesis by (simp add: o1_def)
  qed (use le v in \<open>simp_all add: o1_def\<close>)
  obtain b3 o3 ms3 where nm: "member_addr_set base o2 = Some (b3, o3, ms3)"
    and rest: "(if b3 then first_contents env sz (clear_toc_fields o3) ms3 else fatcleanup o3 ms3) = Some (b, ofl', msgs)"
    using assms(1) le(1) v(1) o2(1)
    by (auto simp: first_member_def o1_def split: option.splits bool.splits)
  have f2: "o_file_addr o2 = o_file_addr ofl" "o_file_size o2 = o_file_size ofl" "o_member_ar_hdr o2 = Mapped (base + SARMAG)"
    using o2(2) by (simp_all add: only_member_def o1_def)
  have n3: "b3" "ms3 = []" "placed (base + c) o3" "?out o2 o3" "?at o3"
    using member_addr_set_tile [OF nm, of c n] o2 le f2 by simp_all
  have mh3: "o_mh o3 = Null" "o_mh64 o3 = Null" "o_file_addr o3 = o_file_addr ofl" "o_file_size o3 = o_file_size ofl"
    using nm o2(3,4) f2 by (auto simp: member_addr_set_def Let_def free_member_buffer_def dangle_def split: if_split_asm)
  define o4 where "o4 = clear_toc_fields o3"
  have n4: "?at o4" "placed (base + c) o4" "?out o3 o4" "o_mh o4 = Null" "o_mh64 o4 = Null"
    using n3 mh3 placed_cong [of o4 o3] by (simp_all add: o4_def clear_toc_fields_def outside_def)
  have "\<not> foreign_table env o4" using assms(6) mh3 by (simp add: foreign_table_def o4_def clear_toc_fields_def)
  moreover have "unat (o_member_size o4) = n"
    using n4(1) le by (simp add: unsigned_of_nat take_bit_nat_eq_self)
  moreover have "first_contents env sz o4 [] = Some (b, ofl', msgs)" using rest n3(1,2) by (simp add: o4_def)
  ultimately have fin: "if b then same_member o4 ofl' \<and> ?out o4 ofl' else msgs \<noteq> []"
    using first_contents_tile [OF _ assms(2) n4(2,4,5)] by metis
  have "?out ofl o2" using o2(2) by (simp add: only_member_def o1_def outside_def)
  with fin n3(4) n4 show ?thesis
    by (auto split: if_split_asm simp: at_tile_def same_member_def intro: outside_trans)
qed

section \<open>Iteration\<close>

text \<open>The loop of the callers: the first member, and the next one as long as there is one.\<close>

definition all_members :: "environment \<Rightarrow> ofile \<Rightarrow> (ofile list \<times> ofile_error list) option" where
  "all_members env = all_of (ofile_first_member env) (ofile_next_member env)"

text \<open>An archive with its tiles, which the iteration does not disturb from the header at \<open>offset\<close> on.\<close>

definition archive_ok :: "ofile \<Rightarrow> nat \<Rightarrow> nat \<Rightarrow> nat \<Rightarrow> (nat \<times> nat \<times> nat) list \<Rightarrow> bool" where
  "archive_ok ofl base sz offset ms \<longleftrightarrow>
     member_area ofl = Some (Inr (base, sz)) \<and> base + sz \<le> unat (o_file_size ofl) \<and>
     unat (o_file_size ofl) \<le> length (o_file_addr ofl) \<and> length (o_file_addr ofl) < 2 ^ 32 \<and>
     SARMAG \<le> offset \<and> tiles offset sz ms \<and> list_all (readable (drop base (o_file_addr ofl))) ms"

lemma archive_ok_tile:
  assumes "archive_ok ofl base sz offset (m # ms)"
  obtains c n where "m = (offset, c, n)" "tile_in ofl base sz (offset, c, n)" "offset < sz"
proof -
  obtain c n where m: "m = (offset, c, n)" using assms by (cases m) (auto simp: archive_ok_def)
  have "c + n \<le> sz" using assms tiles_bound [of offset sz "m # ms"] m by (auto simp: archive_ok_def)
  moreover have "offset + sizeof_ar_hdr \<le> c" using assms m by (simp add: archive_ok_def)
  ultimately show thesis using assms m that [of c n] by (simp add: archive_ok_def tile_in_def)
qed

lemma readable_behind:
  assumes "drop k mem' = drop k mem" "k \<le> fst m"
  shows "readable mem' m = readable mem m"
proof -
  have "drop (fst m + i) mem' = drop (fst m + i) mem" for i
  proof -
    have "drop (fst m + i) x = drop (fst m + i - k) (drop k x)" for x :: bytes using assms(2) by simp
    then show ?thesis using assms(1) by metis
  qed
  from this [of 0] this [of 3] this [of 48] show ?thesis
    by (simp add: readable_def case_prod_beta cong: option.case_cong bool.case_cong)
qed

lemma member_area_outside:
  assumes "member_area a = Some (Inr (base, sz))" "outside j k a b" "base + SARMAG \<le> j"
  shows "member_area b = Some (Inr (base, sz))"
proof -
  have area: "archive_area b = archive_area a" using assms(2)
    by (cases "o_file_type a = OFILE_FAT"; cases "o_fat_header a") (simp_all add: archive_area_def outside_def Let_def)
  obtain t s where base: "archive_area a = Inr (base, sz, t, s)"
    and cmp: "strncmp_eq (drop base (o_file_addr a)) ARMAG SARMAG = Some True"
    using assms(1) by (auto simp: member_area_def split: if_split_asm sum.split_asm option.split_asm bool.split_asm)
  from strncmp_eq_take [OF cmp] have "SARMAG \<le> length (drop base (o_file_addr a))"
    "take SARMAG (drop base (o_file_addr a)) = take SARMAG ARMAG" by (simp_all add: length_ARMAG)
  moreover have "take SARMAG (drop base (o_file_addr b)) = take SARMAG (drop base (o_file_addr a))"
  proof -
    have "take SARMAG (drop base x) = drop base (take (base + SARMAG) (take j x))" for x :: bytes
      using assms(3) by (simp add: take_drop add.commute min_def)
    then show ?thesis using assms(2) by (simp only: outside_def)
  qed
  moreover have "length (drop base (o_file_addr b)) = length (drop base (o_file_addr a))"
    using assms(2) by (simp add: outside_def)
  ultimately have "strncmp_eq (drop base (o_file_addr b)) ARMAG SARMAG = Some True"
    by (subst strncmp_eq_iff) (simp_all add: length_ARMAG)
  with assms(1,2) area base cmp show ?thesis by (auto simp: member_area_def outside_def split: if_split_asm)
qed

lemma archive_ok_step:
  assumes "archive_ok ofl base sz offset ((offset, c, n) # ms)" "outside (base + c) (base + c + n) ofl ofl'"
  shows "archive_ok ofl' base sz (c + n + n mod 2) ms"
proof -
  have c: "offset + sizeof_ar_hdr \<le> c" "SARMAG \<le> offset" "tiles (c + n + n mod 2) sz ms"
    using assms(1) by (simp_all add: archive_ok_def)
  have d: "drop (c + n) (drop base (o_file_addr ofl')) = drop (c + n) (drop base (o_file_addr ofl))"
    using assms(2) by (simp add: outside_def add.commute add.left_commute)
  have "c + n \<le> fst m" if "m \<in> set ms" for m
    using tiles_bound [OF c(3), of "fst m"] that by (cases m) fastforce
  then have "list_all (readable (drop base (o_file_addr ofl'))) ms"
    using assms(1) readable_behind [OF d] by (auto simp: archive_ok_def list_all_iff)
  moreover have "member_area ofl' = Some (Inr (base, sz))"
    using assms c by (intro member_area_outside [OF _ assms(2)]) (simp_all add: archive_ok_def)
  ultimately show ?thesis using assms c by (simp add: archive_ok_def outside_def)
qed

lemma behind_tile:
  assumes "at_tile base (h, c, n) ofl" "c + n < 2 ^ 32"
  shows "unat (o_member_offset ofl + rnd (ucast (o_member_size ofl)) 2) = c + n + n mod 2"
proof -
  have "unat (rnd (ucast (o_member_size ofl)) 2) = n + n mod 2"
    using rounded_eq [of "of_nat n"] assms
    by (simp add: at_tile_def rounded_def unsigned_of_nat take_bit_nat_eq_self)
  moreover have "unat (o_member_offset ofl) = c"
    using assms by (simp add: at_tile_def unsigned_of_nat take_bit_nat_eq_self)
  ultimately show ?thesis using assms(2) by (simp add: unat_word_ariths)
qed

text \<open>The cursor is on a member, and the other members follow.\<close>

definition on_member :: "ofile \<Rightarrow> nat \<Rightarrow> nat \<Rightarrow> (nat \<times> nat \<times> nat) list \<Rightarrow> bool" where
  "on_member ofl base sz ms \<longleftrightarrow>
     o_member_ar_hdr ofl \<noteq> Null \<and>
     archive_ok ofl base sz (unat (o_member_offset ofl + rnd (ucast (o_member_size ofl)) 2)) ms"

lemma on_member_tile:
  assumes "archive_ok ofl base sz offset ((offset, c, n) # ms)" "at_tile base (offset, c, n) ofl'"
    and "outside (base + c) (base + c + n) ofl ofl'"
  shows "on_member ofl' base sz ms"
proof -
  have "c + n < 2 ^ 32"
    by (rule archive_ok_tile [OF assms(1)]) (simp add: tile_in_def)
  from behind_tile [OF assms(2) this] archive_ok_step [OF assms(1,3)] assms(2) show ?thesis
    by (simp add: on_member_def at_tile_def)
qed

lemma ofile_next_member_last:
  "on_member ofl base sz [] \<Longrightarrow> ofile_next_member env ofl = next_cleanup ofl []"
  by (auto simp: on_member_def archive_ok_def ofile_next_member_def Let_def)

lemma ofile_next_member_tile:
  assumes "on_member ofl base sz (m # ms)" "bits_ok (env_bits env)" "ofile_next_member env ofl = Some (b, ofl', msgs)"
  shows "if b then at_tile base m ofl' \<and> on_member ofl' base sz ms else msgs \<noteq> []"
proof -
  let ?offset = "unat (o_member_offset ofl + rnd (ucast (o_member_size ofl)) 2)"
  have ok: "archive_ok ofl base sz ?offset (m # ms)" "o_member_ar_hdr ofl \<noteq> Null"
    using assms(1) by (simp_all add: on_member_def)
  obtain c n where m: "m = (?offset, c, n)" "tile_in ofl base sz (?offset, c, n)" "?offset < sz"
    by (rule archive_ok_tile [OF ok(1)])
  have "next_member env base sz ?offset ofl = Some (b, ofl', msgs)"
    using assms(3) ok m(3) by (auto simp: ofile_next_member_def archive_ok_def Let_def)
  from next_member_tile [OF this assms(2) m(2)] ok(1) on_member_tile [of ofl base sz ?offset c n ms ofl'] m(1)
  show ?thesis by (auto split: if_split_asm)
qed

lemma ofile_first_member_tile:
  assumes ok: "archive_ok ofl base sz SARMAG (m # ms)" and "bits_ok (env_bits env)" "\<not> foreign_table env ofl"
    and first: "ofile_first_member env ofl = Some (b, ofl', msgs)"
  shows "if b then at_tile base m ofl' \<and> on_member ofl' base sz ms else msgs \<noteq> []"
proof -
  let ?o = "clear_member ofl"
  have f: "outside j k ofl ?o" for j k
    by (simp add: clear_member_def free_member_buffer_def clear_object_def outside_def)
  have "o_file_addr ?o = o_file_addr ofl" "o_file_size ?o = o_file_size ofl" "o_mh ?o = Null" "o_mh64 ?o = Null"
    by (simp_all add: clear_member_def free_member_buffer_def clear_object_def)
  note f' = this
  have ok': "archive_ok ?o base sz SARMAG (m # ms)"
    using ok f' member_area_outside [OF _ f [of "base + SARMAG" 0]] by (simp add: archive_ok_def)
  obtain c n where m: "m = (SARMAG, c, n)" "tile_in ?o base sz (SARMAG, c, n)" "SARMAG < sz"
    by (rule archive_ok_tile [OF ok'])
  have "SARMAG + sizeof_ar_hdr \<le> sz" using m(2) by (simp add: tile_in_def)
  then have "first_member env base sz ?o = Some (b, ofl', msgs)"
    using first ok' m(3) by (auto simp: ofile_first_member_def archive_ok_def Let_def)
  from first_member_tile [OF this assms(2) m(2) f'(3,4)] assms(3) f'
  have "if b then at_tile base m ofl' \<and> outside (base + c) (base + c + n) ?o ofl' else msgs \<noteq> []"
    by (simp add: foreign_table_def m(1))
  then show ?thesis using ok' on_member_tile [of ?o base sz SARMAG c n ms ofl'] m(1) by (auto split: if_split_asm)
qed

lemma ofile_first_member_empty:
  assumes "archive_ok ofl base sz SARMAG []"
  shows "ofile_first_member env ofl = Some (False, clear_member ofl, [])"
proof -
  let ?o = "clear_member ofl"
  have out: "outside (base + SARMAG) 0 ofl ?o"
    by (simp add: clear_member_def free_member_buffer_def clear_object_def outside_def)
  have "member_area ofl = Some (Inr (base, SARMAG))" using assms by (simp add: archive_ok_def)
  from member_area_outside [OF this out] have "member_area ?o = Some (Inr (base, SARMAG))" by simp
  then show ?thesis by (simp add: ofile_first_member_def Let_def)
qed

text \<open>The two routines keep the contract of a cursor over the tiles.\<close>

interpretation members: cursor "ofile_first_member env" "ofile_next_member env"
    "\<lambda>ofl ms. archive_ok ofl base sz SARMAG ms \<and> bits_ok (env_bits env) \<and> \<not> foreign_table env ofl"
    "\<lambda>ofl ms. on_member ofl base sz ms \<and> bits_ok (env_bits env)" "at_tile base" for env base sz
proof unfold_locales
  fix ofl ofl' :: ofile and m ms b msgs
  show "\<exists>s'. ofile_first_member env ofl = Some (False, s', [])"
    if "archive_ok ofl base sz SARMAG [] \<and> bits_ok (env_bits env) \<and> \<not> foreign_table env ofl"
    using that ofile_first_member_empty by blast
  show "if b then at_tile base m ofl' \<and> on_member ofl' base sz ms \<and> bits_ok (env_bits env) else msgs \<noteq> []"
    if "archive_ok ofl base sz SARMAG (m # ms) \<and> bits_ok (env_bits env) \<and> \<not> foreign_table env ofl"
      "ofile_first_member env ofl = Some (b, ofl', msgs)"
    using ofile_first_member_tile [of ofl base sz m ms env b ofl' msgs] that by (simp split: if_split_asm)
  show "\<exists>s'. ofile_next_member env ofl = Some (False, s', [])" if "on_member ofl base sz [] \<and> bits_ok (env_bits env)"
    using that by (auto simp: ofile_next_member_last next_cleanup_def fatcleanup_def cleanup_def)
  show "if b then at_tile base m ofl' \<and> on_member ofl' base sz ms \<and> bits_ok (env_bits env) else msgs \<noteq> []"
    if "on_member ofl base sz (m # ms) \<and> bits_ok (env_bits env)" "ofile_next_member env ofl = Some (b, ofl', msgs)"
    using ofile_next_member_tile [of ofl base sz m ms env b ofl' msgs] that by (simp split: if_split_asm)
qed



section \<open>An example\<close>

definition sample_env :: environment where
  "sample_env = \<lparr>env_host = LE, env_bits = keep_bits, env_bitcode = \<lambda>_. None, env_erange = \<lambda>_. False\<rparr>"

abbreviation sample_archive :: ofile where
  "sample_archive \<equiv> archive_file (enc_archive sample_members)"

abbreviation sample_tiles :: "(nat \<times> nat \<times> nat) list" where
  "sample_tiles \<equiv> [(8, 73, 3), (77, 137, 32)]"

lemma sample_archive_ok: "archive_ok sample_archive 0 169 SARMAG sample_tiles" "bits_ok (env_bits sample_env)"
  "\<not> foreign_table sample_env sample_archive"
proof -
  have "member_area sample_archive = Some (Inr (0, 169))" "unat (o_file_size sample_archive) = 169"
    "length (o_file_addr sample_archive) = 169"
    "list_all (readable (drop 0 (o_file_addr sample_archive))) sample_tiles" by code_simp+
  then show "archive_ok sample_archive 0 169 SARMAG sample_tiles" by (simp add: archive_ok_def)
  show "bits_ok (env_bits sample_env)" by (simp add: sample_env_def keep_bits_ok)
  show "\<not> foreign_table sample_env sample_archive" by code_simp
qed

lemma sample_iterates: "\<exists>ofls. all_members sample_env sample_archive = Some (ofls, []) \<and> length ofls = 2"
proof -
  have "case all_members sample_env sample_archive of None \<Rightarrow> False | Some (ofls, msgs) \<Rightarrow> msgs = [] \<and> length ofls = 2"
    by code_simp
  then show ?thesis by (auto split: option.split_asm)
qed



section \<open>Limits\<close>

text \<open>A round of the search that leads to itself is never left.\<close>

lemma specific_walk_loops:
  assumes "specific_step env member_name base sz offset ofl = Inr (offset, ofl)" "offset < sz"
  shows "specific_walk env member_name base sz offset ofl = None"
proof (rule ccontr)
  assume "specific_walk env member_name base sz offset ofl \<noteq> None"
  then obtain r where "specific_walk env member_name base sz offset ofl = Some r" by auto
  then have "\<not> (specific_step env member_name base sz offset ofl = Inr (offset, ofl) \<and> offset < sz)"
    by (rule specific_walk.raw_induct [of "\<lambda>env member_name base sz offset ofl r.
        \<not> (specific_step env member_name base sz offset ofl = Inr (offset, ofl) \<and> offset < sz)", rotated])
      (auto split: if_split_asm sum.split_asm)
  with assms show False by simp
qed

text \<open>A member whose size is written as \<open>-60\<close>.\<close>

definition negative_size :: bytes where
  "negative_size = ARMAG @ pad 48 (ascii ''a'') @ pad 10 (ascii ''-60'') @ [96, 10] @ replicate 8 0"

text \<open>An archive in the format of System V with the string table behind an unaligned member.\<close>

definition sysv_members :: "ar_member list" where
  "sysv_members =
     [\<lparr>am_extended = False, am_name = ascii ''x'', am_info = replicate 32 48, am_data = [1, 2, 3, 4, 5, 6]\<rparr>,
      \<lparr>am_extended = False, am_name = ascii ''//'', am_info = replicate 32 48, am_data = ascii ''long.o/'' @ [10]\<rparr>]"


end
