(* ===== verification/Arch.thy ===== *)
theory Arch
  imports Machine Bytesex CLib
begin

text \<open>
  The table of architecture flags and the table of processors of
  \<^verbatim>\<open>cctools/libstuff/arch.c\<close>, with the lookups on them. \<open>abort()\<close> is the value \<open>None\<close> of the
  lookups of the processor table.
\<close>

section \<open>The tables\<close>

record arch_flag =
  af_name :: string
  af_cputype :: cpu_type_t
  af_cpusubtype :: cpu_subtype_t

abbreviation arch :: "string \<Rightarrow> cpu_type_t \<Rightarrow> cpu_subtype_t \<Rightarrow> arch_flag" where
  "arch name t s \<equiv> \<lparr>af_name = name, af_cputype = t, af_cpusubtype = s\<rparr>"

definition arch_flags :: "arch_flag list" where
  "arch_flags = [
     arch ''any'' CPU_TYPE_ANY CPU_SUBTYPE_MULTIPLE,
     arch ''little'' CPU_TYPE_ANY CPU_SUBTYPE_LITTLE_ENDIAN,
     arch ''big'' CPU_TYPE_ANY CPU_SUBTYPE_BIG_ENDIAN,
     arch ''ppc64'' CPU_TYPE_POWERPC64 CPU_SUBTYPE_POWERPC_ALL,
     arch ''x86_64'' CPU_TYPE_X86_64 CPU_SUBTYPE_X86_64_ALL,
     arch ''x86_64h'' CPU_TYPE_X86_64 CPU_SUBTYPE_X86_64_H,
     arch ''arm64'' CPU_TYPE_ARM64 CPU_SUBTYPE_ARM64_ALL,
     arch ''ppc970-64'' CPU_TYPE_POWERPC64 CPU_SUBTYPE_POWERPC_970,
     arch ''arm64_32'' CPU_TYPE_ARM64_32 CPU_SUBTYPE_ARM64_32_V8,
     arch ''arm64e'' CPU_TYPE_ARM64 CPU_SUBTYPE_ARM64E,
     arch ''ppc'' CPU_TYPE_POWERPC CPU_SUBTYPE_POWERPC_ALL,
     arch ''i386'' CPU_TYPE_I386 CPU_SUBTYPE_I386_ALL,
     arch ''m68k'' CPU_TYPE_MC680x0 CPU_SUBTYPE_MC680x0_ALL,
     arch ''hppa'' CPU_TYPE_HPPA CPU_SUBTYPE_HPPA_ALL,
     arch ''sparc'' CPU_TYPE_SPARC CPU_SUBTYPE_SPARC_ALL,
     arch ''m88k'' CPU_TYPE_MC88000 CPU_SUBTYPE_MC88000_ALL,
     arch ''i860'' CPU_TYPE_I860 CPU_SUBTYPE_I860_ALL,
     arch ''veo'' CPU_TYPE_VEO CPU_SUBTYPE_VEO_ALL,
     arch ''arm'' CPU_TYPE_ARM CPU_SUBTYPE_ARM_ALL,
     arch ''ppc601'' CPU_TYPE_POWERPC CPU_SUBTYPE_POWERPC_601,
     arch ''ppc603'' CPU_TYPE_POWERPC CPU_SUBTYPE_POWERPC_603,
     arch ''ppc603e'' CPU_TYPE_POWERPC CPU_SUBTYPE_POWERPC_603e,
     arch ''ppc603ev'' CPU_TYPE_POWERPC CPU_SUBTYPE_POWERPC_603ev,
     arch ''ppc604'' CPU_TYPE_POWERPC CPU_SUBTYPE_POWERPC_604,
     arch ''ppc604e'' CPU_TYPE_POWERPC CPU_SUBTYPE_POWERPC_604e,
     arch ''ppc750'' CPU_TYPE_POWERPC CPU_SUBTYPE_POWERPC_750,
     arch ''ppc7400'' CPU_TYPE_POWERPC CPU_SUBTYPE_POWERPC_7400,
     arch ''ppc7450'' CPU_TYPE_POWERPC CPU_SUBTYPE_POWERPC_7450,
     arch ''ppc970'' CPU_TYPE_POWERPC CPU_SUBTYPE_POWERPC_970,
     arch ''i486'' CPU_TYPE_I386 CPU_SUBTYPE_486,
     arch ''i486SX'' CPU_TYPE_I386 CPU_SUBTYPE_486SX,
     arch ''pentium'' CPU_TYPE_I386 CPU_SUBTYPE_PENT,
     arch ''i586'' CPU_TYPE_I386 CPU_SUBTYPE_586,
     arch ''pentpro'' CPU_TYPE_I386 CPU_SUBTYPE_PENTPRO,
     arch ''i686'' CPU_TYPE_I386 CPU_SUBTYPE_PENTPRO,
     arch ''pentIIm3'' CPU_TYPE_I386 CPU_SUBTYPE_PENTII_M3,
     arch ''pentIIm5'' CPU_TYPE_I386 CPU_SUBTYPE_PENTII_M5,
     arch ''pentium4'' CPU_TYPE_I386 CPU_SUBTYPE_PENTIUM_4,
     arch ''m68030'' CPU_TYPE_MC680x0 CPU_SUBTYPE_MC68030_ONLY,
     arch ''m68040'' CPU_TYPE_MC680x0 CPU_SUBTYPE_MC68040,
     arch ''hppa7100LC'' CPU_TYPE_HPPA CPU_SUBTYPE_HPPA_7100LC,
     arch ''veo1'' CPU_TYPE_VEO CPU_SUBTYPE_VEO_1,
     arch ''veo2'' CPU_TYPE_VEO CPU_SUBTYPE_VEO_2,
     arch ''veo3'' CPU_TYPE_VEO CPU_SUBTYPE_VEO_3,
     arch ''veo4'' CPU_TYPE_VEO CPU_SUBTYPE_VEO_4,
     arch ''armv4t'' CPU_TYPE_ARM CPU_SUBTYPE_ARM_V4T,
     arch ''armv5'' CPU_TYPE_ARM CPU_SUBTYPE_ARM_V5TEJ,
     arch ''xscale'' CPU_TYPE_ARM CPU_SUBTYPE_ARM_XSCALE,
     arch ''armv6'' CPU_TYPE_ARM CPU_SUBTYPE_ARM_V6,
     arch ''armv6m'' CPU_TYPE_ARM CPU_SUBTYPE_ARM_V6M,
     arch ''armv7'' CPU_TYPE_ARM CPU_SUBTYPE_ARM_V7,
     arch ''armv7f'' CPU_TYPE_ARM CPU_SUBTYPE_ARM_V7F,
     arch ''armv7s'' CPU_TYPE_ARM CPU_SUBTYPE_ARM_V7S,
     arch ''armv7k'' CPU_TYPE_ARM CPU_SUBTYPE_ARM_V7K,
     arch ''armv7m'' CPU_TYPE_ARM CPU_SUBTYPE_ARM_V7M,
     arch ''armv7em'' CPU_TYPE_ARM CPU_SUBTYPE_ARM_V7EM,
     arch ''arm64v8'' CPU_TYPE_ARM64 CPU_SUBTYPE_ARM64_V8]"

record cpu_entry =
  ce_cputype :: cpu_type_t
  ce_endian :: byte_sex
  ce_staddr :: u64
  ce_segalign :: u32

abbreviation cpu :: "cpu_type_t \<Rightarrow> byte_sex \<Rightarrow> u64 \<Rightarrow> u32 \<Rightarrow> cpu_entry" where
  "cpu t x a g \<equiv> \<lparr>ce_cputype = t, ce_endian = x, ce_staddr = a, ce_segalign = g\<rparr>"

definition cpu_entries :: "cpu_entry list" where
  "cpu_entries = [
     cpu CPU_TYPE_ARM64 LITTLE_ENDIAN_BYTE_SEX 0 0x4000,
     cpu CPU_TYPE_ARM64_32 LITTLE_ENDIAN_BYTE_SEX 0 0x4000,
     cpu CPU_TYPE_ARM LITTLE_ENDIAN_BYTE_SEX 0 0x4000,
     cpu CPU_TYPE_X86_64 LITTLE_ENDIAN_BYTE_SEX 0x7fff5fc00000 0x1000,
     cpu CPU_TYPE_I386 LITTLE_ENDIAN_BYTE_SEX 0xc0000000 0x1000,
     cpu CPU_TYPE_POWERPC BIG_ENDIAN_BYTE_SEX 0xc0000000 0x1000,
     cpu CPU_TYPE_POWERPC64 BIG_ENDIAN_BYTE_SEX 0x7ffff00000000 0x1000,
     cpu CPU_TYPE_VEO BIG_ENDIAN_BYTE_SEX 0xc0000000 0x1000,
     cpu CPU_TYPE_MC680x0 BIG_ENDIAN_BYTE_SEX 0x04000000 0x2000,
     cpu CPU_TYPE_MC88000 BIG_ENDIAN_BYTE_SEX 0xffffe000 0x2000,
     cpu CPU_TYPE_SPARC BIG_ENDIAN_BYTE_SEX 0xf0000000 0x2000,
     cpu CPU_TYPE_I860 BIG_ENDIAN_BYTE_SEX 0 0x2000,
     cpu CPU_TYPE_HPPA BIG_ENDIAN_BYTE_SEX 0 0x2000]"

section \<open>The lookups\<close>

text \<open>\<open>get_arch_from_flag\<close> returns 1 and fills in the flag, or returns 0.\<close>

definition get_arch_from_flag :: "string \<Rightarrow> arch_flag option" where
  "get_arch_from_flag name = find (\<lambda>f. af_name f = name) arch_flags"

definition get_arch_flags :: "arch_flag list" where
  "get_arch_flags = arch_flags"

definition get_arch_name_if_known :: "cpu_type_t \<Rightarrow> cpu_subtype_t \<Rightarrow> string option" where
  "get_arch_name_if_known cputype cpusubtype =
     map_option af_name
       (find (\<lambda>f. af_cputype f = cputype \<and> unmask (af_cpusubtype f) = unmask cpusubtype) arch_flags)"

definition get_arch_name_from_types :: "cpu_type_t \<Rightarrow> cpu_subtype_t \<Rightarrow> string" where
  "get_arch_name_from_types cputype cpusubtype =
     (case get_arch_name_if_known cputype cpusubtype of
        Some s \<Rightarrow> s
      | None \<Rightarrow> ''cputype '' @ decimal (unat cputype) @ '' cpusubtype '' @
                decimal (unat (unmask cpusubtype)))"

definition get_arch_family_from_cputype :: "cpu_type_t \<Rightarrow> arch_flag option" where
  "get_arch_family_from_cputype cputype =
     (if cputype = CPU_TYPE_ARM64 then None
      else find (\<lambda>f. af_cputype f = cputype) arch_flags)"

definition get_cpu_entry_from_cputype :: "cpu_type_t \<Rightarrow> cpu_entry option" where
  "get_cpu_entry_from_cputype cputype = find (\<lambda>c. ce_cputype c = cputype) cpu_entries"

definition get_byte_sex_from_flag :: "arch_flag \<Rightarrow> byte_sex option" where
  "get_byte_sex_from_flag flag = map_option ce_endian (get_cpu_entry_from_cputype (af_cputype flag))"

definition get_stack_addr_from_flag :: "arch_flag \<Rightarrow> u64 option" where
  "get_stack_addr_from_flag flag = map_option ce_staddr (get_cpu_entry_from_cputype (af_cputype flag))"

definition get_segalign_from_flag :: "arch_flag \<Rightarrow> u32 option" where
  "get_segalign_from_flag flag = map_option ce_segalign (get_cpu_entry_from_cputype (af_cputype flag))"

definition get_shared_region_size_from_flag :: "arch_flag \<Rightarrow> u32" where
  "get_shared_region_size_from_flag flag =
     (if af_cputype flag = CPU_TYPE_ARM then 0x08000000 else 0x10000000)"

definition force_cpusubtype_ALL_for_cputype :: "cpu_type_t \<Rightarrow> bool" where
  "force_cpusubtype_ALL_for_cputype cputype \<longleftrightarrow> cputype = CPU_TYPE_I386"

section \<open>Properties\<close>

lemma distinct_names: "distinct (map af_name arch_flags)"
  by code_simp

lemma find_name:
  "f \<in> set fs \<Longrightarrow> distinct (map af_name fs) \<Longrightarrow> find (\<lambda>g. af_name g = af_name f) fs = Some f"
  by (induction fs) auto

text \<open>C38. The names are unambiguous: the name that is printed for a processor type and subtype is accepted as
  a flag, and stands for that type and, up to feature flags, that subtype.\<close>

theorem arch_name_roundtrip:
  assumes "get_arch_name_if_known cputype cpusubtype = Some name"
  shows "\<exists>f. get_arch_from_flag name = Some f \<and> af_cputype f = cputype \<and>
    unmask (af_cpusubtype f) = unmask cpusubtype"
proof -
  from assms obtain f where f: "f \<in> set arch_flags" "af_name f = name" "af_cputype f = cputype"
    "unmask (af_cpusubtype f) = unmask cpusubtype"
    by (auto simp: get_arch_name_if_known_def find_Some_iff in_set_conv_nth)
  with find_name [OF f(1) distinct_names] show ?thesis
    by (auto simp: get_arch_from_flag_def)
qed

theorem arch_name_roundtrip_witness:
  "get_arch_name_if_known CPU_TYPE_ARM64 0x80000002 = Some ''arm64e'' \<and>
   (\<exists>f. get_arch_from_flag ''arm64e'' = Some f \<and> af_cputype f = CPU_TYPE_ARM64 \<and>
     unmask (af_cpusubtype f) = unmask 0x80000002)"
proof -
  have "get_arch_name_if_known CPU_TYPE_ARM64 0x80000002 = Some ''arm64e''" by code_simp
  with arch_name_roundtrip [OF this] show ?thesis by blast
qed

text \<open>For every flag of a real processor the byte sex, the stack address and the segment alignment are
  known, so the lookups do not abort, the byte sex is not the unknown one and the alignment is a page
  size of 4, 8 or 16 kilobytes; for the three flags of any processor they abort.\<close>

theorem cpu_entry_lookups:
  "\<forall>f \<in> set arch_flags.
     if af_cputype f = CPU_TYPE_ANY
     then get_byte_sex_from_flag f = None \<and> get_stack_addr_from_flag f = None \<and>
       get_segalign_from_flag f = None
     else get_byte_sex_from_flag f \<in> {Some BIG_ENDIAN_BYTE_SEX, Some LITTLE_ENDIAN_BYTE_SEX} \<and>
       get_stack_addr_from_flag f \<noteq> None \<and>
       get_segalign_from_flag f \<in> {Some 0x1000, Some 0x2000, Some 0x4000}"
  by code_simp

theorem cpu_entry_lookups_witness:
  "arch ''ppc64'' CPU_TYPE_POWERPC64 CPU_SUBTYPE_POWERPC_ALL \<in> set arch_flags \<and>
   get_byte_sex_from_flag (arch ''ppc64'' CPU_TYPE_POWERPC64 CPU_SUBTYPE_POWERPC_ALL) \<in>
     {Some BIG_ENDIAN_BYTE_SEX, Some LITTLE_ENDIAN_BYTE_SEX}"
proof -
  let ?f = "arch ''ppc64'' CPU_TYPE_POWERPC64 CPU_SUBTYPE_POWERPC_ALL"
  have "?f \<in> set arch_flags" by code_simp
  with cpu_entry_lookups show ?thesis by fastforce
qed

text \<open>The family of a processor type is a flag of the table with that type, and the name of its subtype.\<close>

lemma arch_family:
  assumes "get_arch_family_from_cputype cputype = Some f"
  shows "f \<in> set arch_flags \<and> af_cputype f = cputype \<and> cputype \<noteq> CPU_TYPE_ARM64 \<and>
    get_arch_name_if_known cputype (af_cpusubtype f) = Some (af_name f)"
proof -
  from assms have f: "find (\<lambda>f. af_cputype f = cputype) arch_flags = Some f" "cputype \<noteq> CPU_TYPE_ARM64"
    by (auto simp: get_arch_family_from_cputype_def split: if_splits)
  have "find (\<lambda>g. P g \<and> Q g) fs = Some f" if "find P fs = Some f" "Q f" for P Q and fs :: "arch_flag list"
    using that by (induction fs) (auto split: if_splits)
  from this [OF f(1), of "\<lambda>g. unmask (af_cpusubtype g) = unmask (af_cpusubtype f)"] f show ?thesis
    by (auto simp: get_arch_name_if_known_def find_Some_iff)
qed

end
