(* ===== verification/Arches.thy ===== *)
theory Arches
  imports OfileObject Arch
begin

text \<open>
  The iteration over the architectures of a fat file, or of a fat file that is a member of an archive, in
  \<^verbatim>\<open>cctools/libstuff/ofile.c\<close>: \<open>ofile_first_arch\<close>, \<open>ofile_next_arch\<close> and \<open>ofile_specific_arch\<close>; and the
  names of architectures in \<^verbatim>\<open>cctools/libstuff/set_arch_flag_name.c\<close>.

  The fat header and the array behind it are values of the structure: no slice is taken to overlap them.
\<close>

section \<open>Names\<close>

text \<open>A number as \<open>%d\<close> prints it.\<close>

definition signed_decimal :: "u32 \<Rightarrow> string" where
  "signed_decimal w = (if sint w < 0 then CHR ''-'' # decimal (nat (- sint w)) else decimal (nat (sint w)))"

text \<open>The name, and the size of the string that was allocated for it: that of the name in the table, or of a
  pattern with ten digits for each number.\<close>

definition arch_flag_pattern :: string where
  "arch_flag_pattern = ''cputype (1234567890) cpusubtype (1234567890)''"

definition set_arch_flag_name :: "cpu_type_t \<Rightarrow> cpu_subtype_t \<Rightarrow> string \<times> nat" where
  "set_arch_flag_name cputype cpusubtype =
     (case find (\<lambda>f. af_cputype f = cputype \<and> unmask (af_cpusubtype f) = unmask cpusubtype) get_arch_flags of
        Some f \<Rightarrow> (af_name f, length (af_name f))
      | None \<Rightarrow> (''cputype ('' @ signed_decimal cputype @ '') cpusubtype ('' @ signed_decimal cpusubtype @ '')'',
          length arch_flag_pattern))"

section \<open>Architectures\<close>

text \<open>The entry of the fat header for the current architecture.\<close>

definition arch_entry :: "ofile \<Rightarrow> fat_slice option" where
  "arch_entry ofl =
     (case o_fat_header ofl of
        None \<Rightarrow> None
      | Some fh \<Rightarrow>
          let i = unat (o_narch ofl) in
          if fh_magic fh = FAT_MAGIC_64 then
            if i < length (o_fat_archs64 ofl) then Some (slice_of_arch_64 (o_fat_archs64 ofl ! i)) else None
          else if i < length (o_fat_archs ofl) then Some (slice_of_arch (o_fat_archs ofl ! i)) else None)"

definition clear_arch :: "ofile \<Rightarrow> ofile" where
  "clear_arch ofl = clear_object (ofl\<lparr>o_arch_type := OFILE_UNKNOWN, o_arch_name := None, o_arch_cputype := 0,
     o_arch_cpusubtype := 0, o_archive_cputype := 0, o_archive_cpusubtype := 0\<rparr>)"

text \<open>The fields for a member are cleared, except for those of its name.\<close>

definition no_member :: "ofile \<Rightarrow> ofile" where
  "no_member ofl = ofl\<lparr>o_member_offset := 0, o_member_addr := Null, o_member_size := 0, o_member_ar_hdr := Null,
     o_member_type := OFILE_UNKNOWN\<rparr>"

definition arch_cleanup :: "ofile \<Rightarrow> ofile_error list \<Rightarrow> outcome" where
  "arch_cleanup ofl msgs =
     (let ofl = clear_arch (ofl\<lparr>o_narch := 0\<rparr>)
      in Some (False, if o_file_type ofl \<noteq> OFILE_ARCHIVE then no_member ofl else ofl, msgs))"

definition arch_object :: "environment \<Rightarrow> bool \<Rightarrow> bool \<Rightarrow> nat \<Rightarrow> u64 \<Rightarrow> ofile \<Rightarrow> ofile_error list \<Rightarrow> outcome" where
  "arch_object env is64 native addr sz ofl msgs =
     (let ofl = set_object (env_host env) is64 native (Mapped addr) (ucast sz) (ofl\<lparr>o_arch_type := OFILE_Mach_O\<rparr>)
      in case check_object env ofl of
           None \<Rightarrow> None
         | Some (Inl x) \<Rightarrow> arch_cleanup ofl (msgs @ [Object_Message x])
         | Some (Inr (ofl, ms)) \<Rightarrow> Some (True, ofl, msgs @ ms))"

text \<open>After an archive was found bad, its fields are taken to be unchanged.\<close>

definition arch_archive :: "environment \<Rightarrow> ofile \<Rightarrow> ofile_error list \<Rightarrow> outcome" where
  "arch_archive env ofl msgs =
     (let ofl = ofl\<lparr>o_arch_type := OFILE_ARCHIVE\<rparr>
      in case check_archive (env_host env) (env_erange env) False ofl of
           Inl x \<Rightarrow> if archive_crash x then None else arch_cleanup ofl (msgs @ [Archive_Message x])
         | Inr (ofl, ms) \<Rightarrow> Some (True, ofl, msgs @ map Archive_Message ms))"

definition arch_bitcode :: "environment \<Rightarrow> nat \<Rightarrow> u64 \<Rightarrow> ofile \<Rightarrow> ofile_error list \<Rightarrow> outcome" where
  "arch_bitcode env addr sz ofl msgs =
     (case is_llvm_bitcode env (Mapped addr) (unat (ucast sz :: u32)) ofl of
        None \<Rightarrow> None
      | Some (False, ofl) \<Rightarrow> Some (True, ofl\<lparr>o_arch_type := OFILE_UNKNOWN\<rparr>, msgs)
      | Some (True, ofl) \<Rightarrow> Some (True, ofl\<lparr>o_arch_type := OFILE_LLVM_BITCODE, o_object_addr := Mapped addr,
          o_object_size := ucast sz\<rparr>, msgs))"

text \<open>The magic number is read only when there is room for a header.\<close>

definition arch_magic :: "environment \<Rightarrow> bytes \<Rightarrow> u64 \<Rightarrow> u32 option" where
  "arch_magic env mem sz =
     (if sz \<ge> of_nat sizeof_mach_header then if length mem < 4 then None else Some (get32 (env_host env) mem 0)
      else Some 0)"

definition arch_contents :: "environment \<Rightarrow> nat \<Rightarrow> u64 \<Rightarrow> ofile \<Rightarrow> ofile_error list \<Rightarrow> outcome" where
  "arch_contents env addr sz ofl msgs =
     (let mem = drop addr (o_file_addr ofl)
      in case arch_magic env mem sz of
             None \<Rightarrow> None
           | Some magic \<Rightarrow>
               if sz \<ge> of_nat sizeof_mach_header \<and> (magic = MH_MAGIC \<or> magic = SWAP_INT MH_MAGIC)
               then arch_object env False (magic = MH_MAGIC) addr sz ofl msgs
               else if sz \<ge> of_nat sizeof_mach_header_64 \<and> (magic = MH_MAGIC_64 \<or> magic = SWAP_INT MH_MAGIC_64)
               then arch_object env True (magic = MH_MAGIC_64) addr sz ofl msgs
               else if sz \<ge> of_nat SARMAG then
                 (case strncmp_eq mem ARMAG SARMAG of
                    None \<Rightarrow> None
                  | Some True \<Rightarrow> arch_archive env ofl msgs
                  | Some False \<Rightarrow> arch_bitcode env addr sz ofl msgs)
               else arch_bitcode env addr sz ofl msgs)"

text \<open>Whether the structure is for a fat file or for a fat member.\<close>

definition is_fat :: "ofile \<Rightarrow> bool" where
  "is_fat ofl \<longleftrightarrow> o_file_type ofl = OFILE_FAT \<or> o_file_type ofl = OFILE_ARCHIVE \<and> o_member_type ofl = OFILE_FAT"

definition ofile_specific_arch :: "environment \<Rightarrow> ofile \<Rightarrow> u32 \<Rightarrow> outcome" where
  "ofile_specific_arch env ofl narch =
     (let ofl = clear_arch (ofl\<lparr>o_narch := narch\<rparr>) in
      case arch_entry ofl of
        None \<Rightarrow> None
      | Some s \<Rightarrow>
          let ofl = ofl\<lparr>o_arch_cputype := fs_cputype s, o_arch_cpusubtype := fs_cpusubtype s,
                o_arch_name := Some (fst (set_arch_flag_name (fs_cputype s) (fs_cpusubtype s)))\<rparr>;
              ofl = (if o_file_type ofl = OFILE_FAT then no_member ofl else ofl);
              msgs = (if is_fat ofl then [] else [Not_A_Fat_File]);
              addr = (if o_file_type ofl = OFILE_FAT then unat (fs_offset s)
                      else unat (o_member_offset ofl) + unat (fs_offset s))
          in arch_contents env addr (fs_size s) ofl msgs)"

definition ofile_first_arch :: "environment \<Rightarrow> ofile \<Rightarrow> outcome" where
  "ofile_first_arch env ofl =
     (if is_fat ofl then ofile_specific_arch env ofl 0 else Some (False, ofl, [Not_A_Fat_File]))"

definition ofile_next_arch :: "environment \<Rightarrow> ofile \<Rightarrow> outcome" where
  "ofile_next_arch env ofl =
     (if is_fat ofl then
        (case o_fat_header ofl of
           None \<Rightarrow> None
         | Some fh \<Rightarrow>
             if o_narch ofl + 1 < fh_nfat_arch fh then ofile_specific_arch env ofl (o_narch ofl + 1)
             else Some (False, ofl, []))
      else Some (False, ofl, [Not_A_Fat_File]))"

section \<open>Names of architectures\<close>

text \<open>The name of an architecture that is not in the table may be longer than the string that was allocated for
  it: ten characters are reserved for a number, and a negative one may have eleven.\<close>

lemma set_arch_flag_name_overflow:
  "length (fst (set_arch_flag_name 0x80000000 0x80000000)) = snd (set_arch_flag_name 0x80000000 0x80000000) + 2"
proof -
  have "find (\<lambda>f. af_cputype f = 0x80000000 \<and> unmask (af_cpusubtype f) = unmask 0x80000000) get_arch_flags = None"
    by code_simp
  moreover have "length (signed_decimal 0x80000000) = 11"
    by (simp add: signed_decimal_def decimal.simps)
  ultimately show ?thesis by (simp add: set_arch_flag_name_def arch_flag_pattern_def)
qed

end
