(* ===== verification/Arches_Correct.thy ===== *)
theory Arches_Correct
  imports Arches Cursor
begin

text \<open>
  The iteration over the architectures of a fat file visits the entries of the fat header in their order, and each
  of them with the processor type and the place in the file that the entry gives (\<open>archs_visited\<close>).
\<close>

section \<open>What the routines keep\<close>

text \<open>The fat header and the choice of the architecture.\<close>

definition same_fat :: "ofile \<Rightarrow> ofile \<Rightarrow> bool" where
  "same_fat a b \<longleftrightarrow>
     o_fat_header b = o_fat_header a \<and> o_fat_archs b = o_fat_archs a \<and> o_fat_archs64 b = o_fat_archs64 a \<and>
     o_file_type b = o_file_type a \<and> o_file_size b = o_file_size a \<and>
     (o_file_type a = OFILE_ARCHIVE \<longrightarrow> o_member_type b = o_member_type a)"

definition same_arch :: "ofile \<Rightarrow> ofile \<Rightarrow> bool" where
  "same_arch a b \<longleftrightarrow>
     same_fat a b \<and> o_narch b = o_narch a \<and> o_arch_cputype b = o_arch_cputype a \<and>
     o_arch_cpusubtype b = o_arch_cpusubtype a \<and> o_arch_name b = o_arch_name a \<and>
     (o_file_type a = OFILE_FAT \<longrightarrow> o_member_offset b = 0 \<or> o_member_offset b = o_member_offset a)"

lemma check_object_same:
  assumes "check_object env ofl = Some (Inr (ofl', msgs))"
  shows "same_arch ofl ofl' \<and> o_arch_type ofl' = o_arch_type ofl \<and> o_object_addr ofl' = o_object_addr ofl \<and>
    o_object_size ofl' = o_object_size ofl"
proof -
  obtain e swapped hdr p bs where "ofl' = note_header e swapped hdr (store ofl p bs)"
    using assms unfolding check_object_def Let_def
    by (auto split: if_split_asm sum.split_asm prod.split_asm option.split_asm)
  then show ?thesis
    by (simp add: note_header_def store_def same_arch_def same_fat_def Let_def split: pointer.split option.split)
qed

lemma check_archive_same:
  assumes "check_archive e erange fat_objects ofl = Inr (ofl', msgs)"
  shows "same_arch ofl ofl' \<and> o_arch_type ofl' = o_arch_type ofl"
  using assms unfolding check_archive_def
  by (auto simp: andthen_eq_Inr Let_def same_arch_def same_fat_def split: if_split_asm option.split_asm bool.split_asm)

section \<open>The iteration\<close>

text \<open>The cursor is on the entry \<open>s\<close> with the index \<open>i\<close>.\<close>

definition at_arch :: "nat \<times> fat_slice \<Rightarrow> ofile \<Rightarrow> bool" where
  "at_arch m ofl \<longleftrightarrow>
     (case m of (i, s) \<Rightarrow>
        o_narch ofl = of_nat i \<and> o_arch_cputype ofl = fs_cputype s \<and> o_arch_cpusubtype ofl = fs_cpusubtype s \<and>
        o_arch_name ofl = Some (fst (set_arch_flag_name (fs_cputype s) (fs_cpusubtype s))) \<and>
        (o_arch_type ofl = OFILE_Mach_O \<and> o_file_type ofl = OFILE_FAT \<longrightarrow>
           o_object_addr ofl = Mapped (unat (fs_offset s)) \<and> o_object_size ofl = ucast (fs_size s)))"

lemma arch_contents_result:
  assumes "arch_contents env addr sz ofl [] = Some (b, ofl', msgs)"
  shows "if b then same_arch ofl ofl' \<and> (o_arch_type ofl' = OFILE_Mach_O \<longrightarrow>
      o_object_addr ofl' = Mapped addr \<and> o_object_size ofl' = ucast sz) else msgs \<noteq> []"
proof -
  have object: ?thesis if "arch_object env is64 native addr sz ofl [] = Some (b, ofl', msgs)" for is64 native
  proof -
    let ?o = "set_object (env_host env) is64 native (Mapped addr) (ucast sz) (ofl\<lparr>o_arch_type := OFILE_Mach_O\<rparr>)"
    have o: "same_arch ofl ?o" "o_object_addr ?o = Mapped addr" "o_object_size ?o = ucast sz"
      by (simp_all add: set_object_def Let_def same_arch_def same_fat_def)
    show ?thesis
      using that o check_object_same [of env ?o ofl' msgs] unfolding arch_object_def Let_def
      by (auto simp: arch_cleanup_def Let_def same_arch_def same_fat_def
          split: option.split_asm sum.split_asm)
  qed
  have archive: ?thesis if "arch_archive env ofl [] = Some (b, ofl', msgs)"
    using that check_archive_same [of "env_host env" "env_erange env" False "ofl\<lparr>o_arch_type := OFILE_ARCHIVE\<rparr>" ofl']
    unfolding arch_archive_def Let_def
    by (auto simp: arch_cleanup_def Let_def same_arch_def same_fat_def
        split: if_split_asm sum.split_asm prod.split_asm)
  have bitcode: ?thesis if "arch_bitcode env addr sz ofl [] = Some (b, ofl', msgs)"
    using that by (auto simp: arch_bitcode_def is_llvm_bitcode_def clear_lto_def same_arch_def same_fat_def
        split: option.split_asm prod.split_asm bool.split_asm)
  from assms have "(\<exists>is64 native. arch_object env is64 native addr sz ofl [] = Some (b, ofl', msgs)) \<or>
      arch_archive env ofl [] = Some (b, ofl', msgs) \<or> arch_bitcode env addr sz ofl [] = Some (b, ofl', msgs)"
    unfolding arch_contents_def Let_def by (auto split: option.split_asm if_split_asm bool.split_asm)
  then show ?thesis using object archive bitcode by blast
qed

lemma fat_slices_same:
  "o_fat_archs b = o_fat_archs a \<Longrightarrow> o_fat_archs64 b = o_fat_archs64 a \<Longrightarrow> fat_slices fh b = fat_slices fh a"
  by (simp add: fat_slices_def)

lemma arch_entry_slices:
  assumes "o_fat_header ofl = Some fh" "fat_slices fh ofl = Inr ss" "unat (o_narch ofl) < length ss"
  shows "arch_entry ofl = Some (ss ! unat (o_narch ofl))"
  using assms by (auto simp: arch_entry_def fat_slices_def Let_def split: if_split_asm)

lemma ofile_specific_arch_result:
  assumes "ofile_specific_arch env ofl narch = Some (b, ofl', msgs)" "is_fat ofl"
    and "o_fat_header ofl = Some fh" "fat_slices fh ofl = Inr ss" "unat narch < length ss"
  shows "if b then at_arch (unat narch, ss ! unat narch) ofl' \<and> is_fat ofl' \<and> same_fat ofl ofl' \<and> o_narch ofl' = narch
    else msgs \<noteq> []"
proof -
  let ?o = "clear_arch (ofl\<lparr>o_narch := narch\<rparr>)"
  let ?s = "ss ! unat narch"
  have o: "o_fat_header ?o = Some fh" "fat_slices fh ?o = Inr ss" "o_narch ?o = narch" "same_fat ofl ?o"
    using assms(3,4) fat_slices_same [of ?o ofl fh] by (simp_all add: clear_arch_def clear_object_def same_fat_def)
  then have entry: "arch_entry ?o = Some ?s" using arch_entry_slices [of ?o fh ss] assms(5) by simp
  define o1 where "o1 = ?o\<lparr>o_arch_cputype := fs_cputype ?s, o_arch_cpusubtype := fs_cpusubtype ?s,
      o_arch_name := Some (fst (set_arch_flag_name (fs_cputype ?s) (fs_cpusubtype ?s)))\<rparr>"
  define o2 where "o2 = (if o_file_type o1 = OFILE_FAT then no_member o1 else o1)"
  have fat: "is_fat o2" "same_fat ofl o2" "o_narch o2 = narch" "o_file_type o2 = o_file_type ofl"
    "o_arch_cputype o2 = fs_cputype ?s" "o_arch_cpusubtype o2 = fs_cpusubtype ?s"
    "o_arch_name o2 = Some (fst (set_arch_flag_name (fs_cputype ?s) (fs_cpusubtype ?s)))"
    using assms(2) o(4)
    by (auto simp: o2_def o1_def is_fat_def no_member_def clear_arch_def clear_object_def same_fat_def)
  have c: "arch_contents env (if o_file_type o2 = OFILE_FAT then unat (fs_offset ?s)
      else unat (o_member_offset o2) + unat (fs_offset ?s)) (fs_size ?s) o2 [] = Some (b, ofl', msgs)"
    using assms(1) entry fat(1) unfolding ofile_specific_arch_def Let_def o2_def o1_def by simp
  from arch_contents_result [OF c] fat show ?thesis
    by (auto simp: at_arch_def same_arch_def same_fat_def is_fat_def split: if_split_asm)
qed

definition archs_of :: "ofile \<Rightarrow> (nat \<times> fat_slice) list" where
  "archs_of ofl =
     (case o_fat_header ofl of
        None \<Rightarrow> []
      | Some fh \<Rightarrow> (case fat_slices fh ofl of Inl _ \<Rightarrow> [] | Inr ss \<Rightarrow> enumerate 0 ss))"

lemma archs_of_same: "same_fat a b \<Longrightarrow> archs_of b = archs_of a"
  by (cases "o_fat_header a") (simp_all add: archs_of_def same_fat_def fat_slices_def Let_def)

lemma archs_ofE:
  assumes "unat n < length (archs_of ofl)"
  obtains fh ss where "o_fat_header ofl = Some fh" "fat_slices fh ofl = Inr ss" "archs_of ofl = enumerate 0 ss"
    "length ss = unat (fh_nfat_arch fh)" "unat n < length ss" "archs_of ofl ! unat n = (unat n, ss ! unat n)"
proof -
  obtain fh ss where s: "o_fat_header ofl = Some fh" "fat_slices fh ofl = Inr ss" "archs_of ofl = enumerate 0 ss"
    using assms by (auto simp: archs_of_def split: option.split_asm sum.split_asm)
  moreover have "length ss = unat (fh_nfat_arch fh)"
    using s(2) by (auto simp: fat_slices_def Let_def split: if_split_asm)
  ultimately show thesis using assms that by (simp add: nth_enumerate_eq)
qed

text \<open>The entries that follow the current one.\<close>

definition on_arch :: "ofile \<Rightarrow> (nat \<times> fat_slice) list \<Rightarrow> bool" where
  "on_arch ofl ms \<longleftrightarrow>
     is_fat ofl \<and> unat (o_narch ofl) < length (archs_of ofl) \<and> ms = drop (Suc (unat (o_narch ofl))) (archs_of ofl)"

lemma specific_arch_on:
  assumes "ofile_specific_arch env ofl n = Some (b, ofl', msgs)" "is_fat ofl" "unat n < length (archs_of ofl)"
  shows "if b then at_arch (archs_of ofl ! unat n) ofl' \<and> on_arch ofl' (drop (Suc (unat n)) (archs_of ofl)) else msgs \<noteq> []"
proof -
  obtain fh ss where s: "o_fat_header ofl = Some fh" "fat_slices fh ofl = Inr ss" "unat n < length ss"
    "archs_of ofl ! unat n = (unat n, ss ! unat n)" using assms(3) by (elim archs_ofE)
  from ofile_specific_arch_result [OF assms(1,2) s(1-3)] s(4) assms(3) show ?thesis
    by (auto simp: on_arch_def dest: archs_of_same split: if_split_asm)
qed

lemma unat_Suc_less:
  assumes "unat (n :: u32) < unat (m :: u32)"
  shows "unat (n + 1) = Suc (unat n)"
proof -
  have "unat m < 2 ^ 32" by (rule unat_u32_less)
  with assms show ?thesis by (simp add: unat_word_ariths)
qed

lemma next_arch_on:
  assumes "on_arch ofl ms"
  shows "ofile_next_arch env ofl =
    (if ms = [] then Some (False, ofl, []) else ofile_specific_arch env ofl (o_narch ofl + 1))"
    "ms \<noteq> [] \<Longrightarrow> unat (o_narch ofl + 1) = Suc (unat (o_narch ofl))"
    "ms \<noteq> [] \<Longrightarrow> Suc (unat (o_narch ofl)) < length (archs_of ofl)"
proof -
  have n: "is_fat ofl" "unat (o_narch ofl) < length (archs_of ofl)" "ms = drop (Suc (unat (o_narch ofl))) (archs_of ofl)"
    using assms by (simp_all add: on_arch_def)
  obtain fh ss where s: "o_fat_header ofl = Some fh" "archs_of ofl = enumerate 0 ss" "length ss = unat (fh_nfat_arch fh)"
    using n(2) by (elim archs_ofE)
  have less: "unat (o_narch ofl) < unat (fh_nfat_arch fh)" using n(2) s by simp
  then show "unat (o_narch ofl + 1) = Suc (unat (o_narch ofl))" by (rule unat_Suc_less)
  with n s show "ms \<noteq> [] \<Longrightarrow> Suc (unat (o_narch ofl)) < length (archs_of ofl)" by simp
  show "ofile_next_arch env ofl =
    (if ms = [] then Some (False, ofl, []) else ofile_specific_arch env ofl (o_narch ofl + 1))"
    using n s unat_Suc_less [OF less] by (simp add: ofile_next_arch_def word_less_nat_alt)
qed

interpretation archs: cursor "ofile_first_arch env" "ofile_next_arch env"
    "\<lambda>ofl ms. is_fat ofl \<and> ms \<noteq> [] \<and> ms = archs_of ofl" on_arch at_arch for env
proof unfold_locales
  fix ofl ofl' :: ofile and m ms b msgs
  show "if b then at_arch m ofl' \<and> on_arch ofl' ms else msgs \<noteq> []"
    if "is_fat ofl \<and> m # ms \<noteq> [] \<and> m # ms = archs_of ofl" "ofile_first_arch env ofl = Some (b, ofl', msgs)"
  proof -
    have "archs_of ofl = m # ms" using that(1) by simp
    moreover have "ofile_specific_arch env ofl 0 = Some (b, ofl', msgs)" "is_fat ofl"
      using that by (simp_all add: ofile_first_arch_def)
    ultimately show ?thesis using specific_arch_on [of env ofl 0 b ofl' msgs] by (auto split: if_split_asm)
  qed
  show "\<exists>s'. ofile_next_arch env ofl = Some (False, s', [])" if "on_arch ofl []"
    using next_arch_on(1) [OF that] by simp
  show "if b then at_arch m ofl' \<and> on_arch ofl' ms else msgs \<noteq> []"
    if "on_arch ofl (m # ms)" "ofile_next_arch env ofl = Some (b, ofl', msgs)"
  proof -
    note n = next_arch_on [OF that(1)]
    have "ofile_specific_arch env ofl (o_narch ofl + 1) = Some (b, ofl', msgs)" using n(1) that(2) by simp
    moreover have "is_fat ofl" "m # ms = drop (Suc (unat (o_narch ofl))) (archs_of ofl)"
      using that(1) by (simp_all add: on_arch_def)
    moreover have "drop (Suc (unat (o_narch ofl))) (archs_of ofl) =
        archs_of ofl ! Suc (unat (o_narch ofl)) # drop (Suc (Suc (unat (o_narch ofl)))) (archs_of ofl)"
      using n(3) by (simp add: Cons_nth_drop_Suc)
    ultimately show ?thesis using specific_arch_on [of env ofl "o_narch ofl + 1" b ofl' msgs] n(2,3)
      by (auto split: if_split_asm)
  qed
qed simp


text \<open>A fat file with an object for the 68030 and one for the i386, both without load commands.\<close>

definition empty_object :: "endian \<Rightarrow> cpu_type_t \<Rightarrow> bytes" where
  "empty_object e cputype = put32 e MH_MAGIC @ put32 e cputype @ put32 e 3 @ replicate 16 0"

definition fat_sample :: ofile where
  "fat_sample = zero_ofile\<lparr>o_file_addr := replicate 48 0 @ empty_object BE CPU_TYPE_MC680x0 @ replicate 4 0 @
       empty_object LE CPU_TYPE_I386, o_file_size := 108, o_file_type := OFILE_FAT,
     o_fat_header := Some \<lparr>fh_magic = FAT_MAGIC, fh_nfat_arch = 2\<rparr>,
     o_fat_archs := [\<lparr>fa_cputype = CPU_TYPE_MC680x0, fa_cpusubtype = 3, fa_offset = 48, fa_size = 28, fa_align = 2\<rparr>,
       \<lparr>fa_cputype = CPU_TYPE_I386, fa_cpusubtype = 3, fa_offset = 80, fa_size = 28, fa_align = 4\<rparr>]\<rparr>"

definition fat_env :: environment where
  "fat_env = \<lparr>env_host = LE, env_bits = \<lambda>_ bs. bs, env_bitcode = \<lambda>_. None, env_erange = \<lambda>_. False\<rparr>"


end
