(* ===== verification/MapFile.thy ===== *)
theory MapFile
  imports Members Arches
begin

text \<open>
  \<open>ofile_map_from_memory\<close> of \<^verbatim>\<open>cctools/libstuff/ofile.c\<close>, which finds out what a mapped file is, checks it and sets
  up the structure to the level the caller asks for: a file, an architecture of it (\<open>arch_flag\<close>), a member of an
  archive (\<open>object_name\<close>). \<open>ofile_unmap\<close> clears the structure, so that a call that fails leaves nothing behind.

  What \<open>get_arch_from_host\<close> asks the operating system for is the parameter \<open>host_arch\<close>. A message that names
  the architecture reads \<open>arch_flag\<close>, which is a crash when there is none.
\<close>

section \<open>Results\<close>

definition ofile_unmap :: ofile where
  "ofile_unmap = zero_ofile"

definition unmapped :: "ofile_error list \<Rightarrow> outcome" where
  "unmapped msgs = Some (False, ofile_unmap, msgs)"

text \<open>The object that begins at \<open>addr\<close> is checked, and \<open>cont\<close> goes on with an accepted one.\<close>

definition map_object ::
  "environment \<Rightarrow> bool \<Rightarrow> bool \<Rightarrow> nat \<Rightarrow> u64 \<Rightarrow> ofile \<Rightarrow> (ofile \<Rightarrow> ofile_error list \<Rightarrow> outcome) \<Rightarrow> outcome" where
  "map_object env is64 native addr sz ofl cont =
     (case check_object env (set_object (env_host env) is64 native (Mapped addr) (ucast sz) ofl) of
        None \<Rightarrow> None
      | Some (Inl x) \<Rightarrow> unmapped [Object_Message x]
      | Some (Inr (ofl, ms)) \<Rightarrow> cont ofl ms)"

definition map_archive ::
  "environment \<Rightarrow> bool \<Rightarrow> ofile \<Rightarrow> (ofile \<Rightarrow> ofile_error list \<Rightarrow> outcome) \<Rightarrow> outcome" where
  "map_archive env fat_objects ofl cont =
     (case check_archive (env_host env) (env_erange env) fat_objects ofl of
        Inl x \<Rightarrow> if archive_crash x then None else unmapped [Archive_Message x]
      | Inr (ofl, ms) \<Rightarrow> cont ofl (map Archive_Message ms))"

definition map_member ::
  "environment \<Rightarrow> bytes \<Rightarrow> ofile \<Rightarrow> ofile_error list \<Rightarrow> (ofile \<Rightarrow> ofile_error list \<Rightarrow> outcome) \<Rightarrow> outcome" where
  "map_member env name ofl ms cont =
     (case ofile_specific_member env name ofl of
        None \<Rightarrow> None
      | Some (False, _, ms2) \<Rightarrow> unmapped (ms @ ms2)
      | Some (True, ofl, ms2) \<Rightarrow> cont ofl (ms @ ms2))"

section \<open>Architectures\<close>

text \<open>The test of the architecture of a file that is not fat. Only a file that differs in both the processor type and
  the subtype is refused.\<close>

definition flag_mismatch :: "arch_flag \<Rightarrow> cpu_type_t \<Rightarrow> cpu_subtype_t \<Rightarrow> bool" where
  "flag_mismatch f cputype cpusubtype \<longleftrightarrow>
     af_cputype f \<noteq> cputype \<and> unmask (af_cpusubtype f) \<noteq> unmask cpusubtype"

definition match_flag ::
  "arch_flag option \<Rightarrow> cpu_type_t \<Rightarrow> cpu_subtype_t \<Rightarrow> ofile \<Rightarrow> ofile_error list \<Rightarrow> outcome" where
  "match_flag arch_flag cputype cpusubtype ofl ms =
     (case arch_flag of
        None \<Rightarrow> Some (True, ofl, ms)
      | Some f \<Rightarrow>
          if flag_mismatch f cputype cpusubtype then unmapped (ms @ [Arch_Flag_Mismatch]) else Some (True, ofl, ms))"

text \<open>The search for an entry of the fat header: for the subtype, and then for any subtype when the one that is asked
  for stands for the family. The result is the index and the subtype.\<close>

definition choose_arch :: "arch_flag \<Rightarrow> fat_slice list \<Rightarrow> (nat \<times> cpu_subtype_t) option" where
  "choose_arch f ss =
     (let same = (\<lambda>s. unmask (fs_cpusubtype s) = unmask (af_cpusubtype f)) in
      case find_index (\<lambda>s. fs_cputype s = af_cputype f \<and> same s) ss of
        Some i \<Rightarrow> Some (i, af_cpusubtype f)
      | None \<Rightarrow>
          let family = (case get_arch_family_from_cputype (af_cputype f) of
                None \<Rightarrow> False
              | Some g \<Rightarrow> unmask (af_cpusubtype g) = unmask (af_cpusubtype f))
          in map_option (\<lambda>i. (i, fs_cpusubtype (ss ! i)))
               (find_index (\<lambda>s. fs_cputype s = af_cputype f \<and> (family \<or> same s)) ss))"

text \<open>A message with the name of the architecture.\<close>

definition named_error :: "arch_flag option \<Rightarrow> ofile_error list \<Rightarrow> outcome" where
  "named_error arch_flag msgs = (if arch_flag = None then None else unmapped msgs)"

section \<open>Fat files\<close>

text \<open>The slice of a fat file.\<close>

definition map_slice ::
  "environment \<Rightarrow> arch_flag option \<Rightarrow> bytes option \<Rightarrow> fat_slice \<Rightarrow> ofile \<Rightarrow> outcome" where
  "map_slice env arch_flag object_name s ofl =
     (let addr = unat (fs_offset s); sz = fs_size s; mem = drop addr (o_file_addr ofl);
          unnamed = (\<lambda>ofl ms. if object_name = None then Some (True, ofl, ms)
                              else named_error arch_flag (ms @ [Name_Needs_Archive]))
      in case arch_magic env mem sz of
                None \<Rightarrow> None
              | Some magic \<Rightarrow>
                  if sz \<ge> of_nat sizeof_mach_header \<and> (magic = MH_MAGIC \<or> magic = SWAP_INT MH_MAGIC)
                  then map_object env False (magic = MH_MAGIC) addr sz (ofl\<lparr>o_arch_type := OFILE_Mach_O\<rparr>) unnamed
                  else if sz \<ge> of_nat sizeof_mach_header_64 \<and> (magic = MH_MAGIC_64 \<or> magic = SWAP_INT MH_MAGIC_64)
                  then map_object env True (magic = MH_MAGIC_64) addr sz (ofl\<lparr>o_arch_type := OFILE_Mach_O\<rparr>) unnamed
                  else
                    (case (if sz \<ge> of_nat SARMAG then strncmp_eq mem ARMAG SARMAG else Some False) of
                       None \<Rightarrow> None
                     | Some True \<Rightarrow> map_archive env False (ofl\<lparr>o_arch_type := OFILE_ARCHIVE\<rparr>) (\<lambda>ofl ms.
                         case object_name of
                           None \<Rightarrow> Some (True, ofl, ms)
                         | Some name \<Rightarrow> map_member env name ofl ms (\<lambda>ofl ms. Some (True, ofl, ms)))
                     | Some False \<Rightarrow> unnamed (ofl\<lparr>o_file_type := OFILE_UNKNOWN\<rparr>) []))"

definition map_fat_arch ::
  "environment \<Rightarrow> arch_flag option \<Rightarrow> arch_flag \<Rightarrow> bytes option \<Rightarrow> fat_slice list \<Rightarrow> ofile \<Rightarrow> outcome" where
  "map_fat_arch env arch_flag f object_name ss ofl =
     (let ofl = ofl\<lparr>o_arch_name := Some (af_name f), o_arch_cputype := af_cputype f,
        o_arch_cpusubtype := af_cpusubtype f\<rparr>
      in case choose_arch f ss of
           None \<Rightarrow> named_error arch_flag [No_Such_Architecture]
         | Some (i, cpusubtype) \<Rightarrow>
             map_slice env arch_flag object_name (ss ! i)
               (ofl\<lparr>o_narch := of_nat i, o_arch_cpusubtype := cpusubtype\<rparr>))"

text \<open>An accepted fat header; without an architecture and a name, all is done.\<close>

definition map_fat ::
  "environment \<Rightarrow> arch_flag option \<Rightarrow> arch_flag option \<Rightarrow> bytes option \<Rightarrow> fat_header \<Rightarrow> ofile \<Rightarrow> outcome" where
  "map_fat env host_arch arch_flag object_name fh ofl =
     (case check_fat ofl of
        Inl x \<Rightarrow> if x = Archs_Fault then None else unmapped [Fat_Message x]
      | Inr _ \<Rightarrow>
          if arch_flag = None \<and> object_name = None then Some (True, ofl, [])
          else
            (case fat_slices fh ofl of
               Inl _ \<Rightarrow> None
             | Inr ss \<Rightarrow>
                 (case (if arch_flag = None then host_arch else arch_flag) of
                    None \<Rightarrow> unmapped [Host_Architecture_Unknown]
                  | Some f \<Rightarrow> map_fat_arch env arch_flag f object_name ss ofl)))"

section \<open>Files that are not fat\<close>

definition map_unknown :: "environment \<Rightarrow> arch_flag option \<Rightarrow> bytes option \<Rightarrow> ofile \<Rightarrow> outcome" where
  "map_unknown env arch_flag object_name ofl =
     (case is_llvm_bitcode env (Mapped 0) (unat (ucast (o_file_size ofl) :: u32)) ofl of
        None \<Rightarrow> None
      | Some (True, ofl) \<Rightarrow>
          (case match_flag arch_flag (o_lto_cputype ofl) (o_lto_cpusubtype ofl)
             (ofl\<lparr>o_file_type := OFILE_LLVM_BITCODE\<rparr>) [] of
             Some (True, ofl, ms) \<Rightarrow>
               if object_name = None then Some (True, ofl, ms) else unmapped (ms @ [Name_Needs_Archive])
           | r \<Rightarrow> r)
      | Some (False, ofl) \<Rightarrow>
          if arch_flag \<noteq> None then unmapped [Unknown_File]
          else if object_name \<noteq> None then unmapped [Name_Needs_Archive]
          else Some (True, ofl\<lparr>o_file_type := OFILE_UNKNOWN\<rparr>, []))"

definition map_thin_object ::
  "environment \<Rightarrow> arch_flag option \<Rightarrow> bytes option \<Rightarrow> bool \<Rightarrow> bool \<Rightarrow> ofile \<Rightarrow> outcome" where
  "map_thin_object env arch_flag object_name is64 native ofl =
     map_object env is64 native 0 (o_file_size ofl) (ofl\<lparr>o_file_type := OFILE_Mach_O\<rparr>) (\<lambda>ofl ms.
       if object_name \<noteq> None then unmapped (ms @ [Name_Needs_Archive])
       else match_flag arch_flag (o_mh_cputype ofl) (o_mh_cpusubtype ofl) ofl ms)"

definition map_thin_archive ::
  "environment \<Rightarrow> arch_flag option \<Rightarrow> bytes option \<Rightarrow> bool \<Rightarrow> ofile \<Rightarrow> outcome" where
  "map_thin_archive env arch_flag object_name fat_objects ofl =
     map_archive env fat_objects (ofl\<lparr>o_file_type := OFILE_ARCHIVE\<rparr>) (\<lambda>ofl ms.
       case object_name of
         Some name \<Rightarrow> map_member env name ofl ms (\<lambda>ofl ms.
           match_flag arch_flag (o_mh_cputype ofl) (o_mh_cpusubtype ofl) ofl ms)
       | None \<Rightarrow> match_flag arch_flag (o_archive_cputype ofl) (o_archive_cpusubtype ofl) ofl ms)"

section \<open>The routine\<close>

text \<open>The fat header and the array behind it are swapped in place on a little endian host. A file that is too short
  for the array is treated as unknown.\<close>

definition map_fat_file ::
  "environment \<Rightarrow> arch_flag option \<Rightarrow> arch_flag option \<Rightarrow> bytes option \<Rightarrow> ofile \<Rightarrow> outcome" where
  "map_fat_file env host_arch arch_flag object_name ofl =
     (let e = env_host env; mem = o_file_addr ofl; fh = host_fat_header e mem; n = unat (fh_nfat_arch fh);
          is64 = (fh_magic fh = FAT_MAGIC_64);
          archsize = (if is64 then sizeof_fat_arch_64 else sizeof_fat_arch);
          ofl = ofl\<lparr>o_file_type := OFILE_FAT, o_fat_header := Some fh,
            o_file_addr := enc_fat_header e fh @ drop sizeof_fat_header mem\<rparr>
      in if length mem < sizeof_fat_header then None
         else if archsize * n + sizeof_fat_header > unat (o_file_size ofl) then map_unknown env arch_flag object_name ofl
         else if length mem < sizeof_fat_header + archsize * n then None
         else
           let ofl = (if is64 then ofl\<lparr>o_fat_archs64 := host_fat_archs64 e n mem\<rparr>
                      else ofl\<lparr>o_fat_archs := host_fat_archs e n mem\<rparr>);
               ofl = ofl\<lparr>o_file_addr := enc_fat_header e fh @
                 (if is64 then concat (map (enc_fat_arch_64 e) (host_fat_archs64 e n mem))
                  else concat (map (enc_fat_arch e) (host_fat_archs e n mem))) @
                 drop (sizeof_fat_header + archsize * n) mem\<rparr>
           in map_fat env host_arch arch_flag object_name fh ofl)"

definition ofile_map_from_memory ::
  "environment \<Rightarrow> arch_flag option \<Rightarrow> bytes \<Rightarrow> u64 \<Rightarrow> arch_flag option \<Rightarrow> bytes option \<Rightarrow> ofile \<Rightarrow> bool \<Rightarrow> outcome" where
  "ofile_map_from_memory env host_arch addr sz arch_flag object_name ofl archives_with_fat_objects =
     (let ofl = ofl\<lparr>o_file_addr := addr, o_file_size := sz\<rparr>; e = env_host env in
      if sz \<ge> 4 \<and> length addr < 4 then None
      else
        let magic = (if sz \<ge> 4 then get32 e addr 0 else 0) in
        if sz \<ge> of_nat sizeof_fat_header \<and> is_fat_magic e magic
        then map_fat_file env host_arch arch_flag object_name ofl
        else if sz \<ge> of_nat sizeof_mach_header \<and> (magic = MH_MAGIC \<or> magic = SWAP_INT MH_MAGIC)
        then map_thin_object env arch_flag object_name False (magic = MH_MAGIC) ofl
        else if sz \<ge> of_nat sizeof_mach_header_64 \<and> (magic = MH_MAGIC_64 \<or> magic = SWAP_INT MH_MAGIC_64)
        then map_thin_object env arch_flag object_name True (magic = MH_MAGIC_64) ofl
        else
          (case (if sz \<ge> of_nat SARMAG then strncmp_eq addr ARMAG SARMAG else Some False) of
             None \<Rightarrow> None
           | Some True \<Rightarrow> map_thin_archive env arch_flag object_name archives_with_fat_objects ofl
           | Some False \<Rightarrow> map_unknown env arch_flag object_name ofl))"

end
