(* ===== verification/MapFile_Correct.thy ===== *)
theory MapFile_Correct
  imports MapFile Arches_Correct
begin

text \<open>
  What a caller of \<open>ofile_map_from_memory\<close> may rely on: the structure of a file that was mapped is for a file of the
  type it names, which has passed the check for that type, and a call that fails clears the structure
  (\<open>map_file_typed\<close>). The choice of an architecture is described by \<open>choose_arch_correct\<close>.
\<close>

section \<open>The choice of an architecture\<close>

definition stands_for_family :: "arch_flag \<Rightarrow> bool" where
  "stands_for_family f \<longleftrightarrow>
     (\<exists>g. get_arch_family_from_cputype (af_cputype f) = Some g \<and> unmask (af_cpusubtype g) = unmask (af_cpusubtype f))"

lemma find_index_None: "find_index p xs = None \<longleftrightarrow> (\<forall>x \<in> set xs. \<not> p x)"
  by (induction xs) auto

lemma choose_arch_SomeD:
  "choose_arch f ss = Some (i, st) \<Longrightarrow> i < length ss \<and> fs_cputype (ss ! i) = af_cputype f"
  by (auto simp: choose_arch_def Let_def split: option.split_asm dest!: find_index_SomeD)

text \<open>C19. The architecture that is chosen in a fat file has the processor type that is asked for; its subtype is the one
  that is asked for when there is such an entry, and otherwise that of the first entry for the processor type,
  provided that the subtype that is asked for stands for the family. When there is no such entry, none is chosen.\<close>

theorem choose_arch_correct:
  "(case choose_arch f ss of
      Some (i, cpusubtype) \<Rightarrow>
        i < length ss \<and> fs_cputype (ss ! i) = af_cputype f \<and> unmask cpusubtype = unmask (fs_cpusubtype (ss ! i)) \<and>
        (if \<exists>s \<in> set ss. fs_cputype s = af_cputype f \<and> unmask (fs_cpusubtype s) = unmask (af_cpusubtype f)
         then unmask cpusubtype = unmask (af_cpusubtype f)
         else stands_for_family f \<and> (\<forall>j<i. fs_cputype (ss ! j) \<noteq> af_cputype f))
    | None \<Rightarrow>
        \<forall>s \<in> set ss. fs_cputype s = af_cputype f \<longrightarrow>
          unmask (fs_cpusubtype s) \<noteq> unmask (af_cpusubtype f) \<and> \<not> stands_for_family f)"
proof -
  let ?same = "\<lambda>s. unmask (fs_cpusubtype s) = unmask (af_cpusubtype f)"
  let ?exact = "find_index (\<lambda>s. fs_cputype s = af_cputype f \<and> ?same s) ss"
  have fam: "(case get_arch_family_from_cputype (af_cputype f) of None \<Rightarrow> False
      | Some g \<Rightarrow> unmask (af_cpusubtype g) = unmask (af_cpusubtype f)) = stands_for_family f"
    by (auto simp: stands_for_family_def split: option.split)
  show ?thesis
  proof (cases ?exact)
    case (Some i)
    from find_index_SomeD [OF Some] have "i < length ss" "fs_cputype (ss ! i) = af_cputype f" "?same (ss ! i)" by auto
    moreover from this have "\<exists>s \<in> set ss. fs_cputype s = af_cputype f \<and> ?same s" by (auto intro: nth_mem)
    ultimately show ?thesis using Some by (simp add: choose_arch_def)
  next
    case None
    then have no: "\<forall>s \<in> set ss. fs_cputype s = af_cputype f \<longrightarrow> \<not> ?same s" by (auto simp: find_index_None)
    show ?thesis
    proof (cases "find_index (\<lambda>s. fs_cputype s = af_cputype f \<and> (stands_for_family f \<or> ?same s)) ss")
      case (Some i)
      from find_index_SomeD [OF Some] have i: "i < length ss" "fs_cputype (ss ! i) = af_cputype f"
        "stands_for_family f \<or> ?same (ss ! i)"
        "\<forall>j<i. \<not> (fs_cputype (ss ! j) = af_cputype f \<and> (stands_for_family f \<or> ?same (ss ! j)))" by auto
      with no have "stands_for_family f" by auto
      moreover have "choose_arch f ss = Some (i, fs_cpusubtype (ss ! i))"
        using Some None unfolding choose_arch_def fam Let_def by simp
      ultimately show ?thesis using i no by auto
    next
      case N: None
      then have "choose_arch f ss = None" using None unfolding choose_arch_def fam Let_def by simp
      moreover have "\<forall>s \<in> set ss. fs_cputype s = af_cputype f \<longrightarrow> \<not> ?same s \<and> \<not> stands_for_family f"
        using N by (auto simp: find_index_None)
      ultimately show ?thesis by simp
    qed
  qed
qed

text \<open>In the sample fat file the flag for the i386 finds the second slice.\<close>

theorem choose_arch_correct_witness:
  "choose_arch \<lparr>af_name = ''i386'', af_cputype = CPU_TYPE_I386, af_cpusubtype = 3\<rparr>
     (map slice_of_arch (o_fat_archs fat_sample)) = Some (1, 3) \<and>
   fs_cputype (map slice_of_arch (o_fat_archs fat_sample) ! 1) = CPU_TYPE_I386"
proof -
  let ?f = "\<lparr>af_name = ''i386'', af_cputype = CPU_TYPE_I386, af_cpusubtype = 3\<rparr>"
  define ss where "ss = map slice_of_arch (o_fat_archs fat_sample)"
  have "choose_arch ?f (map slice_of_arch (o_fat_archs fat_sample)) = Some (1, 3)" by code_simp
  then have "choose_arch ?f ss = Some (1, 3)" by (simp only: ss_def)
  with choose_arch_correct [where f = ?f and ss = ss] show ?thesis unfolding ss_def [symmetric] by auto
qed

section \<open>The type of a file\<close>

text \<open>The check for objects has accepted the bytes \<open>addr\<close>, and \<open>bs\<close> are what it made of them.\<close>

definition object_accepted :: "environment \<Rightarrow> bytes \<Rightarrow> u64 \<Rightarrow> bytes \<Rightarrow> bool" where
  "object_accepted env addr sz bs \<longleftrightarrow>
     (\<exists>swapped is64 sc hdr lc.
        let h = (if is64 then sizeof_mach_header_64 else sizeof_mach_header) in
        check_Mach_O (env_host env) (env_bits env) swapped is64 None (ucast sz) (take h addr) (drop h addr) =
          Inr (sc, hdr, lc) \<and> bs = hdr @ lc)"

text \<open>The structure for a file of \<open>sz\<close> bytes at \<open>addr\<close> that was mapped without the name of a member.\<close>

definition typed :: "environment \<Rightarrow> bool \<Rightarrow> bytes \<Rightarrow> u64 \<Rightarrow> arch_flag option \<Rightarrow> ofile \<Rightarrow> bool" where
  "typed env fat_objects addr sz arch_flag ofl \<longleftrightarrow>
     (case o_file_type ofl of
        OFILE_FAT \<Rightarrow>
          check_fat ofl = Inr () \<and>
          (case arch_flag of
             None \<Rightarrow> True
           | Some f \<Rightarrow> (case arch_entry ofl of None \<Rightarrow> False | Some s \<Rightarrow> fs_cputype s = af_cputype f))
      | OFILE_Mach_O \<Rightarrow>
          o_object_addr ofl = Mapped 0 \<and> o_object_size ofl = ucast sz \<and>
          object_accepted env addr sz (o_file_addr ofl)
      | OFILE_ARCHIVE \<Rightarrow>
          o_file_addr ofl = addr \<and>
          \<not> isl (check_archive (env_host env) (env_erange env) fat_objects
            (zero_ofile\<lparr>o_file_addr := addr, o_file_size := sz, o_file_type := OFILE_ARCHIVE\<rparr>))
      | OFILE_LLVM_BITCODE \<Rightarrow> env_bitcode env (take (unat (ucast sz :: u32)) (o_file_addr ofl)) \<noteq> None
      | OFILE_UNKNOWN \<Rightarrow> True)"

lemma typed_unknown: "o_file_type ofl = OFILE_UNKNOWN \<Longrightarrow> typed env fat_objects addr sz arch_flag ofl"
  by (simp add: typed_def)

definition cleared :: "ofile \<Rightarrow> ofile_error list \<Rightarrow> bool" where
  "cleared ofl msgs \<longleftrightarrow> ofl = zero_ofile \<and> msgs \<noteq> []"

lemma unmapped_result: "unmapped ms = Some (b, ofl', msgs) \<Longrightarrow> \<not> b \<and> ofl' = zero_ofile \<and> msgs = ms"
  by (simp add: unmapped_def ofile_unmap_def)

lemma match_flag_result:
  "match_flag arch_flag t s ofl ms = Some (b, ofl', msgs) \<Longrightarrow> if b then ofl' = ofl else cleared ofl' msgs"
  by (auto simp: match_flag_def cleared_def split: option.split_asm if_split_asm dest!: unmapped_result)

lemma match_flag_typed:
  "match_flag arch_flag t s ofl ms = Some (b, ofl', msgs) \<Longrightarrow> typed env fat_objects addr sz arch_flag ofl \<Longrightarrow>
    if b then typed env fat_objects addr sz arch_flag ofl' else cleared ofl' msgs"
  by (auto dest: match_flag_result split: if_split_asm)

lemma map_object_result:
  assumes "map_object env is64 native addr sz ofl cont = Some (b, ofl', msgs)"
  obtains "\<not> b" "cleared ofl' msgs"
  | o1 ms where "check_object env (set_object (env_host env) is64 native (Mapped addr) (ucast sz) ofl) = Some (Inr (o1, ms))"
    "cont o1 ms = Some (b, ofl', msgs)"
  using assms unfolding map_object_def
  by (auto simp: cleared_def split: option.split_asm sum.split_asm dest!: unmapped_result)

lemma map_archive_result:
  assumes "map_archive env fat_objects ofl cont = Some (b, ofl', msgs)"
  obtains "\<not> b" "cleared ofl' msgs"
  | o1 ms where "check_archive (env_host env) (env_erange env) fat_objects ofl = Inr (o1, ms)"
    "cont o1 (map Archive_Message ms) = Some (b, ofl', msgs)"
  using assms unfolding map_archive_def
  by (auto simp: cleared_def split: if_split_asm sum.split_asm dest!: unmapped_result)

lemma check_archive_bytes: "check_archive e erange fat_objects ofl = Inr (ofl', msgs) \<Longrightarrow> o_file_addr ofl' = o_file_addr ofl"
  unfolding check_archive_def
  by (auto simp: andthen_eq_Inr Let_def split: if_split_asm option.split_asm bool.split_asm)

lemma check_fat_same: "same_fat a b \<Longrightarrow> check_fat b = check_fat a"
  by (cases "o_fat_header a")
    (simp_all add: check_fat_def same_fat_def fat_slices_same [of b a])

lemma map_slice_result:
  assumes "map_slice env arch_flag None s ofl = Some (b, ofl', msgs)"
  shows "if b then same_arch ofl ofl' \<or> o_file_type ofl' = OFILE_UNKNOWN else cleared ofl' msgs"
proof -
  let ?o = "\<lambda>t. ofl\<lparr>o_arch_type := t\<rparr>"
  have same: "same_arch ofl (?o t)" "same_arch ofl (set_object e is64 native p n (?o t))" for t e is64 native p n
    by (simp_all add: same_arch_def same_fat_def set_object_def Let_def)
  have trans: "same_arch a c" if "same_arch a x" "same_arch x c" for a x c :: ofile
    using that by (auto simp: same_arch_def same_fat_def)
  let ?go = "\<lambda>ofl ms. Some (True, ofl, ms) :: outcome"
  have object: ?thesis if "map_object env is64 native addr sz (?o OFILE_Mach_O) ?go = Some (b, ofl', msgs)"
    for is64 native addr sz
    using that
  proof (cases rule: map_object_result)
    case (2 o1 ms)
    then have "ofl' = o1" b by auto
    moreover have "same_arch ofl o1" by (rule trans [OF same(2)]) (use check_object_same [OF 2(1)] in blast)
    ultimately show ?thesis by simp
  qed simp
  have archive: ?thesis if "map_archive env False (?o OFILE_ARCHIVE) ?go = Some (b, ofl', msgs)"
    using that
  proof (cases rule: map_archive_result)
    case (2 o1 ms)
    then have "ofl' = o1" b by auto
    moreover have "same_arch ofl o1" by (rule trans [OF same(1)]) (use check_archive_same [OF 2(1)] in blast)
    ultimately show ?thesis by simp
  qed simp
  from assms have "(\<exists>is64 native addr sz. map_object env is64 native addr sz (?o OFILE_Mach_O) ?go = Some (b, ofl', msgs)) \<or>
      map_archive env False (?o OFILE_ARCHIVE) ?go = Some (b, ofl', msgs) \<or>
      b \<and> ofl' = ofl\<lparr>o_file_type := OFILE_UNKNOWN\<rparr>"
    unfolding map_slice_def Let_def by (auto split: option.split_asm if_split_asm bool.split_asm)
  then show ?thesis using object archive by auto
qed

lemma map_fat_result:
  assumes "map_fat env host_arch arch_flag None fh ofl = Some (b, ofl', msgs)" "o_fat_header ofl = Some fh"
    "o_file_type ofl = OFILE_FAT"
  shows "if b then typed env fat_objects addr sz arch_flag ofl' else cleared ofl' msgs"
proof -
  consider (bad) x where "unmapped [Fat_Message x] = Some (b, ofl', msgs)"
    | (whole) "check_fat ofl = Inr ()" "arch_flag = None" "b" "ofl' = ofl"
    | (arch) f ss where "check_fat ofl = Inr ()" "arch_flag = Some f" "fat_slices fh ofl = Inr ss"
      "map_fat_arch env arch_flag f None ss ofl = Some (b, ofl', msgs)"
    using assms(1) unfolding map_fat_def by (auto split: sum.split_asm if_split_asm option.split_asm)
  then show ?thesis
  proof cases
    case bad
    then show ?thesis by (auto simp: cleared_def dest: unmapped_result)
  next
    case whole
    then show ?thesis using assms(3) by (simp add: typed_def)
  next
    case arch
    let ?o = "ofl\<lparr>o_arch_name := Some (af_name f), o_arch_cputype := af_cputype f, o_arch_cpusubtype := af_cpusubtype f\<rparr>"
    show ?thesis
    proof (cases "choose_arch f ss")
      case None
      then show ?thesis using arch(2,4)
        by (auto simp: map_fat_arch_def named_error_def cleared_def dest: unmapped_result)
    next
      case (Some r)
      obtain i st where r: "choose_arch f ss = Some (i, st)" using Some by (cases r) auto
      let ?p = "?o\<lparr>o_narch := of_nat i, o_arch_cpusubtype := st\<rparr>"
      have i: "i < length ss" "fs_cputype (ss ! i) = af_cputype f"
        using choose_arch_SomeD [OF r] by auto
      have slice: "map_slice env arch_flag None (ss ! i) ?p = Some (b, ofl', msgs)"
        using arch(4) r by (simp add: map_fat_arch_def Let_def)
      have fat: "same_fat ofl ?p" by (simp add: same_fat_def)
      have len: "length ss \<le> unat (fh_nfat_arch fh)"
        using arch(3) by (auto simp: fat_slices_def Let_def split: if_split_asm)
      have n: "unat (of_nat i :: u32) = i"
        using i(1) len unat_u32_less [of "fh_nfat_arch fh"] by (simp add: unsigned_of_nat take_bit_nat_eq_self)
      have "typed env fat_objects addr sz arch_flag ofl'" if b "same_arch ?p ofl'"
      proof -
        have same: "same_fat ofl ofl'" "o_narch ofl' = of_nat i"
          using that(2) by (auto simp: same_arch_def same_fat_def)
        have "fat_slices fh ofl' = Inr ss" "o_fat_header ofl' = Some fh" "o_file_type ofl' = OFILE_FAT"
          using same(1) arch(3) assms(2,3) fat_slices_same [of ofl' ofl fh] by (simp_all add: same_fat_def)
        then have "arch_entry ofl' = Some (ss ! i)"
          using arch_entry_slices [of ofl' fh ss] same(2) n i(1) by simp
        with arch(1,2) i check_fat_same [OF same(1)] \<open>o_file_type ofl' = OFILE_FAT\<close> show ?thesis
          by (simp add: typed_def)
      qed
      then show ?thesis using map_slice_result [OF slice] typed_unknown by (auto split: if_split_asm)
    qed
  qed
qed

lemma map_fat_file_result:
  assumes "map_fat_file env host_arch arch_flag None ofl = Some (b, ofl', msgs)"
    and unknown: "\<And>x. map_unknown env arch_flag None x = Some (b, ofl', msgs) \<Longrightarrow> o_file_size x = o_file_size ofl \<Longrightarrow>
      if b then typed env fat_objects addr sz arch_flag ofl' else cleared ofl' msgs"
  shows "if b then typed env fat_objects addr sz arch_flag ofl' else cleared ofl' msgs"
proof -
  note result = assms(1) [unfolded map_fat_file_def Let_def]
  have fat: ?thesis if "map_fat env host_arch arch_flag None (host_fat_header (env_host env) (o_file_addr ofl)) x =
      Some (b, ofl', msgs)" "o_fat_header x = Some (host_fat_header (env_host env) (o_file_addr ofl))"
    "o_file_type x = OFILE_FAT" for x
    using that by (rule map_fat_result)
  show ?thesis using result
    by (auto split: if_split_asm dest!: unknown fat)
qed

lemma map_unknown_result:
  assumes "map_unknown env arch_flag None ofl = Some (b, ofl', msgs)" "o_file_size ofl = sz"
  shows "if b then typed env fat_objects addr sz arch_flag ofl' else cleared ofl' msgs"
proof -
  obtain is_bitcode o1 where bc: "is_llvm_bitcode env (Mapped 0) (unat (ucast sz :: u32)) ofl = Some (is_bitcode, o1)"
    using assms by (auto simp: map_unknown_def split: option.split_asm)
  show ?thesis
  proof (cases is_bitcode)
    case True
    have o1: "o_file_addr o1 = o_file_addr ofl" "env_bitcode env (take (unat (ucast sz :: u32)) (o_file_addr ofl)) \<noteq> None"
      using bc True by (auto simp: is_llvm_bitcode_def memory_def split: option.split_asm)
    let ?o = "o1\<lparr>o_file_type := OFILE_LLVM_BITCODE\<rparr>"
    have "match_flag arch_flag (o_lto_cputype o1) (o_lto_cpusubtype o1) ?o [] = Some (b, ofl', msgs)"
      using assms bc True by (auto simp: map_unknown_def split: option.split_asm prod.split_asm bool.split_asm)
    from match_flag_result [OF this] o1 show ?thesis by (auto simp: typed_def split: if_split_asm)
  next
    case False
    then show ?thesis using assms bc
      by (auto simp: map_unknown_def typed_def cleared_def split: if_split_asm dest!: unmapped_result)
  qed
qed

lemma map_thin_object_result:
  assumes "map_thin_object env arch_flag None is64 native (zero_ofile\<lparr>o_file_addr := addr, o_file_size := sz\<rparr>) =
      Some (b, ofl', msgs)"
  shows "if b then typed env fat_objects addr sz arch_flag ofl' else cleared ofl' msgs"
  using assms unfolding map_thin_object_def
proof (cases rule: map_object_result)
  case (2 o1 ms)
  let ?o = "set_object (env_host env) is64 native (Mapped 0) (ucast sz)
    (zero_ofile\<lparr>o_file_addr := addr, o_file_size := sz, o_file_type := OFILE_Mach_O\<rparr>)"
  have o1: "check_object env ?o = Some (Inr (o1, ms))" using 2(1) by simp
  have f: "o_file_type ?o = OFILE_Mach_O" "o_object_addr ?o = Mapped 0" "o_object_size ?o = ucast sz"
    "o_file_addr ?o = addr" "if is64 then o_mh ?o = Null \<and> o_mh64 ?o = Mapped 0 else o_mh ?o = Mapped 0"
    by (simp_all add: set_object_def Let_def zero_ofile_def)
  have keep: "o_file_type o1 = OFILE_Mach_O" "o_object_addr o1 = Mapped 0" "o_object_size o1 = ucast sz"
    using check_object_same [OF o1] f by (simp_all add: same_arch_def same_fat_def)
  have "object_accepted env addr sz (o_file_addr o1)"
    using o1 f unfolding check_object_def Let_def
    by (cases is64) (fastforce simp: object_accepted_def memory_def store_def note_header_def Let_def
      split: sum.split_asm prod.split_asm if_split_asm)+
  with keep have "typed env fat_objects addr sz arch_flag o1" by (simp add: typed_def)
  with match_flag_typed show ?thesis using 2(2) by simp
qed simp

lemma map_thin_archive_result:
  assumes "map_thin_archive env arch_flag None fat_objects (zero_ofile\<lparr>o_file_addr := addr, o_file_size := sz\<rparr>) =
      Some (b, ofl', msgs)"
  shows "if b then typed env fat_objects addr sz arch_flag ofl' else cleared ofl' msgs"
  using assms unfolding map_thin_archive_def
proof (cases rule: map_archive_result)
  case (2 o1 ms)
  let ?o = "zero_ofile\<lparr>o_file_addr := addr, o_file_size := sz, o_file_type := OFILE_ARCHIVE\<rparr>"
  have o1: "check_archive (env_host env) (env_erange env) fat_objects ?o = Inr (o1, ms)" using 2(1) by simp
  have "o_file_type o1 = OFILE_ARCHIVE" "o_file_addr o1 = addr"
    using check_archive_same [OF o1] check_archive_bytes [OF o1] by (simp_all add: same_arch_def same_fat_def)
  with o1 have "typed env fat_objects addr sz arch_flag o1" by (simp add: typed_def)
  with match_flag_typed show ?thesis using 2(2) by simp
qed simp


text \<open>An object for the i386 is mapped with the flag for the i386.\<close>

definition i386_flag :: arch_flag where
  "i386_flag = \<lparr>af_name = ''i386'', af_cputype = CPU_TYPE_I386, af_cpusubtype = 3\<rparr>"

definition thin_sample :: bytes where
  "thin_sample = empty_object LE CPU_TYPE_I386"


section \<open>Limits\<close>

text \<open>A fat file with one object for the i386, and the name of a member.\<close>

definition fat_file :: bytes where
  "fat_file = put32 BE FAT_MAGIC @ put32 BE 1 @
     put32 BE CPU_TYPE_I386 @ put32 BE 3 @ put32 BE 28 @ put32 BE 28 @ put32 BE 2 @ thin_sample"

definition m68030_flag :: arch_flag where
  "m68030_flag = \<lparr>af_name = ''m68030'', af_cputype = CPU_TYPE_MC680x0, af_cpusubtype = 3\<rparr>"

text \<open>The object for the i386 is mapped as well when it is asked for the 68030, whose subtype has the same number.
  When a member is asked for in a fat file without an entry for the architecture of the host, the message reads the
  name of an architecture that was not given. When the bytes of a fat file are cut behind the array, it is refused.\<close>

theorem map_limits:
  "(case ofile_map_from_memory fat_env None thin_sample 28 (Some m68030_flag) None zero_ofile False of
      None \<Rightarrow> False | Some (b, ofl, msgs) \<Rightarrow> b \<and> o_mh_cputype ofl = CPU_TYPE_I386) \<and>
   ofile_map_from_memory fat_env (Some m68030_flag) fat_file 56 None (Some [97]) zero_ofile False = None \<and>
   ofile_map_from_memory fat_env (Some m68030_flag) fat_file 56 (Some m68030_flag) (Some [97]) zero_ofile False =
     Some (False, zero_ofile, [No_Such_Architecture]) \<and>
   (case ofile_map_from_memory fat_env None (take 28 fat_file) 28 None None zero_ofile False of
      None \<Rightarrow> False | Some (b, ofl, msgs) \<Rightarrow> \<not> b \<and> ofl = zero_ofile \<and> msgs \<noteq> [])"
  by (intro conjI; code_simp)

end
