(* ===== verification/Modules.thy ===== *)
theory Modules
  imports OfileObject MachO_Tables
begin

text \<open>
  The iteration over the modules of a dynamic library in \<^verbatim>\<open>cctools/libstuff/ofile.c\<close>: \<open>ofile_first_module\<close>,
  \<open>ofile_next_module\<close>, \<open>ofile_specific_module\<close> and the check of an entry of the module table,
  \<open>check_dylib_module\<close>.

  The headers are read in the byte order of the host, to which \<open>check_Mach_O\<close> has swapped them; the module table
  is in the byte order of the object. A pointer is followed only when what it points to is read.
\<close>

section \<open>The tables of a library\<close>

abbreviation MH_DYLIB :: u32 where
  "MH_DYLIB \<equiv> 0x6"

abbreviation MH_DYLIB_STUB :: u32 where
  "MH_DYLIB_STUB \<equiv> 0x9"

definition is_library :: "ofile \<Rightarrow> bool" where
  "is_library ofl \<longleftrightarrow> o_mh_filetype ofl = MH_DYLIB \<or> o_mh_filetype ofl = MH_DYLIB_STUB"

text \<open>The condition under which the routines refuse a file, which is the same for fat files and for others.\<close>

definition no_library :: "ofile \<Rightarrow> bool" where
  "no_library ofl \<longleftrightarrow> o_arch_type ofl \<noteq> OFILE_Mach_O \<and> \<not> is_library ofl"

definition read_struct :: "nat \<Rightarrow> (bytes \<Rightarrow> 'a) \<Rightarrow> bytes \<Rightarrow> 'a option" where
  "read_struct n dec bs = (if length bs < n then None else Some (dec (take n bs)))"

text \<open>The loop over the load commands: the memory from the first symbol table command and from the last dynamic
  symbol table command on.\<close>

fun find_tables ::
  "endian \<Rightarrow> nat \<Rightarrow> bytes \<Rightarrow> bytes option \<Rightarrow> bytes option \<Rightarrow> (bytes option \<times> bytes option) option" where
  "find_tables e 0 lc st dyst = Some (st, dyst)"
| "find_tables e (Suc n) lc st dyst =
     (if length lc < 8 then None
      else
        let cmd = get32 e lc 0; rest = drop (unat (get32 e lc 4)) lc in
        if st = None \<and> cmd = LC_SYMTAB then find_tables e n rest (Some lc) dyst
        else if cmd = LC_DYSYMTAB then find_tables e n rest st (Some lc)
        else find_tables e n rest st dyst)"

definition object_ncmds :: "endian \<Rightarrow> ofile \<Rightarrow> u32 option" where
  "object_ncmds e ofl =
     Option.bind (memory ofl (if o_mh ofl \<noteq> Null then o_mh ofl else o_mh64 ofl)) (\<lambda>mem.
     if o_mh ofl \<noteq> Null then map_option mh_ncmds (read_struct sizeof_mach_header (dec_mach_header e) mem)
     else map_option mh64_ncmds (read_struct sizeof_mach_header_64 (dec_mach_header_64 e) mem))"

definition dylib_tables :: "endian \<Rightarrow> ofile \<Rightarrow> (bytes option \<times> bytes option) option" where
  "dylib_tables e ofl =
     Option.bind (object_ncmds e ofl) (\<lambda>ncmds.
     if ncmds = 0 then Some (None, None)
     else Option.bind (memory ofl (o_load_commands ofl)) (\<lambda>lc. find_tables e (unat ncmds) lc None None))"

section \<open>Modules\<close>

text \<open>The fields of an entry of the module table that the check uses.\<close>

record module_entry =
  me_module_name :: u32
  me_nextdefsym :: u32
  me_iextdefsym :: u32
  me_nlocalsym :: u32
  me_ilocalsym :: u32
  me_nrefsym :: u32
  me_irefsym :: u32
  me_nextrel :: u32
  me_iextrel :: u32

definition entry_of_module :: "dylib_module \<Rightarrow> module_entry" where
  "entry_of_module m =
     \<lparr>me_module_name = mod_module_name m, me_nextdefsym = mod_nextdefsym m, me_iextdefsym = mod_iextdefsym m,
      me_nlocalsym = mod_nlocalsym m, me_ilocalsym = mod_ilocalsym m, me_nrefsym = mod_nrefsym m,
      me_irefsym = mod_irefsym m, me_nextrel = mod_nextrel m, me_iextrel = mod_iextrel m\<rparr>"

definition entry_of_module_64 :: "dylib_module_64 \<Rightarrow> module_entry" where
  "entry_of_module_64 m =
     \<lparr>me_module_name = mod64_module_name m, me_nextdefsym = mod64_nextdefsym m, me_iextdefsym = mod64_iextdefsym m,
      me_nlocalsym = mod64_nlocalsym m, me_ilocalsym = mod64_ilocalsym m, me_nrefsym = mod64_nrefsym m,
      me_irefsym = mod64_irefsym m, me_nextrel = mod64_nextrel m, me_iextrel = mod64_iextrel m\<rparr>"

text \<open>The entry the structure points at. It is swapped in a copy.\<close>

definition current_module :: "endian \<Rightarrow> ofile \<Rightarrow> module_entry option" where
  "current_module e ofl =
     (let swapped = (sex_of e \<noteq> o_object_byte_sex ofl) in
      if o_mh ofl \<noteq> Null then
        Option.bind (memory ofl (o_dylib_module ofl)) (\<lambda>mem.
        map_option (\<lambda>m. entry_of_module (if swapped then swap_dylib_module_elem m else m))
          (read_struct sizeof_dylib_module (dec_dylib_module e) mem))
      else
        Option.bind (memory ofl (o_dylib_module64 ofl)) (\<lambda>mem.
        map_option (\<lambda>m. entry_of_module_64 (if swapped then swap_dylib_module_64_elem m else m))
          (read_struct sizeof_dylib_module_64 (dec_dylib_module_64 e) mem)))"

text \<open>Whether a string ends within \<open>n\<close> bytes.\<close>

fun string_ends :: "nat \<Rightarrow> bytes \<Rightarrow> bool option" where
  "string_ends 0 mem = Some False"
| "string_ends (Suc n) [] = None"
| "string_ends (Suc n) (b # mem) = (if b = 0 then Some True else string_ends n mem)"

text \<open>The test of a range of \<open>n\<close> elements from the index \<open>i\<close> on. The sum has 32 bits.\<close>

definition check_range :: "string \<Rightarrow> u32 \<Rightarrow> u32 \<Rightarrow> u32 \<Rightarrow> module_error + unit" where
  "check_range field i n limit =
     (if n \<noteq> 0 then
        if i > limit then Inl (Field_Past_End field)
        else if i + n > limit then Inl (Field_Extends field)
        else Inr ()
      else Inr ())"

text \<open>The ranges in the order of the tests. The index of an external relocation entry is compared with the file offset
  of these entries.\<close>

definition module_ranges :: "symtab_command \<Rightarrow> dysymtab_command \<Rightarrow> module_entry \<Rightarrow> module_error + unit" where
  "module_ranges st dyst m =
     andthen (check_range ''iextdefsym'' (me_iextdefsym m) (me_nextdefsym m) (st_nsyms st)) (\<lambda>_.
     andthen (check_range ''ilocalsym'' (me_ilocalsym m) (me_nlocalsym m) (st_nsyms st)) (\<lambda>_.
     andthen (check_range ''irefsym'' (me_irefsym m) (me_nrefsym m) (dyst_nextrefsyms dyst)) (\<lambda>_.
     check_range ''iextrel'' (me_iextrel m) (me_nextrel m) (dyst_extreloff dyst))))"

definition check_dylib_module ::
  "endian \<Rightarrow> symtab_command \<Rightarrow> dysymtab_command \<Rightarrow> ofile \<Rightarrow> (module_error + unit) option" where
  "check_dylib_module e st dyst ofl =
     Option.bind (current_module e ofl) (\<lambda>m.
     let name = me_module_name m; strsize = st_strsize st in
     if name > strsize then Some (Inl Module_Name_Past_End)
     else if name = strsize then Some (Inl Module_Name_Extends)
     else
       Option.bind (memory ofl (advance (o_object_addr ofl) (unat (st_stroff st) + unat name))) (\<lambda>mem.
       Option.bind (string_ends (unat strsize - unat name) mem) (\<lambda>ends.
       Some (if \<not> ends then Inl Module_Name_Extends else module_ranges st dyst m))))"

section \<open>The routines\<close>

definition clear_modules :: "ofile \<Rightarrow> ofile" where
  "clear_modules ofl = ofl\<lparr>o_modtab := Null, o_modtab64 := Null, o_nmodtab := 0, o_dylib_module := Null,
     o_dylib_module64 := Null, o_dylib_module_name := Null\<rparr>"

definition set_module_name :: "symtab_command \<Rightarrow> module_entry \<Rightarrow> ofile \<Rightarrow> ofile" where
  "set_module_name st m ofl = ofl\<lparr>o_dylib_module_name :=
     advance (o_object_addr ofl) (unat (st_stroff st) + unat (me_module_name m))\<rparr>"

text \<open>The name of the module is noted, and its entry is checked.\<close>

definition enter_module :: "endian \<Rightarrow> symtab_command \<Rightarrow> dysymtab_command \<Rightarrow> u32 \<Rightarrow> ofile \<Rightarrow> outcome" where
  "enter_module e st dyst module_index ofl =
     Option.bind (current_module e ofl) (\<lambda>m.
     let ofl = set_module_name st m ofl in
     Option.bind (check_dylib_module e st dyst ofl) (\<lambda>r.
     case r of
       Inl x \<Rightarrow> Some (False, ofl, [Module_Message x module_index])
     | Inr _ \<Rightarrow> Some (True, ofl, [])))"

definition set_modtab :: "dysymtab_command \<Rightarrow> ofile \<Rightarrow> ofile" where
  "set_modtab dyst ofl =
     (let p = advance (o_object_addr ofl) (unat (dyst_modtaboff dyst)) in
      if o_mh ofl \<noteq> Null then ofl\<lparr>o_modtab := p, o_dylib_module := p\<rparr>
      else ofl\<lparr>o_modtab64 := p, o_dylib_module64 := p\<rparr>)"

text \<open>The common beginning of the routines: the refusal of other files, and the search for the two commands.\<close>

definition with_tables :: "endian \<Rightarrow> ofile \<Rightarrow> (bytes \<Rightarrow> bytes \<Rightarrow> outcome) \<Rightarrow> outcome" where
  "with_tables e ofl cont =
     (if no_library ofl then Some (False, ofl, [Not_A_Library])
      else
        Option.bind (dylib_tables e ofl) (\<lambda>tables.
        case tables of
          (Some st, Some dyst) \<Rightarrow> cont st dyst
        | _ \<Rightarrow> Some (False, ofl, [No_Dylib_Tables])))"

text \<open>A file without modules is left before the symbol table command is read.\<close>

definition with_modules ::
  "endian \<Rightarrow> bytes \<Rightarrow> bytes \<Rightarrow> ofile \<Rightarrow> (symtab_command \<Rightarrow> dysymtab_command \<Rightarrow> outcome) \<Rightarrow> outcome" where
  "with_modules e st dyst ofl cont =
     Option.bind (read_struct sizeof_dysymtab_command (dec_dysymtab_command e) dyst) (\<lambda>dyst.
     if dyst_nmodtab dyst = 0 then Some (False, ofl, [])
     else Option.bind (read_struct sizeof_symtab_command (dec_symtab_command e) st) (\<lambda>st. cont st dyst))"

definition ofile_first_module :: "environment \<Rightarrow> ofile \<Rightarrow> outcome" where
  "ofile_first_module env ofl =
     (let e = env_host env; ofl = clear_modules ofl in
      with_tables e ofl (\<lambda>st dyst. with_modules e st dyst ofl (\<lambda>st dyst.
        enter_module e st dyst 0 (set_modtab dyst (ofl\<lparr>o_nmodtab := dyst_nmodtab dyst\<rparr>)))))"

text \<open>The index behind the current entry, from the difference of two pointers into the same area.\<close>

definition pointer_difference :: "pointer \<Rightarrow> pointer \<Rightarrow> int option" where
  "pointer_difference p q =
     (case (p, q) of
        (Mapped a, Mapped b) \<Rightarrow> Some (int a - int b)
      | (Buffered a, Buffered b) \<Rightarrow> Some (int a - int b)
      | (Null, Null) \<Rightarrow> Some 0
      | _ \<Rightarrow> None)"

definition next_module_index :: "ofile \<Rightarrow> u32 option" where
  "next_module_index ofl =
     (if o_mh ofl \<noteq> Null
      then map_option (\<lambda>d. of_int (d div int sizeof_dylib_module + 1)) (pointer_difference (o_dylib_module ofl) (o_modtab ofl))
      else map_option (\<lambda>d. of_int (d div int sizeof_dylib_module_64 + 1))
        (pointer_difference (o_dylib_module64 ofl) (o_modtab64 ofl)))"

definition advance_module :: "ofile \<Rightarrow> ofile" where
  "advance_module ofl =
     (if o_mh ofl \<noteq> Null then ofl\<lparr>o_dylib_module := advance (o_dylib_module ofl) sizeof_dylib_module\<rparr>
      else ofl\<lparr>o_dylib_module64 := advance (o_dylib_module64 ofl) sizeof_dylib_module_64\<rparr>)"

definition ofile_next_module :: "environment \<Rightarrow> ofile \<Rightarrow> outcome" where
  "ofile_next_module env ofl =
     (let e = env_host env in
      with_tables e ofl (\<lambda>st dyst.
        Option.bind (next_module_index ofl) (\<lambda>module_index.
        if module_index \<ge> o_nmodtab ofl then Some (False, ofl, [])
        else
          Option.bind (read_struct sizeof_symtab_command (dec_symtab_command e) st) (\<lambda>st.
          Option.bind (read_struct sizeof_dysymtab_command (dec_dysymtab_command e) dyst) (\<lambda>dyst.
          enter_module e st dyst module_index (advance_module ofl))))))"

text \<open>The loop of the search, with the number of entries that are left and the index of the next one. The comparison
  with \<open>strcmp\<close> ends at the first zero byte.\<close>

fun module_walk ::
  "endian \<Rightarrow> bytes \<Rightarrow> symtab_command \<Rightarrow> dysymtab_command \<Rightarrow> nat \<Rightarrow> u32 \<Rightarrow> ofile \<Rightarrow> outcome" where
  "module_walk e name st dyst 0 i ofl =
     Some (False, ofl\<lparr>o_modtab := Null, o_nmodtab := 0, o_dylib_module := Null, o_dylib_module_name := Null\<rparr>,
       [No_Such_Module])"
| "module_walk e name st dyst (Suc n) i ofl =
     Option.bind (current_module e ofl) (\<lambda>m.
     Option.bind (check_dylib_module e st dyst ofl) (\<lambda>r.
     case r of
       Inl x \<Rightarrow> Some (False, ofl, [Module_Message x i])
     | Inr _ \<Rightarrow>
         Option.bind (memory ofl (advance (o_object_addr ofl) (unat (st_stroff st) + unat (me_module_name m)))) (\<lambda>mem.
         if takeWhile (\<lambda>b. b \<noteq> 0) mem = name then Some (True, set_module_name st m ofl, [])
         else module_walk e name st dyst n (i + 1) (if n = 0 then ofl else advance_module ofl))))"

definition ofile_specific_module :: "environment \<Rightarrow> bytes \<Rightarrow> ofile \<Rightarrow> outcome" where
  "ofile_specific_module env name ofl =
     (let e = env_host env; ofl = clear_modules ofl in
      with_tables e ofl (\<lambda>st dyst. with_modules e st dyst ofl (\<lambda>st dyst.
        module_walk e name st dyst (unat (dyst_nmodtab dyst)) 0
          (set_modtab dyst (ofl\<lparr>o_nmodtab := dyst_nmodtab dyst\<rparr>)))))"

end
