(* ===== verification/Modules_Correct.thy ===== *)
theory Modules_Correct
  imports Modules Cursor
begin

text \<open>
  The iteration over the modules of a library whose tables lie in memory returns, and visits the entries of the module
  table in their order; the name of each is a string that ends inside of the string table (\<open>modules_visited\<close>).
\<close>

section \<open>The check of a module\<close>

lemma string_ends_result:
  "string_ends n mem = Some b \<Longrightarrow> if b then \<exists>k<n. k < length mem \<and> mem ! k = 0 else True"
proof (induction n mem rule: string_ends.induct)
  case (3 n c mem)
  then show ?case by (cases "c = 0"; cases b) (fastforce intro: exI [of _ 0] exI [of _ "Suc _"])+
qed auto

lemma string_ends_returns: "n \<le> length mem \<Longrightarrow> string_ends n mem \<noteq> None"
  by (induction n mem rule: string_ends.induct) auto

lemma check_range_good: "check_range field i n limit = Inr () \<longleftrightarrow> n = 0 \<or> i \<le> limit \<and> i + n \<le> limit"
  by (auto simp: check_range_def)

text \<open>An accepted entry: its name ends inside of the string table, and its ranges inside of the tables, when their sums
  do not wrap around.\<close>

definition range_ok :: "u32 \<Rightarrow> u32 \<Rightarrow> u32 \<Rightarrow> bool" where
  "range_ok i n limit \<longleftrightarrow> n = 0 \<or> i \<le> limit \<and> i + n \<le> limit"

definition module_ok :: "symtab_command \<Rightarrow> dysymtab_command \<Rightarrow> bytes \<Rightarrow> module_entry \<Rightarrow> bool" where
  "module_ok st dyst mem m \<longleftrightarrow>
     (\<exists>k. unat (me_module_name m) + k < unat (st_strsize st) \<and>
        mem ! (unat (st_stroff st) + unat (me_module_name m) + k) = 0) \<and>
     range_ok (me_iextdefsym m) (me_nextdefsym m) (st_nsyms st) \<and>
     range_ok (me_ilocalsym m) (me_nlocalsym m) (st_nsyms st) \<and>
     range_ok (me_irefsym m) (me_nrefsym m) (dyst_nextrefsyms dyst) \<and>
     range_ok (me_iextrel m) (me_nextrel m) (dyst_extreloff dyst)"

lemma check_dylib_module_good:
  assumes "check_dylib_module e st dyst ofl = Some (Inr ())" "memory ofl (o_object_addr ofl) = Some mem"
    and "unat (st_stroff st) + unat (st_strsize st) \<le> length mem"
  shows "\<exists>m. current_module e ofl = Some m \<and> module_ok st dyst mem m"
proof -
  obtain m where m: "current_module e ofl = Some m" using assms(1) by (auto simp: check_dylib_module_def bind_eq_Some_conv)
  let ?k = "unat (st_stroff st) + unat (me_module_name m)"
  have less: "me_module_name m < st_strsize st" using assms(1) m by (auto simp: check_dylib_module_def Let_def split: if_split_asm)
  then have k: "?k \<le> length mem" using assms(3) by (simp add: word_less_nat_alt)
  have "string_ends (unat (st_strsize st) - unat (me_module_name m)) (drop ?k mem) = Some True"
    and r: "module_ranges st dyst m = Inr ()"
    using assms(1) m less memory_advance [OF assms(2) k]
    by (auto simp: check_dylib_module_def Let_def bind_eq_Some_conv split: if_split_asm)
  from string_ends_result [OF this(1)] obtain j where "j < unat (st_strsize st) - unat (me_module_name m)"
    "j < length (drop ?k mem)" "drop ?k mem ! j = 0" by auto
  then have "unat (me_module_name m) + j < unat (st_strsize st) \<and> mem ! (?k + j) = 0" using k by simp
  with r m show ?thesis
    by (auto simp: module_ok_def range_ok_def module_ranges_def andthen_eq_Inr check_range_good)
qed

section \<open>The tables\<close>

text \<open>The commands the routines find.\<close>

definition module_tables :: "endian \<Rightarrow> ofile \<Rightarrow> (symtab_command \<times> dysymtab_command) option" where
  "module_tables e ofl =
     (if no_library ofl then None
      else case dylib_tables e ofl of
        Some (Some st, Some dyst) \<Rightarrow>
          Option.bind (read_struct sizeof_symtab_command (dec_symtab_command e) st) (\<lambda>st.
          Option.bind (read_struct sizeof_dysymtab_command (dec_dysymtab_command e) dyst) (\<lambda>dyst. Some (st, dyst)))
      | _ \<Rightarrow> None)"

definition module_size :: "ofile \<Rightarrow> nat" where
  "module_size ofl = (if o_mh ofl \<noteq> Null then sizeof_dylib_module else sizeof_dylib_module_64)"

definition module_pointer :: "ofile \<Rightarrow> pointer" where
  "module_pointer ofl = (if o_mh ofl \<noteq> Null then o_dylib_module ofl else o_dylib_module64 ofl)"

definition module_table :: "ofile \<Rightarrow> pointer" where
  "module_table ofl = (if o_mh ofl \<noteq> Null then o_modtab ofl else o_modtab64 ofl)"

text \<open>The module table and the string table lie in the memory of the object.\<close>

definition tables_inside :: "endian \<Rightarrow> symtab_command \<Rightarrow> dysymtab_command \<Rightarrow> bytes \<Rightarrow> ofile \<Rightarrow> bool" where
  "tables_inside e st dyst mem ofl \<longleftrightarrow>
     module_tables e ofl = Some (st, dyst) \<and> memory ofl (o_object_addr ofl) = Some mem \<and>
     unat (st_stroff st) + unat (st_strsize st) \<le> length mem \<and>
     unat (dyst_modtaboff dyst) + unat (dyst_nmodtab dyst) * module_size ofl \<le> length mem"

text \<open>The routines change the fields for the modules only.\<close>

lemma clear_modules_memory: "memory (clear_modules ofl) p = memory ofl p"
  by (rule memory_cong) (simp_all add: clear_modules_def)

lemma clear_modules_fields:
  "o_mh (clear_modules ofl) = o_mh ofl" "o_object_addr (clear_modules ofl) = o_object_addr ofl"
  "module_tables e (clear_modules ofl) = module_tables e ofl" "module_size (clear_modules ofl) = module_size ofl"
proof -
  show f: "o_mh (clear_modules ofl) = o_mh ofl" "o_object_addr (clear_modules ofl) = o_object_addr ofl"
    by (simp_all add: clear_modules_def)
  have g: "o_mh64 (clear_modules ofl) = o_mh64 ofl" "o_load_commands (clear_modules ofl) = o_load_commands ofl"
    by (simp_all add: clear_modules_def)
  have "dylib_tables e (clear_modules ofl) = dylib_tables e ofl"
    unfolding dylib_tables_def object_ncmds_def clear_modules_memory f g by (rule refl)
  moreover have "no_library (clear_modules ofl) = no_library ofl"
    by (simp add: no_library_def is_library_def clear_modules_def)
  ultimately show "module_tables e (clear_modules ofl) = module_tables e ofl" by (simp add: module_tables_def)
  show "module_size (clear_modules ofl) = module_size ofl" by (simp add: module_size_def f)
qed

lemma tables_inside_cong:
  "clear_modules a = clear_modules b \<Longrightarrow> tables_inside e st dyst mem a \<Longrightarrow> tables_inside e st dyst mem b"
  unfolding tables_inside_def using clear_modules_fields clear_modules_memory by metis

lemma with_tables_found:
  assumes "tables_inside e st dyst mem ofl"
  obtains stb dystb where "with_tables e ofl cont = cont stb dystb"
    "read_struct sizeof_symtab_command (dec_symtab_command e) stb = Some st"
    "read_struct sizeof_dysymtab_command (dec_dysymtab_command e) dystb = Some dyst"
  using assms by (auto simp: tables_inside_def module_tables_def with_tables_def bind_eq_Some_conv
      split: if_split_asm option.split_asm prod.split_asm)

section \<open>The iteration\<close>

text \<open>The cursor is on the module with the index \<open>i\<close>.\<close>

definition pointed :: "dysymtab_command \<Rightarrow> nat \<Rightarrow> ofile \<Rightarrow> bool" where
  "pointed dyst i ofl \<longleftrightarrow>
     module_pointer ofl = advance (o_object_addr ofl) (unat (dyst_modtaboff dyst) + i * module_size ofl)"

definition at_module :: "endian \<Rightarrow> nat \<Rightarrow> ofile \<Rightarrow> bool" where
  "at_module e i ofl \<longleftrightarrow>
     (\<exists>st dyst mem m.
        tables_inside e st dyst mem ofl \<and> pointed dyst i ofl \<and> current_module e ofl = Some m \<and> module_ok st dyst mem m \<and>
        o_dylib_module_name ofl = advance (o_object_addr ofl) (unat (st_stroff st) + unat (me_module_name m)))"

definition start_modules :: "endian \<Rightarrow> ofile \<Rightarrow> nat list \<Rightarrow> bool" where
  "start_modules e ofl is \<longleftrightarrow>
     (\<exists>st dyst mem. tables_inside e st dyst mem ofl \<and> is = [0..<unat (dyst_nmodtab dyst)])"

definition on_module :: "endian \<Rightarrow> ofile \<Rightarrow> nat list \<Rightarrow> bool" where
  "on_module e ofl is \<longleftrightarrow>
     (\<exists>st dyst mem i.
        tables_inside e st dyst mem ofl \<and> i < unat (dyst_nmodtab dyst) \<and> pointed dyst i ofl \<and>
        o_nmodtab ofl = dyst_nmodtab dyst \<and>
        module_table ofl = advance (o_object_addr ofl) (unat (dyst_modtaboff dyst)) \<and>
        is = [Suc i..<unat (dyst_nmodtab dyst)])"

lemma current_module_returns:
  assumes "tables_inside e st dyst mem ofl" "pointed dyst i ofl" "i < unat (dyst_nmodtab dyst)"
  shows "current_module e ofl \<noteq> None"
proof -
  let ?k = "unat (dyst_modtaboff dyst) + i * module_size ofl"
  have "Suc i * module_size ofl \<le> unat (dyst_nmodtab dyst) * module_size ofl" using assms(3) by (intro mult_le_mono1) simp
  then have k: "?k + module_size ofl \<le> length mem" using assms(1) by (simp add: tables_inside_def)
  then have "memory ofl (module_pointer ofl) = Some (drop ?k mem)"
    using assms(1,2) memory_advance [of ofl "o_object_addr ofl" mem ?k] by (simp add: pointed_def tables_inside_def)
  then show ?thesis using k
    by (auto simp: current_module_def module_pointer_def module_size_def read_struct_def Let_def split: if_split_asm)
qed

lemma check_dylib_module_returns:
  assumes "tables_inside e st dyst mem ofl" "current_module e ofl \<noteq> None"
  shows "check_dylib_module e st dyst ofl \<noteq> None"
proof -
  obtain m where m: "current_module e ofl = Some m" using assms(2) by auto
  let ?k = "unat (st_stroff st) + unat (me_module_name m)"
  show ?thesis
  proof (cases "me_module_name m < st_strsize st")
    case True
    then have k: "?k \<le> length mem" "unat (st_strsize st) - unat (me_module_name m) \<le> length (drop ?k mem)"
      using assms(1) by (auto simp: tables_inside_def word_less_nat_alt)
    have "memory ofl (advance (o_object_addr ofl) ?k) = Some (drop ?k mem)"
      using assms(1) k(1) memory_advance by (auto simp: tables_inside_def)
    with m True string_ends_returns [OF k(2)] show ?thesis by (auto simp: check_dylib_module_def Let_def)
  next
    case False
    with m show ?thesis by (auto simp: check_dylib_module_def Let_def)
  qed
qed

lemma set_module_name_keeps:
  "clear_modules (set_module_name st m ofl) = clear_modules ofl" "pointed dyst i (set_module_name st m ofl) = pointed dyst i ofl"
  "current_module e (set_module_name st m ofl) = current_module e ofl"
  "o_nmodtab (set_module_name st m ofl) = o_nmodtab ofl" "module_table (set_module_name st m ofl) = module_table ofl"
proof -
  have mem: "memory (set_module_name st m ofl) p = memory ofl p" for p
    by (rule memory_cong) (simp_all add: set_module_name_def)
  have f: "o_mh (set_module_name st m ofl) = o_mh ofl" "o_dylib_module (set_module_name st m ofl) = o_dylib_module ofl"
    "o_dylib_module64 (set_module_name st m ofl) = o_dylib_module64 ofl"
    "o_object_byte_sex (set_module_name st m ofl) = o_object_byte_sex ofl"
    by (simp_all add: set_module_name_def)
  show "current_module e (set_module_name st m ofl) = current_module e ofl"
    unfolding current_module_def mem f by (rule refl)
qed (simp_all add: set_module_name_def clear_modules_def pointed_def module_pointer_def module_table_def module_size_def)

text \<open>What the check of an entry does to the cursor.\<close>

lemma enter_module_result:
  assumes "tables_inside e st dyst mem ofl" "pointed dyst i ofl" "i < unat (dyst_nmodtab dyst)"
    and "o_nmodtab ofl = dyst_nmodtab dyst" "module_table ofl = advance (o_object_addr ofl) (unat (dyst_modtaboff dyst))"
  shows "\<exists>b ofl' msgs. enter_module e st dyst n ofl = Some (b, ofl', msgs) \<and>
    (if b then at_module e i ofl' \<and> on_module e ofl' [Suc i..<unat (dyst_nmodtab dyst)] else msgs \<noteq> [])"
proof -
  obtain m where m: "current_module e ofl = Some m" using current_module_returns [OF assms(1-3)] by auto
  let ?o = "set_module_name st m ofl"
  have inside: "tables_inside e st dyst mem ?o"
    using assms(1) by (rule tables_inside_cong [rotated]) (simp add: set_module_name_keeps)
  have m': "current_module e ?o = Some m" using m by (simp add: set_module_name_keeps)
  obtain r where r: "check_dylib_module e st dyst ?o = Some r" using check_dylib_module_returns [OF inside] m' by auto
  show ?thesis
  proof (cases r)
    case (Inl x)
    with m r show ?thesis by (auto simp: enter_module_def Let_def)
  next
    case (Inr u)
    have res: "enter_module e st dyst n ofl = Some (True, ?o, [])" using m r Inr by (simp add: enter_module_def Let_def)
    have "memory ?o (o_object_addr ?o) = Some mem" "unat (st_stroff st) + unat (st_strsize st) \<le> length mem"
      using inside by (simp_all add: tables_inside_def)
    with check_dylib_module_good [of e st dyst ?o mem] r Inr m' have ok: "module_ok st dyst mem m" by simp
    have "at_module e i ?o"
      unfolding at_module_def using inside assms(2) ok m'
      by (intro exI [of _ st] exI [of _ dyst] exI [of _ mem] exI [of _ m]) (simp add: set_module_name_keeps, simp add: set_module_name_def)
    moreover have "on_module e ?o [Suc i..<unat (dyst_nmodtab dyst)]"
      unfolding on_module_def using inside assms(2-)
      by (intro exI [of _ st] exI [of _ dyst] exI [of _ mem] exI [of _ i]) (simp add: set_module_name_keeps, simp add: set_module_name_def)
    ultimately show ?thesis using res by auto
  qed
qed

lemma pointed_index:
  assumes "tables_inside e st dyst mem ofl" "pointed dyst i ofl" "i < unat (dyst_nmodtab dyst)"
    and "module_table ofl = advance (o_object_addr ofl) (unat (dyst_modtaboff dyst))"
  shows "next_module_index ofl = Some (of_nat (Suc i))"
proof -
  obtain n where "o_object_addr ofl = Mapped n \<or> o_object_addr ofl = Buffered n"
    using assms(1) by (cases "o_object_addr ofl") (auto simp: tables_inside_def memory_def)
  then have "pointer_difference (module_pointer ofl) (module_table ofl) = Some (int i * int (module_size ofl))"
    using assms(2,4) by (auto simp: pointed_def pointer_difference_def)
  then show ?thesis
    by (auto simp: next_module_index_def module_pointer_def module_table_def module_size_def
        sizeof_dylib_module_def sizeof_dylib_module_64_def split: if_split_asm)
qed

lemma advance_advance: "advance (advance p i) j = advance p (i + j)"
  by (cases p) simp_all

lemma advance_module_keeps:
  "clear_modules (advance_module ofl) = clear_modules ofl" "pointed dyst i ofl \<Longrightarrow> pointed dyst (Suc i) (advance_module ofl)"
  "o_nmodtab (advance_module ofl) = o_nmodtab ofl" "module_table (advance_module ofl) = module_table ofl"
  "o_object_addr (advance_module ofl) = o_object_addr ofl"
  by (auto simp: advance_module_def clear_modules_def pointed_def module_pointer_def module_table_def module_size_def
      advance_advance algebra_simps)

lemma set_modtab_keeps:
  "clear_modules (set_modtab dyst ofl) = clear_modules ofl" "pointed dyst 0 (set_modtab dyst ofl)"
  "o_nmodtab (set_modtab dyst ofl) = o_nmodtab ofl" "o_object_addr (set_modtab dyst ofl) = o_object_addr ofl"
  "module_table (set_modtab dyst ofl) = advance (o_object_addr ofl) (unat (dyst_modtaboff dyst))"
  by (auto simp: set_modtab_def clear_modules_def pointed_def module_pointer_def module_table_def module_size_def Let_def)

lemma ofile_first_module_result:
  assumes "tables_inside (env_host env) st dyst mem ofl"
  shows "if dyst_nmodtab dyst = 0 then \<exists>ofl'. ofile_first_module env ofl = Some (False, ofl', [])
    else \<exists>b ofl' msgs. ofile_first_module env ofl = Some (b, ofl', msgs) \<and>
      (if b then at_module (env_host env) 0 ofl' \<and> on_module (env_host env) ofl' [Suc 0..<unat (dyst_nmodtab dyst)]
       else msgs \<noteq> [])"
proof -
  let ?e = "env_host env"
  let ?c = "clear_modules ofl"
  let ?o = "set_modtab dyst (?c\<lparr>o_nmodtab := dyst_nmodtab dyst\<rparr>)"
  have c: "tables_inside ?e st dyst mem ?c"
    using assms by (rule tables_inside_cong [rotated]) (simp add: clear_modules_def)
  obtain stb dystb where res: "ofile_first_module env ofl = with_modules ?e stb dystb ?c
      (\<lambda>st dyst. enter_module ?e st dyst 0 (set_modtab dyst (?c\<lparr>o_nmodtab := dyst_nmodtab dyst\<rparr>)))"
    and rd: "read_struct sizeof_symtab_command (dec_symtab_command ?e) stb = Some st"
      "read_struct sizeof_dysymtab_command (dec_dysymtab_command ?e) dystb = Some dyst"
    unfolding ofile_first_module_def Let_def by (rule with_tables_found [OF c])
  show ?thesis
  proof (cases "dyst_nmodtab dyst = 0")
    case True
    then show ?thesis using res rd by (simp add: with_modules_def)
  next
    case False
    have inside: "tables_inside ?e st dyst mem ?o"
      using c by (rule tables_inside_cong [rotated]) (simp only: set_modtab_keeps, simp add: clear_modules_def)
    have "ofile_first_module env ofl = enter_module ?e st dyst 0 ?o" using res rd False by (simp add: with_modules_def)
    moreover have "0 < unat (dyst_nmodtab dyst)" using False by (simp add: unat_gt_0)
    ultimately show ?thesis
      using enter_module_result [OF inside, of 0 0] False by (simp add: set_modtab_keeps)
  qed
qed

lemma ofile_next_module_result:
  assumes "tables_inside (env_host env) st dyst mem ofl" "pointed dyst i ofl" "i < unat (dyst_nmodtab dyst)"
    and "o_nmodtab ofl = dyst_nmodtab dyst" "module_table ofl = advance (o_object_addr ofl) (unat (dyst_modtaboff dyst))"
  shows "if Suc i = unat (dyst_nmodtab dyst) then ofile_next_module env ofl = Some (False, ofl, [])
    else \<exists>b ofl' msgs. ofile_next_module env ofl = Some (b, ofl', msgs) \<and>
      (if b then at_module (env_host env) (Suc i) ofl' \<and>
         on_module (env_host env) ofl' [Suc (Suc i)..<unat (dyst_nmodtab dyst)] else msgs \<noteq> [])"
proof -
  let ?e = "env_host env"
  let ?n = "of_nat (Suc i) :: u32"
  obtain stb dystb where res: "ofile_next_module env ofl = Option.bind (next_module_index ofl) (\<lambda>module_index.
        if module_index \<ge> o_nmodtab ofl then Some (False, ofl, [])
        else
          Option.bind (read_struct sizeof_symtab_command (dec_symtab_command ?e) stb) (\<lambda>st.
          Option.bind (read_struct sizeof_dysymtab_command (dec_dysymtab_command ?e) dystb) (\<lambda>dyst.
          enter_module ?e st dyst module_index (advance_module ofl))))"
    and rd: "read_struct sizeof_symtab_command (dec_symtab_command ?e) stb = Some st"
      "read_struct sizeof_dysymtab_command (dec_dysymtab_command ?e) dystb = Some dyst"
    unfolding ofile_next_module_def Let_def by (rule with_tables_found [OF assms(1)])
  have ix: "next_module_index ofl = Some ?n" by (rule pointed_index [OF assms(1-3,5)])
  have n: "unat ?n = Suc i"
    using assms(3) unsigned_less [of "dyst_nmodtab dyst", where 'a = nat]
    by (simp only: unsigned_of_nat) (simp add: take_bit_nat_eq_self)
  show ?thesis
  proof (cases "Suc i = unat (dyst_nmodtab dyst)")
    case True
    then have "dyst_nmodtab dyst \<le> ?n" using n by (simp only: word_le_nat_alt)
    then show ?thesis using res ix True assms(4) by (simp del: of_nat_Suc)
  next
    case False
    then have less: "\<not> dyst_nmodtab dyst \<le> ?n" using n assms(3) by (simp only: word_le_nat_alt)
    have inside: "tables_inside ?e st dyst mem (advance_module ofl)"
      using assms(1) by (rule tables_inside_cong [rotated]) (simp add: advance_module_keeps)
    have "ofile_next_module env ofl = enter_module ?e st dyst ?n (advance_module ofl)"
      using res ix rd less assms(4) by (simp del: of_nat_Suc)
    with enter_module_result [OF inside, of "Suc i" ?n] assms(2-) False show ?thesis
      by (simp add: advance_module_keeps del: of_nat_Suc)
  qed
qed

interpretation modules: cursor "ofile_first_module env" "ofile_next_module env" "start_modules (env_host env)"
  "on_module (env_host env)" "at_module (env_host env)" for env
proof
  fix ofl ofl' :: ofile and m ms b msgs
  show "\<exists>s'. ofile_first_module env ofl = Some (False, s', [])" if none: "start_modules (env_host env) ofl []"
  proof -
    obtain st dyst mem where "tables_inside (env_host env) st dyst mem ofl" "[0..<unat (dyst_nmodtab dyst)] = []"
      using none unfolding start_modules_def by metis
    with ofile_first_module_result [of env st dyst mem ofl] show ?thesis by (simp add: unat_eq_0)
  qed
  show "if b then at_module (env_host env) m ofl' \<and> on_module (env_host env) ofl' ms else msgs \<noteq> []"
    if some: "start_modules (env_host env) ofl (m # ms)" and res: "ofile_first_module env ofl = Some (b, ofl', msgs)"
  proof -
    obtain st dyst mem where "tables_inside (env_host env) st dyst mem ofl" "m # ms = [0..<unat (dyst_nmodtab dyst)]"
      using some by (auto simp: start_modules_def)
    with ofile_first_module_result [of env st dyst mem ofl] res show ?thesis
      by (cases "unat (dyst_nmodtab dyst)") (auto simp: upt_conv_Cons unat_eq_0 simp del: upt_Suc split: if_split_asm)
  qed
  show "\<exists>s'. ofile_next_module env ofl = Some (False, s', [])" if none: "on_module (env_host env) ofl []"
  proof -
    obtain st dyst mem i where o: "tables_inside (env_host env) st dyst mem ofl" "i < unat (dyst_nmodtab dyst)"
      "pointed dyst i ofl" "o_nmodtab ofl = dyst_nmodtab dyst"
      "module_table ofl = advance (o_object_addr ofl) (unat (dyst_modtaboff dyst))" "[] = [Suc i..<unat (dyst_nmodtab dyst)]"
      using none by (auto simp: on_module_def)
    then have "Suc i = unat (dyst_nmodtab dyst)" using o(2) o(6) [symmetric] by simp
    with ofile_next_module_result [OF o(1,3,2,4,5)] show ?thesis by simp
  qed
  show "if b then at_module (env_host env) m ofl' \<and> on_module (env_host env) ofl' ms else msgs \<noteq> []"
    if some: "on_module (env_host env) ofl (m # ms)" and res: "ofile_next_module env ofl = Some (b, ofl', msgs)"
  proof -
    obtain st dyst mem i where o: "tables_inside (env_host env) st dyst mem ofl" "i < unat (dyst_nmodtab dyst)"
      "pointed dyst i ofl" "o_nmodtab ofl = dyst_nmodtab dyst"
      "module_table ofl = advance (o_object_addr ofl) (unat (dyst_modtaboff dyst))"
      "m # ms = [Suc i..<unat (dyst_nmodtab dyst)]"
      using some by (auto simp: on_module_def)
    then have "Suc i < unat (dyst_nmodtab dyst)" by (metis upt_rec list.distinct(1))
    then have "m = Suc i" "ms = [Suc (Suc i)..<unat (dyst_nmodtab dyst)]" using o(6) by (simp_all add: upt_conv_Cons)
    with ofile_next_module_result [OF o(1,3,2,4,5)] res \<open>Suc i < unat (dyst_nmodtab dyst)\<close> show ?thesis
      by (auto split: if_split_asm)
  qed
qed

lemma next_module_returns: "on_module (env_host env) ofl is \<Longrightarrow> ofile_next_module env ofl \<noteq> None"
  using ofile_next_module_result [of env] by (fastforce simp: on_module_def split: if_split_asm)

text \<open>C18. When the module table and the string table of a library lie in the memory of its object, the loop over its
  modules returns: it visits the entries of the table in their order, none twice and none left out, each with the
  address of its entry and of its name, which ends inside of the string table; it stops before the last one
  with a message only.\<close>

theorem modules_visited:
  assumes "tables_inside (env_host env) st dyst mem ofl"
  shows "\<exists>ofls msgs. all_of (ofile_first_module env) (ofile_next_module env) ofl = Some (ofls, msgs) \<and>
    list_all2 (at_module (env_host env)) [0..<length ofls] ofls \<and>
    (if msgs = [] then length ofls = unat (dyst_nmodtab dyst) else length ofls < unat (dyst_nmodtab dyst))"
proof -
  have start: "start_modules (env_host env) ofl [0..<unat (dyst_nmodtab dyst)]"
    using assms by (auto simp: start_modules_def)
  have "ofile_first_module env ofl \<noteq> None"
    using ofile_first_module_result [OF assms] by (auto split: if_split_asm)
  from modules.total [OF start this] next_module_returns obtain ofls msgs
    where "all_of (ofile_first_module env) (ofile_next_module env) ofl = Some (ofls, msgs)"
      and v: "visited (at_module (env_host env)) [0..<unat (dyst_nmodtab dyst)] ofls msgs" by blast
  moreover have "length ofls \<le> unat (dyst_nmodtab dyst)" using v by (auto simp: visited_def split: if_split_asm)
  ultimately show ?thesis by (auto simp: visited_def take_upt split: if_split_asm)
qed

text \<open>A library of the other byte order with two modules, \<open>a\<close> and \<open>b\<close>. Its headers have been swapped.\<close>

definition library_symtab :: symtab_command where
  "library_symtab = \<lparr>lc_cmd = LC_SYMTAB, lc_cmdsize = 24, st_symoff = 0, st_nsyms = 4, st_stroff = 236, st_strsize = 5\<rparr>"

definition library_dysymtab :: dysymtab_command where
  "library_dysymtab = \<lparr>lc_cmd = LC_DYSYMTAB, lc_cmdsize = 80, dyst_ilocalsym = 0, dyst_nlocalsym = 0,
     dyst_iextdefsym = 0, dyst_nextdefsym = 4, dyst_iundefsym = 4, dyst_nundefsym = 0, dyst_tocoff = 0, dyst_ntoc = 0,
     dyst_modtaboff = 132, dyst_nmodtab = 2, dyst_extrefsymoff = 0, dyst_nextrefsyms = 0, dyst_indirectsymoff = 0,
     dyst_nindirectsyms = 0, dyst_extreloff = 0, dyst_nextrel = 0, dyst_locreloff = 0, dyst_nlocrel = 0\<rparr>"

definition library_module :: "u32 \<Rightarrow> u32 \<Rightarrow> dylib_module" where
  "library_module name i = \<lparr>mod_module_name = name, mod_iextdefsym = i, mod_nextdefsym = 2, mod_irefsym = 0,
     mod_nrefsym = 0, mod_ilocalsym = 0, mod_nlocalsym = 0, mod_iextrel = 0, mod_nextrel = 0, mod_iinit_iterm = 0,
     mod_ninit_nterm = 0, mod_objc_module_info_addr = 0, mod_objc_module_info_size = 0\<rparr>"

definition library_bytes :: bytes where
  "library_bytes =
     enc_mach_header LE \<lparr>mh_magic = MH_MAGIC, mh_cputype = CPU_TYPE_POWERPC, mh_cpusubtype = 0, mh_filetype = MH_DYLIB,
       mh_ncmds = 2, mh_sizeofcmds = 104, mh_flags = 0\<rparr> @
     enc_symtab_command LE library_symtab @ enc_dysymtab_command LE library_dysymtab @
     enc_dylib_module BE (library_module 1 0) @ enc_dylib_module BE (library_module 3 2) @ [0, 97, 0, 98, 0]"

definition library_file :: ofile where
  "library_file = zero_ofile\<lparr>o_file_addr := library_bytes, o_file_size := 241, o_file_type := OFILE_Mach_O,
     o_object_addr := Mapped 0, o_object_size := 241, o_object_byte_sex := BIG_ENDIAN_BYTE_SEX, o_mh := Mapped 0,
     o_load_commands := Mapped 28, o_mh_filetype := MH_DYLIB\<rparr>"

definition library_env :: environment where
  "library_env = \<lparr>env_host = LE, env_bits = \<lambda>_ bs. bs, env_bitcode = \<lambda>_. None, env_erange = \<lambda>_. False\<rparr>"

theorem modules_visited_witness:
  "\<exists>ofls. all_of (ofile_first_module library_env) (ofile_next_module library_env) library_file = Some (ofls, []) \<and>
     length ofls = 2 \<and> list_all2 (at_module LE) [0, 1] ofls"
proof -
  let ?loop = "all_of (ofile_first_module library_env) (ofile_next_module library_env) library_file"
  have "tables_inside (env_host library_env) library_symtab library_dysymtab library_bytes library_file" by code_simp
  from modules_visited [OF this] obtain ofls msgs where v: "?loop = Some (ofls, msgs)"
    "list_all2 (at_module (env_host library_env)) [0..<length ofls] ofls"
    "if msgs = [] then length ofls = unat (dyst_nmodtab library_dysymtab) else length ofls < unat (dyst_nmodtab library_dysymtab)"
    by blast
  have "case ?loop of None \<Rightarrow> False | Some (ofls, msgs) \<Rightarrow> msgs = []" by code_simp
  then have "msgs = []" using v(1) by simp
  then have n: "length ofls = 2" using v(3) by (simp add: library_dysymtab_def)
  have "[0..<length ofls] = [0, 1]" unfolding n by code_simp
  with v(1,2) n \<open>msgs = []\<close> show ?thesis by (simp add: library_env_def)
qed

section \<open>Limits\<close>

text \<open>Ranges that are accepted although they are not in their tables: the sum of the index and the number of symbols wraps
  around; the external relocation entries are bounded by their offset in the file and not by their number.\<close>

lemma module_ranges_limits:
  "check_range ''iextdefsym'' 1 0xFFFFFFFF (st_nsyms library_symtab) = Inr ()"
  "module_ranges library_symtab (library_dysymtab\<lparr>dyst_extreloff := 100, dyst_nextrel := 0\<rparr>)
     ((entry_of_module (library_module 1 0))\<lparr>me_iextrel := 50, me_nextrel := 50\<rparr>) = Inr ()"
  by (simp_all add: check_range_def module_ranges_def library_symtab_def library_module_def entry_of_module_def)

end
