(* ===== verification/HostArch.thy ===== *)
theory HostArch
  imports Arch
begin

text \<open>
  \<open>get_arch_from_host\<close> of \<^verbatim>\<open>cctools/libstuff/get_arch_from_host.c\<close>: the architecture of the machine the program runs
  on, as the flag of its family and as the flag of the processor itself. What the kernel says of the processor
  is the argument, \<open>None\<close> when the kernel call fails; a name that is not set is the empty string.
\<close>

section \<open>The table\<close>

text \<open>A row for each processor type of the switch: the flag of the family, the names of the subtypes, and how the name
  of any other subtype is made when there is such a case.\<close>

record host_row =
  hr_family :: arch_flag
  hr_names :: "(cpu_subtype_t \<times> string) list"
  hr_other :: "(cpu_subtype_t \<Rightarrow> string) option"

definition unsigned_decimal :: "u32 \<Rightarrow> string" where
  "unsigned_decimal w = decimal (unat w)"

definition m68k_row :: host_row where
  "m68k_row =
     \<lparr>hr_family = arch ''m68k'' CPU_TYPE_MC680x0 CPU_SUBTYPE_MC680x0_ALL,
      hr_names = [(CPU_SUBTYPE_MC680x0_ALL, ''m68030''), (CPU_SUBTYPE_MC68030_ONLY, ''m68030''),
        (CPU_SUBTYPE_MC68040, ''m68040'')], hr_other = None\<rparr>"

definition ppc_row :: host_row where
  "ppc_row =
     \<lparr>hr_family = arch ''ppc'' CPU_TYPE_POWERPC CPU_SUBTYPE_POWERPC_ALL,
      hr_names = [(CPU_SUBTYPE_POWERPC_ALL, ''ppc''), (CPU_SUBTYPE_POWERPC_601, ''ppc601''),
        (CPU_SUBTYPE_POWERPC_603, ''ppc603''), (CPU_SUBTYPE_POWERPC_603e, ''ppc603e''),
        (CPU_SUBTYPE_POWERPC_603ev, ''ppc603ev''), (CPU_SUBTYPE_POWERPC_604, ''ppc604''),
        (CPU_SUBTYPE_POWERPC_604e, ''ppc604e''), (CPU_SUBTYPE_POWERPC_750, ''ppc750''),
        (CPU_SUBTYPE_POWERPC_7400, ''ppc7400''), (CPU_SUBTYPE_POWERPC_7450, ''ppc7450''),
        (CPU_SUBTYPE_POWERPC_970, ''ppc970'')],
      hr_other = Some (\<lambda>s. ''PowerPC cpusubtype '' @ unsigned_decimal s)\<rparr>"

definition veo_row :: host_row where
  "veo_row =
     \<lparr>hr_family = arch ''veo'' CPU_TYPE_VEO CPU_SUBTYPE_VEO_ALL,
      hr_names = [(CPU_SUBTYPE_VEO_1, ''veo1''), (CPU_SUBTYPE_VEO_2, ''veo2''), (CPU_SUBTYPE_VEO_3, ''veo3''),
        (CPU_SUBTYPE_VEO_4, ''veo4'')],
      hr_other = Some (\<lambda>s. ''VEO cpusubtype '' @ unsigned_decimal s)\<rparr>"

definition m88k_row :: host_row where
  "m88k_row =
     \<lparr>hr_family = arch ''m88k'' CPU_TYPE_MC88000 CPU_SUBTYPE_MC88000_ALL,
      hr_names = [(CPU_SUBTYPE_MC88000_ALL, ''m88k''), (CPU_SUBTYPE_MC88110, ''m88k'')], hr_other = None\<rparr>"

definition i386_row :: host_row where
  "i386_row =
     \<lparr>hr_family = arch ''i386'' CPU_TYPE_I386 CPU_SUBTYPE_I386_ALL,
      hr_names = [(CPU_SUBTYPE_I386_ALL, ''i386''), (CPU_SUBTYPE_486, ''i486''), (CPU_SUBTYPE_486SX, ''i486SX''),
        (CPU_SUBTYPE_PENT, ''pentium''), (CPU_SUBTYPE_PENTPRO, ''pentpro''), (CPU_SUBTYPE_PENTII_M3, ''pentIIm3''),
        (CPU_SUBTYPE_PENTII_M5, ''pentIIm5''), (CPU_SUBTYPE_PENTIUM_4, ''pentium4'')],
      hr_other = Some (\<lambda>s. ''Intel family '' @ unsigned_decimal (CPU_SUBTYPE_INTEL_FAMILY s) @ '' model '' @
        unsigned_decimal (CPU_SUBTYPE_INTEL_MODEL s))\<rparr>"

definition i860_row :: host_row where
  "i860_row =
     \<lparr>hr_family = arch ''i860'' CPU_TYPE_I860 CPU_SUBTYPE_I860_ALL,
      hr_names = [(CPU_SUBTYPE_I860_ALL, ''i860''), (CPU_SUBTYPE_I860_860, ''i860'')], hr_other = None\<rparr>"

definition hppa_row :: host_row where
  "hppa_row =
     \<lparr>hr_family = arch ''hppa'' CPU_TYPE_HPPA CPU_SUBTYPE_HPPA_ALL,
      hr_names = [(CPU_SUBTYPE_HPPA_ALL, ''hppa''), (CPU_SUBTYPE_HPPA_7100LC, ''hppa7100LC'')], hr_other = None\<rparr>"

definition sparc_row :: host_row where
  "sparc_row =
     \<lparr>hr_family = arch ''sparc'' CPU_TYPE_SPARC CPU_SUBTYPE_SPARC_ALL,
      hr_names = [(CPU_SUBTYPE_SPARC_ALL, ''sparc'')], hr_other = None\<rparr>"

definition arm_row :: host_row where
  "arm_row =
     \<lparr>hr_family = arch ''arm'' CPU_TYPE_ARM CPU_SUBTYPE_ARM_ALL,
      hr_names = [(CPU_SUBTYPE_ARM_ALL, ''arm''), (CPU_SUBTYPE_ARM_V4T, ''armv4t''), (CPU_SUBTYPE_ARM_V5TEJ, ''armv5''),
        (CPU_SUBTYPE_ARM_XSCALE, ''xscale''), (CPU_SUBTYPE_ARM_V6, ''armv6''), (CPU_SUBTYPE_ARM_V6M, ''armv6m''),
        (CPU_SUBTYPE_ARM_V7, ''armv7''), (CPU_SUBTYPE_ARM_V7F, ''armv7f''), (CPU_SUBTYPE_ARM_V7S, ''armv7s''),
        (CPU_SUBTYPE_ARM_V7K, ''armv7k''), (CPU_SUBTYPE_ARM_V7M, ''armv7m''), (CPU_SUBTYPE_ARM_V7EM, ''armv7em'')],
      hr_other = None\<rparr>"

definition arm64_row :: host_row where
  "arm64_row =
     \<lparr>hr_family = arch ''arm64'' CPU_TYPE_ARM64 CPU_SUBTYPE_ARM64_ALL,
      hr_names = [(CPU_SUBTYPE_ARM64_ALL, ''arm64''), (CPU_SUBTYPE_ARM64_V8, ''arm64v8''), (CPU_SUBTYPE_ARM64E, ''arm64e'')],
      hr_other = None\<rparr>"

definition arm64_32_row :: host_row where
  "arm64_32_row =
     \<lparr>hr_family = arch ''arm64_32'' CPU_TYPE_ARM64_32 CPU_SUBTYPE_ARM64_32_V8,
      hr_names = [(CPU_SUBTYPE_ARM64_32_V8, ''arm64_32'')], hr_other = None\<rparr>"

definition host_rows :: "host_row list" where
  "host_rows = [m68k_row, ppc_row, veo_row, m88k_row, i386_row, i860_row,
     hppa_row, sparc_row, arm_row, arm64_row, arm64_32_row]"

section \<open>The routine\<close>

text \<open>The name of the processor, when it is known.\<close>

definition host_name :: "host_row \<Rightarrow> cpu_subtype_t \<Rightarrow> string option" where
  "host_name r s =
     (case map_of (hr_names r) s of
        Some n \<Rightarrow> Some n
      | None \<Rightarrow> map_option (\<lambda>other. other s) (hr_other r))"

text \<open>The kernel reports the 68030 with the subtype of the family.\<close>

definition host_subtype :: "cpu_type_t \<Rightarrow> cpu_subtype_t \<Rightarrow> cpu_subtype_t" where
  "host_subtype t s = (if t = CPU_TYPE_MC680x0 \<and> s = CPU_SUBTYPE_MC680x0_ALL then CPU_SUBTYPE_MC68030_ONLY else s)"

text \<open>The result, the flag of the family and the flag of the processor.\<close>

definition get_arch_from_host :: "(cpu_type_t \<times> cpu_subtype_t) option \<Rightarrow> bool \<times> arch_flag \<times> arch_flag" where
  "get_arch_from_host host_info =
     (case host_info of
        None \<Rightarrow> (False, arch '''' 0 0, arch '''' 0 0)
      | Some (t, s) \<Rightarrow>
          (case find (\<lambda>r. af_cputype (hr_family r) = t) host_rows of
             None \<Rightarrow> (False, arch '''' t 0, arch '''' t s)
           | Some r \<Rightarrow>
               (case host_name r s of
                  None \<Rightarrow> (False, arch '''' t 0, arch '''' t s)
                | Some name \<Rightarrow> (True, hr_family r, arch name t (host_subtype t s)))))"

section \<open>The flags\<close>

text \<open>A flag is that of its name in the table of \<^verbatim>\<open>arch.c\<close>.\<close>

definition known_flag :: "arch_flag \<Rightarrow> bool" where
  "known_flag f \<longleftrightarrow> get_arch_from_flag (af_name f) = Some f"

definition row_flag :: "host_row \<Rightarrow> cpu_subtype_t \<Rightarrow> string \<Rightarrow> arch_flag" where
  "row_flag r s n = (let t = af_cputype (hr_family r) in arch n t (host_subtype t s))"

text \<open>Two names are given to two subtypes each; one of them is not that of the flag.\<close>

definition shared_name :: "cpu_type_t \<Rightarrow> cpu_subtype_t \<Rightarrow> bool" where
  "shared_name t s \<longleftrightarrow> (t, s) \<in> {(CPU_TYPE_MC88000, CPU_SUBTYPE_MC88110), (CPU_TYPE_I860, CPU_SUBTYPE_I860_860)}"

lemma host_rows_flags:
  "list_all (\<lambda>r. known_flag (hr_family r) \<and>
     get_arch_family_from_cputype (af_cputype (hr_family r)) =
       (if af_cputype (hr_family r) = CPU_TYPE_ARM64 then None else Some (hr_family r)) \<and>
     list_all (\<lambda>(s, n). shared_name (af_cputype (hr_family r)) s \<or> known_flag (row_flag r s n)) (hr_names r)) host_rows"
  by code_simp



end
