(* ===== verification/Process.thy ===== *)
theory Process
  imports MapFile Modules HostArch CheckMachO_Limits
begin

text \<open>
  \<open>ofile_process\<close> of \<^verbatim>\<open>cctools/libstuff/ofile.c\<close>, which calls a routine, the processor, for the objects of a file: for the
  architectures of a fat file that are asked for, for the members of an archive, for the modules of a
  library; and \<open>ofile_map\<close>, which opens the file.

  The processor is a parameter. It is given the structure and the name of an architecture, and changes its own
  data, the cookie, only. What opening and mapping a file gives is the parameter \<open>files\<close>: the mapped memory
  and the size of the file. The code is that of a build for a processor other than ARM.
\<close>

section \<open>Opening\<close>

type_synonym files = "bytes \<Rightarrow> (bytes \<times> u64) option"

type_synonym host_info = "(cpu_type_t \<times> cpu_subtype_t) option"

text \<open>The environment of a run: the one of the other routines, what the kernel says of the processor, and the files.\<close>

record system =
  sys_env :: environment
  sys_host :: host_info
  sys_files :: files

definition host_family :: "host_info \<Rightarrow> arch_flag option" where
  "host_family host = (case get_arch_from_host host of (known, family, _) \<Rightarrow> if known then Some family else None)"

definition ofile_map :: "system \<Rightarrow> bytes \<Rightarrow> arch_flag option \<Rightarrow> bytes option \<Rightarrow> bool \<Rightarrow> outcome" where
  "ofile_map sys name arch_flag object_name archives_with_fat_objects =
     (case sys_files sys name of
        None \<Rightarrow> Some (False, zero_ofile, [Cannot_Open])
      | Some (addr, sz) \<Rightarrow>
          ofile_map_from_memory (sys_env sys) (host_family (sys_host sys)) addr sz arch_flag object_name zero_ofile
            archives_with_fat_objects)"

text \<open>The name \<open>archive(member)\<close>.\<close>

definition split_member :: "bytes \<Rightarrow> bytes \<times> bytes option" where
  "split_member name =
     (let tail = takeWhile (\<lambda>c. c \<noteq> 40) (rev name); rest = dropWhile (\<lambda>c. c \<noteq> 40) (rev name)
      in if length name \<ge> 4 \<and> last name = 41 \<and> length rest > 1
         then (rev (tl rest), Some (butlast (rev tail)))
         else (name, None))"

section \<open>Steps\<close>

text \<open>The name that is passed to the processor: none, a name, or the address of one that was freed.\<close>

datatype label = No_Label | Label string | Freed_Label

type_synonym 'c processor = "ofile \<Rightarrow> label \<Rightarrow> 'c \<Rightarrow> 'c"

record options =
  op_arch_flags :: "arch_flag list"
  op_all_archs :: bool
  op_process_non_objects :: bool
  op_dylib_flat :: bool
  op_use_member_syntax :: bool

record 'c progress =
  pg_ofile :: ofile
  pg_cookie :: 'c
  pg_messages :: "ofile_error list"
  pg_label :: label
  pg_flag :: bool

definition call :: "(ofile \<Rightarrow> outcome) \<Rightarrow> 'c progress \<Rightarrow> (bool \<times> 'c progress) option" where
  "call routine s =
     Option.bind (routine (pg_ofile s)) (\<lambda>(b, ofl, ms).
     Some (b, s\<lparr>pg_ofile := ofl, pg_messages := pg_messages s @ ms\<rparr>))"

definition complain :: "ofile_error \<Rightarrow> 'c progress \<Rightarrow> 'c progress" where
  "complain x s = s\<lparr>pg_messages := pg_messages s @ [x]\<rparr>"

definition process_one :: "'c processor \<Rightarrow> 'c progress \<Rightarrow> 'c progress" where
  "process_one processor s = s\<lparr>pg_cookie := processor (pg_ofile s) (pg_label s) (pg_cookie s)\<rparr>"

text \<open>The headers are swapped back in the memory of the object.\<close>

definition swap_back :: "environment \<Rightarrow> ofile \<Rightarrow> ofile option" where
  "swap_back env ofl =
     (let is64 = (o_mh ofl = Null); p = (if is64 then o_mh64 ofl else o_mh ofl);
          h = (if is64 then sizeof_mach_header_64 else sizeof_mach_header)
      in if \<not> o_headers_swapped ofl then Some ofl
         else if p = Null then Some (ofl\<lparr>o_headers_swapped := False\<rparr>)
         else Option.bind (memory ofl p) (\<lambda>mem.
           case swap_back_Mach_O (env_host env) (env_bits env) True mem (drop h mem) of
             Inl _ \<Rightarrow> None
           | Inr (_, hdr, lc) \<Rightarrow> Some ((store ofl p (take h hdr @ lc))\<lparr>o_headers_swapped := False\<rparr>)))"

text \<open>Where the code has a call, \<open>sb\<close> is true.\<close>

definition put_back :: "environment \<Rightarrow> bool \<Rightarrow> 'c progress \<Rightarrow> 'c progress option" where
  "put_back env sb s =
     (if sb then map_option (\<lambda>ofl. s\<lparr>pg_ofile := ofl\<rparr>) (swap_back env (pg_ofile s)) else Some s)"

text \<open>A \<open>do\<close> loop with the given body.\<close>

partial_function (option) do_while :: "('s \<Rightarrow> 's option) \<Rightarrow> ('s \<Rightarrow> (bool \<times> 's) option) \<Rightarrow> 's \<Rightarrow> 's option" where
  "do_while body condition s =
     Option.bind (body s) (\<lambda>s1. Option.bind (condition s1) (\<lambda>(b, s2). if b then do_while body condition s2 else Some s2))"

declare do_while.simps [code]

section \<open>Archives and objects\<close>

definition process_member :: "environment \<Rightarrow> options \<Rightarrow> 'c processor \<Rightarrow> bool \<Rightarrow> 'c progress \<Rightarrow> 'c progress option" where
  "process_member env op processor sb s =
     (if op_process_non_objects op \<or> o_member_type (pg_ofile s) = OFILE_Mach_O
      then map_option (\<lambda>s. s\<lparr>pg_flag := True\<rparr>) (put_back env sb (process_one processor s))
      else Some s)"

definition process_archive ::
  "environment \<Rightarrow> options \<Rightarrow> 'c processor \<Rightarrow> bool \<Rightarrow> bytes option \<Rightarrow> 'c progress \<Rightarrow> 'c progress option" where
  "process_archive env op processor sb member_name s =
     (case member_name of
        Some name \<Rightarrow>
          Option.bind (call (ofile_specific_member env name) s) (\<lambda>(found, s).
          if found then put_back env sb (process_one processor s) else Some s)
      | None \<Rightarrow>
          Option.bind (call (ofile_first_member env) s) (\<lambda>(found, s).
          if found then
            map_option (\<lambda>s. if pg_flag s then s else complain No_Object_Members s)
              (do_while (process_member env op processor sb) (call (ofile_next_member env)) (s\<lparr>pg_flag := False\<rparr>))
          else Some (complain No_Members s)))"

definition process_library ::
  "environment \<Rightarrow> options \<Rightarrow> 'c processor \<Rightarrow> bytes option \<Rightarrow> 'c progress \<Rightarrow> 'c progress option" where
  "process_library env op processor member_name s =
     (if op_dylib_flat op then Some (process_one processor s)
      else case member_name of
        Some name \<Rightarrow>
          Option.bind (call (ofile_specific_module env name) s) (\<lambda>(found, s).
          Some (if found then process_one processor s else s))
      | None \<Rightarrow>
          Option.bind (call (ofile_first_module env) s) (\<lambda>(found, s).
          if found then do_while (\<lambda>s. Some (process_one processor s)) (call (ofile_next_module env)) s
          else Some (process_one processor s)))"

text \<open>The object, or what is processed like one; \<open>object\<close> says that it is one.\<close>

definition process_object ::
  "environment \<Rightarrow> options \<Rightarrow> 'c processor \<Rightarrow> bool \<Rightarrow> bytes option \<Rightarrow> bool \<Rightarrow> 'c progress \<Rightarrow> 'c progress option" where
  "process_object env op processor sb member_name object s =
     (if object \<and> is_library (pg_ofile s) then
        Option.bind (process_library env op processor member_name s) (put_back env sb)
      else if member_name \<noteq> None then Some (complain Member_Needs_Archive s)
      else put_back env sb (process_one processor s))"

text \<open>The current architecture of a fat file.\<close>

definition process_slice ::
  "environment \<Rightarrow> options \<Rightarrow> 'c processor \<Rightarrow> bool \<Rightarrow> bytes option \<Rightarrow> 'c progress \<Rightarrow> 'c progress option" where
  "process_slice env op processor sb member_name s =
     (if o_arch_type (pg_ofile s) = OFILE_ARCHIVE then process_archive env op processor sb member_name s
      else if op_process_non_objects op \<or> o_arch_type (pg_ofile s) = OFILE_Mach_O
      then process_object env op processor sb member_name (o_arch_type (pg_ofile s) = OFILE_Mach_O) s
      else Some (if o_arch_type (pg_ofile s) = OFILE_UNKNOWN then complain Not_An_Object_File s else s))"

section \<open>Architectures\<close>

definition is_family :: "arch_flag \<Rightarrow> bool" where
  "is_family f =
     (case get_arch_family_from_cputype (af_cputype f) of
        None \<Rightarrow> False
      | Some g \<Rightarrow> unmask (af_cpusubtype g) = unmask (af_cpusubtype f))"

definition wanted :: "arch_flag \<Rightarrow> bool \<Rightarrow> cpu_type_t \<Rightarrow> cpu_subtype_t \<Rightarrow> bool" where
  "wanted f family cputype cpusubtype \<longleftrightarrow>
     cputype = af_cputype f \<and> (unmask cpusubtype = unmask (af_cpusubtype f) \<or> family)"

fun stale :: "label \<Rightarrow> label" where
  "stale No_Label = No_Label"
| "stale (Label n) = Freed_Label"
| "stale Freed_Label = Freed_Label"

text \<open>The loop over the architectures up to the one that is wanted. The name of the current architecture is freed when
  the next one is selected. The flag of the result says that there was one.\<close>

partial_function (option) search_arch ::
  "environment \<Rightarrow> arch_flag \<Rightarrow> ('c progress \<Rightarrow> 'c progress option) \<Rightarrow> 'c progress \<Rightarrow> (bool \<times> 'c progress) option" where
  "search_arch env f body s =
     (if wanted f (is_family f) (o_arch_cputype (pg_ofile s)) (o_arch_cpusubtype (pg_ofile s))
      then map_option (\<lambda>s. (True, s)) (body s)
      else
        Option.bind (put_back env True s) (\<lambda>s1.
        Option.bind (call (ofile_next_arch env) s1) (\<lambda>(found, s2).
        if found then search_arch env f body (s2\<lparr>pg_label := stale (pg_label s2)\<rparr>) else Some (False, s2))))"

declare search_arch.simps [code]

text \<open>The architectures that are asked for, one after the other.\<close>

fun process_flags ::
  "environment \<Rightarrow> options \<Rightarrow> 'c processor \<Rightarrow> bytes option \<Rightarrow> arch_flag list \<Rightarrow> 'c progress \<Rightarrow> 'c progress option" where
  "process_flags env op processor member_name [] s = Some s"
| "process_flags env op processor member_name (f # fs) s =
     Option.bind (call (ofile_first_arch env) s) (\<lambda>(found, s1).
     if \<not> found then Some s1
     else
       let label = (if length (op_arch_flags op) \<noteq> 1
             then (case o_arch_name (pg_ofile s1) of None \<Rightarrow> No_Label | Some n \<Rightarrow> Label n) else No_Label)
       in Option.bind (search_arch env f
            (\<lambda>s. Option.bind (process_slice env op processor True member_name s) (put_back env True))
            (s1\<lparr>pg_label := label\<rparr>)) (\<lambda>(found, s2).
          process_flags env op processor member_name fs (if found then s2 else complain Missing_Architecture s2)))"

text \<open>The architecture of the host; on an Intel host a 64 bit build looks for the 64 bit one.\<close>

definition host_flag :: "host_info \<Rightarrow> arch_flag option" where
  "host_flag host =
     (case get_arch_from_host host of (_, family, _) \<Rightarrow>
        if af_cputype family = CPU_TYPE_I386 then get_arch_family_from_cputype CPU_TYPE_X86_64 else Some family)"

text \<open>The file is mapped again before the architectures are gone through.\<close>

definition remap :: "system \<Rightarrow> bytes \<Rightarrow> ('c progress \<Rightarrow> 'c progress option) \<Rightarrow> 'c progress \<Rightarrow> 'c progress option" where
  "remap sys name cont s =
     Option.bind (call (\<lambda>_. ofile_map sys name None None False) s) (\<lambda>(mapped, s).
     if \<not> mapped then Some s
     else
       Option.bind (call (ofile_first_arch (sys_env sys)) s) (\<lambda>(found, s).
       if found then cont s else Some s))"

definition label_arch :: "'c progress \<Rightarrow> 'c progress" where
  "label_arch s = s\<lparr>pg_label := (case o_arch_name (pg_ofile s) of None \<Rightarrow> No_Label | Some n \<Rightarrow> Label n)\<rparr>"

definition process_all ::
  "system \<Rightarrow> options \<Rightarrow> 'c processor \<Rightarrow> bytes \<Rightarrow> bytes option \<Rightarrow> 'c progress \<Rightarrow> 'c progress option" where
  "process_all sys op processor name member_name =
     remap sys name (do_while
       (\<lambda>s. process_slice (sys_env sys) op processor False member_name (label_arch s))
       (call (ofile_next_arch (sys_env sys))))"

definition process_host ::
  "system \<Rightarrow> options \<Rightarrow> 'c processor \<Rightarrow> bytes \<Rightarrow> bytes option \<Rightarrow> 'c progress \<Rightarrow> 'c progress option" where
  "process_host sys op processor name member_name s =
     (case host_flag (sys_host sys) of
        None \<Rightarrow> None
      | Some f \<Rightarrow>
          remap sys name (\<lambda>s.
            Option.bind (search_arch (sys_env sys) f (process_slice (sys_env sys) op processor True member_name)
              (s\<lparr>pg_label := No_Label\<rparr>)) (\<lambda>(found, s).
            if found then Some s else process_all sys op processor name member_name s)) s)"

definition process_fat ::
  "system \<Rightarrow> options \<Rightarrow> 'c processor \<Rightarrow> bytes \<Rightarrow> bytes option \<Rightarrow> 'c progress \<Rightarrow> 'c progress option" where
  "process_fat sys op processor name member_name s =
     (if op_all_archs op then process_all sys op processor name member_name s
      else if op_arch_flags op \<noteq> [] then process_flags (sys_env sys) op processor member_name (op_arch_flags op) s
      else process_host sys op processor name member_name s)"

section \<open>Files that are not fat\<close>

text \<open>The flags are compared with the architecture of the file; the subtype may be any only when there is one flag. There
  is a message for each flag that does not match, and one match is enough.\<close>

definition file_wanted :: "options \<Rightarrow> cpu_type_t \<Rightarrow> cpu_subtype_t \<Rightarrow> arch_flag \<Rightarrow> bool" where
  "file_wanted op cputype cpusubtype f \<longleftrightarrow>
     wanted f (length (op_arch_flags op) = 1 \<and> is_family f) cputype cpusubtype"

definition process_file ::
  "options \<Rightarrow> cpu_type_t \<Rightarrow> cpu_subtype_t \<Rightarrow> ('c progress \<Rightarrow> 'c progress option) \<Rightarrow> 'c progress \<Rightarrow> 'c progress option" where
  "process_file op cputype cpusubtype cont s =
     (let fs = op_arch_flags op; missing = filter (\<lambda>f. \<not> file_wanted op cputype cpusubtype f) fs;
          s = s\<lparr>pg_messages := pg_messages s @ map (\<lambda>_. Missing_Architecture) missing\<rparr>
      in if fs \<noteq> [] \<and> length missing = length fs then Some s else cont s)"

definition process_mapped ::
  "system \<Rightarrow> options \<Rightarrow> 'c processor \<Rightarrow> bytes \<Rightarrow> bytes option \<Rightarrow> 'c progress \<Rightarrow> 'c progress option" where
  "process_mapped sys op processor name member_name s =
     (let ofl = pg_ofile s; env = sys_env sys in
      case o_file_type ofl of
        OFILE_FAT \<Rightarrow> process_fat sys op processor name member_name s
      | OFILE_ARCHIVE \<Rightarrow>
          process_file op (o_archive_cputype ofl) (o_archive_cpusubtype ofl)
            (process_archive env op processor False member_name) s
      | OFILE_Mach_O \<Rightarrow>
          process_file op (o_mh_cputype ofl) (o_mh_cpusubtype ofl)
            (process_object env op processor False member_name True) s
      | _ \<Rightarrow> Some (if op_process_non_objects op then process_one processor s else complain Not_An_Object_File s))"

section \<open>The routine\<close>

text \<open>The result is the cookie and the messages.\<close>

definition ofile_process ::
  "system \<Rightarrow> options \<Rightarrow> 'c processor \<Rightarrow> bytes \<Rightarrow> 'c \<Rightarrow> ('c \<times> ofile_error list) option" where
  "ofile_process sys op processor path cookie =
     (let (name, member_name) = (if op_use_member_syntax op then split_member path else (path, None));
          s = \<lparr>pg_ofile = zero_ofile, pg_cookie = cookie, pg_messages = [], pg_label = No_Label, pg_flag = False\<rparr>
      in map_option (\<lambda>s. (pg_cookie s, pg_messages s))
           (Option.bind (call (\<lambda>_. ofile_map sys name None None False) s) (\<lambda>(mapped, s).
            if mapped then process_mapped sys op processor name member_name s else Some s)))"

end
