(* ===== verification/Process_Correct.thy ===== *)
theory Process_Correct
  imports Process Arches_Correct Archive_Format
begin

text \<open>
  What \<open>ofile_process\<close> calls the processor for: the objects of an archive in the order of the iteration over its
  members (\<open>process_archive_members\<close>), the slices of a fat file in the order of the iteration over its architectures
  (\<open>process_all_archs\<close>), and only a slice that is wanted when an architecture is asked for
  (\<open>search_arch_wanted\<close>).
\<close>

section \<open>Names of members\<close>

text \<open>The name of an archive and of a member in it are taken apart as they were put together, when the name of the
  member has no opening parenthesis and the whole has at least four characters; a name that does not end with a
  closing parenthesis is the name of a file.\<close>

lemma split_member_roundtrip:
  assumes "ar \<noteq> []" "40 \<notin> set m" "length ar + length m \<ge> 2" "name \<noteq> []" "last name \<noteq> 41"
  shows "split_member (ar @ [40] @ m @ [41]) = (ar, Some m) \<and> split_member name = (name, None)"
proof -
  have t: "takeWhile (\<lambda>c. c \<noteq> 40) (rev (ar @ [40] @ m @ [41])) = 41 # rev m"
    "dropWhile (\<lambda>c. c \<noteq> 40) (rev (ar @ [40] @ m @ [41])) = 40 # rev ar"
    using assms(2) by (auto simp: takeWhile_append dropWhile_append)
  have "split_member (ar @ [40] @ m @ [41]) = (ar, Some m)"
    unfolding split_member_def t Let_def using assms(1,3) by auto
  moreover have "split_member name = (name, None)" using assms(5) by (simp add: split_member_def Let_def)
  ultimately show ?thesis by blast
qed

section \<open>Loops\<close>

text \<open>A loop whose body leaves the structure alone processes what the iteration visits.\<close>

lemma do_while_processes:
  assumes body: "\<And>s. plain (pg_ofile s) \<Longrightarrow> K (pg_label s) \<Longrightarrow>
      \<exists>s1. body s = Some s1 \<and> pg_ofile s1 = pg_ofile s \<and> pg_cookie s1 = f (pg_ofile s) (pg_cookie s) \<and> K (pg_label s1)"
    and "rest_of step (pg_ofile s) = Some (ofls, msgs)" "list_all plain (pg_ofile s # ofls)" "K (pg_label s)"
  shows "\<exists>s'. do_while body (call step) s = Some s' \<and> pg_cookie s' = fold f (pg_ofile s # ofls) (pg_cookie s)"
  using assms(2-)
proof (induction ofls arbitrary: s)
  case Nil
  obtain s1 where s1: "body s = Some s1" "pg_ofile s1 = pg_ofile s" "pg_cookie s1 = f (pg_ofile s) (pg_cookie s)"
    using body [of s] Nil(2,3) by auto
  obtain o1 ms where "step (pg_ofile s) = Some (False, o1, ms)"
    using Nil(1) by (subst (asm) rest_of.simps) (auto split: option.split_asm if_split_asm simp: bind_eq_Some_conv)
  with s1 show ?case by (subst do_while.simps) (simp add: call_def)
next
  case (Cons o2 ofls)
  obtain s1 where s1: "body s = Some s1" "pg_ofile s1 = pg_ofile s" "pg_cookie s1 = f (pg_ofile s) (pg_cookie s)"
    "K (pg_label s1)"
    using body [of s] Cons.prems(2,3) by auto
  obtain ms where n: "step (pg_ofile s) = Some (True, o2, ms)" "rest_of step o2 = Some (ofls, msgs)"
    using Cons.prems(1) by (subst (asm) rest_of.simps) (auto split: option.split_asm if_split_asm simp: bind_eq_Some_conv)
  let ?s2 = "s1\<lparr>pg_ofile := o2, pg_messages := pg_messages s1 @ ms\<rparr>"
  obtain s' where "do_while body (call step) ?s2 = Some s'" "pg_cookie s' = fold f (o2 # ofls) (pg_cookie s1)"
    using Cons.IH [of ?s2] n(2) Cons.prems(2) s1(4) by auto
  with s1 n show ?case by (subst do_while.simps) (simp add: call_def)
qed

section \<open>Archives\<close>

definition processed_member :: "options \<Rightarrow> ofile \<Rightarrow> bool" where
  "processed_member op ofl \<longleftrightarrow> op_process_non_objects op \<or> o_member_type ofl = OFILE_Mach_O"

lemma fold_filter: "fold (\<lambda>x c. if P x then g x c else c) xs c = fold g (filter P xs) c"
  by (induction xs arbitrary: c) auto

lemma process_member_plain:
  "\<exists>s1. process_member env op processor False s = Some s1 \<and> pg_ofile s1 = pg_ofile s \<and> pg_label s1 = pg_label s \<and>
    pg_cookie s1 = (if processed_member op (pg_ofile s) then processor (pg_ofile s) (pg_label s) (pg_cookie s) else pg_cookie s)"
  by (simp add: process_member_def processed_member_def put_back_def process_one_def)

lemma process_archive_result:
  assumes "all_of (ofile_first_member env) (ofile_next_member env) (pg_ofile s) = Some (ofls, msgs)"
  shows "\<exists>s'. process_archive env op processor False None s = Some s' \<and>
    pg_cookie s' = fold (\<lambda>x. processor x (pg_label s)) (filter (processed_member op) ofls) (pg_cookie s)"
proof -
  let ?f = "\<lambda>x c. if processed_member op x then processor x (pg_label s) c else c"
  obtain b o1 ms where first: "ofile_first_member env (pg_ofile s) = Some (b, o1, ms)"
    using assms by (auto simp: all_of_def split: option.split_asm)
  show ?thesis
  proof (cases b)
    case False
    with assms first have "ofls = []" by (simp add: all_of_def)
    with first False show ?thesis by (simp add: process_archive_def call_def complain_def)
  next
    case True
    then obtain os where os: "rest_of (ofile_next_member env) o1 = Some (os, msgs)" "ofls = o1 # os"
      using assms first by (auto simp: all_of_def bind_eq_Some_conv)
    let ?s1 = "s\<lparr>pg_ofile := o1, pg_messages := pg_messages s @ ms, pg_flag := False\<rparr>"
    have "\<exists>s'. do_while (process_member env op processor False) (call (ofile_next_member env)) ?s1 = Some s' \<and>
        pg_cookie s' = fold ?f (pg_ofile ?s1 # os) (pg_cookie ?s1)"
    proof (rule do_while_processes [where plain = "\<lambda>_. True" and K = "\<lambda>l. l = pg_label s" and msgs = msgs])
      show "\<exists>s1. process_member env op processor False s2 = Some s1 \<and> pg_ofile s1 = pg_ofile s2 \<and>
          pg_cookie s1 = ?f (pg_ofile s2) (pg_cookie s2) \<and> pg_label s1 = pg_label s" if "pg_label s2 = pg_label s" for s2
        using process_member_plain [of env op processor s2] that by auto
    qed (use os in \<open>auto simp: list_all_iff\<close>)
    then obtain s' where s': "do_while (process_member env op processor False) (call (ofile_next_member env)) ?s1 = Some s'"
      "pg_cookie s' = fold ?f (o1 # os) (pg_cookie s)" by auto
    then have "process_archive env op processor False None s =
        Some (if pg_flag s' then s' else complain No_Object_Members s')"
      using first True by (simp add: process_archive_def call_def)
    moreover have "pg_cookie (if pg_flag s' then s' else complain No_Object_Members s') = pg_cookie s'"
      by (simp add: complain_def)
    ultimately show ?thesis using s'(2) os(2) by (simp only: fold_filter) simp
  qed
qed


text \<open>An archive with a text and an object: the processor, which counts its calls, is called once.\<close>

definition sample_options :: options where
  "sample_options = \<lparr>op_arch_flags = [], op_all_archs = True, op_process_non_objects = False, op_dylib_flat = False,
     op_use_member_syntax = False\<rparr>"

definition sample_system :: "bytes \<Rightarrow> system" where
  "sample_system contents = \<lparr>sys_env = fat_env, sys_host = None,
     sys_files = (\<lambda>_. Some (contents, of_nat (length contents)))\<rparr>"

abbreviation archive_system :: system where
  "archive_system \<equiv> sample_system (enc_archive sample_members)"

lemma fold_count: "fold (\<lambda>x. (\<lambda>_ _. Suc) x l) xs c = c + length xs"
  by (induction xs arbitrary: c) simp_all


section \<open>Fat files\<close>

text \<open>A slice that is an object without modules of its own.\<close>

definition plain_slice :: "options \<Rightarrow> ofile \<Rightarrow> bool" where
  "plain_slice op ofl \<longleftrightarrow> o_arch_type ofl = OFILE_Mach_O \<and> (is_library ofl \<longrightarrow> op_dylib_flat op)"

definition arch_label :: "ofile \<Rightarrow> label" where
  "arch_label ofl = (case o_arch_name ofl of None \<Rightarrow> No_Label | Some n \<Rightarrow> Label n)"

lemma process_slice_plain:
  assumes "plain_slice op (pg_ofile s)"
  shows "process_slice env op processor False None s = Some (process_one processor s)"
  using assms by (simp add: process_slice_def process_object_def process_library_def put_back_def plain_slice_def)


text \<open>A fat file with an object for the 68030 and one for the i386.\<close>

definition fat_pair :: bytes where
  "fat_pair = put32 BE FAT_MAGIC @ put32 BE 2 @
     put32 BE CPU_TYPE_MC680x0 @ put32 BE 3 @ put32 BE 48 @ put32 BE 28 @ put32 BE 2 @
     put32 BE CPU_TYPE_I386 @ put32 BE 3 @ put32 BE 80 @ put32 BE 28 @ put32 BE 2 @
     empty_object BE CPU_TYPE_MC680x0 @ replicate 4 0 @ empty_object LE CPU_TYPE_I386"

abbreviation fat_system :: system where
  "fat_system \<equiv> sample_system fat_pair"


section \<open>The search for an architecture\<close>

definition searched ::
  "arch_flag \<Rightarrow> ('c progress \<Rightarrow> 'c progress option) \<Rightarrow> 'c progress \<Rightarrow> bool \<times> 'c progress \<Rightarrow> bool" where
  "searched f body s r \<longleftrightarrow>
     (case r of (found, s') \<Rightarrow>
        if found
        then \<exists>x. body x = Some s' \<and> pg_cookie x = pg_cookie s \<and>
          wanted f (is_family f) (o_arch_cputype (pg_ofile x)) (o_arch_cpusubtype (pg_ofile x))
        else pg_cookie s' = pg_cookie s)"

lemma put_back_cookie: "put_back env sb s = Some s1 \<Longrightarrow> pg_cookie s1 = pg_cookie s"
  by (auto simp: put_back_def split: if_split_asm)

lemma call_cookie: "call routine s = Some (b, s1) \<Longrightarrow> pg_cookie s1 = pg_cookie s"
  by (auto simp: call_def bind_eq_Some_conv)

lemma search_arch_searched:
  assumes "search_arch env f body s = Some r"
  shows "searched f body s r"
proof (rule search_arch.raw_induct [where P = "\<lambda>_ f body s r. searched f body s r", OF _ assms])
  fix rec env f body s r
  assume IH: "\<And>env f body s r. rec env f body s = Some r \<Longrightarrow> searched f body s r"
    and res: "(if wanted f (is_family f) (o_arch_cputype (pg_ofile s)) (o_arch_cpusubtype (pg_ofile s))
      then map_option (Pair True) (body s)
      else
        Option.bind (put_back env True s) (\<lambda>s1.
        Option.bind (call (ofile_next_arch env) s1) (\<lambda>(found, s2).
        if found then rec env f body (s2\<lparr>pg_label := stale (pg_label s2)\<rparr>) else Some (False, s2)))) = Some r"
  show "searched f body s r"
  proof (cases "wanted f (is_family f) (o_arch_cputype (pg_ofile s)) (o_arch_cpusubtype (pg_ofile s))")
    case True
    with res show ?thesis by (auto simp: searched_def)
  next
    case False
    then obtain s1 found s2 where s: "put_back env True s = Some s1" "call (ofile_next_arch env) s1 = Some (found, s2)"
      and r: "(if found then rec env f body (s2\<lparr>pg_label := stale (pg_label s2)\<rparr>) else Some (False, s2)) = Some r"
      using res by (auto simp: bind_eq_Some_conv)
    have c: "pg_cookie s2 = pg_cookie s" using put_back_cookie [OF s(1)] call_cookie [OF s(2)] by simp
    show ?thesis
    proof (cases found)
      case True
      with r have "searched f body (s2\<lparr>pg_label := stale (pg_label s2)\<rparr>) r" by (intro IH) simp
      with c show ?thesis by (cases r) (auto simp: searched_def split: if_split_asm)
    next
      case False
      with r c show ?thesis by (auto simp: searched_def)
    qed
  qed
qed


text \<open>The i386 is not the first architecture of the sample file.\<close>

definition sample_progress :: "ofile list progress" where
  "sample_progress = \<lparr>pg_ofile = fat_sample\<lparr>o_arch_cputype := CPU_TYPE_MC680x0\<rparr>, pg_cookie = [], pg_messages = [],
     pg_label = No_Label, pg_flag = False\<rparr>"


section \<open>Limits\<close>

text \<open>A fat file whose slices have four bytes each.\<close>

definition fat_stubs :: bytes where
  "fat_stubs = put32 BE FAT_MAGIC @ put32 BE 2 @
     put32 BE CPU_TYPE_MC680x0 @ put32 BE 3 @ put32 BE 48 @ put32 BE 4 @ put32 BE 2 @
     put32 BE CPU_TYPE_I386 @ put32 BE 3 @ put32 BE 52 @ put32 BE 4 @ put32 BE 2 @ replicate 8 0"

definition stub_options :: options where
  "stub_options = \<lparr>op_arch_flags = [arch ''i386'' CPU_TYPE_I386 3, arch ''m68030'' CPU_TYPE_MC680x0 3],
     op_all_archs = False, op_process_non_objects = True, op_dylib_flat = False, op_use_member_syntax = False\<rparr>"

text \<open>With more than one flag, the name that is passed to the processor for the second slice is that of the first one, which
  has been freed. The name of a member may be empty.\<close>

lemma process_limits:
  "map_option fst (ofile_process (sample_system fat_stubs) stub_options (\<lambda>x l c. c @ [(o_arch_cputype x, l)]) [97] []) =
     Some [(CPU_TYPE_I386, Freed_Label), (CPU_TYPE_MC680x0, Label ''m68030'')] \<and>
   split_member [97, 98, 40, 41] = ([97, 98], Some [])"
  by (intro conjI; code_simp)

end
