(* ===== verification/Crc32.thy ===== *)
theory Crc32
  imports Prelude
begin

text \<open>
  The checksum of \<^verbatim>\<open>cctools/libstuff/crc32.c\<close>, the one of the command \<^verbatim>\<open>cksum\<close>: a table driven
  cyclic redundancy check over the bytes of a buffer followed by the bytes of its length. The
  reference is the register of the polynomial \<open>0x04c11db7\<close> stepped bit by bit; the locale
  \<open>register_update\<close> is what the detection of errors needs of one step.
\<close>

section \<open>The table driven checksum\<close>

definition crctab :: "u32 list" where
  "crctab =
     [0x0, 0x04c11db7, 0x09823b6e, 0x0d4326d9, 0x130476dc, 0x17c56b6b, 0x1a864db2, 0x1e475005,
      0x2608edb8, 0x22c9f00f, 0x2f8ad6d6, 0x2b4bcb61, 0x350c9b64, 0x31cd86d3, 0x3c8ea00a, 0x384fbdbd,
      0x4c11db70, 0x48d0c6c7, 0x4593e01e, 0x4152fda9, 0x5f15adac, 0x5bd4b01b, 0x569796c2, 0x52568b75,
      0x6a1936c8, 0x6ed82b7f, 0x639b0da6, 0x675a1011, 0x791d4014, 0x7ddc5da3, 0x709f7b7a, 0x745e66cd,
      0x9823b6e0, 0x9ce2ab57, 0x91a18d8e, 0x95609039, 0x8b27c03c, 0x8fe6dd8b, 0x82a5fb52, 0x8664e6e5,
      0xbe2b5b58, 0xbaea46ef, 0xb7a96036, 0xb3687d81, 0xad2f2d84, 0xa9ee3033, 0xa4ad16ea, 0xa06c0b5d,
      0xd4326d90, 0xd0f37027, 0xddb056fe, 0xd9714b49, 0xc7361b4c, 0xc3f706fb, 0xceb42022, 0xca753d95,
      0xf23a8028, 0xf6fb9d9f, 0xfbb8bb46, 0xff79a6f1, 0xe13ef6f4, 0xe5ffeb43, 0xe8bccd9a, 0xec7dd02d,
      0x34867077, 0x30476dc0, 0x3d044b19, 0x39c556ae, 0x278206ab, 0x23431b1c, 0x2e003dc5, 0x2ac12072,
      0x128e9dcf, 0x164f8078, 0x1b0ca6a1, 0x1fcdbb16, 0x018aeb13, 0x054bf6a4, 0x0808d07d, 0x0cc9cdca,
      0x7897ab07, 0x7c56b6b0, 0x71159069, 0x75d48dde, 0x6b93dddb, 0x6f52c06c, 0x6211e6b5, 0x66d0fb02,
      0x5e9f46bf, 0x5a5e5b08, 0x571d7dd1, 0x53dc6066, 0x4d9b3063, 0x495a2dd4, 0x44190b0d, 0x40d816ba,
      0xaca5c697, 0xa864db20, 0xa527fdf9, 0xa1e6e04e, 0xbfa1b04b, 0xbb60adfc, 0xb6238b25, 0xb2e29692,
      0x8aad2b2f, 0x8e6c3698, 0x832f1041, 0x87ee0df6, 0x99a95df3, 0x9d684044, 0x902b669d, 0x94ea7b2a,
      0xe0b41de7, 0xe4750050, 0xe9362689, 0xedf73b3e, 0xf3b06b3b, 0xf771768c, 0xfa325055, 0xfef34de2,
      0xc6bcf05f, 0xc27dede8, 0xcf3ecb31, 0xcbffd686, 0xd5b88683, 0xd1799b34, 0xdc3abded, 0xd8fba05a,
      0x690ce0ee, 0x6dcdfd59, 0x608edb80, 0x644fc637, 0x7a089632, 0x7ec98b85, 0x738aad5c, 0x774bb0eb,
      0x4f040d56, 0x4bc510e1, 0x46863638, 0x42472b8f, 0x5c007b8a, 0x58c1663d, 0x558240e4, 0x51435d53,
      0x251d3b9e, 0x21dc2629, 0x2c9f00f0, 0x285e1d47, 0x36194d42, 0x32d850f5, 0x3f9b762c, 0x3b5a6b9b,
      0x0315d626, 0x07d4cb91, 0x0a97ed48, 0x0e56f0ff, 0x1011a0fa, 0x14d0bd4d, 0x19939b94, 0x1d528623,
      0xf12f560e, 0xf5ee4bb9, 0xf8ad6d60, 0xfc6c70d7, 0xe22b20d2, 0xe6ea3d65, 0xeba91bbc, 0xef68060b,
      0xd727bbb6, 0xd3e6a601, 0xdea580d8, 0xda649d6f, 0xc423cd6a, 0xc0e2d0dd, 0xcda1f604, 0xc960ebb3,
      0xbd3e8d7e, 0xb9ff90c9, 0xb4bcb610, 0xb07daba7, 0xae3afba2, 0xaafbe615, 0xa7b8c0cc, 0xa379dd7b,
      0x9b3660c6, 0x9ff77d71, 0x92b45ba8, 0x9675461f, 0x8832161a, 0x8cf30bad, 0x81b02d74, 0x857130c3,
      0x5d8a9099, 0x594b8d2e, 0x5408abf7, 0x50c9b640, 0x4e8ee645, 0x4a4ffbf2, 0x470cdd2b, 0x43cdc09c,
      0x7b827d21, 0x7f436096, 0x7200464f, 0x76c15bf8, 0x68860bfd, 0x6c47164a, 0x61043093, 0x65c52d24,
      0x119b4be9, 0x155a565e, 0x18197087, 0x1cd86d30, 0x029f3d35, 0x065e2082, 0x0b1d065b, 0x0fdc1bec,
      0x3793a651, 0x3352bbe6, 0x3e119d3f, 0x3ad08088, 0x2497d08d, 0x2056cd3a, 0x2d15ebe3, 0x29d4f654,
      0xc5a92679, 0xc1683bce, 0xcc2b1d17, 0xc8ea00a0, 0xd6ad50a5, 0xd26c4d12, 0xdf2f6bcb, 0xdbee767c,
      0xe3a1cbc1, 0xe760d676, 0xea23f0af, 0xeee2ed18, 0xf0a5bd1d, 0xf464a0aa, 0xf9278673, 0xfde69bc4,
      0x89b8fd09, 0x8d79e0be, 0x803ac667, 0x84fbdbd0, 0x9abc8bd5, 0x9e7d9662, 0x933eb0bb, 0x97ffad0c,
      0xafb010b1, 0xab710d06, 0xa6322bdf, 0xa2f33668, 0xbcb4666d, 0xb8757bda, 0xb5365d03, 0xb1f740b4]"

definition COMPUTE :: "u32 \<Rightarrow> u8 \<Rightarrow> u32" where
  "COMPUTE var ch = push_bit 8 var XOR crctab ! unat (drop_bit 24 var XOR ucast ch)"

lemma unat_drop_bit: "unat (drop_bit k w) = unat w div 2 ^ k" for w :: "'a::len word"
  by (subst unsigned_drop_bit_eq) (simp add: drop_bit_eq_div take_bit_nat_eq_self)

function compute_length :: "u32 \<Rightarrow> u32 \<Rightarrow> u32" where
  "compute_length crc len =
     (if len \<noteq> 0 then compute_length (COMPUTE crc (ucast (len AND 0xff))) (drop_bit 8 len) else crc)"
  by pat_completeness auto

termination
  by (relation "measure (\<lambda>(crc, len). unat len)") (auto simp: unat_drop_bit unat_gt_0)

declare compute_length.simps [simp del]

text \<open>A buffer shorter than \<open>len\<close> would be read past its end.\<close>

definition crc32 :: "bytes \<Rightarrow> u32 \<Rightarrow> u32 option" where
  "crc32 buf len =
     (if unat len \<le> length buf
      then Some (NOT (compute_length (foldl COMPUTE 0 (take (unat len) buf)) len))
      else None)"

section \<open>The polynomial\<close>

definition crc_bit :: "u32 \<Rightarrow> u32" where
  "crc_bit r = (if bit r 31 then push_bit 1 r XOR 0x04c11db7 else push_bit 1 r)"

definition crc_byte :: "u32 \<Rightarrow> u8 \<Rightarrow> u32" where
  "crc_byte r ch = (crc_bit ^^ 8) (r XOR push_bit 24 (ucast ch))"

lemma crc_bit_xor: "crc_bit (a XOR b) = crc_bit a XOR crc_bit b"
  by (auto simp: crc_bit_def bit_simps push_bit_xor ac_simps)

lemma crc_bits_xor: "(crc_bit ^^ n) (a XOR b) = (crc_bit ^^ n) a XOR (crc_bit ^^ n) b"
  by (induction n) (simp_all add: crc_bit_xor)

lemma crc_bit_low: "\<not> bit r 31 \<Longrightarrow> crc_bit r = push_bit 1 r"
  by (simp add: crc_bit_def)

lemma crc_bits_low:
  "(\<And>i. 32 - n \<le> i \<Longrightarrow> \<not> bit r i) \<Longrightarrow> (crc_bit ^^ n) r = push_bit n r"
proof (induction n)
  case 0
  then show ?case by simp
next
  case (Suc n)
  then have "(crc_bit ^^ n) r = push_bit n r" by simp
  moreover have "\<not> bit (push_bit n r) 31"
    using Suc.prems [of "31 - n"] by (auto simp: bit_simps)
  ultimately show ?case by (simp add: crc_bit_low)
qed

text \<open>The table by doubling: one more bit of the index adds the image of that bit.\<close>

fun crc_rows :: "nat \<Rightarrow> u32 list" where
  "crc_rows 0 = [0]"
| "crc_rows (Suc k) = crc_rows k @ map ((XOR) ((crc_bit ^^ k) 0x04c11db7)) (crc_rows k)"

lemma crctab_rows: "crctab = crc_rows 8"
  by code_simp

lemma length_crc_rows [simp]: "length (crc_rows k) = 2 ^ k"
  by (induction k) simp_all

lemma crc_basis:
  assumes "k < 8"
  shows "(crc_bit ^^ 8) (push_bit 24 (2 ^ k)) = (crc_bit ^^ k) 0x04c11db7"
proof -
  have "(crc_bit ^^ (7 - k)) (2 ^ (24 + k)) = push_bit (7 - k) (2 ^ (24 + k))"
    using assms by (intro crc_bits_low) (auto simp: bit_exp_iff)
  also have "\<dots> = 2 ^ 31" using assms by (simp only: push_bit_eq_mult flip: power_add) simp
  finally have "crc_bit ((crc_bit ^^ (7 - k)) (2 ^ (24 + k))) = 0x04c11db7" by (simp add: crc_bit_def)
  moreover have "8 = k + Suc (7 - k)" using assms by simp
  then have "(crc_bit ^^ 8) (2 ^ (24 + k)) = (crc_bit ^^ k) (crc_bit ((crc_bit ^^ (7 - k)) (2 ^ (24 + k))))"
    by (metis comp_apply funpow.simps(2) funpow_add)
  moreover have "push_bit 24 (2 ^ k) = (2 ^ (24 + k) :: u32)" by (simp add: push_bit_eq_mult power_add)
  ultimately show ?thesis by (simp only:)
qed

lemma of_nat_add_exp:
  assumes "i < 2 ^ k"
  shows "(of_nat (2 ^ k + i) :: 'a::len word) = 2 ^ k XOR of_nat i"
proof -
  have "\<not> bit i k" using assms by (simp add: bit_iff_odd)
  then have "2 ^ k AND i = 0" by (auto intro!: bit_eqI simp: bit_and_iff bit_exp_iff)
  then have "2 ^ k + i = 2 ^ k XOR i" by (rule disjunctive_add_eq_xor)
  then show ?thesis by (simp add: of_nat_xor_eq)
qed

lemma crc_rows_nth:
  "k \<le> 8 \<Longrightarrow> i < 2 ^ k \<Longrightarrow> crc_rows k ! i = (crc_bit ^^ 8) (push_bit 24 (of_nat i))"
proof (induction k arbitrary: i)
  case 0
  then show ?case by (simp add: crc_bits_low)
next
  case (Suc k)
  show ?case
  proof (cases "i < 2 ^ k")
    case True
    with Suc show ?thesis by (simp add: nth_append)
  next
    case False
    define j where "j = i - 2 ^ k"
    with False Suc.prems have i: "i = 2 ^ k + j" and j: "j < 2 ^ k" by simp_all
    have "crc_rows (Suc k) ! i = (crc_bit ^^ k) 0x04c11db7 XOR crc_rows k ! j"
      using j by (simp add: i nth_append)
    also have "\<dots> = (crc_bit ^^ 8) (push_bit 24 (2 ^ k) XOR push_bit 24 (of_nat j))"
      using Suc.prems Suc.IH [of j] j crc_basis [of k] by (simp only: crc_bits_xor Suc_le_eq less_imp_le)
    finally show ?thesis unfolding i of_nat_add_exp [OF j] push_bit_xor .
  qed
qed

lemma COMPUTE_crc_byte: "COMPUTE r ch = crc_byte r ch"
proof -
  let ?i = "drop_bit 24 r XOR ucast ch :: u32"
  have "?i = ucast (ucast (drop_bit 24 r) XOR ch :: u8)"
    by (rule bit_word_eqI) (auto simp: bit_simps dest: bit_imp_le_length)
  then have "unat ?i < 256"
    using unsigned_less [of "ucast (drop_bit 24 r) XOR ch :: u8", where 'a = nat]
    by (simp add: unsigned_ucast_eq take_bit_nat_eq_self)
  then have "crctab ! unat ?i = (crc_bit ^^ 8) (push_bit 24 ?i)"
    using crc_rows_nth [of 8 "unat ?i"] by (simp add: crctab_rows)
  moreover have "(crc_bit ^^ 8) (r AND mask 24) = push_bit 8 r"
    by (subst crc_bits_low) (auto simp: bit_simps intro!: bit_word_eqI)
  moreover have "r XOR push_bit 24 (ucast ch) = (r AND mask 24) XOR push_bit 24 ?i"
    by (rule bit_word_eqI) (auto simp: bit_simps)
  ultimately show ?thesis by (simp add: COMPUTE_def crc_byte_def crc_bits_xor)
qed

section \<open>Detection of errors\<close>

locale register_update =
  fixes upd :: "'r \<Rightarrow> 'b \<Rightarrow> 'r"
  assumes upd_inj: "upd r b = upd r' b \<Longrightarrow> r = r'"
begin

lemma foldl_inj: "foldl upd r bs = foldl upd r' bs \<Longrightarrow> r = r'"
  by (induction bs arbitrary: r r') (auto dest: upd_inj)

end

lemma xor_cancel [simp]:
  fixes a b c :: "'a::len word"
  shows "a XOR c = b XOR c \<longleftrightarrow> a = b" "c XOR a = c XOR b \<longleftrightarrow> a = b"
  by (auto simp: bit_eq_iff bit_simps)

lemma crc_bit_eq_0: "crc_bit r = 0 \<Longrightarrow> r = 0"
proof (cases "bit r 31")
  case True
  then have "bit (crc_bit r) 0" by (simp add: crc_bit_def bit_0 even_xor_iff)
  then show "crc_bit r = 0 \<Longrightarrow> r = 0" by auto
next
  case False
  have "drop_bit 1 (push_bit 1 r) = r"
  proof (rule bit_word_eqI)
    fix n
    assume "n < LENGTH(32)"
    with False show "bit (drop_bit 1 (push_bit 1 r)) n \<longleftrightarrow> bit r n"
      unfolding bit_drop_bit_eq bit_push_bit_iff comp_def by (cases "n = 31") auto
  qed
  then have "drop_bit 1 (crc_bit r) = r" by (simp only: crc_bit_low [OF False])
  then show "crc_bit r = 0 \<Longrightarrow> r = 0" by auto
qed

lemma crc_bits_inj: "(crc_bit ^^ n) a = (crc_bit ^^ n) b \<Longrightarrow> a = b"
proof -
  assume "(crc_bit ^^ n) a = (crc_bit ^^ n) b"
  then have "(crc_bit ^^ n) (a XOR b) = 0" by (simp add: crc_bits_xor)
  then have "a XOR b = 0" by (induction n) (auto dest: crc_bit_eq_0)
  then show "a = b" using xor_cancel(1) [of a b b] by simp
qed

interpretation crc: register_update COMPUTE
  by unfold_locales (auto simp: COMPUTE_crc_byte crc_byte_def dest!: crc_bits_inj)

text \<open>At most four bytes are one word that is added to the register before it is stepped.\<close>

lemma foldl_crc_byte:
  "length bs \<le> 4 \<Longrightarrow> foldl crc_byte r bs =
     (crc_bit ^^ (8 * length bs)) (r XOR push_bit (32 - 8 * length bs) (le_word (rev bs)))"
proof (induction bs rule: rev_induct)
  case Nil
  then show ?case by simp
next
  case (snoc b bs)
  let ?n = "8 * length bs" and ?w = "le_word (rev bs) :: u32"
  have low: "push_bit 24 (ucast b) = (crc_bit ^^ ?n) (push_bit (24 - ?n) (ucast b))"
    using snoc.prems by (subst crc_bits_low) (auto simp: bit_simps push_bit_push_bit dest: bit_imp_le_length)
  have "push_bit (24 - ?n) (ucast b) XOR push_bit (32 - ?n) ?w = push_bit (24 - ?n) (ucast b OR push_bit 8 ?w)"
    using snoc.prems by (intro bit_word_eqI) (auto simp: bit_simps dest: bit_imp_le_length)
  then have "r XOR push_bit (24 - ?n) (ucast b OR push_bit 8 ?w) =
      (r XOR push_bit (32 - ?n) ?w) XOR push_bit (24 - ?n) (ucast b)"
    by (simp add: ac_simps)
  with snoc low show ?case
    by (simp add: crc_byte_def crc_bits_xor funpow_add)
qed

lemma burst_inj:
  assumes "foldl COMPUTE r xs = foldl COMPUTE r ys" "length xs = length ys" "length xs \<le> 4"
  shows "xs = ys"
proof -
  let ?n = "8 * length xs"
  from assms have "push_bit (32 - ?n) (le_word (rev xs)) = push_bit (32 - ?n) (le_word (rev ys) :: u32)"
    by (auto simp: COMPUTE_crc_byte [abs_def] foldl_crc_byte dest!: crc_bits_inj)
  then have "drop_bit (32 - ?n) (push_bit (32 - ?n) (le_word (rev xs))) =
      drop_bit (32 - ?n) (push_bit (32 - ?n) (le_word (rev ys) :: u32))" by simp
  moreover have "drop_bit (32 - ?n) (push_bit (32 - ?n) (le_word (rev zs))) = (le_word (rev zs) :: u32)"
    if "length zs = length xs" for zs
    using that assms(3) by (intro bit_word_eqI) (auto simp: bit_simps bit_le_word)
  ultimately have "le_word (rev xs) = (le_word (rev ys) :: u32)" using assms(2) by simp
  then show ?thesis
    using le_bytes_le_word [where 'a = 32, of "rev xs"] le_bytes_le_word [where 'a = 32, of "rev ys"] assms(2,3)
    by simp
qed

section \<open>The checksum\<close>

text \<open>The bytes of the length, least significant first, without leading zeros.\<close>

definition length_bytes :: "u32 \<Rightarrow> bytes" where
  "length_bytes len = rev (dropWhile (\<lambda>b. b = 0) (rev (le_bytes 4 len)))"

lemma low_byte_zero:
  fixes w :: "'a::len word"
  assumes "ucast w = (0 :: u8)" "drop_bit 8 w = 0"
  shows "w = 0"
proof (rule bit_word_eqI)
  fix n
  have "bit (ucast w :: u8) n \<longleftrightarrow> n < 8 \<and> bit w n" "bit (drop_bit 8 w) (n - 8) \<longleftrightarrow> bit w (8 + (n - 8))"
    by (auto simp: bit_simps dest: bit_imp_le_length)
  then show "bit w n \<longleftrightarrow> bit 0 n" using assms by (cases "n < 8") auto
qed

lemma le_bytes_zero:
  "unat (w :: 'a::len word) < 2 ^ (8 * n) \<Longrightarrow> \<forall>b \<in> set (le_bytes n w). b = 0 \<Longrightarrow> w = 0"
proof (induction n arbitrary: w)
  case 0
  then show ?case by (simp add: unat_eq_0)
next
  case (Suc n)
  then have "unat (drop_bit 8 w) < 2 ^ (8 * n)"
    by (simp add: unat_drop_bit less_mult_imp_div_less power_add mult.commute)
  moreover have "\<forall>b \<in> set (le_bytes n (drop_bit 8 w)). b = 0" using Suc.prems(2) by simp
  ultimately have "drop_bit 8 w = 0" by (rule Suc.IH)
  moreover have "ucast w = (0 :: u8)" using Suc.prems(2) by simp
  ultimately show ?case using low_byte_zero by blast
qed

lemma rev_dropWhile_Cons:
  "x \<noteq> z \<or> (\<exists>y \<in> set ys. y \<noteq> z) \<Longrightarrow>
   rev (dropWhile (\<lambda>b. b = z) (rev (x # ys))) = x # rev (dropWhile (\<lambda>b. b = z) (rev ys))"
  by (auto simp: dropWhile_append)

lemma compute_length_bytes:
  "unat len < 2 ^ (8 * n) \<Longrightarrow>
   compute_length crc len = foldl COMPUTE crc (rev (dropWhile (\<lambda>b. b = 0) (rev (le_bytes n len))))"
proof (induction n arbitrary: crc len)
  case 0
  then show ?case by (simp add: unat_eq_0 compute_length.simps)
next
  case (Suc n)
  then have small: "unat (drop_bit 8 len) < 2 ^ (8 * n)"
    by (simp add: unat_drop_bit less_mult_imp_div_less power_add mult.commute)
  show ?case
  proof (cases "len = 0")
    case True
    have "le_bytes m (0 :: u32) = replicate m 0" for m by (induction m) simp_all
    with True show ?thesis by (simp add: compute_length.simps del: replicate_Suc le_bytes.simps)
  next
    case False
    then have "ucast len \<noteq> (0 :: u8) \<or> (\<exists>y \<in> set (le_bytes n (drop_bit 8 len)). y \<noteq> 0)"
      using le_bytes_zero [OF small] low_byte_zero [of len] by blast
    note bytes = rev_dropWhile_Cons [OF this]
    have "compute_length crc len = compute_length (COMPUTE crc (ucast (len AND 0xff))) (drop_bit 8 len)"
      using False by (simp add: compute_length.simps)
    also have "(0xff :: u32) = mask 8" by (simp add: mask_eq_exp_minus_1)
    also have "ucast (len AND mask 8) = (ucast len :: u8)" by (rule bit_word_eqI) (auto simp: bit_simps)
    finally show ?thesis using Suc.IH [OF small] bytes by simp
  qed
qed

lemma crc32_foldl:
  assumes "unat len \<le> length buf"
  shows "crc32 buf len = Some (NOT (foldl COMPUTE 0 (take (unat len) buf @ length_bytes len)))"
proof -
  have "unat len < 2 ^ (8 * 4)" using unsigned_less [of len, where 'a = nat] by simp
  from compute_length_bytes [OF this] assms show ?thesis by (simp add: crc32_def length_bytes_def)
qed

text \<open>C35. The table driven checksum is the cyclic redundancy check with the polynomial \<open>0x04c11db7\<close>, bit by
  bit, of the buffer followed by the bytes of its length, complemented.\<close>

theorem crc32_polynomial:
  assumes "unat len \<le> length buf"
  shows "crc32 buf len = Some (NOT (foldl crc_byte 0 (take (unat len) buf @ length_bytes len)))"
  using crc32_foldl [OF assms] by (simp add: COMPUTE_crc_byte [abs_def])

theorem crc32_polynomial_witness:
  "crc32 [0x61, 0x62, 0x63] 3 = Some (NOT (foldl crc_byte 0 ([0x61, 0x62, 0x63] @ length_bytes 3)))"
  using crc32_polynomial [of 3 "[0x61, 0x62, 0x63]"] by simp

text \<open>C36. The checksum detects every change of a buffer that is confined to four consecutive bytes.\<close>

theorem crc32_detects_burst:
  assumes "length xs = length ys" "length xs \<le> 4" "xs \<noteq> ys"
    "length (pre @ xs @ post) < 2 ^ 32" "len = of_nat (length (pre @ xs @ post))"
  shows "\<exists>a b. crc32 (pre @ xs @ post) len = Some a \<and> crc32 (pre @ ys @ post) len = Some b \<and> a \<noteq> b"
proof -
  from assms(4,5) have len: "unat len = length (pre @ xs @ post)"
    by (simp only: unat_of_nat) simp
  have "crc32 (pre @ zs @ post) len =
      Some (NOT (foldl COMPUTE (foldl COMPUTE (foldl COMPUTE 0 pre) zs) (post @ length_bytes len)))"
    if "length zs = length xs" for zs
    using that len crc32_foldl [of len "pre @ zs @ post"] by simp
  moreover have "foldl COMPUTE (foldl COMPUTE (foldl COMPUTE 0 pre) xs) (post @ length_bytes len) \<noteq>
      foldl COMPUTE (foldl COMPUTE (foldl COMPUTE 0 pre) ys) (post @ length_bytes len)"
    using burst_inj [OF _ assms(1,2)] assms(3) crc.foldl_inj by blast
  ultimately show ?thesis using assms(1) by simp
qed

theorem crc32_detects_burst_witness:
  "\<exists>a b. crc32 [1, 2, 3, 4, 5] 5 = Some a \<and> crc32 [1, 9, 3, 8, 5] 5 = Some b \<and> a \<noteq> b"
  using crc32_detects_burst [of "[2, 3, 4]" "[9, 3, 8]" "[1]" "[5]" 5] by simp

end
