(* ===== verification/VersionNumber.thy ===== *)
theory VersionNumber
  imports CLib
begin

text \<open>
  \<open>get_version_number\<close> of \<^verbatim>\<open>cctools/libstuff/version_number.c\<close>, which reads a version
  \<open>X[.Y[.Z]]\<close> from a command line argument and packs it into 32 bits. The routine cuts the string
  at its dots and reads every part with \<open>strtoul\<close>. The two calls of \<open>error\<close> for every field are the constructors of \<open>version_error\<close>.
\<close>

section \<open>The fields\<close>

text \<open>What is before and after the first dot.\<close>

definition strchr_dot :: "string \<Rightarrow> (string \<times> string) option" where
  "strchr_dot s =
     (if CHR ''.'' \<in> set s
      then Some (takeWhile (\<lambda>c. c \<noteq> CHR ''.'') s, tl (dropWhile (\<lambda>c. c \<noteq> CHR ''.'') s))
      else None)"

section \<open>The routine\<close>

datatype version_error = Not_A_Number nat string | Too_Large nat string

text \<open>The fields \<open>x\<close>, \<open>y\<close> and \<open>z\<close>; a dot at the end of the argument does not start another field, and stays
  in the field before it, but what follows a third dot is cut off.\<close>

definition version_fields :: "string \<Rightarrow> string \<times> string option \<times> string option" where
  "version_fields p =
     (case strchr_dot p of
        Some (x, r) \<Rightarrow>
          if r \<noteq> [] then
            (case strchr_dot r of
               Some (y, r') \<Rightarrow>
                 if r' \<noteq> [] then
                   (case strchr_dot r' of Some (z, _) \<Rightarrow> (x, Some y, Some z) | None \<Rightarrow> (x, Some y, Some r'))
                 else (x, Some r, None)
             | None \<Rightarrow> (x, Some r, None))
          else (p, None, None)
      | None \<Rightarrow> (p, None, None))"

definition version_field :: "nat \<Rightarrow> u32 \<Rightarrow> string \<Rightarrow> version_error + u32" where
  "version_field k limit s =
     (let (v, endp) = strtoul s; X = ucast v
      in if endp \<noteq> [] then Inl (Not_A_Number k s)
         else if X > limit then Inl (Too_Large k s)
         else Inr X)"

fun optional_field :: "nat \<Rightarrow> u32 \<Rightarrow> string option \<Rightarrow> version_error + u32" where
  "optional_field k limit None = Inr 0"
| "optional_field k limit (Some s) = version_field k limit s"

definition get_version_number :: "string \<Rightarrow> version_error + u32" where
  "get_version_number argument =
     (let (x, y, z) = version_fields argument in
        andthen (version_field 1 0xffff x)
          (\<lambda>X. andthen (optional_field 2 0xff y)
             (\<lambda>Y. andthen (optional_field 3 0xff z)
                (\<lambda>Z. Inr (push_bit 16 X OR push_bit 8 Y OR Z)))))"

section \<open>Correctness\<close>

text \<open>A number as it is written: one or more digits.\<close>

definition number :: "string \<Rightarrow> bool" where
  "number s \<longleftrightarrow> s \<noteq> [] \<and> (\<forall>c \<in> set s. isdigit c)"

lemma number_facts:
  assumes "number s"
  shows "CHR ''.'' \<notin> set s" "dropWhile isspace s = s" "takeWhile isdigit s = s" "dropWhile isdigit s = []"
    "s \<noteq> []" "hd s \<noteq> CHR ''-''" "hd s \<noteq> CHR ''+''"
proof -
  have d: "isdigit c" if "c \<in> set s" for c using assms that by (simp add: number_def)
  show "s \<noteq> []" using assms by (simp add: number_def)
  then have h: "isdigit (hd s)" by (intro d) simp
  show "CHR ''.'' \<notin> set s" using d [of "CHR ''.''"] by (auto simp: isdigit_def)
  show "hd s \<noteq> CHR ''-''" "hd s \<noteq> CHR ''+''" using h by (auto simp: isdigit_def)
  show "takeWhile isdigit s = s" "dropWhile isdigit s = []" using d by simp_all
  show "dropWhile isspace s = s"
    using h \<open>s \<noteq> []\<close> by (cases s) (auto simp: isdigit_def isspace_def)
qed

lemma digits_value_nonneg: "number s \<Longrightarrow> 0 \<le> digits_value s"
proof (induction s rule: rev_induct)
  case (snoc c s)
  then have "0 \<le> digits_value s" by (cases "s = []") (auto simp: number_def digits_value_def)
  with snoc.prems show ?case by (auto simp: digits_value_snoc number_def isdigit_def)
qed (simp add: digits_value_def)

lemma strtoul_number:
  "number s \<Longrightarrow> strtoul s = (if digits_value s \<ge> 2 ^ 64 then - 1 else of_int (digits_value s), [])"
  by (simp add: strtoul_def number_facts Let_def)

lemma version_field_number:
  assumes "number s" "digits_value s < 2 ^ 32"
  shows "version_field k limit s =
    (if digits_value s \<le> uint limit then Inr (of_int (digits_value s)) else Inl (Too_Large k s))"
proof -
  have "ucast (of_int (digits_value s) :: u64) = (of_int (digits_value s) :: u32)"
    using assms by (simp add: unsigned_of_int digits_value_nonneg take_bit_int_eq_self)
  moreover have "uint (of_int (digits_value s) :: u32) = digits_value s"
    using assms by (simp add: unsigned_of_int digits_value_nonneg take_bit_int_eq_self)
  ultimately show ?thesis
    using assms by (simp add: version_field_def strtoul_number word_less_def not_le)
qed

lemma strchr_dot_append:
  "CHR ''.'' \<notin> set s \<Longrightarrow> strchr_dot (s @ ''.'' @ r) = Some (s, r)"
  "CHR ''.'' \<notin> set s \<Longrightarrow> strchr_dot s = None"
proof -
  assume s: "CHR ''.'' \<notin> set s"
  then have "takeWhile (\<lambda>c. c \<noteq> CHR ''.'') (s @ ''.'' @ r) = s"
    "dropWhile (\<lambda>c. c \<noteq> CHR ''.'') (s @ ''.'' @ r) = ''.'' @ r"
    by (induction s) auto
  with s show "strchr_dot (s @ ''.'' @ r) = Some (s, r)" "strchr_dot s = None"
    by (simp_all add: strchr_dot_def)
qed

lemma version_fields_number:
  assumes "number x" "number y" "number z"
  shows "version_fields x = (x, None, None)"
    "version_fields (x @ ''.'' @ y) = (x, Some y, None)"
    "version_fields (x @ ''.'' @ y @ ''.'' @ z) = (x, Some y, Some z)"
  using assms by (simp_all add: version_fields_def strchr_dot_append number_facts del: append.simps append_Cons)

text \<open>The three fields do not overlap.\<close>

lemma packed_fields:
  fixes X Y Z :: u32
  assumes "Y \<le> 0xff" "Z \<le> 0xff"
  shows "push_bit 16 X OR push_bit 8 Y OR Z = X * 65536 + Y * 256 + Z"
proof -
  have small: "\<not> bit w i" if "w \<le> 0xff" "8 \<le> i" for w :: u32 and i
  proof -
    have "(2 :: nat) ^ 8 \<le> 2 ^ i" using that(2) by (rule power_increasing) simp
    with that(1) have "unat w div 2 ^ i = 0" by (simp add: word_le_nat_alt)
    then have "\<not> bit (unat w) i" by (simp add: bit_iff_odd)
    then show ?thesis by (auto simp: bit_unsigned_iff dest: bit_imp_le_length)
  qed
  have yz: "push_bit 8 Y AND Z = 0"
    using small [OF assms(2)] by (auto intro!: bit_word_eqI simp: bit_simps)
  have xyz: "push_bit 16 X AND (push_bit 8 Y OR Z) = 0"
    using small [OF assms(2)] small [OF assms(1)] by (auto intro!: bit_word_eqI simp: bit_simps)
  have "push_bit 16 X OR push_bit 8 Y OR Z = push_bit 16 X + (push_bit 8 Y + Z)"
    unfolding disjunctive_add_eq_or [OF yz] disjunctive_add_eq_or [OF xyz] by (simp only: or.assoc)
  then show ?thesis by (simp add: push_bit_eq_mult)
qed

lemma packed_mult:
  fixes X Y Z :: u32
  assumes "Y \<le> 0xff"
  shows "Z \<le> 0xff \<Longrightarrow> X * 65536 OR Y * 256 OR Z = X * 65536 + Y * 256 + Z"
    "X * 65536 OR Y * 256 = X * 65536 + Y * 256"
  using packed_fields [OF assms, of Z X] packed_fields [OF assms, of 0 X]
  by (simp_all add: push_bit_eq_mult)

lemma of_int_le: "0 \<le> v \<Longrightarrow> v \<le> 0xff \<Longrightarrow> (of_int v :: u32) \<le> 0xff"
  by (simp add: word_le_def unsigned_of_int take_bit_int_eq_self)



text \<open>The range checks come after the truncation to 32 bits, empty fields count as zero and what
  follows a third dot is ignored: these arguments are accepted.\<close>

theorem get_version_number_lenient:
  "get_version_number ''4294967297'' = Inr 0x00010000 \<and>
   get_version_number ''1..2'' = Inr 0x00010002 \<and>
   get_version_number [] = Inr 0 \<and>
   get_version_number ''-4294967295.2.3.x'' = Inr 0x00010203 \<and>
   get_version_number ''1.'' = Inl (Not_A_Number 1 ''1.'')"
  by code_simp

end
